(* ===== verification/Prelude.thy ===== *)
theory Prelude
  imports Main "HOL-Library.Sublist" "HOL-Library.Char_ord" "HOL-Library.List_Lexorder"
begin

text \<open>
  Shared vocabulary of the development: Go's error values and the result type of a
  fallible call, the sequencing of such calls, loops over slices that stop at the first
  error, the functions of Go's package strings that the gateway calls, and the maps of
  labels and annotations.  A Go string is a sequence of bytes, hence a list of
  characters.  A Go error is kept as the class of error the caller can tell apart; its
  message text is shortened to a tag.
\<close>

named_theorems go_simps \<open>defining equations of the Go library functions\<close>
named_theorems result_simps \<open>equations and inversion rules of the result type\<close>

subsection \<open>Errors and results\<close>

datatype error =
    TypeAssertion
  | NotAnObject
  | Plain string
  | Forbidden string
  | BadRequest string
  | Invalid string
  | NotFound string
  | AlreadyExists string
  | Conflict string
  | MethodNotSupported string
  | Expired string
  | ServiceUnavailable string
  | InternalError string
  | UpstreamError nat
  | Panic string

type_synonym 'a result = "error + 'a"

definition bindR :: "'a result \<Rightarrow> ('a \<Rightarrow> 'b result) \<Rightarrow> 'b result" where
  "bindR m f = (case m of Inl e \<Rightarrow> Inl e | Inr x \<Rightarrow> f x)"

lemma bindR_simps [simp, result_simps]:
  "bindR (Inl e) f = Inl e"
  "bindR (Inr x) f = f x"
  by (simp_all add: bindR_def)

lemma bindR_Inr_iff [result_simps]: "bindR m f = Inr y \<longleftrightarrow> (\<exists>x. m = Inr x \<and> f x = Inr y)"
  by (cases m) simp_all

lemma bindR_Inl_iff [result_simps]:
  "bindR m f = Inl e \<longleftrightarrow> m = Inl e \<or> (\<exists>x. m = Inr x \<and> f x = Inl e)"
  by (cases m) simp_all

lemma bindR_assoc: "bindR (bindR m f) g = bindR m (\<lambda>x. bindR (f x) g)"
  by (cases m) simp_all

lemma bindR_cong [fundef_cong]:
  assumes "m = m'" and "\<And>x. m' = Inr x \<Longrightarrow> f x = f' x"
  shows "bindR m f = bindR m' f'"
  using assms by (cases m') simp_all

text \<open>A guard: the error, when the condition of an early return holds.\<close>

definition refuse :: "bool \<Rightarrow> error \<Rightarrow> unit result" where
  "refuse c e = (if c then Inl e else Inr ())"

lemma refuse_simps [simp, result_simps]:
  "refuse True e = Inl e"
  "refuse False e = Inr ()"
  by (simp_all add: refuse_def)

lemma refuse_Inr_iff [simp]: "refuse c e = Inr u \<longleftrightarrow> \<not> c"
  by (simp add: refuse_def)

lemma refuse_Inl_iff [simp]: "refuse c e = Inl e' \<longleftrightarrow> c \<and> e = e'"
  by (simp add: refuse_def)

text \<open>A loop that rewrites every element of a slice in place and returns at the first error.\<close>

fun mapR :: "('a \<Rightarrow> 'b result) \<Rightarrow> 'a list \<Rightarrow> 'b list result" where
  "mapR f [] = Inr []"
| "mapR f (x # xs) = bindR (f x) (\<lambda>y. bindR (mapR f xs) (\<lambda>ys. Inr (y # ys)))"

lemma mapR_cong [fundef_cong]:
  assumes "xs = ys" and "\<And>x. x \<in> set ys \<Longrightarrow> f x = g x"
  shows "mapR f xs = mapR g ys"
  using assms(2) unfolding assms(1) by (induction ys) (auto intro: bindR_cong)

lemma mapR_Inr [simp]: "mapR (\<lambda>x. Inr (f x)) xs = Inr (map f xs)"
  by (induction xs) simp_all

lemma mapR_Inr_iff: "mapR f xs = Inr ys \<longleftrightarrow> list_all2 (\<lambda>x y. f x = Inr y) xs ys"
  by (induction xs arbitrary: ys) (auto simp: list_all2_Cons1 bindR_Inr_iff)

lemma mapR_Inl_iff: "(\<exists>e. mapR f xs = Inl e) \<longleftrightarrow> (\<exists>x\<in>set xs. \<exists>e. f x = Inl e)"
proof (induction xs)
  case (Cons x xs)
  then show ?case by (cases "f x"; cases "mapR f xs") auto
qed simp

lemma mapR_roundtrip:
  assumes "mapR f xs = Inr ys" and "\<And>x y. x \<in> set xs \<Longrightarrow> f x = Inr y \<Longrightarrow> g y = Inr x"
  shows "mapR g ys = Inr xs"
  using assms
  by (induction xs arbitrary: ys) (auto simp: bindR_Inr_iff)

lemma mapR_total:
  assumes "\<And>x. x \<in> set xs \<Longrightarrow> \<exists>y. f x = Inr y"
  shows "\<exists>ys. mapR f xs = Inr ys"
  using assms by (induction xs) (auto simp: bindR_Inr_iff)

lemma mapR_in_set:
  assumes "mapR f xs = Inr ys" and "y \<in> set ys"
  shows "\<exists>x\<in>set xs. f x = Inr y"
  using assms by (induction xs arbitrary: ys) (auto simp: bindR_Inr_iff)

lemma mapR_set: "mapR f xs = Inr ys \<Longrightarrow> set ys = {y. \<exists>x\<in>set xs. f x = Inr y}"
  by (induction xs arbitrary: ys) (auto simp: bindR_Inr_iff)

lemma mapR_length: "mapR f xs = Inr ys \<Longrightarrow> length ys = length xs"
  by (auto simp: mapR_Inr_iff dest: list_all2_lengthD)

text \<open>A pointer that may be nil, transformed when it is not.\<close>

definition mapOptR :: "('a \<Rightarrow> 'b result) \<Rightarrow> 'a option \<Rightarrow> 'b option result" where
  "mapOptR f p = (case p of None \<Rightarrow> Inr None | Some x \<Rightarrow> bindR (f x) (\<lambda>y. Inr (Some y)))"

lemma mapOptR_simps [simp]:
  "mapOptR f None = Inr None"
  "mapOptR f (Some x) = bindR (f x) (\<lambda>y. Inr (Some y))"
  by (simp_all add: mapOptR_def)

subsection \<open>Package strings\<close>

definition HasPrefix :: "string \<Rightarrow> string \<Rightarrow> bool" where
  "HasPrefix s p = prefix p s"

definition TrimPrefix :: "string \<Rightarrow> string \<Rightarrow> string" where
  "TrimPrefix s p = (if prefix p s then drop (length p) s else s)"

text \<open>The text before and after the first occurrence of a separator, and whether there is one.\<close>

fun Cut :: "string \<Rightarrow> string \<Rightarrow> string \<times> string \<times> bool" where
  "Cut [] sep = (if sep = [] then ([], [], True) else ([], [], False))"
| "Cut (c # s) sep =
     (if prefix sep (c # s) then ([], drop (length sep) (c # s), True)
      else (case Cut s sep of (before, after, found) \<Rightarrow>
        (c # before, after, found)))"

text \<open>
  ReplaceAll replaces the non-overlapping occurrences from left to right.  For an empty old
  string Go inserts the new one before every character and at the end.
\<close>

function (sequential) ReplaceAll :: "string \<Rightarrow> string \<Rightarrow> string \<Rightarrow> string" where
  "ReplaceAll [] old new = (if old = [] then new else [])"
| "ReplaceAll (c # s) old new =
     (if old = [] then new @ c # ReplaceAll s old new
      else if prefix old (c # s) then new @ ReplaceAll (drop (length old) (c # s)) old new
      else c # ReplaceAll s old new)"
  by pat_completeness auto
termination
  by (relation "measure (\<lambda>(s, old, new). length s)") (auto simp: prefix_def)

lemma HasPrefix_append [simp, go_simps]: "HasPrefix (p @ s) p"
  by (simp add: HasPrefix_def)

lemma HasPrefix_append3 [simp, go_simps]: "HasPrefix (p @ q @ s) (p @ q)"
  by (simp add: HasPrefix_def)

lemma HasPrefix_Nil [simp, go_simps]: "HasPrefix s []"
  by (simp add: HasPrefix_def)

lemma HasPrefix_appendD: "HasPrefix s (p @ q) \<Longrightarrow> HasPrefix s p"
  by (auto simp: HasPrefix_def prefix_def)

lemma HasPrefix_obtain:
  assumes "HasPrefix s p"
  obtains t where "s = p @ t"
  using assms by (auto simp: HasPrefix_def prefix_def)

lemma TrimPrefix_append [simp, go_simps]: "TrimPrefix (p @ s) p = s"
  by (simp add: TrimPrefix_def)

lemma TrimPrefix_no_prefix [simp]: "\<not> HasPrefix s p \<Longrightarrow> TrimPrefix s p = s"
  by (simp add: TrimPrefix_def HasPrefix_def)

lemma append_TrimPrefix: "HasPrefix s p \<Longrightarrow> p @ TrimPrefix s p = s"
  by (auto simp: TrimPrefix_def HasPrefix_def prefix_def)

lemma Cut_no_sep: "Cut s sep = (b, a, False) \<Longrightarrow> b = s \<and> a = [] \<and> \<not> sublist sep s"
proof (induction s sep arbitrary: b a rule: Cut.induct)
  case (1 sep)
  then show ?case by (auto split: if_splits)
next
  case (2 c s sep)
  then show ?case by (auto split: if_splits prod.splits simp: sublist_Cons_right)
qed

lemma Cut_joins: "Cut s sep = (b, a, True) \<Longrightarrow> s = b @ sep @ a"
  by (induction s sep arbitrary: b a rule: Cut.induct)
     (auto split: if_splits prod.splits simp: prefix_def)

lemma Cut_char_sep:
  "c \<notin> set s \<Longrightarrow> Cut (s @ c # t) [c] = (s, t, True)"
  by (induction s) auto

lemma Cut_prefixed:
  "c \<notin> set p \<Longrightarrow> Cut (p @ s) [c] = (case Cut s [c] of (b, a, f) \<Rightarrow> (p @ b, a, f))"
  by (induction p) (auto split: prod.splits)

lemma ReplaceAll_id: "\<not> sublist old s \<Longrightarrow> ReplaceAll s old new = s"
  by (induction s) (auto simp: sublist_Cons_right)

lemma ReplaceAll_first:
  "old \<noteq> [] \<Longrightarrow> ReplaceAll (old @ s) old new = new @ ReplaceAll s old new"
proof (cases old)
  case (Cons a list)
  then show ?thesis by (auto simp: prefix_def)
qed simp

subsection \<open>Labels and annotations\<close>

text \<open>
  A Go map from strings to strings.  A nil map and an empty one read alike; the code that
  distinguishes them only does so before a write, so both are the empty map.
\<close>

type_synonym strmap = "string \<rightharpoonup> string"

definition map_delete :: "'a \<Rightarrow> ('a \<rightharpoonup> 'b) \<Rightarrow> ('a \<rightharpoonup> 'b)" where
  "map_delete k m = m(k := None)"

definition map_hide :: "('a \<Rightarrow> bool) \<Rightarrow> ('a \<rightharpoonup> 'b) \<Rightarrow> ('a \<rightharpoonup> 'b)" where
  "map_hide P m = (\<lambda>k. if P k then None else m k)"

lemma map_delete_apply [simp]: "map_delete k m x = (if x = k then None else m x)"
  by (simp add: map_delete_def)

lemma map_hide_apply [simp]: "map_hide P m k = (if P k then None else m k)"
  by (simp add: map_hide_def)

lemma map_hide_idem [simp]: "map_hide P (map_hide P m) = map_hide P m"
  by (rule ext) simp

lemma dom_map_hide [simp]: "dom (map_hide P m) = {k \<in> dom m. \<not> P k}"
  by (auto simp: dom_def)

lemma map_delete_upd [simp]: "map_delete k (m(k \<mapsto> v)) = map_delete k m"
  by (rule ext) simp

lemma map_delete_absent: "m k = None \<Longrightarrow> map_delete k m = m"
  by (rule ext) simp

end
