(* ===== verification/Contract.thy ===== *)
theory Contract
  imports Prelude "HOL-Library.Finite_Map"
begin

text \<open>
  What the gateway calls and does not contain: the naming functions and constants of the
  module kubezoo-contract, the parsing helpers of the Kubernetes libraries, and the JSON
  codec.  They are the fields of the record \<open>contract\<close>, under their Go names, and
  an argument of every definition that uses them.  What the gateway relies on is stated by
  the predicates \<open>naming_ok\<close>, \<open>serviceaccount_ok\<close>, \<open>groupkind_ok\<close>, \<open>labels_ok\<close> and
  \<open>json_ok\<close>.  The theory Example_Contract has an instance that satisfies all of them.
\<close>

named_theorems naming \<open>laws of the naming contract\<close>

subsection \<open>JSON values\<close>

text \<open>
  A decoded JSON document: what Go's encoding/json stores in an interface value.  A number
  is the decimal text of the float64 it decodes to.
\<close>

datatype json =
    JNull
  | JBool bool
  | JNum string
  | JStr string
  | JArr "json list"
  | JObj "(string, json) fmap"

type_synonym json_object = "(string, json) fmap"

text \<open>The type assertions value.(map[string]interface) and value.(string) on a map entry.\<close>

definition obj_at :: "json_object \<Rightarrow> string \<Rightarrow> json_object option" where
  "obj_at m k = (case fmlookup m k of Some (JObj o') \<Rightarrow> Some o' | _ \<Rightarrow> None)"

definition str_at :: "json_object \<Rightarrow> string \<Rightarrow> string option" where
  "str_at m k = (case fmlookup m k of Some (JStr s) \<Rightarrow> Some s | _ \<Rightarrow> None)"

lemma obj_at_upd [simp]:
  "obj_at (fmupd k (JObj o') m) k' = (if k = k' then Some o' else obj_at m k')"
  by (simp add: obj_at_def)

lemma str_at_upd [simp]:
  "str_at (fmupd k (JStr s) m) k' = (if k = k' then Some s else str_at m k')"
  by (simp add: str_at_def)

lemma obj_at_SomeD: "obj_at m k = Some o' \<Longrightarrow> fmlookup m k = Some (JObj o')"
  by (auto simp: obj_at_def split: option.splits json.splits)

lemma str_at_SomeD: "str_at m k = Some s \<Longrightarrow> fmlookup m k = Some (JStr s)"
  by (auto simp: str_at_def split: option.splits json.splits)

lemma fmupd_same: "fmlookup m k = Some v \<Longrightarrow> fmupd k v m = m"
  by (rule fmap_ext) auto

lemma fmupd_twice [simp]: "fmupd k v (fmupd k w m) = fmupd k v m"
  by (rule fmap_ext) simp

subsection \<open>The contract\<close>

text \<open>A custom resource definition as the upstream lister returns it.\<close>

record crd_v1 =
  cv_Name :: string
  cv_Group :: string
  cv_Plural :: string
  cv_Kind :: string
  cv_Versions :: "string list"

record contract =
  TenantIDSeparator :: string
  AddTenantIDPrefix :: "string \<Rightarrow> string \<Rightarrow> string"
  TrimTenantIDPrefix :: "string \<Rightarrow> string \<Rightarrow> string"
  UpstreamNamespace :: "string \<Rightarrow> string \<Rightarrow> string"
  NamespaceNameForTenant :: "string \<Rightarrow> string \<Rightarrow> error option"
  IsNativeAPIGroup :: "string \<Rightarrow> bool"
  checkGroupKind :: "string \<Rightarrow> string \<Rightarrow> string \<Rightarrow> bool \<Rightarrow> (bool \<times> bool) result"
  ParseGroupVersion :: "string \<Rightarrow> (string \<times> string) result"
  listTenantCRDs :: "string \<Rightarrow> crd_v1 list result"
  HasGroup :: "crd_v1 list \<Rightarrow> string \<Rightarrow> bool"
  ServiceAccountGroupPrefix :: string
  SplitUsername :: "string \<Rightarrow> (string \<times> string) option"
  MakeUsername :: "string \<Rightarrow> string \<Rightarrow> string"
  MakeNamespaceGroupName :: "string \<Rightarrow> string"
  TenantNamespaceLabelKey :: string
  PodSecurityEnforceLabelKey :: string
  PodSecurityLevel :: string
  PodSecurityEnforceVersionLabelKey :: string
  PodSecurityVersion :: string
  NodePoolLabelKey :: string
  NodePoolFor :: "string \<Rightarrow> string"
  TenantSchedulerName :: string
  UnreachableTolerationSeconds :: int
  LabelMetadataName :: string
  LastAppliedConfigAnnotation :: string
  AnnBoundByController :: string
  TaintNodeNotReady :: string
  TaintNodeUnreachable :: string
  ProjectedVolumeSourceDefaultMode :: int
  PublishedDeprecated :: string
  ProjectedBindingName :: "string \<Rightarrow> string"
  TrimProjectedBindingName :: "string \<Rightarrow> string"
  IsManagedBindingName :: "string \<Rightarrow> bool"
  ProjectedClusterRoleBindingLabelKey :: string
  IsReservedClusterName :: "string \<Rightarrow> string \<Rightarrow> bool"
  ClusterResourceQuotaCreatedby :: string
  ConvertTenantObjectNameToUpstream :: "string \<Rightarrow> string \<Rightarrow> string \<Rightarrow> string \<Rightarrow> string"
  TrimTenantIDFromError :: "error \<Rightarrow> string \<Rightarrow> error"
  json_Unmarshal :: "string \<Rightarrow> json_object option"
  json_Marshal :: "json_object \<Rightarrow> string option"

text \<open>The prefix that marks a name of a tenant.\<close>

definition tprefix :: "contract \<Rightarrow> string \<Rightarrow> string" where
  "tprefix C tid = tid @ TenantIDSeparator C"

text \<open>
  Naming.  AddTenantIDPrefix is an unconditional concatenation; TrimTenantIDPrefix removes
  the prefix and leaves a value that does not carry it alone; UpstreamNamespace leaves the
  empty name and a name that already carries the prefix alone.
\<close>

definition naming_ok :: "contract \<Rightarrow> bool" where
  "naming_ok C \<longleftrightarrow>
     TenantIDSeparator C = ''-'' \<and>
     (\<forall>tid s. AddTenantIDPrefix C tid s = tprefix C tid @ s) \<and>
     (\<forall>tid s. TrimTenantIDPrefix C tid s = TrimPrefix s (tprefix C tid)) \<and>
     (\<forall>tid s. UpstreamNamespace C tid s =
        (if s = [] \<or> HasPrefix s (tprefix C tid) then s else tprefix C tid @ s))"

text \<open>Service accounts: the user and group names of the Kubernetes serviceaccount package.\<close>

definition sa_group_prefix :: string where
  "sa_group_prefix = ''system:serviceaccounts:''"

definition sa_user_prefix :: string where
  "sa_user_prefix = ''system:serviceaccount:''"

definition serviceaccount_ok :: "contract \<Rightarrow> bool" where
  "serviceaccount_ok C \<longleftrightarrow>
     ServiceAccountGroupPrefix C = sa_group_prefix \<and>
     (\<forall>ns. MakeNamespaceGroupName C ns = sa_group_prefix @ ns) \<and>
     (\<forall>u ns n. SplitUsername C u = Some (ns, n) \<longrightarrow> MakeUsername C ns n = u) \<and>
     (\<forall>u ns n ns'. SplitUsername C u = Some (ns, n) \<longrightarrow> ns' \<noteq> [] \<longrightarrow> CHR '':'' \<notin> set ns' \<longrightarrow>
        SplitUsername C (MakeUsername C ns' n) = Some (ns', n)) \<and>
     (\<forall>u ns n. SplitUsername C u = Some (ns, n) \<longrightarrow>
        HasPrefix u sa_user_prefix \<and> ns \<noteq> [] \<and> CHR '':'' \<notin> set ns)"

text \<open>
  The group of an API version is what precedes the slash (a tenant id holds none), and the answer of checkGroupKind
  for a prefixed group on the way back is the answer for the tenant's group on the way out.
\<close>

definition groupkind_ok :: "contract \<Rightarrow> bool" where
  "groupkind_ok C \<longleftrightarrow>
     ParseGroupVersion C [] = Inr ([], []) \<and>
     (\<forall>gv g v tid. ParseGroupVersion C gv = Inr (g, v) \<longrightarrow> g \<noteq> [] \<longrightarrow> CHR ''/'' \<notin> set tid \<longrightarrow>
        ParseGroupVersion C (tprefix C tid @ gv) = Inr (tprefix C tid @ g, v)) \<and>
     (\<forall>g k tid namespaced custom. checkGroupKind C g k tid True = Inr (namespaced, custom) \<longrightarrow>
        checkGroupKind C (if custom then tprefix C tid @ g else g) k tid False
          = Inr (namespaced, custom)) \<and>
     (\<forall>g k tid namespaced. checkGroupKind C g k tid True = Inr (namespaced, True) \<longrightarrow> g \<noteq> [])"

text \<open>The label keys are different keys, and the key of kubectl's annotation is the documented one.\<close>

definition labels_ok :: "contract \<Rightarrow> bool" where
  "labels_ok C \<longleftrightarrow>
     LastAppliedConfigAnnotation C = ''kubectl.kubernetes.io/last-applied-configuration'' \<and>
     AnnBoundByController C \<noteq> LastAppliedConfigAnnotation C \<and>
     distinct [TenantNamespaceLabelKey C, PodSecurityEnforceLabelKey C,
       PodSecurityEnforceVersionLabelKey C, LabelMetadataName C]"

text \<open>
  The codec.  json.Marshal fails on values that JSON cannot express (channels, functions,
  cycles); a decoded document has none of them, so it is encoded, and decoding gives it back.
  Strings are taken to be UTF-8, as those of API objects are.
\<close>

text \<open>
  The binding names kubezoo keeps for itself carry a marker that ProjectedBindingName adds
  and TrimProjectedBindingName takes away.
\<close>

definition projection_ok :: "contract \<Rightarrow> bool" where
  "projection_ok C \<longleftrightarrow>
     (\<forall>n. TrimProjectedBindingName C (ProjectedBindingName C n) = n) \<and>
     (\<forall>n. IsManagedBindingName C (ProjectedBindingName C n)) \<and>
     (\<forall>n. ProjectedBindingName C n \<noteq> [])"

definition published_ok :: "contract \<Rightarrow> bool" where
  "published_ok C \<longleftrightarrow> PublishedDeprecated C \<noteq> []"

definition json_ok :: "contract \<Rightarrow> bool" where
  "json_ok C \<longleftrightarrow>
     (\<forall>o'. \<exists>raw. json_Marshal C o' = Some raw \<and> raw \<noteq> [] \<and> json_Unmarshal C raw = Some o')"

text \<open>A tenant id is a non-empty name without the separators of API versions and user names.\<close>

definition tid_ok :: "string \<Rightarrow> bool" where
  "tid_ok tid \<longleftrightarrow> tid \<noteq> [] \<and> CHR ''/'' \<notin> set tid \<and> CHR '':'' \<notin> set tid"

definition contract_ok :: "contract \<Rightarrow> bool" where
  "contract_ok C \<longleftrightarrow> naming_ok C \<and> serviceaccount_ok C \<and> groupkind_ok C \<and> labels_ok C \<and>
     json_ok C \<and> projection_ok C \<and> published_ok C"

lemma contract_okD [simp]:
  assumes "contract_ok C"
  shows "naming_ok C" "serviceaccount_ok C" "groupkind_ok C" "labels_ok C" "json_ok C"
    "projection_ok C" "published_ok C"
  using assms by (simp_all add: contract_ok_def)

subsection \<open>Consequences of the naming laws\<close>

lemma Parse_Nil: "groupkind_ok C \<Longrightarrow> ParseGroupVersion C [] = Inr ([], [])"
  by (simp add: groupkind_ok_def)

lemma Parse_prefixed:
  "groupkind_ok C \<Longrightarrow> tid_ok tid \<Longrightarrow> ParseGroupVersion C gv = Inr (g, v) \<Longrightarrow> g \<noteq> [] \<Longrightarrow>
     ParseGroupVersion C (tprefix C tid @ gv) = Inr (tprefix C tid @ g, v)"
  by (simp add: groupkind_ok_def tid_ok_def)

lemma check_back:
  "groupkind_ok C \<Longrightarrow> checkGroupKind C g k tid True = Inr (namespaced, custom) \<Longrightarrow>
     checkGroupKind C (if custom then tprefix C tid @ g else g) k tid False = Inr (namespaced, custom)"
  unfolding groupkind_ok_def by blast

lemma custom_group_nonempty:
  "groupkind_ok C \<Longrightarrow> checkGroupKind C g k tid True = Inr (namespaced, True) \<Longrightarrow> g \<noteq> []"
  unfolding groupkind_ok_def by blast

lemma separator [naming]: "naming_ok C \<Longrightarrow> TenantIDSeparator C = ''-''"
  by (simp add: naming_ok_def)

lemma tprefix_dash [naming]: "naming_ok C \<Longrightarrow> tprefix C tid = tid @ ''-''"
  by (simp add: naming_ok_def tprefix_def)

lemma Add_def [naming]: "naming_ok C \<Longrightarrow> AddTenantIDPrefix C tid s = tprefix C tid @ s"
  by (simp add: naming_ok_def)

lemma Trim_def [naming]: "naming_ok C \<Longrightarrow> TrimTenantIDPrefix C tid s = TrimPrefix s (tprefix C tid)"
  by (simp add: naming_ok_def)

lemma Upstream_def [naming]:
  "naming_ok C \<Longrightarrow> UpstreamNamespace C tid s =
     (if s = [] \<or> HasPrefix s (tprefix C tid) then s else tprefix C tid @ s)"
  by (simp add: naming_ok_def)

lemma tprefix_nonempty: "naming_ok C \<Longrightarrow> tprefix C tid \<noteq> []"
  by (simp add: tprefix_dash)

lemma Trim_Add [simp]: "naming_ok C \<Longrightarrow> TrimTenantIDPrefix C tid (AddTenantIDPrefix C tid s) = s"
  by (simp add: Add_def Trim_def)

lemma Add_nonempty [simp]: "naming_ok C \<Longrightarrow> AddTenantIDPrefix C tid s \<noteq> []"
  by (simp add: Add_def tprefix_nonempty)

lemma Trim_foreign [simp]:
  "naming_ok C \<Longrightarrow> \<not> HasPrefix s (tprefix C tid) \<Longrightarrow> TrimTenantIDPrefix C tid s = s"
  by (simp add: Trim_def)

lemma Upstream_Nil [simp]: "naming_ok C \<Longrightarrow> UpstreamNamespace C tid [] = []"
  by (simp add: Upstream_def)

lemma Upstream_prefixed [simp]:
  "naming_ok C \<Longrightarrow> s \<noteq> [] \<Longrightarrow> HasPrefix (UpstreamNamespace C tid s) (tprefix C tid)"
  by (simp add: Upstream_def)

lemma Upstream_idem [simp]:
  "naming_ok C \<Longrightarrow> UpstreamNamespace C tid (UpstreamNamespace C tid s) = UpstreamNamespace C tid s"
  by (simp add: Upstream_def)

lemma Upstream_eq_Nil [simp]: "naming_ok C \<Longrightarrow> UpstreamNamespace C tid s = [] \<longleftrightarrow> s = []"
  by (auto simp: Upstream_def)

lemma Trim_Upstream [simp]:
  "naming_ok C \<Longrightarrow> \<not> HasPrefix s (tprefix C tid) \<Longrightarrow>
     TrimTenantIDPrefix C tid (UpstreamNamespace C tid s) = s"
  by (auto simp: Upstream_def Trim_def)

lemma Trim_Nil [simp]: "naming_ok C \<Longrightarrow> TrimTenantIDPrefix C tid [] = []"
  by (simp add: Trim_def TrimPrefix_def)

lemma Upstream_Trim:
  "naming_ok C \<Longrightarrow> HasPrefix s (tprefix C tid) \<Longrightarrow> TrimTenantIDPrefix C tid s \<noteq> [] \<Longrightarrow>
     \<not> HasPrefix (TrimTenantIDPrefix C tid s) (tprefix C tid) \<Longrightarrow>
     UpstreamNamespace C tid (TrimTenantIDPrefix C tid s) = s"
  by (simp add: Upstream_def Trim_def append_TrimPrefix)

text \<open>
  Two tenants whose ids have one length never share a prefixed name.
\<close>

lemma tprefix_separates:
  assumes "naming_ok C" "length tid = length tid'"
    and "HasPrefix s (tprefix C tid)" "HasPrefix s (tprefix C tid')"
  shows "tid = tid'"
proof -
  obtain t t' where "s = tprefix C tid @ t" "s = tprefix C tid' @ t'"
    using assms(3,4) by (elim HasPrefix_obtain)
  then have "tid @ (''-'' @ t) = tid' @ (''-'' @ t')"
    using assms(1) by (simp add: tprefix_dash)
  then show ?thesis
    using assms(2) by simp
qed

lemma Unmarshal_Marshal:
  "json_ok C \<Longrightarrow> json_Marshal C o' = Some raw \<Longrightarrow> json_Unmarshal C raw = Some o' \<and> raw \<noteq> []"
  unfolding json_ok_def by (metis option.inject)

lemma Marshal_total:
  assumes "json_ok C"
  obtains raw where "json_Marshal C o' = Some raw" "raw \<noteq> []" "json_Unmarshal C raw = Some o'"
  using assms unfolding json_ok_def by blast

end
