(* ===== verification/Objects.thy ===== *)
theory Objects
  imports Contract
begin

text \<open>
  The Kubernetes objects the gateway handles, as the records and tagged unions of the Go
  API types.  A record has the fields some operation of the gateway reads or writes, under
  their Go names with a prefix for the type; the remaining fields of the type travel in one
  opaque component, so that a statement about the whole object is also one about them.  A
  pointer is an option, a slice a list.
\<close>

type_synonym opaque = string

subsection \<open>Object metadata\<close>

record OwnerReference =
  owr_APIVersion :: string
  owr_Kind :: string
  owr_Name :: string
  owr_Rest :: opaque

record ManagedFieldsEntry =
  mf_Manager :: string
  mf_APIVersion :: string
  mf_Operation :: string
  mf_Subresource :: string
  mf_FieldsV1 :: "string option"
  mf_Rest :: opaque

record ObjectMeta =
  om_Name :: string
  om_GenerateName :: string
  om_Namespace :: string
  om_UID :: string
  om_ResourceVersion :: string
  om_CreationTimestamp :: string
  om_Labels :: strmap
  om_Annotations :: strmap
  om_OwnerReferences :: "OwnerReference list"
  om_ManagedFields :: "ManagedFieldsEntry list"
  om_Rest :: opaque

text \<open>ObjectReference of the internal core API, and its twin of the versioned core/v1 API.\<close>

record ObjectReference =
  obr_Kind :: string
  obr_Namespace :: string
  obr_Name :: string
  obr_UID :: string
  obr_APIVersion :: string
  obr_ResourceVersion :: string
  obr_FieldPath :: string

record V1ObjectReference =
  vor_Kind :: string
  vor_Namespace :: string
  vor_Name :: string
  vor_UID :: string
  vor_APIVersion :: string
  vor_ResourceVersion :: string
  vor_FieldPath :: string

record LabelSelector =
  ls_MatchLabels :: strmap
  ls_MatchExpressions :: "(string \<times> string \<times> string list) list"

subsection \<open>Pods and their templates\<close>

datatype TolerationOperator = TolerationOpExists | TolerationOpEqual

datatype TaintEffect = TaintEffectNoSchedule | TaintEffectPreferNoSchedule | TaintEffectNoExecute

record Toleration =
  tol_Key :: string
  tol_Operator :: TolerationOperator
  tol_Value :: string
  tol_Effect :: TaintEffect
  tol_Seconds :: "int option"

record ObjectFieldSelector =
  fs_APIVersion :: string
  fs_FieldPath :: string

record DownwardAPIVolumeFile =
  da_Path :: string
  da_FieldRef :: "ObjectFieldSelector option"

text \<open>
  A source of a projected volume: a struct of optional members.  The token has its path and
  its lifetime, the config map its name and items.
\<close>

record VolumeProjection =
  vp_ServiceAccountToken :: "(string \<times> int) option"
  vp_ConfigMap :: "(string \<times> (string \<times> string) list) option"
  vp_DownwardAPI :: "DownwardAPIVolumeFile list option"
  vp_Rest :: opaque

record ProjectedVolumeSource =
  pj_DefaultMode :: "int option"
  pj_Sources :: "VolumeProjection list"

record DataSourceRef =
  ds_Kind :: string
  ds_Name :: string
  ds_Namespace :: "string option"

record PersistentVolumeClaimSpec =
  pvc_VolumeName :: string
  pvc_StorageClassName :: "string option"
  pvc_VolumeAttributesClassName :: "string option"
  pvc_DataSourceRef :: "DataSourceRef option"
  pvc_Rest :: opaque

text \<open>An ephemeral volume has an optional claim template.\<close>

record Volume =
  vol_Name :: string
  vol_Projected :: "ProjectedVolumeSource option"
  vol_CSI :: "opaque option"
  vol_Ephemeral :: "PersistentVolumeClaimSpec option option"
  vol_Rest :: opaque

text \<open>A probe or lifecycle handler: the host of its httpGet and of its tcpSocket action.\<close>

record Handler =
  hd_HTTPGet :: "string option"
  hd_TCPSocket :: "string option"
  hd_Rest :: opaque

record Lifecycle =
  lc_PostStart :: "Handler option"
  lc_PreStop :: "Handler option"

record Container =
  ct_Name :: string
  ct_LivenessProbe :: "Handler option"
  ct_ReadinessProbe :: "Handler option"
  ct_StartupProbe :: "Handler option"
  ct_Lifecycle :: "Lifecycle option"
  ct_Rest :: opaque

datatype DNSPolicy = DNSClusterFirst | DNSClusterFirstWithHostNet | DNSDefault | DNSNone

record PodDNSConfig =
  dns_Nameservers :: "string list"
  dns_Searches :: "string list"
  dns_Options :: "(string \<times> string option) list"

record PodSpec =
  ps_Volumes :: "Volume list"
  ps_InitContainers :: "Container list"
  ps_Containers :: "Container list"
  ps_NodeSelector :: strmap
  ps_NodeName :: string
  ps_Tolerations :: "Toleration list"
  ps_SchedulerName :: string
  ps_Affinity :: "opaque option"
  ps_TopologySpreadConstraints :: "opaque list"
  ps_AutomountServiceAccountToken :: "bool option"
  ps_DNSPolicy :: DNSPolicy
  ps_DNSConfig :: "PodDNSConfig option"
  ps_Rest :: opaque

record PodStatus =
  pst_PodIPs :: "string list"
  pst_HostIP :: string
  pst_HostIPs :: "string list"
  pst_NominatedNodeName :: string
  pst_Rest :: opaque

record PodTemplateSpec =
  pt_ObjectMeta :: ObjectMeta
  pt_Spec :: PodSpec

subsection \<open>Services, endpoints and network policies\<close>

datatype ServiceType = ServiceTypeClusterIP | ServiceTypeNodePort | ServiceTypeLoadBalancer | ServiceTypeExternalName

record ServicePort =
  sp_Port :: int
  sp_NodePort :: int
  sp_Rest :: opaque

record ServiceSpec =
  svc_Type :: ServiceType
  svc_ClusterIP :: string
  svc_ClusterIPs :: "string list"
  svc_ExternalIPs :: "string list"
  svc_Ports :: "ServicePort list"
  svc_HealthCheckNodePort :: int
  svc_Rest :: opaque

record EndpointAddress =
  ea_IP :: string
  ea_TargetRef :: "ObjectReference option"

record EndpointSubset =
  es_Addresses :: "EndpointAddress list"
  es_NotReadyAddresses :: "EndpointAddress list"
  es_Rest :: opaque

record Endpoint =
  ep_Addresses :: "string list"
  ep_TargetRef :: "ObjectReference option"
  ep_Rest :: opaque

record NetworkPolicyPeer =
  npp_PodSelector :: "LabelSelector option"
  npp_NamespaceSelector :: "LabelSelector option"
  npp_Rest :: opaque

record NetworkPolicyRule =
  npr_Peers :: "NetworkPolicyPeer list"
  npr_Ports :: opaque

record NetworkPolicySpec =
  np_Ingress :: "NetworkPolicyRule list"
  np_Egress :: "NetworkPolicyRule list"
  np_Rest :: opaque

subsection \<open>Storage\<close>

record CSIPersistentVolumeSource =
  csi_ControllerPublishSecretRef :: "opaque option"
  csi_NodeStageSecretRef :: "opaque option"
  csi_NodePublishSecretRef :: "opaque option"
  csi_ControllerExpandSecretRef :: "opaque option"
  csi_NodeExpandSecretRef :: "opaque option"
  csi_Rest :: opaque

text \<open>PersistentVolumeSource is a struct of optional members of which any may be set.\<close>

record PersistentVolumeSource =
  pvs_CSI :: "CSIPersistentVolumeSource option"
  pvs_ISCSI_SecretRef :: "opaque option option"
  pvs_NFS :: "opaque option"
  pvs_FC :: "opaque option"
  pvs_PortworxVolume :: "opaque option"
  pvs_HostPath :: "opaque option"
  pvs_Local :: "opaque option"
  pvs_Other :: "opaque option"

record PersistentVolumeSpec =
  pv_Source :: PersistentVolumeSource
  pv_ClaimRef :: "ObjectReference option"
  pv_Rest :: opaque

subsection \<open>Access control\<close>

record PolicyRule =
  pr_Verbs :: "string list"
  pr_APIGroups :: "string list"
  pr_Resources :: "string list"
  pr_ResourceNames :: "string list"
  pr_NonResourceURLs :: "string list"

record Subject =
  sub_Kind :: string
  sub_Name :: string
  sub_Namespace :: string

record RoleRef =
  rr_APIGroup :: string
  rr_Kind :: string
  rr_Name :: string

record ResourceAttributes =
  ra_Namespace :: string
  ra_Group :: string
  ra_Rest :: opaque

record SubjectAccessReviewSpec =
  sar_ResourceAttributes :: "ResourceAttributes option"
  sar_User :: string
  sar_Groups :: "string list"
  sar_Rest :: opaque

record ResourceRule =
  rsr_Verbs :: "string list"
  rsr_APIGroups :: "string list"
  rsr_Resources :: "string list"
  rsr_ResourceNames :: "string list"

record WebhookClientConfig =
  wcc_URL :: "string option"
  wcc_ServiceNamespace :: "string option"
  wcc_Rest :: opaque

datatype ScopeType = ClusterScope | NamespacedScope | AllScopes

record RuleWithOperations =
  rwo_Scope :: "ScopeType option"
  rwo_Rest :: opaque

record Webhook =
  wh_Name :: string
  wh_ClientConfig :: WebhookClientConfig
  wh_NamespaceSelector :: "LabelSelector option"
  wh_Rules :: "RuleWithOperations list"
  wh_Rest :: opaque

record CustomResourceDefinitionSpec =
  crd_Group :: string
  crd_Plural :: string
  crd_ConversionClientConfig :: "WebhookClientConfig option"
  crd_Rest :: opaque

record DeviceRequest =
  dr_Exactly :: "string option"
  dr_FirstAvailable :: "string list"

subsection \<open>Objects\<close>

datatype body =
    NamespaceB opaque
  | PodB PodSpec PodStatus
  | PodTemplateB PodTemplateSpec
  | ReplicationControllerB "PodTemplateSpec option" opaque
  | DeploymentB PodTemplateSpec opaque
  | StatefulSetB PodTemplateSpec opaque
  | DaemonSetB PodTemplateSpec opaque
  | ReplicaSetB PodTemplateSpec opaque
  | JobB PodTemplateSpec opaque
  | CronJobB PodTemplateSpec opaque
  | BindingB opaque
  | EvictionB opaque
  | ScaleB opaque
  | ServiceB ServiceSpec opaque
  | EndpointsB "EndpointSubset list"
  | EndpointSliceB "Endpoint list" opaque
  | IngressB "string option" opaque
  | NetworkPolicyB NetworkPolicySpec
  | EventB ObjectReference string opaque
  | EventsV1B V1ObjectReference "V1ObjectReference option" opaque
  | PersistentVolumeB PersistentVolumeSpec opaque
  | PersistentVolumeClaimB PersistentVolumeClaimSpec opaque
  | RoleB "PolicyRule list"
  | ClusterRoleB "PolicyRule list" opaque
  | RoleBindingB "Subject list" RoleRef
  | ClusterRoleBindingB "Subject list" RoleRef
  | TokenReviewB opaque string "string list"
  | SelfSubjectAccessReviewB "ResourceAttributes option" opaque
  | LocalSubjectAccessReviewB SubjectAccessReviewSpec opaque
  | SubjectAccessReviewB SubjectAccessReviewSpec opaque
  | SelfSubjectRulesReviewB string "ResourceRule list" opaque
  | MutatingWebhookConfigurationB "Webhook list"
  | ValidatingWebhookConfigurationB "Webhook list"
  | CustomResourceDefinitionB CustomResourceDefinitionSpec
  | ResourceQuotaB opaque
  | ResourceClaimB "DeviceRequest list" opaque
  | ResourceClaimTemplateB "DeviceRequest list" opaque
  | UnstructuredB json_object
  | StatusB opaque
  | OtherB opaque

record robject =
  ro_APIVersion :: string
  ro_Kind :: string
  ro_Meta :: ObjectMeta
  ro_Body :: body

type_synonym GroupKind = "string \<times> string"

text \<open>meta.Accessor: every API object has metadata; a metav1.Status has only list metadata.\<close>

definition Accessor :: "robject \<Rightarrow> ObjectMeta result" where
  "Accessor obj = (case ro_Body obj of StatusB _ \<Rightarrow> Inl NotAnObject | _ \<Rightarrow> Inr (ro_Meta obj))"

definition is_status :: "robject \<Rightarrow> bool" where
  "is_status obj = (case ro_Body obj of StatusB _ \<Rightarrow> True | _ \<Rightarrow> False)"

lemma Accessor_alt: "Accessor obj = (if is_status obj then Inl NotAnObject else Inr (ro_Meta obj))"
  by (simp add: Accessor_def is_status_def split: body.split)

lemma Accessor_Inr: "Accessor obj = Inr m \<longleftrightarrow> \<not> is_status obj \<and> m = ro_Meta obj"
  by (auto simp: Accessor_alt)

lemma is_status_meta [simp]:
  "is_status (obj\<lparr>ro_Meta := m\<rparr>) = is_status obj"
  "is_status (obj\<lparr>ro_APIVersion := a\<rparr>) = is_status obj"
  "is_status (obj\<lparr>ro_Kind := k\<rparr>) = is_status obj"
  by (simp_all add: is_status_def)

text \<open>GetObjectKind().GroupVersionKind().GroupKind(): an API version that does not parse has no group.\<close>

definition GroupKindOf :: "contract \<Rightarrow> robject \<Rightarrow> GroupKind" where
  "GroupKindOf C obj =
     (case ParseGroupVersion C (ro_APIVersion obj) of
        Inr (g, v) \<Rightarrow> (g, ro_Kind obj)
      | Inl _ \<Rightarrow> ('''', ro_Kind obj))"

definition upd_meta :: "(ObjectMeta \<Rightarrow> ObjectMeta) \<Rightarrow> robject \<Rightarrow> robject" where
  "upd_meta f obj = obj\<lparr>ro_Meta := f (ro_Meta obj)\<rparr>"

lemma upd_meta_sel [simp]:
  "ro_Meta (upd_meta f obj) = f (ro_Meta obj)"
  "ro_Body (upd_meta f obj) = ro_Body obj"
  "ro_APIVersion (upd_meta f obj) = ro_APIVersion obj"
  "ro_Kind (upd_meta f obj) = ro_Kind obj"
  "is_status (upd_meta f obj) = is_status obj"
  by (simp_all add: upd_meta_def)

lemma upd_meta_comp [simp]: "upd_meta f (upd_meta g obj) = upd_meta (f \<circ> g) obj"
  by (simp add: upd_meta_def)

definition empty_meta :: ObjectMeta where
  "empty_meta = \<lparr>om_Name = [], om_GenerateName = [], om_Namespace = [], om_UID = [],
     om_ResourceVersion = [], om_CreationTimestamp = [], om_Labels = Map.empty, om_Annotations = Map.empty,
     om_OwnerReferences = [], om_ManagedFields = [], om_Rest = []\<rparr>"

end
