(* ===== verification/References.thy ===== *)
theory References
  imports Objects
begin

text \<open>
  Names in references (attribution.go, ownerreference.go, objectreference.go of package
  convert): the rule that a reference without the tenant's prefix is shown unchanged, and
  the two translations of the references that objects carry.  The locale \<open>reversible\<close> is
  the contract the two directions of a translation have with each other.
\<close>

definition deref :: "'a option \<Rightarrow> 'a result" where
  "deref p = (case p of None \<Rightarrow> Inl (Panic ''nil pointer dereference'') | Some x \<Rightarrow> Inr x)"

lemma deref_simps [simp]: "deref (Some x) = Inr x" "deref None = Inl (Panic ''nil pointer dereference'')"
  by (simp_all add: deref_def)

lemma deref_Inr_iff [simp]: "deref p = Inr x \<longleftrightarrow> p = Some x"
  by (simp add: deref_def split: option.split)

subsection \<open>Definitions\<close>

definition trimIfAttributable :: "contract \<Rightarrow> string \<Rightarrow> string \<Rightarrow> string" where
  "trimIfAttributable C value tenantID =
     (if \<not> HasPrefix value (tenantID @ TenantIDSeparator C) then value
      else TrimTenantIDPrefix C tenantID value)"

definition ownerReferenceTransformer_Forward ::
  "contract \<Rightarrow> OwnerReference option \<Rightarrow> string \<Rightarrow> OwnerReference option result" where
  "ownerReferenceTransformer_Forward C p tenantID =
     mapOptR (\<lambda>r.
        bindR (ParseGroupVersion C (owr_APIVersion r)) (\<lambda>(group, version).
        bindR (checkGroupKind C group (owr_Kind r) tenantID True) (\<lambda>(namespaced, customResourceGroup).
          let r = (if \<not> namespaced \<and> owr_Name r \<noteq> []
                   then r\<lparr>owr_Name := AddTenantIDPrefix C tenantID (owr_Name r)\<rparr> else r);
              r = (if customResourceGroup \<and> owr_APIVersion r \<noteq> []
                   then r\<lparr>owr_APIVersion := AddTenantIDPrefix C tenantID (owr_APIVersion r)\<rparr> else r)
          in Inr r))) p"

definition ownerReferenceTransformer_Backward ::
  "contract \<Rightarrow> OwnerReference option \<Rightarrow> string \<Rightarrow> OwnerReference option result" where
  "ownerReferenceTransformer_Backward C p tenantID =
     mapOptR (\<lambda>r.
        bindR (ParseGroupVersion C (owr_APIVersion r)) (\<lambda>(group, version).
        bindR (checkGroupKind C group (owr_Kind r) tenantID False) (\<lambda>(namespaced, customResourceGroup).
          let r = (if \<not> namespaced
                   then r\<lparr>owr_Name := TrimTenantIDPrefix C tenantID (owr_Name r)\<rparr> else r);
              r = (if customResourceGroup
                   then r\<lparr>owr_APIVersion := trimIfAttributable C (owr_APIVersion r) tenantID\<rparr> else r)
          in Inr r))) p"

definition objectReferenceTransformer_Forward ::
  "contract \<Rightarrow> ObjectReference option \<Rightarrow> string \<Rightarrow> ObjectReference option result" where
  "objectReferenceTransformer_Forward C p tenantID =
     mapOptR (\<lambda>r.
        bindR (ParseGroupVersion C (obr_APIVersion r)) (\<lambda>(group, version).
        (case checkGroupKind C group (obr_Kind r) tenantID True of
           Inl e \<Rightarrow>
             Inr (if obr_Namespace r \<noteq> []
               then r\<lparr>obr_Namespace := UpstreamNamespace C tenantID (obr_Namespace r)\<rparr>
               else if obr_Name r \<noteq> []
               then r\<lparr>obr_Name := AddTenantIDPrefix C tenantID (obr_Name r)\<rparr>
               else r)
         | Inr (namespaced, customResourceGroup) \<Rightarrow>
             let r = (if \<not> namespaced \<and> obr_Name r \<noteq> []
                      then r\<lparr>obr_Name := AddTenantIDPrefix C tenantID (obr_Name r)\<rparr> else r);
                 r = (if namespaced \<and> obr_Namespace r \<noteq> []
                      then r\<lparr>obr_Namespace := UpstreamNamespace C tenantID (obr_Namespace r)\<rparr> else r);
                 r = (if customResourceGroup \<and> obr_APIVersion r \<noteq> []
                      then r\<lparr>obr_APIVersion := AddTenantIDPrefix C tenantID (obr_APIVersion r)\<rparr> else r)
             in Inr r))) p"

definition objectReferenceTransformer_Backward ::
  "contract \<Rightarrow> ObjectReference option \<Rightarrow> string \<Rightarrow> ObjectReference option result" where
  "objectReferenceTransformer_Backward C p tenantID =
     mapOptR (\<lambda>r.
        bindR (ParseGroupVersion C (obr_APIVersion r)) (\<lambda>(group, version).
        (case checkGroupKind C group (obr_Kind r) tenantID False of
           Inl e \<Rightarrow>
             Inr (if obr_Namespace r \<noteq> []
               then r\<lparr>obr_Namespace := TrimTenantIDPrefix C tenantID (obr_Namespace r)\<rparr>
               else if obr_Name r \<noteq> []
               then r\<lparr>obr_Name := TrimTenantIDPrefix C tenantID (obr_Name r)\<rparr>
               else r)
         | Inr (namespaced, customResourceGroup) \<Rightarrow>
             let r = (if namespaced \<and> obr_Namespace r \<noteq> []
                      then r\<lparr>obr_Namespace := trimIfAttributable C (obr_Namespace r) tenantID\<rparr> else r);
                 r = (if \<not> namespaced \<and> obr_Name r \<noteq> []
                      then r\<lparr>obr_Name := trimIfAttributable C (obr_Name r) tenantID\<rparr> else r);
                 r = (if customResourceGroup \<and> obr_APIVersion r \<noteq> []
                      then r\<lparr>obr_APIVersion := trimIfAttributable C (obr_APIVersion r) tenantID\<rparr> else r)
             in Inr r))) p"

subsection \<open>Attribution\<close>

lemma trimIfAttributable_alt:
  "naming_ok C \<Longrightarrow> trimIfAttributable C s tid = TrimPrefix s (tprefix C tid)"
  by (auto simp: trimIfAttributable_def Trim_def tprefix_def)

lemma trimIfAttributable_Add [simp]:
  "naming_ok C \<Longrightarrow> trimIfAttributable C (AddTenantIDPrefix C tid s) tid = s"
  by (simp add: trimIfAttributable_alt Add_def)

lemma trimIfAttributable_foreign [simp]:
  "naming_ok C \<Longrightarrow> \<not> HasPrefix s (tprefix C tid) \<Longrightarrow> trimIfAttributable C s tid = s"
  by (simp add: trimIfAttributable_alt)

lemma trimIfAttributable_Upstream [simp]:
  "naming_ok C \<Longrightarrow> \<not> HasPrefix s (tprefix C tid) \<Longrightarrow>
     trimIfAttributable C (UpstreamNamespace C tid s) tid = s"
  by (auto simp: trimIfAttributable_alt Upstream_def)

lemma trimIfAttributable_Nil [simp]: "naming_ok C \<Longrightarrow> trimIfAttributable C [] tid = []"
  by (simp add: trimIfAttributable_alt TrimPrefix_def)

subsection \<open>The contract between the two directions\<close>

text \<open>
  A forward translation that succeeds on a well-spelled value is undone by the backward
  one.  \<open>ok\<close> says what well-spelled means: that the tenant has not written names in their
  upstream spelling.
\<close>

locale reversible =
  fixes ok :: "contract \<Rightarrow> string \<Rightarrow> 'a \<Rightarrow> bool"
    and fwd :: "contract \<Rightarrow> 'a \<Rightarrow> string \<Rightarrow> 'a result"
    and bwd :: "contract \<Rightarrow> 'a \<Rightarrow> string \<Rightarrow> 'a result"
  assumes roundtrip:
    "contract_ok C \<Longrightarrow> tid_ok tid \<Longrightarrow> ok C tid x \<Longrightarrow> fwd C x tid = Inr y \<Longrightarrow> bwd C y tid = Inr x"
begin

lemma roundtrip_list:
  assumes "contract_ok C" "tid_ok tid" "\<forall>x\<in>set xs. ok C tid x"
    and "mapR (\<lambda>x. fwd C x tid) xs = Inr ys"
  shows "mapR (\<lambda>y. bwd C y tid) ys = Inr xs"
  using assms(4) by (rule mapR_roundtrip) (use assms(1-3) in \<open>blast intro: roundtrip\<close>)

lemma fwd_injective:
  assumes "contract_ok C" "tid_ok tid" "ok C tid x" "ok C tid x'"
    and "fwd C x tid = Inr y" "fwd C x' tid = Inr y"
  shows "x = x'"
  using roundtrip [OF assms(1,2,3,5)] roundtrip [OF assms(1,2,4,6)] by simp

end

subsection \<open>Owner references\<close>


lemma ownerReference_roundtrip:
  assumes "contract_ok C" "tid_ok tid"
    and f: "ownerReferenceTransformer_Forward C p tid = Inr q"
  shows "ownerReferenceTransformer_Backward C q tid = Inr p"
proof (cases p)
  case None
  with f show ?thesis
    by (auto simp: ownerReferenceTransformer_Forward_def ownerReferenceTransformer_Backward_def)
next
  case (Some r)
  with f obtain g v namespaced custom where
    parse: "ParseGroupVersion C (owr_APIVersion r) = Inr (g, v)" and
    check: "checkGroupKind C g (owr_Kind r) tid True = Inr (namespaced, custom)"
    by (auto simp: ownerReferenceTransformer_Forward_def bindR_Inr_iff split: prod.splits)
  have N: "naming_ok C" and G: "groupkind_ok C" using assms(1) by simp_all
  show ?thesis
  proof (cases custom)
    case True
    with check G have g: "g \<noteq> []" by (simp add: custom_group_nonempty)
    with parse Parse_Nil [OF G] have "owr_APIVersion r \<noteq> []" by auto
    with f Some parse check True N Parse_prefixed [OF G assms(2) parse g] check_back [OF G check]
    show ?thesis
      by (auto simp: ownerReferenceTransformer_Forward_def ownerReferenceTransformer_Backward_def
          Let_def Add_def Trim_def trimIfAttributable_alt TrimPrefix_def split: if_splits)
  next
    case False
    with f Some parse check N check_back [OF G check]
    show ?thesis
      by (auto simp: ownerReferenceTransformer_Forward_def ownerReferenceTransformer_Backward_def
          Let_def Add_def Trim_def TrimPrefix_def split: if_splits)
  qed
qed

interpretation owner: reversible "\<lambda>C tid p. True" ownerReferenceTransformer_Forward
  ownerReferenceTransformer_Backward
  by unfold_locales (rule ownerReference_roundtrip)

lemma owner_Forward_Some:
  "ownerReferenceTransformer_Forward C (Some r) tid = Inr q \<Longrightarrow> \<exists>r'. q = Some r'"
  by (auto simp: ownerReferenceTransformer_Forward_def bindR_Inr_iff)

lemma owner_Backward_Some:
  "ownerReferenceTransformer_Backward C (Some r) tid = Inr q \<Longrightarrow> \<exists>r'. q = Some r'"
  by (auto simp: ownerReferenceTransformer_Backward_def bindR_Inr_iff)

subsection \<open>Object references\<close>

text \<open>
  The namespace of the reference is in the tenant's spelling, and a kind that cannot be
  resolved on the way out cannot be resolved on the way back.
\<close>

definition objref_ok :: "contract \<Rightarrow> string \<Rightarrow> ObjectReference option \<Rightarrow> bool" where
  "objref_ok C tid p \<longleftrightarrow> (case p of None \<Rightarrow> True | Some r \<Rightarrow>
     \<not> HasPrefix (obr_Namespace r) (tprefix C tid) \<and>
     (\<forall>g v e. ParseGroupVersion C (obr_APIVersion r) = Inr (g, v) \<longrightarrow>
        checkGroupKind C g (obr_Kind r) tid True = Inl e \<longrightarrow>
        (\<exists>e'. checkGroupKind C g (obr_Kind r) tid False = Inl e')))"

lemma objectReference_roundtrip:
  assumes "contract_ok C" "tid_ok tid" "objref_ok C tid p"
    and f: "objectReferenceTransformer_Forward C p tid = Inr q"
  shows "objectReferenceTransformer_Backward C q tid = Inr p"
proof (cases p)
  case None
  with f show ?thesis
    by (auto simp: objectReferenceTransformer_Forward_def objectReferenceTransformer_Backward_def)
next
  case (Some r)
  with f obtain g v where
    parse: "ParseGroupVersion C (obr_APIVersion r) = Inr (g, v)"
    by (auto simp: objectReferenceTransformer_Forward_def bindR_Inr_iff split: prod.splits)
  have N: "naming_ok C" and G: "groupkind_ok C" using assms(1) by simp_all
  have ns: "\<not> HasPrefix (obr_Namespace r) (tprefix C tid)"
    using assms(3) Some by (simp add: objref_ok_def)
  show ?thesis
  proof (cases "checkGroupKind C g (obr_Kind r) tid True")
    case (Inl e)
    with assms(3) Some parse obtain e' where "checkGroupKind C g (obr_Kind r) tid False = Inl e'"
      by (auto simp: objref_ok_def)
    with f Some parse Inl N ns show ?thesis
      by (auto simp: objectReferenceTransformer_Forward_def objectReferenceTransformer_Backward_def)
  next
    case (Inr nc)
    then obtain namespaced custom where
      check: "checkGroupKind C g (obr_Kind r) tid True = Inr (namespaced, custom)"
      by (cases nc) auto
    have bk: "checkGroupKind C (if custom then tprefix C tid @ g else g) (obr_Kind r) tid False
        = Inr (namespaced, custom)"
      using G check by (rule check_back)
    show ?thesis
    proof (cases custom)
      case True
      with check G have g: "g \<noteq> []" by (simp add: custom_group_nonempty)
      with parse Parse_Nil [OF G] have nonempty: "obr_APIVersion r \<noteq> []" by auto
      have "ParseGroupVersion C (AddTenantIDPrefix C tid (obr_APIVersion r))
          = Inr (tprefix C tid @ g, v)"
        using Parse_prefixed [OF G assms(2) parse g] N by (simp add: Add_def)
      with f Some parse check True N ns bk nonempty show ?thesis
        by (auto simp: objectReferenceTransformer_Forward_def objectReferenceTransformer_Backward_def
            Let_def split: if_splits)
    next
      case False
      with f Some parse check N ns bk show ?thesis
        by (auto simp: objectReferenceTransformer_Forward_def objectReferenceTransformer_Backward_def
            Let_def split: if_splits)
    qed
  qed
qed

interpretation objref: reversible objref_ok objectReferenceTransformer_Forward
  objectReferenceTransformer_Backward
  by unfold_locales (rule objectReference_roundtrip)

lemma objref_Forward_Some:
  "objectReferenceTransformer_Forward C (Some r) tid = Inr q \<Longrightarrow> \<exists>r'. q = Some r'"
  by (auto simp: objectReferenceTransformer_Forward_def bindR_Inr_iff)

lemma objref_Backward_Some:
  "objectReferenceTransformer_Backward C (Some r) tid = Inr q \<Longrightarrow> \<exists>r'. q = Some r'"
  by (auto simp: objectReferenceTransformer_Backward_def bindR_Inr_iff)

end
