(* ===== verification/Default_Convertor.thy ===== *)
theory Default_Convertor
  imports References
begin

text \<open>
  The convertors of package convert that every kind shares (default.go, lastapplied.go,
  cross-object.go, nativeresource.go, nope.go): the object's own name, namespace, owner
  references and kubectl's record of the applied manifest, and the composition with the
  transformer of the kind.  The locale \<open>object_transformer\<close> is what the composition needs of
  a transformer in order to be undone; each reversible transformer interprets it.
\<close>

subsection \<open>Interfaces\<close>

record ObjectConvertor =
  ConvertTenantObjectToUpstreamObject :: "robject \<Rightarrow> string \<Rightarrow> bool \<Rightarrow> robject result"
  ConvertUpstreamObjectToTenantObject :: "robject \<Rightarrow> string \<Rightarrow> bool \<Rightarrow> robject result"

record ObjectTransformer =
  Forward :: "robject \<Rightarrow> string \<Rightarrow> robject result"
  Backward :: "robject \<Rightarrow> string \<Rightarrow> robject result"

subsection \<open>kubectl's last-applied annotation\<close>

text \<open>The text the annotation is rewritten to; None where the code leaves it alone.\<close>

definition lastAppliedText ::
  "contract \<Rightarrow> string \<Rightarrow> string \<Rightarrow> bool \<Rightarrow> bool \<Rightarrow> string option" where
  "lastAppliedText C raw tenantID isNamespaceScoped forward =
     (if raw = [] then None else
      (case json_Unmarshal C raw of None \<Rightarrow> None
       | Some applied \<Rightarrow>
         (case obj_at applied ''metadata'' of None \<Rightarrow> None
          | Some metadata \<Rightarrow>
            let key = (if \<not> isNamespaceScoped then ''name'' else ''namespace'') in
            (case str_at metadata key of None \<Rightarrow> None
             | Some value \<Rightarrow>
               if value = [] then None else
               let rewritten =
                 (if forward \<and> isNamespaceScoped then UpstreamNamespace C tenantID value
                  else if forward then AddTenantIDPrefix C tenantID value
                  else TrimTenantIDPrefix C tenantID value) in
               if rewritten = value then None
               else json_Marshal C
                 (fmupd ''metadata'' (JObj (fmupd key (JStr rewritten) metadata)) applied)))))"

definition rewriteLastApplied ::
  "contract \<Rightarrow> robject \<Rightarrow> string \<Rightarrow> bool \<Rightarrow> bool \<Rightarrow> robject" where
  "rewriteLastApplied C obj tenantID isNamespaceScoped forward =
     (case Accessor obj of Inl _ \<Rightarrow> obj
      | Inr accessor \<Rightarrow>
        (case om_Annotations accessor (LastAppliedConfigAnnotation C) of None \<Rightarrow> obj
         | Some raw \<Rightarrow>
           (case lastAppliedText C raw tenantID isNamespaceScoped forward of None \<Rightarrow> obj
            | Some encoded \<Rightarrow>
              upd_meta (\<lambda>m. m\<lparr>om_Annotations :=
                (om_Annotations m)(LastAppliedConfigAnnotation C \<mapsto> encoded)\<rparr>) obj)))"

subsection \<open>The default convertor\<close>

definition DefaultConvertor_ConvertTenantObjectToUpstreamObject ::
  "contract \<Rightarrow> robject \<Rightarrow> string \<Rightarrow> bool \<Rightarrow> robject result" where
  "DefaultConvertor_ConvertTenantObjectToUpstreamObject C obj tenantID isNamespaceScoped =
     bindR (Accessor obj) (\<lambda>accessor.
     let obj =
       (if isNamespaceScoped \<and> om_Namespace accessor \<noteq> [] then
          upd_meta (\<lambda>m. m\<lparr>om_Namespace := UpstreamNamespace C tenantID (om_Namespace m)\<rparr>) obj
        else if \<not> isNamespaceScoped then
          upd_meta (\<lambda>m. m\<lparr>
            om_Name := (if om_Name m \<noteq> [] then AddTenantIDPrefix C tenantID (om_Name m) else om_Name m),
            om_GenerateName := (if om_GenerateName m \<noteq> []
              then AddTenantIDPrefix C tenantID (om_GenerateName m) else om_GenerateName m)\<rparr>) obj
        else obj);
       obj = rewriteLastApplied C obj tenantID isNamespaceScoped True
     in bindR (mapR (\<lambda>r. bindR (ownerReferenceTransformer_Forward C (Some r) tenantID) deref)
                 (om_OwnerReferences (ro_Meta obj))) (\<lambda>refs.
        Inr (upd_meta (\<lambda>m. m\<lparr>om_OwnerReferences := refs\<rparr>) obj)))"

definition DefaultConvertor_ConvertUpstreamObjectToTenantObject ::
  "contract \<Rightarrow> robject \<Rightarrow> string \<Rightarrow> bool \<Rightarrow> robject result" where
  "DefaultConvertor_ConvertUpstreamObjectToTenantObject C obj tenantID isNamespaceScoped =
     bindR (Accessor obj) (\<lambda>accessor.
     let obj =
       (if isNamespaceScoped then
          upd_meta (\<lambda>m. m\<lparr>om_Namespace := TrimTenantIDPrefix C tenantID (om_Namespace m)\<rparr>) obj
        else
          upd_meta (\<lambda>m. m\<lparr>
            om_Name := TrimTenantIDPrefix C tenantID (om_Name m),
            om_GenerateName := TrimTenantIDPrefix C tenantID (om_GenerateName m)\<rparr>) obj);
       obj = rewriteLastApplied C obj tenantID isNamespaceScoped False
     in bindR (mapR (\<lambda>r. bindR (ownerReferenceTransformer_Backward C (Some r) tenantID) deref)
                 (om_OwnerReferences (ro_Meta obj))) (\<lambda>refs.
        Inr (upd_meta (\<lambda>m. m\<lparr>om_OwnerReferences := refs\<rparr>) obj)))"

definition NewDefaultConvertor :: "contract \<Rightarrow> ObjectConvertor" where
  "NewDefaultConvertor C = \<lparr>
     ConvertTenantObjectToUpstreamObject = DefaultConvertor_ConvertTenantObjectToUpstreamObject C,
     ConvertUpstreamObjectToTenantObject = DefaultConvertor_ConvertUpstreamObjectToTenantObject C\<rparr>"

definition NewNopeConvertor :: ObjectConvertor where
  "NewNopeConvertor = \<lparr>
     ConvertTenantObjectToUpstreamObject = (\<lambda>obj tenantID isNamespaceScoped. Inr obj),
     ConvertUpstreamObjectToTenantObject = (\<lambda>obj tenantID isNamespaceScoped. Inr obj)\<rparr>"

subsection \<open>Composition\<close>

definition CrossReferenceConvertor_ConvertTenantObjectToUpstreamObject ::
  "ObjectConvertor \<Rightarrow> ObjectTransformer \<Rightarrow> robject \<Rightarrow> string \<Rightarrow> bool \<Rightarrow> robject result" where
  "CrossReferenceConvertor_ConvertTenantObjectToUpstreamObject c t obj tenantID isNamespaceScoped =
     bindR (ConvertTenantObjectToUpstreamObject c obj tenantID isNamespaceScoped)
       (\<lambda>obj. Forward t obj tenantID)"

definition CrossReferenceConvertor_ConvertUpstreamObjectToTenantObject ::
  "ObjectConvertor \<Rightarrow> ObjectTransformer \<Rightarrow> robject \<Rightarrow> string \<Rightarrow> bool \<Rightarrow> robject result" where
  "CrossReferenceConvertor_ConvertUpstreamObjectToTenantObject c t obj tenantID isNamespaceScoped =
     bindR (ConvertUpstreamObjectToTenantObject c obj tenantID isNamespaceScoped)
       (\<lambda>obj. Backward t obj tenantID)"

definition NewCrossReferenceConverter :: "ObjectConvertor \<Rightarrow> ObjectTransformer \<Rightarrow> ObjectConvertor" where
  "NewCrossReferenceConverter c t = \<lparr>
     ConvertTenantObjectToUpstreamObject =
       CrossReferenceConvertor_ConvertTenantObjectToUpstreamObject c t,
     ConvertUpstreamObjectToTenantObject =
       CrossReferenceConvertor_ConvertUpstreamObjectToTenantObject c t\<rparr>"

fun transformerChain_Forward ::
  "ObjectTransformer list \<Rightarrow> robject \<Rightarrow> string \<Rightarrow> robject result" where
  "transformerChain_Forward [] obj tenantID = Inr obj"
| "transformerChain_Forward (t # c) obj tenantID =
     bindR (Forward t obj tenantID) (\<lambda>obj. transformerChain_Forward c obj tenantID)"

text \<open>The backward loop runs from the last transformer to the first.\<close>

fun transformerChain_Backward ::
  "ObjectTransformer list \<Rightarrow> robject \<Rightarrow> string \<Rightarrow> robject result" where
  "transformerChain_Backward [] obj tenantID = Inr obj"
| "transformerChain_Backward (t # c) obj tenantID =
     bindR (transformerChain_Backward c obj tenantID) (\<lambda>obj. Backward t obj tenantID)"

definition chainTransformers :: "ObjectTransformer list \<Rightarrow> ObjectTransformer" where
  "chainTransformers ts = \<lparr>
     Forward = transformerChain_Forward ts, Backward = transformerChain_Backward ts\<rparr>"

record nativeObjectConvertor =
  defaultConvertor :: ObjectConvertor
  nativeKindToConvertors :: "(GroupKind \<times> ObjectConvertor) list"

definition nativeConvertorOf :: "contract \<Rightarrow> nativeObjectConvertor \<Rightarrow> robject \<Rightarrow> ObjectConvertor" where
  "nativeConvertorOf C c obj =
     (case map_of (nativeKindToConvertors c) (GroupKindOf C obj) of
        None \<Rightarrow> defaultConvertor c
      | Some convertor \<Rightarrow> convertor)"

definition nativeObjectConvertor_ConvertTenantObjectToUpstreamObject ::
  "contract \<Rightarrow> nativeObjectConvertor \<Rightarrow> robject \<Rightarrow> string \<Rightarrow> bool \<Rightarrow> robject result" where
  "nativeObjectConvertor_ConvertTenantObjectToUpstreamObject C c obj tenantID isNamespaceScoped =
     ConvertTenantObjectToUpstreamObject (nativeConvertorOf C c obj) obj tenantID isNamespaceScoped"

definition nativeObjectConvertor_ConvertUpstreamObjectToTenantObject ::
  "contract \<Rightarrow> nativeObjectConvertor \<Rightarrow> robject \<Rightarrow> string \<Rightarrow> bool \<Rightarrow> robject result" where
  "nativeObjectConvertor_ConvertUpstreamObjectToTenantObject C c obj tenantID isNamespaceScoped =
     ConvertUpstreamObjectToTenantObject (nativeConvertorOf C c obj) obj tenantID isNamespaceScoped"

definition NewNativeObjectConvertor :: "contract \<Rightarrow> nativeObjectConvertor \<Rightarrow> ObjectConvertor" where
  "NewNativeObjectConvertor C c = \<lparr>
     ConvertTenantObjectToUpstreamObject =
       nativeObjectConvertor_ConvertTenantObjectToUpstreamObject C c,
     ConvertUpstreamObjectToTenantObject =
       nativeObjectConvertor_ConvertUpstreamObjectToTenantObject C c\<rparr>"

definition ConvertedKinds :: "nativeObjectConvertor \<Rightarrow> GroupKind list" where
  "ConvertedKinds c = map fst (nativeKindToConvertors c)"

subsection \<open>The identity of an object\<close>

text \<open>
  What the default convertor reads and writes of an object: the identity part of its
  metadata.  Everything else of the object is left as it is.
\<close>

record ident =
  id_Name :: string
  id_GenerateName :: string
  id_Namespace :: string
  id_OwnerReferences :: "OwnerReference list"
  id_LastApplied :: "string option"

definition ident_of :: "contract \<Rightarrow> ObjectMeta \<Rightarrow> ident" where
  "ident_of C m = \<lparr>id_Name = om_Name m, id_GenerateName = om_GenerateName m,
     id_Namespace = om_Namespace m, id_OwnerReferences = om_OwnerReferences m,
     id_LastApplied = om_Annotations m (LastAppliedConfigAnnotation C)\<rparr>"

definition set_ident :: "contract \<Rightarrow> ident \<Rightarrow> ObjectMeta \<Rightarrow> ObjectMeta" where
  "set_ident C I m = m\<lparr>om_Name := id_Name I, om_GenerateName := id_GenerateName I,
     om_Namespace := id_Namespace I, om_OwnerReferences := id_OwnerReferences I,
     om_Annotations := (om_Annotations m)(LastAppliedConfigAnnotation C := id_LastApplied I)\<rparr>"

definition reident :: "contract \<Rightarrow> ident \<Rightarrow> robject \<Rightarrow> robject" where
  "reident C I obj = upd_meta (set_ident C I) obj"

lemma ident_set_ident [simp]: "ident_of C (set_ident C I m) = I"
  by (simp add: ident_of_def set_ident_def)

lemma set_ident_ident [simp]: "set_ident C (ident_of C m) m = m"
  by (simp add: ident_of_def set_ident_def)

lemma set_ident_set_ident [simp]: "set_ident C I (set_ident C J m) = set_ident C I m"
  by (simp add: set_ident_def)

lemma reident_simps [simp]:
  "ro_Meta (reident C I obj) = set_ident C I (ro_Meta obj)"
  "ro_Body (reident C I obj) = ro_Body obj"
  "ro_APIVersion (reident C I obj) = ro_APIVersion obj"
  "ro_Kind (reident C I obj) = ro_Kind obj"
  "is_status (reident C I obj) = is_status obj"
  "reident C I (reident C J obj) = reident C I obj"
  "reident C (ident_of C (ro_Meta obj)) obj = obj"
  by (simp_all add: reident_def upd_meta_def comp_def)

lemma set_ident_rest [simp]:
  "om_Labels (set_ident C I m) = om_Labels m"
  "om_ManagedFields (set_ident C I m) = om_ManagedFields m"
  "om_UID (set_ident C I m) = om_UID m"
  "om_ResourceVersion (set_ident C I m) = om_ResourceVersion m"
  "k \<noteq> LastAppliedConfigAnnotation C \<Longrightarrow> om_Annotations (set_ident C I m) k = om_Annotations m k"
  by (simp_all add: set_ident_def)

text \<open>The default convertor as a function of the identity.\<close>

definition lastApplied_to ::
  "contract \<Rightarrow> string \<Rightarrow> bool \<Rightarrow> bool \<Rightarrow> string option \<Rightarrow> string option" where
  "lastApplied_to C tid ns forward la =
     (case la of None \<Rightarrow> None | Some raw \<Rightarrow>
        (case lastAppliedText C raw tid ns forward of None \<Rightarrow> Some raw | Some enc \<Rightarrow> Some enc))"

definition ident_to_upstream :: "contract \<Rightarrow> string \<Rightarrow> bool \<Rightarrow> ident \<Rightarrow> ident result" where
  "ident_to_upstream C tid ns I =
     bindR (mapR (\<lambda>r. bindR (ownerReferenceTransformer_Forward C (Some r) tid) deref)
       (id_OwnerReferences I)) (\<lambda>refs.
     Inr \<lparr>id_Name = (if ns \<or> id_Name I = [] then id_Name I else AddTenantIDPrefix C tid (id_Name I)),
       id_GenerateName = (if ns \<or> id_GenerateName I = [] then id_GenerateName I
          else AddTenantIDPrefix C tid (id_GenerateName I)),
       id_Namespace = (if ns \<and> id_Namespace I \<noteq> [] then UpstreamNamespace C tid (id_Namespace I)
          else id_Namespace I),
       id_OwnerReferences = refs,
       id_LastApplied = lastApplied_to C tid ns True (id_LastApplied I)\<rparr>)"

definition ident_to_tenant :: "contract \<Rightarrow> string \<Rightarrow> bool \<Rightarrow> ident \<Rightarrow> ident result" where
  "ident_to_tenant C tid ns I =
     bindR (mapR (\<lambda>r. bindR (ownerReferenceTransformer_Backward C (Some r) tid) deref)
       (id_OwnerReferences I)) (\<lambda>refs.
     Inr \<lparr>id_Name = (if ns then id_Name I else TrimTenantIDPrefix C tid (id_Name I)),
       id_GenerateName = (if ns then id_GenerateName I else TrimTenantIDPrefix C tid (id_GenerateName I)),
       id_Namespace = (if ns then TrimTenantIDPrefix C tid (id_Namespace I) else id_Namespace I),
       id_OwnerReferences = refs,
       id_LastApplied = lastApplied_to C tid ns False (id_LastApplied I)\<rparr>)"

lemma rewriteLastApplied_meta:
  assumes "\<not> is_status obj"
  shows "rewriteLastApplied C obj tid ns forward =
    upd_meta (\<lambda>m. m\<lparr>om_Annotations := (om_Annotations m)(LastAppliedConfigAnnotation C :=
      lastApplied_to C tid ns forward (om_Annotations m (LastAppliedConfigAnnotation C)))\<rparr>) obj"
proof -
  have same: "upd_meta (\<lambda>m. m\<lparr>om_Annotations := (om_Annotations m)(k := om_Annotations m k)\<rparr>) obj = obj"
    for k by (simp add: upd_meta_def)
  show ?thesis
    using assms same [of "LastAppliedConfigAnnotation C"]
    by (auto simp: rewriteLastApplied_def Accessor_alt lastApplied_to_def upd_meta_def fun_upd_idem
        split: option.splits)
qed

lemma Default_to_upstream_ident:
  "DefaultConvertor_ConvertTenantObjectToUpstreamObject C obj tid ns =
     (if is_status obj then Inl NotAnObject
      else bindR (ident_to_upstream C tid ns (ident_of C (ro_Meta obj))) (\<lambda>I. Inr (reident C I obj)))"
  by (auto simp: DefaultConvertor_ConvertTenantObjectToUpstreamObject_def Accessor_alt Let_def
      rewriteLastApplied_meta ident_to_upstream_def ident_of_def bindR_assoc reident_def set_ident_def
      upd_meta_def intro!: bindR_cong)

lemma Default_to_tenant_ident:
  "DefaultConvertor_ConvertUpstreamObjectToTenantObject C obj tid ns =
     (if is_status obj then Inl NotAnObject
      else bindR (ident_to_tenant C tid ns (ident_of C (ro_Meta obj))) (\<lambda>I. Inr (reident C I obj)))"
  by (auto simp: DefaultConvertor_ConvertUpstreamObjectToTenantObject_def Accessor_alt Let_def
      rewriteLastApplied_meta ident_to_tenant_def ident_of_def bindR_assoc reident_def set_ident_def
      upd_meta_def intro!: bindR_cong)

subsection \<open>Round trips\<close>

text \<open>
  The recorded manifest is in the form the encoder writes, and the name it holds is in the
  tenant's spelling.
\<close>

definition lastApplied_ok :: "contract \<Rightarrow> string \<Rightarrow> bool \<Rightarrow> string option \<Rightarrow> bool" where
  "lastApplied_ok C tid ns la \<longleftrightarrow> (\<forall>raw applied metadata value.
     la = Some raw \<longrightarrow> raw \<noteq> [] \<longrightarrow> json_Unmarshal C raw = Some applied \<longrightarrow>
     obj_at applied ''metadata'' = Some metadata \<longrightarrow>
     str_at metadata (if ns then ''namespace'' else ''name'') = Some value \<longrightarrow> value \<noteq> [] \<longrightarrow>
     \<not> HasPrefix value (tprefix C tid) \<and> json_Marshal C applied = Some raw)"

definition ident_ok :: "contract \<Rightarrow> string \<Rightarrow> bool \<Rightarrow> ident \<Rightarrow> bool" where
  "ident_ok C tid ns I \<longleftrightarrow>
     (ns \<longrightarrow> \<not> HasPrefix (id_Namespace I) (tprefix C tid)) \<and>
     lastApplied_ok C tid ns (id_LastApplied I)"

definition default_ok :: "contract \<Rightarrow> string \<Rightarrow> bool \<Rightarrow> robject \<Rightarrow> bool" where
  "default_ok C tid ns obj \<longleftrightarrow> \<not> is_status obj \<and> ident_ok C tid ns (ident_of C (ro_Meta obj))"

lemma lastAppliedText_unprefixed_back:
  assumes "naming_ok C" "lastApplied_ok C tid ns (Some raw)"
    and "lastAppliedText C raw tid ns True = None"
  shows "lastAppliedText C raw tid ns False = None"
  using assms
  by (auto simp: lastAppliedText_def lastApplied_ok_def Let_def split: if_splits option.splits)

lemma lastAppliedText_roundtrip:
  assumes C: "contract_ok C" and ok: "lastApplied_ok C tid ns (Some raw)"
    and f: "lastAppliedText C raw tid ns True = Some enc"
  shows "lastAppliedText C enc tid ns False = Some raw"
proof -
  let ?key = "if ns then ''namespace'' else ''name''"
  have N: "naming_ok C" and J: "json_ok C" using C by simp_all
  from f obtain applied metadata val where
    d: "json_Unmarshal C raw = Some applied" "obj_at applied ''metadata'' = Some metadata"
      "str_at metadata ?key = Some val" "val \<noteq> []" "raw \<noteq> []"
    by (auto simp: lastAppliedText_def Let_def split: if_splits option.splits)
  define rewritten where
    "rewritten = (if ns then UpstreamNamespace C tid val else AddTenantIDPrefix C tid val)"
  from ok d have v: "\<not> HasPrefix val (tprefix C tid)" and m: "json_Marshal C applied = Some raw"
    by (auto simp: lastApplied_ok_def)
  from f d have enc: "json_Marshal C
      (fmupd ''metadata'' (JObj (fmupd ?key (JStr rewritten) metadata)) applied) = Some enc"
    by (auto simp: lastAppliedText_def Let_def rewritten_def split: if_splits)
  have rw: "rewritten \<noteq> []" "TrimTenantIDPrefix C tid rewritten = val" "rewritten \<noteq> val"
    using N v d(4) by (auto simp: rewritten_def Upstream_def Add_def Trim_def tprefix_nonempty)
  have "fmupd ''metadata'' (JObj (fmupd ?key (JStr val) metadata)) applied = applied"
    using obj_at_SomeD [OF d(2)] str_at_SomeD [OF d(3)] by (simp add: fmupd_same)
  with Unmarshal_Marshal [OF J enc] rw m show ?thesis
    by (auto simp: lastAppliedText_def Let_def)
qed

lemma lastApplied_roundtrip:
  assumes "contract_ok C" "lastApplied_ok C tid ns la"
  shows "lastApplied_to C tid ns False (lastApplied_to C tid ns True la) = la"
proof (cases la)
  case (Some raw)
  with assms lastAppliedText_unprefixed_back [of C tid ns raw] lastAppliedText_roundtrip [of C tid ns raw]
  show ?thesis
    by (auto simp: lastApplied_to_def split: option.splits)
qed (simp add: lastApplied_to_def)

lemma owner_list_roundtrip:
  assumes "contract_ok C" "tid_ok tid"
    and "mapR (\<lambda>r. bindR (ownerReferenceTransformer_Forward C (Some r) tid) deref) rs = Inr rs'"
  shows "mapR (\<lambda>r. bindR (ownerReferenceTransformer_Backward C (Some r) tid) deref) rs' = Inr rs"
  using assms(3)
proof (rule mapR_roundtrip)
  fix r r'
  assume "bindR (ownerReferenceTransformer_Forward C (Some r) tid) deref = Inr r'"
  then have "ownerReferenceTransformer_Forward C (Some r) tid = Inr (Some r')"
    by (auto simp: bindR_Inr_iff)
  from owner.roundtrip [OF assms(1,2) TrueI this]
  show "bindR (ownerReferenceTransformer_Backward C (Some r') tid) deref = Inr r"
    by simp
qed

lemma ident_roundtrip:
  assumes "contract_ok C" "tid_ok tid" "ident_ok C tid ns I"
    and "ident_to_upstream C tid ns I = Inr J"
  shows "ident_to_tenant C tid ns J = Inr I"
  using assms owner_list_roundtrip [OF assms(1,2)] lastApplied_roundtrip [OF assms(1)]
  by (auto simp: ident_to_upstream_def ident_to_tenant_def ident_ok_def bindR_Inr_iff)

lemma Default_roundtrip:
  assumes "contract_ok C" "tid_ok tid" "default_ok C tid ns obj"
    and "DefaultConvertor_ConvertTenantObjectToUpstreamObject C obj tid ns = Inr obj'"
  shows "DefaultConvertor_ConvertUpstreamObjectToTenantObject C obj' tid ns = Inr obj"
  using assms ident_roundtrip [OF assms(1,2)]
  by (auto simp: Default_to_upstream_ident Default_to_tenant_ident default_ok_def bindR_Inr_iff
      split: if_splits)

subsection \<open>What a transformer promises\<close>

text \<open>
  A transformer that can be undone does not touch the identity of the object, does not let
  its well-spelledness depend on it, and its backward direction restores the object under
  whatever identity it then has.  The composition applies the backward direction of the
  default convertor first, so this is exactly what makes the composition reversible.
\<close>

locale object_transformer =
  fixes T :: "contract \<Rightarrow> ObjectTransformer"
    and ok :: "contract \<Rightarrow> string \<Rightarrow> robject \<Rightarrow> bool"
  assumes keeps_ident: "contract_ok C \<Longrightarrow> Forward (T C) obj tid = Inr obj' \<Longrightarrow>
      ident_of C (ro_Meta obj') = ident_of C (ro_Meta obj) \<and> is_status obj' = is_status obj"
    and ok_reident: "contract_ok C \<Longrightarrow> ok C tid (reident C I obj) = ok C tid obj"
    and undone: "contract_ok C \<Longrightarrow> tid_ok tid \<Longrightarrow> ok C tid obj \<Longrightarrow> Forward (T C) obj tid = Inr obj' \<Longrightarrow>
      Backward (T C) (reident C I obj') tid = Inr (reident C I obj)"
begin

lemma transformer_roundtrip:
  assumes "contract_ok C" "tid_ok tid" "ok C tid obj" "Forward (T C) obj tid = Inr obj'"
  shows "Backward (T C) obj' tid = Inr obj"
  using undone [OF assms, of "ident_of C (ro_Meta obj)"] keeps_ident [OF assms(1,4)]
  by (metis reident_simps(7))

lemma cross_roundtrip:
  assumes C: "contract_ok C" and tid: "tid_ok tid"
    and d: "default_ok C tid ns obj" and ok: "ok C tid obj"
    and f: "CrossReferenceConvertor_ConvertTenantObjectToUpstreamObject (NewDefaultConvertor C) (T C)
      obj tid ns = Inr obj'"
  shows "CrossReferenceConvertor_ConvertUpstreamObjectToTenantObject (NewDefaultConvertor C) (T C)
      obj' tid ns = Inr obj"
proof -
  from f d obtain I where
    I: "ident_to_upstream C tid ns (ident_of C (ro_Meta obj)) = Inr I" and
    t: "Forward (T C) (reident C I obj) tid = Inr obj'"
    by (auto simp: CrossReferenceConvertor_ConvertTenantObjectToUpstreamObject_def
        NewDefaultConvertor_def Default_to_upstream_ident default_ok_def bindR_Inr_iff)
  have status: "\<not> is_status obj" and iok: "ident_ok C tid ns (ident_of C (ro_Meta obj))"
    using d by (simp_all add: default_ok_def)
  from keeps_ident [OF C t] have "ident_of C (ro_Meta obj') = I" "\<not> is_status obj'"
    using status by simp_all
  moreover have "ident_to_tenant C tid ns I = Inr (ident_of C (ro_Meta obj))"
    using C tid iok I by (rule ident_roundtrip)
  moreover have "Backward (T C) (reident C (ident_of C (ro_Meta obj)) obj') tid = Inr obj"
    using undone [OF C tid _ t, of "ident_of C (ro_Meta obj)"] ok ok_reident [OF C] by simp
  ultimately show ?thesis
    by (simp add: CrossReferenceConvertor_ConvertUpstreamObjectToTenantObject_def
        NewDefaultConvertor_def Default_to_tenant_ident)
qed

end

text \<open>
  A convertor undoes itself on an object when what it sent upstream is read back as that object,
  and the object kept its kind, so that the registry picks the same convertor on the way back.
\<close>

definition undoes :: "contract \<Rightarrow> string \<Rightarrow> bool \<Rightarrow> ObjectConvertor \<Rightarrow> robject \<Rightarrow> bool" where
  "undoes C tid ns conv obj \<longleftrightarrow>
     (\<forall>obj'. ConvertTenantObjectToUpstreamObject conv obj tid ns = Inr obj' \<longrightarrow>
        GroupKindOf C obj' = GroupKindOf C obj \<and> ConvertUpstreamObjectToTenantObject conv obj' tid ns = Inr obj)"

lemma registry_roundtrip:
  assumes "undoes C tid ns (nativeConvertorOf C c obj) obj"
    and "nativeObjectConvertor_ConvertTenantObjectToUpstreamObject C c obj tid ns = Inr obj'"
  shows "nativeObjectConvertor_ConvertUpstreamObjectToTenantObject C c obj' tid ns = Inr obj"
  using assms
  by (auto simp: undoes_def nativeObjectConvertor_ConvertTenantObjectToUpstreamObject_def
      nativeObjectConvertor_ConvertUpstreamObjectToTenantObject_def nativeConvertorOf_def)

text \<open>
  A transformer of a native kind leaves the type of the object alone, so the conversion back
  finds the same convertor in the table.
\<close>

lemma GroupKindOf_cong:
  "ro_APIVersion a = ro_APIVersion b \<Longrightarrow> ro_Kind a = ro_Kind b \<Longrightarrow> GroupKindOf C a = GroupKindOf C b"
  by (simp add: GroupKindOf_def split: sum.split)

locale native_transformer = object_transformer +
  assumes keeps_type: "Forward (T C) obj tid = Inr obj' \<Longrightarrow>
      ro_APIVersion obj' = ro_APIVersion obj \<and> ro_Kind obj' = ro_Kind obj"
begin

lemma cross_keeps_kind:
  assumes "CrossReferenceConvertor_ConvertTenantObjectToUpstreamObject (NewDefaultConvertor C) (T C)
      obj tid ns = Inr obj'"
  shows "GroupKindOf C obj' = GroupKindOf C obj"
proof -
  from assms obtain I where "Forward (T C) (reident C I obj) tid = Inr obj'"
    by (auto simp: CrossReferenceConvertor_ConvertTenantObjectToUpstreamObject_def
        NewDefaultConvertor_def Default_to_upstream_ident bindR_Inr_iff split: if_splits)
  from keeps_type [OF this] show ?thesis by (intro GroupKindOf_cong) simp_all
qed

lemma cross_undoes:
  assumes "contract_ok C" "tid_ok tid" "default_ok C tid ns obj" "ok C tid obj"
  shows "undoes C tid ns (NewCrossReferenceConverter (NewDefaultConvertor C) (T C)) obj"
  using cross_keeps_kind cross_roundtrip [OF assms]
  by (auto simp: undoes_def NewCrossReferenceConverter_def)

end

text \<open>
  Most transformers work on the body of the object alone: neither direction looks at the
  metadata.  For those a plain round trip is enough.
\<close>

locale body_transformer =
  fixes T :: "contract \<Rightarrow> ObjectTransformer"
    and okb :: "contract \<Rightarrow> string \<Rightarrow> body \<Rightarrow> bool"
  assumes fwd_meta: "Forward (T C) obj tid = Inr obj' \<Longrightarrow>
      ro_Meta obj' = ro_Meta obj \<and> is_status obj' = is_status obj \<and>
      ro_APIVersion obj' = ro_APIVersion obj \<and> ro_Kind obj' = ro_Kind obj"
    and bwd_natural: "Backward (T C) obj tid = Inr obj' \<Longrightarrow>
      Backward (T C) (upd_meta f obj) tid = Inr (upd_meta f obj')"
    and plain: "contract_ok C \<Longrightarrow> tid_ok tid \<Longrightarrow> okb C tid (ro_Body obj) \<Longrightarrow>
      Forward (T C) obj tid = Inr obj' \<Longrightarrow> Backward (T C) obj' tid = Inr obj"

sublocale body_transformer \<subseteq> native_transformer T "\<lambda>C tid obj. okb C tid (ro_Body obj)"
proof
  fix C obj tid obj' I
  show "ident_of C (ro_Meta obj') = ident_of C (ro_Meta obj) \<and> is_status obj' = is_status obj"
    if "Forward (T C) obj tid = Inr obj'"
    using fwd_meta [OF that] by simp
  show "okb C tid (ro_Body (reident C I obj)) = okb C tid (ro_Body obj)"
    by simp
  show "Backward (T C) (reident C I obj') tid = Inr (reident C I obj)"
    if "contract_ok C" "tid_ok tid" "okb C tid (ro_Body obj)" "Forward (T C) obj tid = Inr obj'"
    using bwd_natural [OF plain [OF that]] by (simp add: reident_def)
  show "ro_APIVersion obj' = ro_APIVersion obj \<and> ro_Kind obj' = ro_Kind obj"
    if "Forward (T C) obj tid = Inr obj'"
    using fwd_meta [OF that] by simp
qed

text \<open>A kind without an entry in the table has the default convertor.\<close>

lemma default_undoes:
  assumes "contract_ok C" "tid_ok tid" "default_ok C tid ns obj"
  shows "undoes C tid ns (NewDefaultConvertor C) obj"
  using Default_roundtrip [OF assms]
  by (auto simp: undoes_def NewDefaultConvertor_def Default_to_upstream_ident bindR_Inr_iff
      intro: GroupKindOf_cong split: if_splits)

text \<open>
  A chain is undone by its reversal when every link is undone on the object it receives.
\<close>

fun chain_ok :: "(ObjectTransformer \<times> (robject \<Rightarrow> bool)) list \<Rightarrow> robject \<Rightarrow> string \<Rightarrow> bool" where
  "chain_ok [] obj tid = True"
| "chain_ok ((t, P) # c) obj tid =
     (P obj \<and> (\<forall>obj'. Forward t obj tid = Inr obj' \<longrightarrow> chain_ok c obj' tid))"

lemma chain_roundtrip:
  assumes "\<And>t P obj obj'. (t, P) \<in> set c \<Longrightarrow> P obj \<Longrightarrow> Forward t obj tid = Inr obj' \<Longrightarrow>
      Backward t obj' tid = Inr obj"
    and "chain_ok c obj tid" "transformerChain_Forward (map fst c) obj tid = Inr obj'"
  shows "transformerChain_Backward (map fst c) obj' tid = Inr obj"
  using assms
proof (induction c arbitrary: obj)
  case (Cons tp c)
  obtain t P where tp: "tp = (t, P)" by (cases tp)
  from Cons.prems(3) tp obtain obj1 where
    o1: "Forward t obj tid = Inr obj1" "transformerChain_Forward (map fst c) obj1 tid = Inr obj'"
    by (auto simp: bindR_Inr_iff)
  have "transformerChain_Backward (map fst c) obj' tid = Inr obj1"
    using Cons.IH [of obj1] Cons.prems o1 tp by auto
  moreover have "Backward t obj1 tid = Inr obj"
    using Cons.prems(1) [of t P obj obj1] Cons.prems(2) o1(1) tp by simp
  ultimately show ?case using tp by simp
qed simp

end
