(* ===== verification/Pod_Transformers.thy ===== *)
theory Pod_Transformers
  imports Default_Convertor
begin

text \<open>
  The transformers of package convert for the kinds that carry a pod template (placement.go,
  saprojection.go, dnsconfig.go): where the pods run, which namespace they believe to be in,
  and which name server they ask.  In Go podTemplateOf returns pointers into the object; here
  it returns the two parts and \<open>set_podTemplate\<close> writes them back.
\<close>

subsection \<open>The pod template of an object\<close>

definition podTemplateOf :: "robject \<Rightarrow> (ObjectMeta \<times> PodSpec) option result" where
  "podTemplateOf obj =
     (case ro_Body obj of
        PodB spec status \<Rightarrow> Inr (Some (ro_Meta obj, spec))
      | PodTemplateB t \<Rightarrow> Inr (Some (pt_ObjectMeta t, pt_Spec t))
      | ReplicationControllerB t rest \<Rightarrow>
          (case t of None \<Rightarrow> Inr None | Some t \<Rightarrow> Inr (Some (pt_ObjectMeta t, pt_Spec t)))
      | DeploymentB t rest \<Rightarrow> Inr (Some (pt_ObjectMeta t, pt_Spec t))
      | StatefulSetB t rest \<Rightarrow> Inr (Some (pt_ObjectMeta t, pt_Spec t))
      | DaemonSetB t rest \<Rightarrow> Inr (Some (pt_ObjectMeta t, pt_Spec t))
      | ReplicaSetB t rest \<Rightarrow> Inr (Some (pt_ObjectMeta t, pt_Spec t))
      | JobB t rest \<Rightarrow> Inr (Some (pt_ObjectMeta t, pt_Spec t))
      | CronJobB t rest \<Rightarrow> Inr (Some (pt_ObjectMeta t, pt_Spec t))
      | BindingB _ \<Rightarrow> Inr None
      | EvictionB _ \<Rightarrow> Inr None
      | ScaleB _ \<Rightarrow> Inr None
      | _ \<Rightarrow> Inl (Plain ''carries no pod template''))"

text \<open>Writing through the pointers.\<close>

definition set_podTemplate :: "ObjectMeta \<Rightarrow> PodSpec \<Rightarrow> robject \<Rightarrow> robject" where
  "set_podTemplate m s obj =
     (let t = \<lparr>pt_ObjectMeta = m, pt_Spec = s\<rparr> in
      case ro_Body obj of
        PodB spec status \<Rightarrow> obj\<lparr>ro_Meta := m, ro_Body := PodB s status\<rparr>
      | PodTemplateB _ \<Rightarrow> obj\<lparr>ro_Body := PodTemplateB t\<rparr>
      | ReplicationControllerB (Some _) rest \<Rightarrow> obj\<lparr>ro_Body := ReplicationControllerB (Some t) rest\<rparr>
      | DeploymentB _ rest \<Rightarrow> obj\<lparr>ro_Body := DeploymentB t rest\<rparr>
      | StatefulSetB _ rest \<Rightarrow> obj\<lparr>ro_Body := StatefulSetB t rest\<rparr>
      | DaemonSetB _ rest \<Rightarrow> obj\<lparr>ro_Body := DaemonSetB t rest\<rparr>
      | ReplicaSetB _ rest \<Rightarrow> obj\<lparr>ro_Body := ReplicaSetB t rest\<rparr>
      | JobB _ rest \<Rightarrow> obj\<lparr>ro_Body := JobB t rest\<rparr>
      | CronJobB _ rest \<Rightarrow> obj\<lparr>ro_Body := CronJobB t rest\<rparr>
      | _ \<Rightarrow> obj)"

definition podSpecOf :: "robject \<Rightarrow> PodSpec option result" where
  "podSpecOf obj = bindR (podTemplateOf obj) (\<lambda>t. Inr (map_option snd t))"

definition PodSpecOf :: "robject \<Rightarrow> PodSpec option result" where
  "PodSpecOf obj = podSpecOf obj"

definition isPod :: "robject \<Rightarrow> bool" where
  "isPod obj = (case ro_Body obj of PodB _ _ \<Rightarrow> True | _ \<Rightarrow> False)"

definition PodCarryingKinds :: "GroupKind list" where
  "PodCarryingKinds =
     [('''', ''Pod''), ('''', ''PodTemplate''), ('''', ''ReplicationController''),
      (''apps'', ''Deployment''), (''apps'', ''StatefulSet''), (''apps'', ''DaemonSet''),
      (''apps'', ''ReplicaSet''), (''batch'', ''Job''), (''batch'', ''CronJob'')]"

subsection \<open>Placement\<close>

definition place :: "contract \<Rightarrow> PodSpec \<Rightarrow> string \<Rightarrow> PodSpec" where
  "place C spec tenantID =
     (let pool = NodePoolFor C tenantID;
          seconds = UnreachableTolerationSeconds C
      in spec\<lparr>
        ps_NodeSelector := [NodePoolLabelKey C \<mapsto> pool],
        ps_Tolerations :=
          [\<lparr>tol_Key = NodePoolLabelKey C, tol_Operator = TolerationOpEqual, tol_Value = pool,
             tol_Effect = TaintEffectNoSchedule, tol_Seconds = None\<rparr>,
           \<lparr>tol_Key = TaintNodeNotReady C, tol_Operator = TolerationOpExists, tol_Value = [],
             tol_Effect = TaintEffectNoExecute, tol_Seconds = Some seconds\<rparr>,
           \<lparr>tol_Key = TaintNodeUnreachable C, tol_Operator = TolerationOpExists, tol_Value = [],
             tol_Effect = TaintEffectNoExecute, tol_Seconds = Some seconds\<rparr>],
        ps_SchedulerName := TenantSchedulerName C,
        ps_Affinity := None,
        ps_TopologySpreadConstraints := []\<rparr>)"

definition PlacementTransformer_Forward :: "contract \<Rightarrow> robject \<Rightarrow> string \<Rightarrow> robject result" where
  "PlacementTransformer_Forward C obj tenantID =
     bindR (podTemplateOf obj) (\<lambda>t.
       case t of None \<Rightarrow> Inr obj
       | Some (m, spec) \<Rightarrow>
         if isPod obj then Inr obj
         else Inr (set_podTemplate m ((place C spec tenantID)\<lparr>ps_NodeName := []\<rparr>) obj))"

definition PlacementTransformer_Backward :: "contract \<Rightarrow> robject \<Rightarrow> string \<Rightarrow> robject result" where
  "PlacementTransformer_Backward C obj tenantID = Inr obj"

definition NewPlacementTransformer :: "contract \<Rightarrow> ObjectTransformer" where
  "NewPlacementTransformer C = \<lparr>
     Forward = PlacementTransformer_Forward C, Backward = PlacementTransformer_Backward C\<rparr>"

text \<open>PlacePod runs on the pod itself, once it is about to be created upstream.\<close>

definition PlacePod :: "contract \<Rightarrow> robject \<Rightarrow> string \<Rightarrow> robject" where
  "PlacePod C pod tenantID =
     (case ro_Body pod of
        PodB spec status \<Rightarrow> pod\<lparr>ro_Body := PodB (place C spec tenantID) status\<rparr>
      | _ \<Rightarrow> pod)"

subsection \<open>The namespace a pod believes to be in\<close>

definition TenantNamespaceAnnotation :: string where
  "TenantNamespaceAnnotation = ''kubezoo.io/tenant-namespace''"

definition upstreamSAVolumePrefix :: string where
  "upstreamSAVolumePrefix = ''kube-api-access''"

definition kubezooSAVolumeName :: string where
  "kubezooSAVolumeName = upstreamSAVolumePrefix @ ''-kubezoo''"

definition rootCAConfigMap :: string where
  "rootCAConfigMap = ''kube-root-ca.crt''"

definition saTokenExpirationSeconds :: int where
  "saTokenExpirationSeconds = 3607"

definition tenantNamespaceFieldRef :: ObjectFieldSelector where
  "tenantNamespaceFieldRef = \<lparr>fs_APIVersion = ''v1'',
     fs_FieldPath = ''metadata.annotations['' @ [CHR 0x27] @ TenantNamespaceAnnotation @ [CHR 0x27] @ '']''\<rparr>"

definition tenantNamespaceTokenVolume :: "contract \<Rightarrow> ProjectedVolumeSource" where
  "tenantNamespaceTokenVolume C = \<lparr>
     pj_DefaultMode = Some (ProjectedVolumeSourceDefaultMode C),
     pj_Sources =
       [\<lparr>vp_ServiceAccountToken = Some (''token'', saTokenExpirationSeconds), vp_ConfigMap = None,
          vp_DownwardAPI = None, vp_Rest = []\<rparr>,
        \<lparr>vp_ServiceAccountToken = None, vp_ConfigMap = Some (rootCAConfigMap, [(''ca.crt'', ''ca.crt'')]),
          vp_DownwardAPI = None, vp_Rest = []\<rparr>,
        \<lparr>vp_ServiceAccountToken = None, vp_ConfigMap = None,
          vp_DownwardAPI = Some [\<lparr>da_Path = ''namespace'', da_FieldRef = Some tenantNamespaceFieldRef\<rparr>],
          vp_Rest = []\<rparr>]\<rparr>"

definition stampTenantNamespace :: "ObjectMeta \<Rightarrow> string \<Rightarrow> ObjectMeta" where
  "stampTenantNamespace meta tenantNamespace =
     (if tenantNamespace = [] then meta
      else meta\<lparr>om_Annotations := (om_Annotations meta)(TenantNamespaceAnnotation \<mapsto> tenantNamespace)\<rparr>)"

definition retargetSource :: "VolumeProjection \<Rightarrow> VolumeProjection" where
  "retargetSource s =
     (case vp_DownwardAPI s of None \<Rightarrow> s
      | Some items \<Rightarrow> s\<lparr>vp_DownwardAPI := Some (map (\<lambda>i. if da_Path i = ''namespace''
          then i\<lparr>da_FieldRef := Some tenantNamespaceFieldRef\<rparr> else i) items)\<rparr>)"

definition retargetNamespaceSource :: "Volume \<Rightarrow> Volume" where
  "retargetNamespaceSource v =
     (case vol_Projected v of None \<Rightarrow> v
      | Some p \<Rightarrow> v\<lparr>vol_Projected := Some (p\<lparr>pj_Sources := map retargetSource (pj_Sources p)\<rparr>)\<rparr>)"

definition is_saVolume :: "Volume \<Rightarrow> bool" where
  "is_saVolume v = HasPrefix (vol_Name v) (upstreamSAVolumePrefix @ ''-'')"

text \<open>saVolume returns a pointer to the first such volume; the update goes through it.\<close>

fun upd_saVolume :: "(Volume \<Rightarrow> Volume) \<Rightarrow> Volume list \<Rightarrow> Volume list" where
  "upd_saVolume f [] = []"
| "upd_saVolume f (v # vs) = (if is_saVolume v then f v # vs else v # upd_saVolume f vs)"

definition project ::
  "contract \<Rightarrow> ObjectMeta \<Rightarrow> PodSpec \<Rightarrow> string \<Rightarrow> ObjectMeta \<times> PodSpec" where
  "project C meta spec tenantNamespace =
     (if tenantNamespace = [] then (meta, spec)
      else let meta = stampTenantNamespace meta tenantNamespace in
        if ps_AutomountServiceAccountToken spec = Some False then (meta, spec)
        else if list_ex is_saVolume (ps_Volumes spec)
        then (meta, spec\<lparr>ps_Volumes := upd_saVolume retargetNamespaceSource (ps_Volumes spec)\<rparr>)
        else (meta, spec\<lparr>ps_Volumes := ps_Volumes spec @
          [\<lparr>vol_Name = kubezooSAVolumeName, vol_Projected = Some (tenantNamespaceTokenVolume C),
             vol_CSI = None, vol_Ephemeral = None, vol_Rest = []\<rparr>]\<rparr>))"

definition SATokenNamespaceTransformer_Forward :: "contract \<Rightarrow> robject \<Rightarrow> string \<Rightarrow> robject result" where
  "SATokenNamespaceTransformer_Forward C obj tenantID =
     bindR (podTemplateOf obj) (\<lambda>t.
       case t of None \<Rightarrow> Inr obj
       | Some (meta, spec) \<Rightarrow>
         let tenantNamespace = TrimTenantIDPrefix C tenantID (om_Namespace (ro_Meta obj)) in
         if isPod obj then Inr (set_podTemplate (stampTenantNamespace meta tenantNamespace) spec obj)
         else (case project C meta spec tenantNamespace of (meta, spec) \<Rightarrow>
           Inr (set_podTemplate meta spec obj)))"

definition SATokenNamespaceTransformer_Backward :: "contract \<Rightarrow> robject \<Rightarrow> string \<Rightarrow> robject result" where
  "SATokenNamespaceTransformer_Backward C obj tenantID =
     bindR (podTemplateOf obj) (\<lambda>t.
       case t of None \<Rightarrow> Inr obj
       | Some (meta, spec) \<Rightarrow>
         Inr (set_podTemplate (meta\<lparr>om_Annotations :=
           map_delete TenantNamespaceAnnotation (om_Annotations meta)\<rparr>) spec obj))"

definition NewSATokenNamespaceTransformer :: "contract \<Rightarrow> ObjectTransformer" where
  "NewSATokenNamespaceTransformer C = \<lparr>
     Forward = SATokenNamespaceTransformer_Forward C, Backward = SATokenNamespaceTransformer_Backward C\<rparr>"

definition ProjectPodNamespace :: "contract \<Rightarrow> robject \<Rightarrow> string \<Rightarrow> robject" where
  "ProjectPodNamespace C pod tenantID =
     (case ro_Body pod of
        PodB spec status \<Rightarrow>
          (case project C (ro_Meta pod) spec (TrimTenantIDPrefix C tenantID (om_Namespace (ro_Meta pod))) of
             (meta, spec) \<Rightarrow> pod\<lparr>ro_Meta := meta, ro_Body := PodB spec status\<rparr>)
      | _ \<Rightarrow> pod)"

subsection \<open>The name server of a tenant\<close>

record TenantDNS =
  td_Nameserver :: string
  td_ClusterDomain :: string

type_synonym TenantDNSFunc = "(string \<Rightarrow> TenantDNS option) option"

definition ndotsForClusterFirst :: string where
  "ndotsForClusterFirst = ''5''"

definition setTenantDNS :: "PodSpec \<Rightarrow> string \<Rightarrow> TenantDNSFunc \<Rightarrow> string \<Rightarrow> PodSpec" where
  "setTenantDNS spec tenantNamespace dnsFor tenantID =
     (case dnsFor of None \<Rightarrow> spec
      | Some lookup \<Rightarrow>
        if tenantNamespace = [] then spec
        else (case lookup tenantID of None \<Rightarrow> spec
          | Some dns \<Rightarrow>
            if td_Nameserver dns = [] \<or> td_ClusterDomain dns = [] then spec
            else spec\<lparr>ps_DNSPolicy := DNSNone,
              ps_DNSConfig := Some \<lparr>dns_Nameservers = [td_Nameserver dns],
                dns_Searches = [tenantNamespace @ ''.svc.'' @ td_ClusterDomain dns,
                  ''svc.'' @ td_ClusterDomain dns, td_ClusterDomain dns],
                dns_Options = [(''ndots'', Some ndotsForClusterFirst)]\<rparr>\<rparr>))"

definition DNSConfigTransformer_Forward ::
  "contract \<Rightarrow> TenantDNSFunc \<Rightarrow> robject \<Rightarrow> string \<Rightarrow> robject result" where
  "DNSConfigTransformer_Forward C dnsFor obj tenantID =
     bindR (podTemplateOf obj) (\<lambda>t.
       case t of None \<Rightarrow> Inr obj
       | Some (meta, spec) \<Rightarrow>
         if isPod obj then Inr obj
         else Inr (set_podTemplate meta (setTenantDNS spec
           (TrimTenantIDPrefix C tenantID (om_Namespace (ro_Meta obj))) dnsFor tenantID) obj))"

definition DNSConfigTransformer_Backward ::
  "contract \<Rightarrow> TenantDNSFunc \<Rightarrow> robject \<Rightarrow> string \<Rightarrow> robject result" where
  "DNSConfigTransformer_Backward C dnsFor obj tenantID = Inr obj"

definition NewDNSConfigTransformer :: "contract \<Rightarrow> TenantDNSFunc \<Rightarrow> ObjectTransformer" where
  "NewDNSConfigTransformer C dnsFor = \<lparr>
     Forward = DNSConfigTransformer_Forward C dnsFor, Backward = DNSConfigTransformer_Backward C dnsFor\<rparr>"

definition SetPodDNS :: "contract \<Rightarrow> robject \<Rightarrow> string \<Rightarrow> TenantDNSFunc \<Rightarrow> robject" where
  "SetPodDNS C pod tenantID dnsFor =
     (case ro_Body pod of
        PodB spec status \<Rightarrow> pod\<lparr>ro_Body := PodB (setTenantDNS spec
          (TrimTenantIDPrefix C tenantID (om_Namespace (ro_Meta pod))) dnsFor tenantID) status\<rparr>
      | _ \<Rightarrow> pod)"

subsection \<open>Reading and writing the template\<close>

lemma podTemplateOf_set [simp]:
  "podTemplateOf obj = Inr (Some ms) \<Longrightarrow> podTemplateOf (set_podTemplate m s obj) = Inr (Some (m, s))"
  by (cases "ro_Body obj")
     (auto simp: podTemplateOf_def set_podTemplate_def Let_def split: option.splits)

lemma set_podTemplate_set [simp]: "set_podTemplate m s (set_podTemplate m' s' obj) = set_podTemplate m s obj"
  by (cases "ro_Body obj") (auto simp: set_podTemplate_def Let_def split: option.splits)

lemma set_podTemplate_get: "podTemplateOf obj = Inr (Some (m, s)) \<Longrightarrow> set_podTemplate m s obj = obj"
  by (cases obj; cases "ro_Body obj")
     (auto simp: podTemplateOf_def set_podTemplate_def Let_def split: option.splits)

lemma isPod_set [simp]: "isPod (set_podTemplate m s obj) = isPod obj"
  by (cases "ro_Body obj") (auto simp: set_podTemplate_def isPod_def Let_def split: option.splits)

lemma meta_set_podTemplate [simp]:
  "\<not> isPod obj \<Longrightarrow> ro_Meta (set_podTemplate m s obj) = ro_Meta obj"
  by (cases "ro_Body obj") (auto simp: set_podTemplate_def isPod_def Let_def split: option.splits)

subsection \<open>Placement\<close>

text \<open>The placement of a spec: everything that decides on which node the pod runs.\<close>

definition placed :: "contract \<Rightarrow> string \<Rightarrow> PodSpec \<Rightarrow> bool" where
  "placed C tid s \<longleftrightarrow>
     ps_NodeSelector s = [NodePoolLabelKey C \<mapsto> NodePoolFor C tid] \<and>
     (\<forall>t\<in>set (ps_Tolerations s). tol_Key t \<in> {NodePoolLabelKey C, TaintNodeNotReady C, TaintNodeUnreachable C} \<and>
        (tol_Key t = NodePoolLabelKey C \<and> NodePoolLabelKey C \<notin> {TaintNodeNotReady C, TaintNodeUnreachable C} \<longrightarrow>
           tol_Operator t = TolerationOpEqual \<and> tol_Value t = NodePoolFor C tid)) \<and>
     ps_SchedulerName s = TenantSchedulerName C \<and>
     ps_Affinity s = None \<and> ps_TopologySpreadConstraints s = []"

lemma place_placed [simp]: "placed C tid (place C s tid)"
  by (auto simp: placed_def place_def Let_def)

lemma place_idem [simp]: "place C (place C s tid) tid = place C s tid"
  by (simp add: place_def Let_def)

lemma placed_NodeName [simp]: "placed C tid (s\<lparr>ps_NodeName := n\<rparr>) = placed C tid s"
  by (simp add: placed_def)

lemma Placement_Forward_eq:
  assumes "podTemplateOf obj = Inr (Some (m, s))" "\<not> isPod obj"
  shows "PlacementTransformer_Forward C obj tid =
    Inr (set_podTemplate m ((place C s tid)\<lparr>ps_NodeName := []\<rparr>) obj)"
  using assms by (simp add: PlacementTransformer_Forward_def)

lemma Placement_Forward_placed:
  assumes "PlacementTransformer_Forward C obj tid = Inr obj'" "\<not> isPod obj"
    and "podTemplateOf obj' = Inr (Some (m, s))"
  shows "placed C tid s \<and> ps_NodeName s = []"
proof -
  from assms(1) obtain t where t: "podTemplateOf obj = Inr t"
    by (auto simp: PlacementTransformer_Forward_def bindR_Inr_iff)
  then obtain m0 s0 where "t = Some (m0, s0)"
    using assms by (cases t) (auto simp: PlacementTransformer_Forward_def)
  with t assms Placement_Forward_eq [of obj m0 s0 C tid] show ?thesis
    by auto
qed

lemma Placement_Forward_idem:
  assumes "PlacementTransformer_Forward C obj tid = Inr obj'"
  shows "PlacementTransformer_Forward C obj' tid = Inr obj'"
proof (cases "podTemplateOf obj")
  case (Inr t)
  show ?thesis
  proof (cases t)
    case None
    with assms Inr show ?thesis by (auto simp: PlacementTransformer_Forward_def)
  next
    case (Some ms)
    obtain m s where ms: "ms = (m, s)" by (cases ms)
    have re: "place C ((place C s tid)\<lparr>ps_NodeName := []\<rparr>) tid = (place C s tid)\<lparr>ps_NodeName := []\<rparr>"
      by (simp add: place_def Let_def)
    show ?thesis
      using assms Inr Some ms re by (cases "isPod obj") (auto simp: PlacementTransformer_Forward_def)
  qed
qed (use assms in \<open>simp add: PlacementTransformer_Forward_def\<close>)

subsection \<open>The projected namespace\<close>

lemma retargetSource_idem [simp]: "retargetSource (retargetSource s) = retargetSource s"
  by (auto simp: retargetSource_def split: option.splits)

lemma retarget_idem [simp]: "retargetNamespaceSource (retargetNamespaceSource v) = retargetNamespaceSource v"
  by (auto simp: retargetNamespaceSource_def split: option.splits)

lemma retarget_name [simp]: "vol_Name (retargetNamespaceSource v) = vol_Name v"
  by (simp add: retargetNamespaceSource_def split: option.split)

lemma is_saVolume_retarget [simp]: "is_saVolume (retargetNamespaceSource v) = is_saVolume v"
  by (simp add: is_saVolume_def)

lemma upd_saVolume_idem [simp]:
  "upd_saVolume retargetNamespaceSource (upd_saVolume retargetNamespaceSource vs) = upd_saVolume retargetNamespaceSource vs"
  by (induction vs) auto

lemma list_ex_upd_saVolume [simp]:
  "list_ex is_saVolume (upd_saVolume retargetNamespaceSource vs) = list_ex is_saVolume vs"
  by (induction vs) auto

lemma is_saVolume_kubezoo: "vol_Name v = kubezooSAVolumeName \<Longrightarrow> is_saVolume v"
  by (simp add: is_saVolume_def kubezooSAVolumeName_def upstreamSAVolumePrefix_def HasPrefix_def)

lemma retarget_token_volume:
  "vol_Projected v = Some (tenantNamespaceTokenVolume C) \<Longrightarrow> retargetNamespaceSource v = v"
  by (cases v) (simp add: retargetNamespaceSource_def tenantNamespaceTokenVolume_def retargetSource_def)

lemma upd_saVolume_append:
  "\<not> list_ex is_saVolume vs \<Longrightarrow> upd_saVolume f (vs @ ws) = vs @ upd_saVolume f ws"
  by (induction vs) auto

lemma stamp_idem [simp]: "stampTenantNamespace (stampTenantNamespace m ns) ns = stampTenantNamespace m ns"
  by (simp add: stampTenantNamespace_def)

text \<open>Projecting twice is projecting once: reapplying an unchanged manifest changes nothing.\<close>

lemma project_idem:
  assumes "project C m s ns = (m', s')"
  shows "project C m' s' ns = (m', s')"
  using assms
  by (auto simp: project_def Let_def upd_saVolume_append retarget_token_volume is_saVolume_kubezoo
      split: if_splits)

lemma project_annotation:
  "ns \<noteq> [] \<Longrightarrow> project C m s ns = (m', s') \<Longrightarrow> om_Annotations m' TenantNamespaceAnnotation = Some ns"
  by (auto simp: project_def stampTenantNamespace_def Let_def split: if_splits)

lemma SAToken_Forward_idem:
  assumes "SATokenNamespaceTransformer_Forward C obj tid = Inr obj'"
  shows "SATokenNamespaceTransformer_Forward C obj' tid = Inr obj'"
proof (cases "podTemplateOf obj")
  case (Inr t)
  show ?thesis
  proof (cases t)
    case None
    with assms Inr show ?thesis by (auto simp: SATokenNamespaceTransformer_Forward_def)
  next
    case (Some ms)
    obtain m s where ms: "ms = (m, s)" by (cases ms)
    let ?ns = "TrimTenantIDPrefix C tid (om_Namespace (ro_Meta obj))"
    obtain m' s' where p: "project C m s ?ns = (m', s')" by (cases "project C m s ?ns")
    show ?thesis
    proof (cases "isPod obj")
      case True
      with Inr Some ms have "m = ro_Meta obj"
        by (cases "ro_Body obj") (auto simp: podTemplateOf_def isPod_def)
      with True assms Inr Some ms show ?thesis
        by (cases "ro_Body obj")
          (auto simp: SATokenNamespaceTransformer_Forward_def Let_def set_podTemplate_def isPod_def
            podTemplateOf_def stampTenantNamespace_def)
    next
      case False
      with assms Inr Some ms p project_idem [OF p] show ?thesis
        by (auto simp: SATokenNamespaceTransformer_Forward_def Let_def)
    qed
  qed
qed (use assms in \<open>simp add: SATokenNamespaceTransformer_Forward_def\<close>)

end
