(* ===== verification/Hidden_Metadata.thy ===== *)
theory Hidden_Metadata
  imports Pod_Transformers
begin

text \<open>
  hiddenmeta.go: metadata keys of the platform are removed from what a tenant reads (Strip) and
  put back into what it writes (Restore).  A compiled pattern is the set of keys it matches; the
  regexp compiler is an argument of NewHiddenMetadata.
\<close>

subsection \<open>Definitions\<close>

definition PlatformMetadataPattern :: string where
  "PlatformMetadataPattern = ''^kubezoo'' @ [CHR 0x5C] @ ''.io/''"

definition lastAppliedKey :: string where
  "lastAppliedKey = ''kubectl.kubernetes.io/last-applied-configuration''"

record HiddenMetadata =
  hm_patterns :: "(string \<Rightarrow> bool) list"

type_synonym regexp_compiler = "string \<Rightarrow> (string \<Rightarrow> bool) result"

fun NewHiddenMetadata_loop :: "regexp_compiler \<Rightarrow> string list \<Rightarrow> HiddenMetadata \<Rightarrow> HiddenMetadata result" where
  "NewHiddenMetadata_loop regexp_Compile [] h = Inr h"
| "NewHiddenMetadata_loop regexp_Compile (p # ps) h =
     (if p = [] then NewHiddenMetadata_loop regexp_Compile ps h
      else bindR (regexp_Compile p) (\<lambda>compiled.
        NewHiddenMetadata_loop regexp_Compile ps (h\<lparr>hm_patterns := hm_patterns h @ [compiled]\<rparr>)))"

definition NewHiddenMetadata :: "regexp_compiler \<Rightarrow> string list \<Rightarrow> HiddenMetadata result" where
  "NewHiddenMetadata regexp_Compile extra =
     NewHiddenMetadata_loop regexp_Compile ([PlatformMetadataPattern] @ extra) \<lparr>hm_patterns = []\<rparr>"

text \<open>The receiver may be the nil pointer.\<close>

definition hides :: "HiddenMetadata option \<Rightarrow> string \<Rightarrow> bool" where
  "hides h key = (case h of None \<Rightarrow> False | Some h \<Rightarrow> list_ex (\<lambda>p. p key) (hm_patterns h))"

definition withoutHidden :: "HiddenMetadata option \<Rightarrow> strmap \<Rightarrow> strmap" where
  "withoutHidden h m = map_hide (hides h) m"

definition restoreHidden :: "HiddenMetadata option \<Rightarrow> strmap \<Rightarrow> strmap \<Rightarrow> strmap" where
  "restoreHidden h submitted stored = withoutHidden h submitted ++ map_hide (\<lambda>k. \<not> hides h k) stored"

text \<open>One field of the metadata inside the annotation, and whether it lost a key.\<close>

definition stripField :: "HiddenMetadata option \<Rightarrow> string \<Rightarrow> json_object \<times> bool \<Rightarrow> json_object \<times> bool" where
  "stripField h field acc = (case acc of (metadata, changed) \<Rightarrow>
     (case obj_at metadata field of None \<Rightarrow> (metadata, changed)
      | Some m \<Rightarrow> (fmupd field (JObj (fmfilter (\<lambda>k. \<not> hides h k) m)) metadata,
          changed \<or> fBex (fmdom m) (hides h))))"

text \<open>The text the annotation is rewritten to; None where the code leaves it alone.\<close>

definition strippedText :: "contract \<Rightarrow> HiddenMetadata option \<Rightarrow> string \<Rightarrow> string option" where
  "strippedText C h raw =
     (if raw = [] then None else
      (case json_Unmarshal C raw of None \<Rightarrow> None
       | Some applied \<Rightarrow>
         (case obj_at applied ''metadata'' of None \<Rightarrow> None
          | Some metadata \<Rightarrow>
            (case fold (stripField h) [''annotations'', ''labels''] (metadata, False) of (metadata, changed) \<Rightarrow>
               if \<not> changed then None
               else json_Marshal C (fmupd ''metadata'' (JObj metadata) applied)))))"

definition stripLastApplied :: "contract \<Rightarrow> HiddenMetadata option \<Rightarrow> strmap \<Rightarrow> strmap" where
  "stripLastApplied C h annotations =
     (case annotations lastAppliedKey of None \<Rightarrow> annotations
      | Some raw \<Rightarrow>
        (case strippedText C h raw of None \<Rightarrow> annotations
         | Some encoded \<Rightarrow> annotations(lastAppliedKey \<mapsto> encoded)))"

text \<open>What a request carries: one object, or the items of a list.\<close>

datatype runtime_object = Single robject | ListOf "robject list"

definition forEachObject :: "HiddenMetadata option \<Rightarrow> (robject \<Rightarrow> robject) \<Rightarrow> runtime_object \<Rightarrow> runtime_object" where
  "forEachObject h fn obj =
     (if h = None then obj
      else (case obj of
          ListOf items \<Rightarrow> ListOf (map (\<lambda>o'. if is_status o' then o' else fn o') items)
        | Single o' \<Rightarrow> Single (if is_status o' then o' else fn o')))"

definition stripMeta :: "contract \<Rightarrow> HiddenMetadata option \<Rightarrow> ObjectMeta \<Rightarrow> ObjectMeta" where
  "stripMeta C h m = m\<lparr>
     om_Annotations := stripLastApplied C h (withoutHidden h (om_Annotations m)),
     om_Labels := withoutHidden h (om_Labels m)\<rparr>"

definition stripPodTemplate :: "contract \<Rightarrow> HiddenMetadata option \<Rightarrow> robject \<Rightarrow> robject" where
  "stripPodTemplate C h obj =
     (case podTemplateOf obj of
        Inl _ \<Rightarrow> obj
      | Inr None \<Rightarrow> obj
      | Inr (Some (template, spec)) \<Rightarrow> set_podTemplate (stripMeta C h template) spec obj)"

definition Strip :: "contract \<Rightarrow> HiddenMetadata option \<Rightarrow> runtime_object \<Rightarrow> runtime_object" where
  "Strip C h obj =
     forEachObject h (stripPodTemplate C h) (forEachObject h (upd_meta (stripMeta C h)) obj)"

definition Restore :: "HiddenMetadata option \<Rightarrow> runtime_object \<Rightarrow> robject option \<Rightarrow> runtime_object" where
  "Restore h obj old =
     (let stored = (case old of
          None \<Rightarrow> (Map.empty, Map.empty)
        | Some old \<Rightarrow> if is_status old then (Map.empty, Map.empty)
            else (om_Annotations (ro_Meta old), om_Labels (ro_Meta old)))
      in forEachObject h (upd_meta (\<lambda>m. m\<lparr>
           om_Annotations := restoreHidden h (om_Annotations m) (fst stored),
           om_Labels := restoreHidden h (om_Labels m) (snd stored)\<rparr>)) obj)"

subsection \<open>The compiled patterns\<close>

text \<open>What the gateway relies on of the regexp compiler: the pattern of the platform is a prefix test.\<close>

definition platform_prefix :: string where
  "platform_prefix = ''kubezoo.io/''"

definition regexp_ok :: "regexp_compiler \<Rightarrow> bool" where
  "regexp_ok regexp_Compile \<longleftrightarrow>
     (\<exists>p. regexp_Compile PlatformMetadataPattern = Inr p \<and> (\<forall>k. p k = HasPrefix k platform_prefix))"

lemma loop_patterns:
  "NewHiddenMetadata_loop rc ps h = Inr h' \<longleftrightarrow>
     (\<exists>cs. mapR rc (filter (\<lambda>p. p \<noteq> []) ps) = Inr cs \<and> h' = \<lparr>hm_patterns = hm_patterns h @ cs\<rparr>)"
  by (induction ps arbitrary: h) (auto simp: bindR_Inr_iff)

lemma PlatformMetadataPattern_nonempty [simp]: "PlatformMetadataPattern \<noteq> []"
  by (simp add: PlatformMetadataPattern_def)

lemma NewHiddenMetadata_hides:
  assumes "NewHiddenMetadata rc extra = Inr h"
  shows "hides (Some h) k \<longleftrightarrow>
    (\<exists>p\<in>set (PlatformMetadataPattern # extra). p \<noteq> [] \<and> (\<exists>c. rc p = Inr c \<and> c k))"
proof -
  from assms obtain cs where
    cs: "mapR rc (filter (\<lambda>p. p \<noteq> []) (PlatformMetadataPattern # extra)) = Inr cs" "hm_patterns h = cs"
    unfolding NewHiddenMetadata_def loop_patterns by auto
  then show ?thesis using mapR_set [OF cs(1)] by (auto simp: hides_def list_ex_iff)
qed

lemma NewHiddenMetadata_platform:
  "regexp_ok rc \<Longrightarrow> NewHiddenMetadata rc extra = Inr h \<Longrightarrow> HasPrefix k platform_prefix \<Longrightarrow> hides (Some h) k"
  by (auto simp: NewHiddenMetadata_hides regexp_ok_def)

lemma NewHiddenMetadata_error:
  "(\<exists>e. NewHiddenMetadata rc extra = Inl e) \<longleftrightarrow>
     (\<exists>p\<in>set (PlatformMetadataPattern # extra). p \<noteq> [] \<and> (\<exists>e. rc p = Inl e))"
proof -
  have "(\<exists>e. NewHiddenMetadata rc extra = Inl e) \<longleftrightarrow> (\<nexists>h. NewHiddenMetadata rc extra = Inr h)"
    by (cases "NewHiddenMetadata rc extra") auto
  also have "\<dots> \<longleftrightarrow> (\<nexists>cs. mapR rc (filter (\<lambda>p. p \<noteq> []) (PlatformMetadataPattern # extra)) = Inr cs)"
    unfolding NewHiddenMetadata_def loop_patterns by auto
  also have "\<dots> \<longleftrightarrow> (\<exists>e. mapR rc (filter (\<lambda>p. p \<noteq> []) (PlatformMetadataPattern # extra)) = Inl e)"
    by (cases "mapR rc (filter (\<lambda>p. p \<noteq> []) (PlatformMetadataPattern # extra))") auto
  finally show ?thesis unfolding mapR_Inl_iff by auto
qed

subsection \<open>Reading\<close>

lemma withoutHidden_apply [simp]: "withoutHidden h m k = (if hides h k then None else m k)"
  by (simp add: withoutHidden_def)

text \<open>Metadata without a trace of a hidden key, the copy inside kubectl's annotation included.\<close>

definition text_clean :: "contract \<Rightarrow> HiddenMetadata option \<Rightarrow> string \<Rightarrow> bool" where
  "text_clean C h raw \<longleftrightarrow>
     (\<forall>applied metadata field m. raw \<noteq> [] \<longrightarrow> json_Unmarshal C raw = Some applied \<longrightarrow>
        obj_at applied ''metadata'' = Some metadata \<longrightarrow> field \<in> {''annotations'', ''labels''} \<longrightarrow>
        obj_at metadata field = Some m \<longrightarrow> \<not> fBex (fmdom m) (hides h))"

definition applied_clean :: "contract \<Rightarrow> HiddenMetadata option \<Rightarrow> strmap \<Rightarrow> bool" where
  "applied_clean C h anns \<longleftrightarrow> (\<forall>raw. anns lastAppliedKey = Some raw \<longrightarrow> text_clean C h raw)"

definition meta_clean :: "contract \<Rightarrow> HiddenMetadata option \<Rightarrow> ObjectMeta \<Rightarrow> bool" where
  "meta_clean C h m \<longleftrightarrow>
     (\<forall>k. hides h k \<longrightarrow> om_Labels m k = None \<and> om_Annotations m k = None) \<and> applied_clean C h (om_Annotations m)"

lemma fmfilter_clean: "\<not> fBex (fmdom (fmfilter (\<lambda>k. \<not> P k) m)) P"
  by (auto simp: fmfilter_alt_defs)

lemma fmfilter_same: "\<not> fBex (fmdom m) P \<Longrightarrow> fmfilter (\<lambda>k. \<not> P k) m = m"
  by (rule fmap_ext) (auto simp: fmdom_notI fmdomI)

lemma stripFields_clean:
  assumes "fold (stripField h) [''annotations'', ''labels''] (metadata, False) = (metadata', changed)"
    and "field \<in> {''annotations'', ''labels''}" "obj_at metadata' field = Some m"
  shows "\<not> fBex (fmdom m) (hides h)"
  using assms fmfilter_clean [where P = "hides h"]
  by (auto simp: stripField_def split: option.splits)

lemma stripFields_unchanged:
  assumes "fold (stripField h) [''annotations'', ''labels''] (metadata, False) = (metadata', False)"
    and "field \<in> {''annotations'', ''labels''}" "obj_at metadata field = Some m"
  shows "\<not> fBex (fmdom m) (hides h)"
  using assms by (auto simp: stripField_def split: option.splits)

lemma stripFields_changed:
  assumes "fold (stripField h) [''annotations'', ''labels''] (metadata, False) = (metadata', True)"
  shows "\<exists>field\<in>{''annotations'', ''labels''}. \<exists>m. obj_at metadata field = Some m \<and> fBex (fmdom m) (hides h)"
  using assms by (auto simp: stripField_def split: option.splits)

lemma strippedText_Some:
  assumes C: "json_ok C" and s: "strippedText C h raw = Some enc"
  shows "text_clean C h enc"
proof -
  from s obtain applied metadata metadata' where
    f: "fold (stripField h) [''annotations'', ''labels''] (metadata, False) = (metadata', True)" and
    m: "json_Marshal C (fmupd ''metadata'' (JObj metadata') applied) = Some enc"
    by (auto simp: strippedText_def split: option.splits if_splits prod.splits)
  from Unmarshal_Marshal [OF C m] have "json_Unmarshal C enc = Some (fmupd ''metadata'' (JObj metadata') applied)" ..
  then show ?thesis
    using stripFields_clean [OF f] unfolding text_clean_def by (intro allI impI) (metis obj_at_upd option.inject)
qed

lemma strippedText_None:
  assumes C: "json_ok C" and s: "strippedText C h raw = None"
  shows "text_clean C h raw"
  unfolding text_clean_def
proof (intro allI impI)
  fix applied metadata field m
  assume *: "raw \<noteq> []" "json_Unmarshal C raw = Some applied" "obj_at applied ''metadata'' = Some metadata"
    "field \<in> {''annotations'', ''labels''}" "obj_at metadata field = Some m"
  obtain metadata' changed where
    f: "fold (stripField h) [''annotations'', ''labels''] (metadata, False) = (metadata', changed)"
    by (cases "fold (stripField h) [''annotations'', ''labels''] (metadata, False)")
  obtain enc where "json_Marshal C (fmupd ''metadata'' (JObj metadata') applied) = Some enc"
    using Marshal_total [OF C] by blast
  with s * f have "\<not> changed" unfolding strippedText_def by (simp split: if_splits)
  with f stripFields_unchanged [of h metadata metadata' field m] * show "\<not> fBex (fmdom m) (hides h)" by simp
qed

lemma strippedText_clean: "text_clean C h raw \<Longrightarrow> strippedText C h raw = None"
proof (rule ccontr)
  assume clean: "text_clean C h raw" and "strippedText C h raw \<noteq> None"
  then obtain applied metadata metadata' where "raw \<noteq> []" "json_Unmarshal C raw = Some applied"
    "obj_at applied ''metadata'' = Some metadata"
    "fold (stripField h) [''annotations'', ''labels''] (metadata, False) = (metadata', True)"
    unfolding strippedText_def by (auto split: option.splits if_splits prod.splits)
  with clean stripFields_changed [of h metadata metadata'] show False unfolding text_clean_def by blast
qed

lemma stripLastApplied_other [simp]: "k \<noteq> lastAppliedKey \<Longrightarrow> stripLastApplied C h anns k = anns k"
  by (simp add: stripLastApplied_def split: option.split)

lemma stripLastApplied_None: "anns lastAppliedKey = None \<Longrightarrow> stripLastApplied C h anns = anns"
  by (simp add: stripLastApplied_def)

lemma stripLastApplied_clean: "json_ok C \<Longrightarrow> applied_clean C h (stripLastApplied C h anns)"
  by (auto simp: applied_clean_def stripLastApplied_def strippedText_Some strippedText_None split: option.split)

lemma stripLastApplied_same: "applied_clean C h anns \<Longrightarrow> stripLastApplied C h anns = anns"
  by (auto simp: applied_clean_def stripLastApplied_def strippedText_clean split: option.split)

lemma stripMeta_clean:
  assumes "json_ok C"
  shows "meta_clean C h (stripMeta C h m)"
proof -
  have "stripLastApplied C h (withoutHidden h (om_Annotations m)) k = None" if "hides h k" for k
    using that by (cases "k = lastAppliedKey") (simp_all add: stripLastApplied_None)
  then show ?thesis using stripLastApplied_clean [OF assms] by (simp add: meta_clean_def stripMeta_def)
qed

lemma stripMeta_same: "meta_clean C h m \<Longrightarrow> stripMeta C h m = m"
proof -
  assume clean: "meta_clean C h m"
  then have w: "withoutHidden h (om_Labels m) = om_Labels m" "withoutHidden h (om_Annotations m) = om_Annotations m"
    by (auto simp: meta_clean_def fun_eq_iff)
  with clean show ?thesis by (simp add: stripMeta_def stripLastApplied_same meta_clean_def)
qed


lemma stripPodTemplate_pod: "isPod obj \<Longrightarrow> stripPodTemplate C h obj = upd_meta (stripMeta C h) obj"
  by (cases obj; cases "ro_Body obj")
     (auto simp: stripPodTemplate_def isPod_def podTemplateOf_def set_podTemplate_def upd_meta_def)

lemma stripPodTemplate_meta [simp]: "\<not> isPod obj \<Longrightarrow> ro_Meta (stripPodTemplate C h obj) = ro_Meta obj"
  by (auto simp: stripPodTemplate_def split: sum.split option.split)

lemma podTemplateOf_upd_meta:
  "\<not> isPod obj \<Longrightarrow> podTemplateOf (upd_meta f obj) = podTemplateOf obj"
  by (cases "ro_Body obj") (auto simp: podTemplateOf_def isPod_def split: option.split)

lemma podTemplateOf_strip:
  assumes "podTemplateOf (stripPodTemplate C h obj) = Inr (Some (t, s))"
  shows "\<exists>t0. podTemplateOf obj = Inr (Some (t0, s)) \<and> t = stripMeta C h t0"
proof (cases "podTemplateOf obj")
  case (Inr r)
  with assms show ?thesis by (cases r) (auto simp: stripPodTemplate_def)
qed (use assms in \<open>simp add: stripPodTemplate_def\<close>)

lemma isPod_stripPodTemplate [simp]: "isPod (stripPodTemplate C h obj) = isPod obj"
  by (simp add: stripPodTemplate_def split: sum.split option.split)

lemma isPod_upd_meta [simp]: "isPod (upd_meta f obj) = isPod obj"
  by (simp add: isPod_def)

text \<open>Strip on one object is this function.\<close>

definition strip_one :: "contract \<Rightarrow> HiddenMetadata option \<Rightarrow> robject \<Rightarrow> robject" where
  "strip_one C h obj = stripPodTemplate C h (upd_meta (stripMeta C h) obj)"

lemma is_status_set_podTemplate [simp]: "is_status (set_podTemplate m s obj) = is_status obj"
  by (cases "ro_Body obj") (auto simp: set_podTemplate_def is_status_def Let_def split: option.splits)

lemma is_status_stripPodTemplate [simp]: "is_status (stripPodTemplate C h obj) = is_status obj"
  by (simp add: stripPodTemplate_def split: sum.split option.split)

lemma Strip_Single:
  "Strip C (Some h) (Single obj) = Single (if is_status obj then obj else strip_one C (Some h) obj)"
  by (simp add: Strip_def forEachObject_def strip_one_def)

lemma Strip_ListOf:
  "Strip C (Some h) (ListOf objs) = ListOf (map (\<lambda>o'. if is_status o' then o' else strip_one C (Some h) o') objs)"
  by (auto simp: Strip_def forEachObject_def strip_one_def)

text \<open>An object in which nothing of the platform shows.\<close>

definition object_clean :: "contract \<Rightarrow> HiddenMetadata option \<Rightarrow> robject \<Rightarrow> bool" where
  "object_clean C h obj \<longleftrightarrow>
     meta_clean C h (ro_Meta obj) \<and>
     (\<forall>t s. podTemplateOf obj = Inr (Some (t, s)) \<longrightarrow> meta_clean C h t)"

lemma podTemplateOf_pod: "isPod obj \<Longrightarrow> podTemplateOf obj = Inr (Some (t, s)) \<Longrightarrow> t = ro_Meta obj"
  by (cases "ro_Body obj") (auto simp: podTemplateOf_def isPod_def)

lemma strip_one_meta:
  assumes "json_ok C"
  shows "ro_Meta (strip_one C h obj) = stripMeta C h (ro_Meta obj)"
  using stripMeta_same [OF stripMeta_clean [OF assms]]
  by (cases "isPod obj") (simp_all add: strip_one_def stripPodTemplate_pod)

lemma strip_one_clean:
  assumes C: "json_ok C"
  shows "object_clean C h (strip_one C h obj)"
proof -
  have "meta_clean C h t" if "podTemplateOf (strip_one C h obj) = Inr (Some (t, s))" for t s
  proof -
    from that obtain t0 where "t = stripMeta C h t0"
      unfolding strip_one_def by (auto dest: podTemplateOf_strip)
    then show ?thesis using stripMeta_clean [OF C] by simp
  qed
  then show ?thesis by (simp add: object_clean_def strip_one_meta [OF C] stripMeta_clean [OF C])
qed

lemma strip_one_same:
  assumes "object_clean C h obj"
  shows "strip_one C h obj = obj"
proof -
  have m: "upd_meta (stripMeta C h) obj = obj"
    using assms stripMeta_same by (cases obj) (auto simp: upd_meta_def object_clean_def)
  have "stripPodTemplate C h obj = obj"
    using assms by (auto simp: stripPodTemplate_def object_clean_def stripMeta_same set_podTemplate_get
        split: sum.split option.split)
  with m show ?thesis by (simp add: strip_one_def)
qed

subsection \<open>Writing\<close>

lemma restoreHidden_apply [simp]:
  "restoreHidden h submitted stored k = (if hides h k then stored k else submitted k)"
  by (simp add: restoreHidden_def map_add_def split: option.split)

lemma restoreHidden_empty: "restoreHidden h submitted Map.empty = withoutHidden h submitted"
  by (rule ext) simp

definition restore_one :: "HiddenMetadata option \<Rightarrow> robject \<Rightarrow> robject \<Rightarrow> robject" where
  "restore_one h obj old = upd_meta (\<lambda>m. m\<lparr>
     om_Annotations := restoreHidden h (om_Annotations m) (om_Annotations (ro_Meta old)),
     om_Labels := restoreHidden h (om_Labels m) (om_Labels (ro_Meta old))\<rparr>) obj"

lemma Restore_Single:
  "\<not> is_status obj \<Longrightarrow> \<not> is_status old \<Longrightarrow>
     Restore (Some h) (Single obj) (Some old) = Single (restore_one (Some h) obj old)"
  by (simp add: Restore_def forEachObject_def restore_one_def)

lemma Restore_Single_create:
  "\<not> is_status obj \<Longrightarrow> Restore (Some h) (Single obj) None = Single (upd_meta (\<lambda>m. m\<lparr>
     om_Annotations := withoutHidden (Some h) (om_Annotations m), om_Labels := withoutHidden (Some h) (om_Labels m)\<rparr>) obj)"
  by (simp add: Restore_def forEachObject_def restoreHidden_empty)

text \<open>Reading an object and writing it back loses nothing the platform stored in its metadata.\<close>

lemma restore_strip:
  assumes "json_ok C"
  shows "om_Labels (ro_Meta (restore_one h (strip_one C h obj) obj)) = om_Labels (ro_Meta obj)"
    and "k \<noteq> lastAppliedKey \<Longrightarrow>
      om_Annotations (ro_Meta (restore_one h (strip_one C h obj) obj)) k = om_Annotations (ro_Meta obj) k"
  by (auto simp: restore_one_def strip_one_meta [OF assms] stripMeta_def fun_eq_iff)

text \<open>Restore does not look at the pod template: what Strip took from it stays lost.\<close>

lemma template_label_lost:
  assumes "podTemplateOf obj = Inr (Some (t, s))" "\<not> isPod obj" "hides h k"
  shows "\<exists>t'. podTemplateOf (restore_one h (strip_one C h obj) obj) = Inr (Some (t', s)) \<and> om_Labels t' k = None"
proof -
  have "podTemplateOf (strip_one C h obj) = Inr (Some (stripMeta C h t, s))"
    using assms(1,2) by (simp add: strip_one_def stripPodTemplate_def podTemplateOf_upd_meta)
  moreover have "\<not> isPod (strip_one C h obj)" using assms(2) by (simp add: strip_one_def)
  ultimately show ?thesis
    using assms(3) by (simp add: restore_one_def podTemplateOf_upd_meta stripMeta_def)
qed

end
