(* ===== verification/Upstream.thy ===== *)
theory Upstream
  imports Hidden_Metadata "HOL-Library.Multiset"
begin

text \<open>
  What the proxy talks to: the request it serves (a Go context), the API server of the upstream
  cluster behind the dynamic client, the lister of Tenant objects, and the functions of the
  module kubezoo-contract that work on lists and list options.  The API server and these
  functions are parameters; its state has the type variable \<open>'s\<close>.
\<close>

subsection \<open>The request\<close>

record RequestInfo =
  ri_Verb :: string
  ri_Namespace :: string
  ri_Name :: string

record User =
  us_Name :: string
  us_Extra :: "string \<rightharpoonup> string list"

text \<open>
  What the code reads from the context: TenantFrom, RequestInfoFrom, UserFrom, IsApplyPatch and
  ApplyForceFrom.
\<close>

record Context =
  cx_Tenant :: "string option"
  cx_RequestInfo :: "RequestInfo option"
  cx_User :: "User option"
  cx_IsApplyPatch :: bool
  cx_ApplyForce :: bool

subsection \<open>The upstream API server\<close>

record GroupVersionKind =
  gvk_Group :: string
  gvk_Version :: string
  gvk_Kind :: string

record GroupVersionResource =
  gvr_Group :: string
  gvr_Version :: string
  gvr_Resource :: string

record ListOptions =
  lo_LabelSelector :: string
  lo_FieldSelector :: string
  lo_Limit :: int
  lo_Continue :: string
  lo_ResourceVersion :: string
  lo_ResourceVersionMatch :: string
  lo_AllowWatchBookmarks :: bool
  lo_SendInitialEvents :: "bool option"
  lo_TimeoutSeconds :: "int option"
  lo_Rest :: opaque

definition empty_ListOptions :: ListOptions where
  "empty_ListOptions = \<lparr>lo_LabelSelector = [], lo_FieldSelector = [], lo_Limit = 0, lo_Continue = [],
     lo_ResourceVersion = [], lo_ResourceVersionMatch = [], lo_AllowWatchBookmarks = False,
     lo_SendInitialEvents = None, lo_TimeoutSeconds = None, lo_Rest = []\<rparr>"

record UnstructuredList =
  ul_APIVersion :: string
  ul_ResourceVersion :: string
  ul_Continue :: string
  ul_RemainingItemCount :: "int option"
  ul_Items :: "robject list"

text \<open>
  The dynamic client.  Every call is made as a user on a resource, in a namespace (empty for a
  cluster-wide call), and a write returns its result and the new state.  A name, an options
  argument and a subresource follow.  The boolean of Update is whether the call created the
  object, that of Delete whether it is gone already.
\<close>

record Target =
  tg_User :: "User option"
  tg_Resource :: GroupVersionResource
  tg_Namespace :: string

record WriteOptions =
  wo_FieldManager :: string
  wo_DryRun :: "string list"
  wo_Rest :: opaque

record PatchOptions =
  po_FieldManager :: string
  po_DryRun :: "string list"
  po_Force :: bool

record 's upstream =
  up_Get :: "'s \<Rightarrow> Target \<Rightarrow> string \<Rightarrow> opaque \<Rightarrow> string \<Rightarrow> robject result"
  up_List :: "'s \<Rightarrow> Target \<Rightarrow> ListOptions \<Rightarrow> UnstructuredList result"
  up_Create :: "'s \<Rightarrow> Target \<Rightarrow> robject \<Rightarrow> WriteOptions \<Rightarrow> robject result \<times> 's"
  up_CreateSubresource :: "'s \<Rightarrow> Target \<Rightarrow> string \<Rightarrow> robject \<Rightarrow> WriteOptions \<Rightarrow> string \<Rightarrow> robject result \<times> 's"
  up_Update :: "'s \<Rightarrow> Target \<Rightarrow> robject \<Rightarrow> WriteOptions \<Rightarrow> string \<Rightarrow> (robject \<times> bool) result \<times> 's"
  up_UpdateStatus :: "'s \<Rightarrow> Target \<Rightarrow> robject \<Rightarrow> WriteOptions \<Rightarrow> robject result \<times> 's"
  up_Delete :: "'s \<Rightarrow> Target \<Rightarrow> string \<Rightarrow> opaque \<Rightarrow> string \<Rightarrow> (robject \<times> bool) result \<times> 's"
  up_Patch :: "'s \<Rightarrow> Target \<Rightarrow> string \<Rightarrow> robject \<Rightarrow> PatchOptions \<Rightarrow> robject result \<times> 's"

subsection \<open>The conversion scheme\<close>

text \<open>
  Server-side apply relies on structured-merge-diff: sets of field paths, objects typed against a
  schema, their comparison (what was added and what was modified) and the extraction of the
  fields of a set.  The typed value is the object with the operations of its schema.
\<close>

type_synonym fieldset = "string list set"

record TypedValue =
  tv_object :: robject
  tv_Compare :: "robject \<Rightarrow> (fieldset \<times> fieldset) result"
  tv_ExtractItems :: "fieldset \<Rightarrow> robject option"

type_synonym TypeConverter = "robject \<Rightarrow> TypedValue result"

text \<open>
  The scheme of Kubernetes: a fresh object of a kind, the conversions between the versioned, the
  internal and the unstructured form.  An object has the same record in every form, so a
  conversion that succeeds is expected to return it as it is.
\<close>

record scheme =
  sch_New :: "GroupVersionKind \<Rightarrow> robject result"
  sch_FromUnstructured :: "robject \<Rightarrow> robject \<Rightarrow> robject result"
  sch_Convert :: "robject \<Rightarrow> robject \<Rightarrow> robject result"
  sch_ConvertToVersion :: "GroupVersionKind \<Rightarrow> robject \<Rightarrow> robject result"
  sch_ToUnstructured :: "robject \<Rightarrow> robject result"
  sch_ListFromUnstructured :: "GroupVersionKind \<Rightarrow> UnstructuredList \<Rightarrow> UnstructuredList result"
  sch_FieldsFromJSON :: "string \<Rightarrow> fieldset result"
  sch_Leaves :: "fieldset \<Rightarrow> fieldset"
  sch_deducedTypeConverter :: TypeConverter

definition scheme_ok :: "scheme \<Rightarrow> bool" where
  "scheme_ok S \<longleftrightarrow>
     (\<forall>u orig v. sch_FromUnstructured S u orig = Inr v \<longrightarrow> v = u) \<and>
     (\<forall>v out w. sch_Convert S v out = Inr w \<longrightarrow> w = v) \<and>
     (\<forall>k obj v. sch_ConvertToVersion S k obj = Inr v \<longrightarrow> v = obj) \<and>
     (\<forall>v u. sch_ToUnstructured S v = Inr u \<longrightarrow> u = v) \<and>
     (\<forall>k l l'. sch_ListFromUnstructured S k l = Inr l' \<longrightarrow> l' = l)"

subsection \<open>Functions of the contract module on requests and lists\<close>

record request_util =
  TenantAdminUser :: "string \<Rightarrow> string"
  TenantIDKey :: string
  FilterUnstructuredList :: "UnstructuredList \<Rightarrow> string \<Rightarrow> bool \<Rightarrow> UnstructuredList"
  TrimTenantIDFromStatus :: "robject \<Rightarrow> string \<Rightarrow> robject"
  OptimisticLockErrorMsg :: string
  ConvertInternalListOptions :: "Context \<Rightarrow> ListOptions \<Rightarrow> string \<Rightarrow> bool \<Rightarrow> GroupVersionKind \<Rightarrow> ListOptions result"

text \<open>What the proxy calls, in one record.\<close>

record 's env =
  ev_contract :: contract
  ev_util :: request_util
  ev_scheme :: scheme
  ev_client :: "'s upstream"

definition asTenantAdmin :: "'s env \<Rightarrow> Context \<Rightarrow> string \<Rightarrow> Context" where
  "asTenantAdmin E ctx tenantID =
     (case cx_User ctx of None \<Rightarrow> ctx
      | Some caller \<Rightarrow> ctx\<lparr>cx_User := Some \<lparr>us_Name = TenantAdminUser (ev_util E) tenantID,
          us_Extra = (us_Extra caller)(TenantIDKey (ev_util E) \<mapsto> [tenantID])\<rparr>\<rparr>)"

definition namespaceGVR :: GroupVersionResource where
  "namespaceGVR = \<lparr>gvr_Group = [], gvr_Version = ''v1'', gvr_Resource = ''namespaces''\<rparr>"

definition crdGVR :: GroupVersionResource where
  "crdGVR = \<lparr>gvr_Group = ''apiextensions.k8s.io'', gvr_Version = ''v1'', gvr_Resource = ''customresourcedefinitions''\<rparr>"

definition podGVR :: GroupVersionResource where
  "podGVR = \<lparr>gvr_Group = [], gvr_Version = ''v1'', gvr_Resource = ''pods''\<rparr>"

definition maxFannedNamespaces :: nat where
  "maxFannedNamespaces = 500"

text \<open>sort.Strings compares byte by byte.\<close>

fun bytes_le :: "string \<Rightarrow> string \<Rightarrow> bool" where
  "bytes_le [] _ = True"
| "bytes_le (_ # _) [] = False"
| "bytes_le (x # xs) (y # ys) =
     (of_char x < (of_char y :: nat) \<or> x = y \<and> bytes_le xs ys)"

fun insert_string :: "string \<Rightarrow> string list \<Rightarrow> string list" where
  "insert_string x [] = [x]"
| "insert_string x (y # ys) = (if bytes_le x y then x # y # ys else y # insert_string x ys)"

definition sort_Strings :: "string list \<Rightarrow> string list" where
  "sort_Strings xs = foldr insert_string xs []"

lemma mset_insert_string [simp]: "mset (insert_string x xs) = add_mset x (mset xs)"
  by (induction xs) auto

lemma mset_sort_Strings [simp]: "mset (sort_Strings xs) = mset xs"
  unfolding sort_Strings_def by (induction xs) auto

lemma set_sort_Strings [simp]: "set (sort_Strings xs) = set xs"
  using mset_sort_Strings [of xs] by (metis set_mset_mset)

lemma length_sort_Strings [simp]: "length (sort_Strings xs) = length xs"
  using mset_sort_Strings [of xs] by (metis size_mset)

text \<open>tenantNamespaces: the namespaces of the tenant in order, and the revision they were read at.\<close>

definition tenantNamespaces ::
  "'s env \<Rightarrow> 's \<Rightarrow> Context \<Rightarrow> string \<Rightarrow> string \<Rightarrow> (string list \<times> string) result" where
  "tenantNamespaces E s ctx0 tenantID atRevision =
     (let ctx = asTenantAdmin E ctx0 tenantID;
          options = empty_ListOptions\<lparr>lo_LabelSelector :=
            TenantNamespaceLabelKey (ev_contract E) @ ''='' @ tenantID\<rparr>;
          options = (if atRevision \<noteq> [] then options\<lparr>lo_ResourceVersion := atRevision,
            lo_ResourceVersionMatch := ''Exact''\<rparr> else options)
      in bindR (up_List (ev_client E) s \<lparr>tg_User = cx_User ctx, tg_Resource = namespaceGVR, tg_Namespace = []\<rparr> options) (\<lambda>l.
         if length (ul_Items l) > maxFannedNamespaces then Inl (BadRequest ''too many namespaces'')
         else Inr (sort_Strings (map (\<lambda>item. om_Name (ro_Meta item)) (ul_Items l)), ul_ResourceVersion l)))"

subsection \<open>Tenants and their capacity\<close>

record TenantCapacity =
  cap_MaxNamespaces :: "int option"
  cap_MaxCRDs :: "int option"
  cap_MaxClusterRoleBindings :: "int option"

text \<open>The lister may be nil; a Tenant has an optional capacity.\<close>

type_synonym TenantLister = "(string \<Rightarrow> TenantCapacity option result) option"

definition capacityOf :: "TenantLister \<Rightarrow> string \<Rightarrow> int \<Rightarrow> (TenantCapacity \<Rightarrow> int option) \<Rightarrow> int" where
  "capacityOf tenants tenantID fallback pick =
     (case tenants of None \<Rightarrow> fallback
      | Some get \<Rightarrow>
        if tenantID = [] then fallback
        else (case get tenantID of
            Inl _ \<Rightarrow> fallback
          | Inr None \<Rightarrow> fallback
          | Inr (Some capacity) \<Rightarrow>
            (case pick capacity of None \<Rightarrow> fallback
             | Some v \<Rightarrow> if v < 0 then fallback else v)))"

definition maxNamespacesFor :: "TenantLister \<Rightarrow> string \<Rightarrow> int \<Rightarrow> int" where
  "maxNamespacesFor tenants tenantID fallback = capacityOf tenants tenantID fallback cap_MaxNamespaces"

definition maxCRDsFor :: "TenantLister \<Rightarrow> string \<Rightarrow> int \<Rightarrow> int" where
  "maxCRDsFor tenants tenantID fallback = capacityOf tenants tenantID fallback cap_MaxCRDs"

definition maxClusterRoleBindingsFor :: "TenantLister \<Rightarrow> string \<Rightarrow> int \<Rightarrow> int" where
  "maxClusterRoleBindingsFor tenants tenantID fallback = capacityOf tenants tenantID fallback cap_MaxClusterRoleBindings"

text \<open>A missing, unreadable or negative capacity is the default of the platform, never no limit.\<close>

lemma capacityOf_cases:
  "capacityOf tenants tid fallback pick = fallback \<or>
     (\<exists>get cap v. tenants = Some get \<and> get tid = Inr (Some cap) \<and> pick cap = Some v \<and> 0 \<le> v \<and>
        capacityOf tenants tid fallback pick = v)"
  by (auto simp: capacityOf_def split: option.splits sum.splits)

lemma capacityOf_nonneg: "0 \<le> fallback \<Longrightarrow> 0 \<le> capacityOf tenants tid fallback pick"
  using capacityOf_cases [of tenants tid fallback pick] by auto

end
