(* ===== verification/Go_Net.thy ===== *)
theory Go_Net
  imports Prelude
begin

text \<open>
  net.ParseIP of the Go standard library, as far as the gateway asks: whether a text is an IP
  address.  The structure is that of netip.ParseAddr, which net.ParseIP calls: the first dot or
  colon decides between the two families, a zone is not accepted.
\<close>

definition is_digit :: "char \<Rightarrow> bool" where
  "is_digit c \<longleftrightarrow> of_char c \<in> {48..57::nat}"

definition digit_val :: "char \<Rightarrow> nat" where
  "digit_val c = of_char c - 48"

definition is_hex :: "char \<Rightarrow> bool" where
  "is_hex c \<longleftrightarrow> of_char c \<in> {48..57::nat} \<union> {65..70} \<union> {97..102}"

text \<open>The loop of parseIPv4Fields: the value and the digits of the current octet, the octets before it.\<close>

fun parseIPv4Fields :: "string \<Rightarrow> nat \<Rightarrow> nat \<Rightarrow> nat \<Rightarrow> bool" where
  "parseIPv4Fields [] val digLen pos \<longleftrightarrow> pos = 3 \<and> digLen > 0"
| "parseIPv4Fields (c # s) val digLen pos \<longleftrightarrow>
     (if is_digit c then
        \<not> (digLen = 1 \<and> val = 0) \<and> val * 10 + digit_val c \<le> 255 \<and>
        parseIPv4Fields s (val * 10 + digit_val c) (digLen + 1) pos
      else c = CHR ''.'' \<and> digLen > 0 \<and> pos < 3 \<and> parseIPv4Fields s 0 0 (pos + 1))"

text \<open>
  The loop of parseIPv6: the bytes written so far (counted in steps of two) and whether an
  ellipsis was seen.
\<close>

function parseIPv6_loop :: "string \<Rightarrow> nat \<Rightarrow> bool \<Rightarrow> bool" where
  "parseIPv6_loop s i ellipsis \<longleftrightarrow>
     (if i \<ge> 16 then s = [] \<and> \<not> ellipsis
      else
        let digits = takeWhile is_hex s; rest = dropWhile is_hex s in
        if digits = [] \<or> length digits > 4 then False
        else case rest of
            [] \<Rightarrow> i + 2 = 16 \<and> \<not> ellipsis \<or> i + 2 < 16 \<and> ellipsis
          | c # rest' \<Rightarrow>
            if c = CHR ''.'' then
              (ellipsis \<or> i = 12) \<and> i + 4 \<le> 16 \<and> parseIPv4Fields s 0 0 0 \<and>
              (i + 4 = 16 \<and> \<not> ellipsis \<or> i + 4 < 16 \<and> ellipsis)
            else if c \<noteq> CHR '':'' \<or> rest' = [] then False
            else if hd rest' = CHR '':'' then
              \<not> ellipsis \<and>
              (if tl rest' = [] then i + 2 < 16 else parseIPv6_loop (tl rest') (i + 2) True)
            else parseIPv6_loop rest' (i + 2) ellipsis)"
  by pat_completeness auto
termination by (relation "measure (\<lambda>(s, i, e). 16 - i)") auto

definition parseIPv6 :: "string \<Rightarrow> bool" where
  "parseIPv6 s =
     (case s of
        c # d # s' \<Rightarrow>
          if c = CHR '':'' \<and> d = CHR '':'' then s' = [] \<or> parseIPv6_loop s' 0 True
          else parseIPv6_loop s 0 False
      | _ \<Rightarrow> parseIPv6_loop s 0 False)"

fun ParseAddr_family :: "string \<Rightarrow> char option" where
  "ParseAddr_family [] = None"
| "ParseAddr_family (c # s) = (if c \<in> {CHR ''.'', CHR '':'', CHR ''%''} then Some c else ParseAddr_family s)"

definition ParseIP :: "string \<Rightarrow> bool" where
  "ParseIP s =
     (case ParseAddr_family s of
        None \<Rightarrow> False
      | Some c \<Rightarrow>
        if c = CHR ''.'' then parseIPv4Fields s 0 0 0
        else if c = CHR '':'' then CHR ''%'' \<notin> set s \<and> parseIPv6 s
        else False)"

declare parseIPv6_loop.simps [simp del]

text \<open>An address is never the empty text and never the literal None of a headless service.\<close>

lemma ParseIP_nonempty: "ParseIP s \<Longrightarrow> s \<noteq> []"
  by (auto simp: ParseIP_def)

lemma ParseIP_not_None: "\<not> ParseIP ''None''"
  by (simp add: ParseIP_def)

end
