(* ===== verification/Service_Rules.thy ===== *)
theory Service_Rules
  imports Objects Go_Net
begin

text \<open>
  service.go: what a tenant may ask of the ports and addresses of a Service, and the cluster
  address it is shown in place of the one of the upstream cluster.
\<close>

subsection \<open>Definitions\<close>

text \<open>A Service as the internal API has it: its metadata and its spec.\<close>

type_synonym Service = "ObjectMeta \<times> ServiceSpec"

definition NodePortsAreNew :: "ServiceSpec \<Rightarrow> ServiceSpec option \<Rightarrow> bool" where
  "NodePortsAreNew svc old =
     (let stored = (case old of None \<Rightarrow> {}
          | Some old \<Rightarrow> set (filter (\<lambda>n. n \<noteq> 0) (map sp_NodePort (svc_Ports old))))
      in list_ex (\<lambda>p. sp_NodePort p \<noteq> 0 \<and> sp_NodePort p \<notin> stored) (svc_Ports svc) \<or>
         svc_HealthCheckNodePort svc \<noteq> 0 \<and>
         (case old of None \<Rightarrow> True
          | Some old \<Rightarrow> svc_HealthCheckNodePort old \<noteq> svc_HealthCheckNodePort svc))"

definition ExternalIPsAreNew :: "ServiceSpec \<Rightarrow> ServiceSpec option \<Rightarrow> bool" where
  "ExternalIPsAreNew svc old =
     (if svc_ExternalIPs svc = [] then False
      else let stored = (case old of None \<Rightarrow> {} | Some old \<Rightarrow> set (svc_ExternalIPs old))
           in list_ex (\<lambda>ip. ip \<notin> stored) (svc_ExternalIPs svc))"

definition ClusterIPNone :: string where
  "ClusterIPNone = ''None''"

definition ClusterIPAnnotation :: string where
  "ClusterIPAnnotation = ''kubezoo.io/cluster-ip''"

text \<open>The second result of the Go function is whether there is an address: an option here.\<close>

definition TenantClusterIPFrom :: "strmap \<Rightarrow> string \<Rightarrow> string option" where
  "TenantClusterIPFrom annotations clusterIP =
     (if clusterIP = ClusterIPNone \<or> clusterIP = [] then None
      else let address = (case annotations ClusterIPAnnotation of None \<Rightarrow> [] | Some a \<Rightarrow> a) in
        if address = [] \<or> \<not> ParseIP address then None
        else if address = clusterIP then None
        else Some address)"

definition TenantClusterIP :: "Service option \<Rightarrow> string option" where
  "TenantClusterIP svc =
     (case svc of None \<Rightarrow> None
      | Some (m, spec) \<Rightarrow> TenantClusterIPFrom (om_Annotations m) (svc_ClusterIP spec))"

text \<open>The updated spec, or None where the Go function returns false.\<close>

definition RestoreUpstreamClusterIP :: "ServiceSpec \<Rightarrow> Service option \<Rightarrow> ServiceSpec option" where
  "RestoreUpstreamClusterIP svc old =
     (case old of None \<Rightarrow> Some svc
      | Some (m, old) \<Rightarrow>
        if svc_ClusterIP svc = [] \<or> svc_ClusterIP svc = ClusterIPNone
        then (if svc_ClusterIP svc = svc_ClusterIP old then Some svc else None)
        else if svc_ClusterIP svc = svc_ClusterIP old then Some svc
        else (case TenantClusterIP (Some (m, old)) of None \<Rightarrow> None
          | Some shown \<Rightarrow>
            if svc_ClusterIP svc \<noteq> shown then None
            else let svc = svc\<lparr>svc_ClusterIP := svc_ClusterIP old\<rparr> in
              Some (if svc_ClusterIPs svc \<noteq> []
                then svc\<lparr>svc_ClusterIPs := (svc_ClusterIPs svc)[0 := svc_ClusterIP old]\<rparr> else svc)))"

subsection \<open>Ports and external addresses\<close>

text \<open>The node ports a service occupies.\<close>

definition node_ports :: "ServiceSpec \<Rightarrow> int set" where
  "node_ports svc = sp_NodePort ` set (svc_Ports svc) - {0}"

lemma NodePortsAreNew_iff:
  "\<not> NodePortsAreNew svc old \<longleftrightarrow>
     node_ports svc \<subseteq> (case old of None \<Rightarrow> {} | Some old \<Rightarrow> node_ports old) \<and>
     svc_HealthCheckNodePort svc \<in> {0} \<union> (case old of None \<Rightarrow> {} | Some old \<Rightarrow> {svc_HealthCheckNodePort old})"
  by (auto simp: NodePortsAreNew_def node_ports_def list_ex_iff Let_def split: option.splits)

lemma ExternalIPsAreNew_iff:
  "\<not> ExternalIPsAreNew svc old \<longleftrightarrow>
     set (svc_ExternalIPs svc) \<subseteq> (case old of None \<Rightarrow> {} | Some old \<Rightarrow> set (svc_ExternalIPs old))"
  by (auto simp: ExternalIPsAreNew_def list_ex_iff Let_def split: option.splits)

text \<open>Along a sequence of permitted updates a service never gains a port or an address.\<close>

lemma NodePorts_trans:
  "\<not> NodePortsAreNew b (Some a) \<Longrightarrow> \<not> NodePortsAreNew c (Some b) \<Longrightarrow> \<not> NodePortsAreNew c (Some a)"
  by (auto simp: NodePortsAreNew_iff)

lemma ExternalIPs_trans:
  "\<not> ExternalIPsAreNew b (Some a) \<Longrightarrow> \<not> ExternalIPsAreNew c (Some b) \<Longrightarrow> \<not> ExternalIPsAreNew c (Some a)"
  by (auto simp: ExternalIPsAreNew_iff)

subsection \<open>The cluster address\<close>

lemma TenantClusterIPFrom_Some:
  "TenantClusterIPFrom anns ip = Some a \<longleftrightarrow>
     anns ClusterIPAnnotation = Some a \<and> ParseIP a \<and> a \<noteq> ip \<and> ip \<noteq> [] \<and> ip \<noteq> ClusterIPNone"
  by (auto simp: TenantClusterIPFrom_def Let_def dest: ParseIP_nonempty split: option.splits)

text \<open>The spec a tenant is shown for a stored service.\<close>

definition shown_spec :: "Service \<Rightarrow> ServiceSpec" where
  "shown_spec svc = (case TenantClusterIP (Some svc) of None \<Rightarrow> snd svc
     | Some a \<Rightarrow> (snd svc)\<lparr>svc_ClusterIP := a, svc_ClusterIPs :=
         (if svc_ClusterIPs (snd svc) = [] then [] else (svc_ClusterIPs (snd svc))[0 := a])\<rparr>)"

lemma Restore_shown:
  assumes "svc_ClusterIPs spec = [] \<or> hd (svc_ClusterIPs spec) = svc_ClusterIP spec"
  shows "RestoreUpstreamClusterIP (shown_spec (m, spec)) (Some (m, spec)) = Some spec"
proof (cases "TenantClusterIP (Some (m, spec))")
  case None
  then show ?thesis by (simp add: shown_spec_def RestoreUpstreamClusterIP_def)
next
  case (Some a)
  then have a: "ParseIP a" "a \<noteq> svc_ClusterIP spec"
    by (simp_all add: TenantClusterIP_def TenantClusterIPFrom_Some)
  then have "a \<noteq> [] \<and> a \<noteq> ClusterIPNone"
    using ParseIP_nonempty ParseIP_not_None by (auto simp: ClusterIPNone_def)
  with Some a assms show ?thesis
    by (cases "svc_ClusterIPs spec") (auto simp: shown_spec_def RestoreUpstreamClusterIP_def)
qed

lemma Restore_result:
  assumes "RestoreUpstreamClusterIP svc (Some (m, old)) = Some svc'"
  shows "svc_ClusterIP svc' = svc_ClusterIP old"
  using assms by (auto simp: RestoreUpstreamClusterIP_def Let_def split: if_splits option.splits)

end
