(* ===== verification/Example_Contract.thy ===== *)
theory Example_Contract
  imports Contract "HOL-Library.Countable"
begin

text \<open>
  A contract with a function in every field: the naming scheme with a dash, service account
  names of the form system:serviceaccount:ns:name, a core API group with its cluster-scoped
  kinds, and an injective codec for documents.  It satisfies the laws of the theory Contract; the closed instances of the properties are evaluated in it.
\<close>

definition ex_prefix :: "string \<Rightarrow> string" where
  "ex_prefix tid = tid @ ''-''"

definition ex_SplitUsername :: "string \<Rightarrow> (string \<times> string) option" where
  "ex_SplitUsername u =
     (if HasPrefix u sa_user_prefix then
        (case Cut (TrimPrefix u sa_user_prefix) '':'' of (ns, n, found) \<Rightarrow>
           if found \<and> ns \<noteq> [] \<and> CHR '':'' \<notin> set ns then Some (ns, n) else None)
      else None)"

definition ex_checkGroupKind ::
  "string \<Rightarrow> string \<Rightarrow> string \<Rightarrow> bool \<Rightarrow> (bool \<times> bool) result" where
  "ex_checkGroupKind g k tid tenantObject =
     (if g = '''' then Inr (k \<notin> {''Namespace'', ''Node'', ''PersistentVolume''}, False)
      else if g = ''apps'' then Inr (True, False)
      else if tenantObject then
        (if HasPrefix g (ex_prefix tid) then Inl (Plain ''no such group'') else Inr (True, True))
      else if HasPrefix g (ex_prefix tid) then Inr (True, True)
      else Inl (Plain ''no such group''))"

definition ex_ParseGroupVersion :: "string \<Rightarrow> (string \<times> string) result" where
  "ex_ParseGroupVersion gv =
     (case Cut gv ''/'' of (b, a, found) \<Rightarrow>
        if \<not> found then Inr ('''', gv)
        else if CHR ''/'' \<in> set a then Inl (Plain ''unexpected GroupVersion'') else Inr (b, a))"

text \<open>
  The codec numbers the documents: a document is a tree over association lists, the trees
  are countable, and the text of a document is its number in unary.
\<close>

datatype jtree =
    TNull
  | TBool bool
  | TNum string
  | TStr string
  | TArr "jtree list"
  | TObj "(string \<times> jtree) list"

instance jtree :: countable
  by countable_datatype

definition list_of_fmap :: "('a, 'b) fmap \<Rightarrow> ('a \<times> 'b) list" where
  "list_of_fmap m = (SOME xs. fmap_of_list xs = m)"

primrec to_tree :: "json \<Rightarrow> jtree" where
  "to_tree JNull = TNull"
| "to_tree (JBool b) = TBool b"
| "to_tree (JNum s) = TNum s"
| "to_tree (JStr s) = TStr s"
| "to_tree (JArr xs) = TArr (map to_tree xs)"
| "to_tree (JObj m) = TObj (list_of_fmap (fmmap to_tree m))"

definition ex_encode :: "json_object \<Rightarrow> string" where
  "ex_encode o' = replicate (Suc (to_nat (to_tree (JObj o')))) CHR ''1''"

definition ex_Marshal :: "json_object \<Rightarrow> string option" where
  "ex_Marshal o' = Some (ex_encode o')"

definition ex_Unmarshal :: "string \<Rightarrow> json_object option" where
  "ex_Unmarshal raw = (if raw \<in> range ex_encode then Some (inv ex_encode raw) else None)"

definition example_contract :: contract where
  "example_contract = \<lparr>
     TenantIDSeparator = ''-'',
     AddTenantIDPrefix = (\<lambda>tid s. ex_prefix tid @ s),
     TrimTenantIDPrefix = (\<lambda>tid s. TrimPrefix s (ex_prefix tid)),
     UpstreamNamespace = (\<lambda>tid s.
       if s = [] \<or> HasPrefix s (ex_prefix tid) then s else ex_prefix tid @ s),
     NamespaceNameForTenant = (\<lambda>tid s. if s = [] then Some (BadRequest ''empty name'') else None),
     IsNativeAPIGroup = (\<lambda>g. g \<in> {'''', ''apps''}),
     checkGroupKind = ex_checkGroupKind,
     ParseGroupVersion = ex_ParseGroupVersion,
     listTenantCRDs = (\<lambda>tid. Inr [\<lparr>cv_Name = ''widgets.'' @ ex_prefix tid @ ''acme.io'',
       cv_Group = ex_prefix tid @ ''acme.io'', cv_Plural = ''widgets'', cv_Kind = ''Widget'',
       cv_Versions = [''v1'']\<rparr>]),
     HasGroup = (\<lambda>crds g. list_ex (\<lambda>c. cv_Group c = g) crds),
     ServiceAccountGroupPrefix = sa_group_prefix,
     SplitUsername = ex_SplitUsername,
     MakeUsername = (\<lambda>ns n. sa_user_prefix @ ns @ '':'' @ n),
     MakeNamespaceGroupName = (\<lambda>ns. sa_group_prefix @ ns),
     TenantNamespaceLabelKey = ''kubezoo.io/tenant'',
     PodSecurityEnforceLabelKey = ''pod-security.kubernetes.io/enforce'',
     PodSecurityLevel = ''baseline'',
     PodSecurityEnforceVersionLabelKey = ''pod-security.kubernetes.io/enforce-version'',
     PodSecurityVersion = ''latest'',
     NodePoolLabelKey = ''kubezoo.io/pool'',
     NodePoolFor = (\<lambda>tid. ''pool-'' @ tid),
     TenantSchedulerName = ''tenant-scheduler'',
     UnreachableTolerationSeconds = 300,
     LabelMetadataName = ''kubernetes.io/metadata.name'',
     LastAppliedConfigAnnotation = ''kubectl.kubernetes.io/last-applied-configuration'',
     AnnBoundByController = ''pv.kubernetes.io/bound-by-controller'',
     TaintNodeNotReady = ''node.kubernetes.io/not-ready'',
     TaintNodeUnreachable = ''node.kubernetes.io/unreachable'',
     ProjectedVolumeSourceDefaultMode = 420,
     PublishedDeprecated = ''deprecated'',
     ProjectedBindingName = (\<lambda>n. ''kubezoo:crb:'' @ n),
     TrimProjectedBindingName = (\<lambda>n. TrimPrefix n ''kubezoo:crb:''),
     IsManagedBindingName = (\<lambda>n. HasPrefix n ''kubezoo:''),
     ProjectedClusterRoleBindingLabelKey = ''kubezoo.io/projected-crb'',
     IsReservedClusterName = (\<lambda>tid n. n = ex_prefix tid @ ''cluster-admin''),
     ClusterResourceQuotaCreatedby = ''quota.kubezoo.io/created-by'',
     ConvertTenantObjectNameToUpstream = (\<lambda>n tid g k.
       if k = ''CustomResourceDefinition'' then
         (case Cut n ''.'' of (b, a, found) \<Rightarrow> b @ ''.'' @ ex_prefix tid @ a)
       else ex_prefix tid @ n),
     TrimTenantIDFromError = (\<lambda>e tid. e),
     json_Unmarshal = ex_Unmarshal,
     json_Marshal = ex_Marshal \<rparr>"

lemma example_fields [simp]:
  "TenantIDSeparator example_contract = ''-''"
  "AddTenantIDPrefix example_contract tid s = tid @ ''-'' @ s"
  "TrimTenantIDPrefix example_contract tid s = TrimPrefix s (tid @ ''-'')"
  "UpstreamNamespace example_contract tid s =
     (if s = [] \<or> HasPrefix s (tid @ ''-'') then s else tid @ ''-'' @ s)"
  "ServiceAccountGroupPrefix example_contract = sa_group_prefix"
  "MakeNamespaceGroupName example_contract ns = sa_group_prefix @ ns"
  "SplitUsername example_contract = ex_SplitUsername"
  "MakeUsername example_contract ns n = sa_user_prefix @ ns @ '':'' @ n"
  "checkGroupKind example_contract = ex_checkGroupKind"
  "ParseGroupVersion example_contract = ex_ParseGroupVersion"
  "PublishedDeprecated example_contract = ''deprecated''"
  "ProjectedBindingName example_contract n = ''kubezoo:crb:'' @ n"
  "TrimProjectedBindingName example_contract n = TrimPrefix n ''kubezoo:crb:''"
  "IsManagedBindingName example_contract n = HasPrefix n ''kubezoo:''"
  "ProjectedClusterRoleBindingLabelKey example_contract = ''kubezoo.io/projected-crb''"
  "IsReservedClusterName example_contract tid n = (n = tid @ ''-cluster-admin'')"
  "ClusterResourceQuotaCreatedby example_contract = ''quota.kubezoo.io/created-by''"
  "TrimTenantIDFromError example_contract e tid = e"
  "TenantNamespaceLabelKey example_contract = ''kubezoo.io/tenant''"
  "PodSecurityEnforceLabelKey example_contract = ''pod-security.kubernetes.io/enforce''"
  "PodSecurityLevel example_contract = ''baseline''"
  "PodSecurityEnforceVersionLabelKey example_contract = ''pod-security.kubernetes.io/enforce-version''"
  "PodSecurityVersion example_contract = ''latest''"
  "NodePoolLabelKey example_contract = ''kubezoo.io/pool''"
  "NodePoolFor example_contract tid = ''pool-'' @ tid"
  "TenantSchedulerName example_contract = ''tenant-scheduler''"
  "LabelMetadataName example_contract = ''kubernetes.io/metadata.name''"
  "LastAppliedConfigAnnotation example_contract = ''kubectl.kubernetes.io/last-applied-configuration''"
  "AnnBoundByController example_contract = ''pv.kubernetes.io/bound-by-controller''"
  "IsNativeAPIGroup example_contract g = (g \<in> {'''', ''apps''})"
  "NamespaceNameForTenant example_contract tid s =
     (if s = [] then Some (BadRequest ''empty name'') else None)"
  "listTenantCRDs example_contract tid = Inr [\<lparr>cv_Name = ''widgets.'' @ tid @ ''-acme.io'',
     cv_Group = tid @ ''-acme.io'', cv_Plural = ''widgets'', cv_Kind = ''Widget'',
     cv_Versions = [''v1'']\<rparr>]"
  "HasGroup example_contract crds g = list_ex (\<lambda>c. cv_Group c = g) crds"
  "json_Marshal example_contract = ex_Marshal"
  "json_Unmarshal example_contract = ex_Unmarshal"
  by (simp_all add: example_contract_def ex_prefix_def)

lemma tprefix_example [simp]: "tprefix example_contract tid = tid @ ''-''"
  by (simp add: tprefix_def)

lemma example_naming [simp]: "naming_ok example_contract"
  by (simp add: naming_ok_def)

lemma example_serviceaccount [simp]: "serviceaccount_ok example_contract"
proof -
  have split: "u = sa_user_prefix @ ns @ '':'' @ n \<and> ns \<noteq> [] \<and> CHR '':'' \<notin> set ns"
    if "ex_SplitUsername u = Some (ns, n)" for u ns n
  proof -
    from that have p: "HasPrefix u sa_user_prefix"
      and c: "Cut (TrimPrefix u sa_user_prefix) '':'' = (ns, n, True)"
      and ns: "ns \<noteq> []" "CHR '':'' \<notin> set ns"
      by (auto simp: ex_SplitUsername_def split: if_splits prod.splits)
    from Cut_joins [OF c] have "TrimPrefix u sa_user_prefix = ns @ '':'' @ n" .
    with append_TrimPrefix [OF p] ns show ?thesis by simp
  qed
  have join: "ex_SplitUsername (sa_user_prefix @ ns @ '':'' @ n) = Some (ns, n)"
    if "ns \<noteq> []" "CHR '':'' \<notin> set ns" for ns n
    using that Cut_char_sep [of "CHR '':''" ns n]
    unfolding ex_SplitUsername_def TrimPrefix_append by simp
  show ?thesis
    unfolding serviceaccount_ok_def example_fields
  proof (intro conjI allI impI)
    fix u ns n
    assume s: "ex_SplitUsername u = Some (ns, n)"
    show "sa_user_prefix @ ns @ '':'' @ n = u" "ns \<noteq> []" "CHR '':'' \<notin> set ns"
      using split [OF s] by simp_all
    show "HasPrefix u sa_user_prefix"
      using split [OF s] by (simp only: HasPrefix_append)
  next
    fix u ns n ns'
    assume "ns' \<noteq> []" "CHR '':'' \<notin> set ns'"
    then show "ex_SplitUsername (sa_user_prefix @ ns' @ '':'' @ n) = Some (ns', n)"
      by (rule join)
  qed simp_all
qed


lemma example_ParseGroupVersion:
  assumes "ex_ParseGroupVersion gv = Inr (g, v)" "g \<noteq> []" "CHR ''/'' \<notin> set tid"
  shows "ex_ParseGroupVersion ((tid @ ''-'') @ gv) = Inr ((tid @ ''-'') @ g, v)"
proof -
  have "CHR ''/'' \<notin> set (tid @ ''-'')"
    using assms(3) by simp
  from Cut_prefixed [OF this, of gv] assms(1,2) show ?thesis
    unfolding ex_ParseGroupVersion_def by (auto split: prod.splits if_splits)
qed

lemma example_checkGroupKind:
  assumes "ex_checkGroupKind g k tid True = Inr (namespaced, custom)"
  shows "ex_checkGroupKind (if custom then (tid @ ''-'') @ g else g) k tid False
           = Inr (namespaced, custom)"
    and "custom \<Longrightarrow> g \<noteq> []"
proof -
  have dash: "CHR ''-'' \<in> set ((tid @ ''-'') @ g)" by simp
  have "CHR ''-'' \<notin> set ''apps''" by simp
  with dash have "(tid @ ''-'') @ g \<noteq> ''apps''" by metis
  moreover have "(tid @ ''-'') @ g \<noteq> ''''" by simp
  ultimately show "ex_checkGroupKind (if custom then (tid @ ''-'') @ g else g) k tid False
           = Inr (namespaced, custom)"
    using assms unfolding ex_checkGroupKind_def ex_prefix_def
    by (auto split: if_splits simp del: append_assoc)
  show "custom \<Longrightarrow> g \<noteq> []"
    using assms unfolding ex_checkGroupKind_def by (auto split: if_splits)
qed

lemma example_groupkind [simp]: "groupkind_ok example_contract"
  unfolding groupkind_ok_def tprefix_example example_fields
  using example_ParseGroupVersion example_checkGroupKind
  by (intro conjI) (simp add: ex_ParseGroupVersion_def, blast+)

lemma list_of_fmap_inject [simp]: "list_of_fmap m = list_of_fmap m' \<longleftrightarrow> m = m'"
proof -
  have "fmap_of_list (list_of_fmap m) = m" for m :: "('a, 'b) fmap"
    unfolding list_of_fmap_def by (rule someI_ex) (rule exists_fmap_of_list)
  then show ?thesis by metis
qed

lemma to_tree_inject: "to_tree j = to_tree j' \<Longrightarrow> j = j'"
proof (induction j arbitrary: j')
  case (JArr xs)
  from JArr.prems obtain ys where j': "j' = JArr ys" and eq: "map to_tree xs = map to_tree ys"
    by (cases j') auto
  from eq have "xs = ys"
    by (rule list.inj_map_strong [rotated]) (rule JArr.IH)
  with j' show ?case by simp
next
  case (JObj m)
  from JObj.prems obtain m' where j': "j' = JObj m'" and eq: "fmmap to_tree m = fmmap to_tree m'"
    by (cases j') auto
  from eq have "m = m'"
    by (rule fmap.inj_map_strong [rotated]) (rule JObj.IH)
  with j' show ?case by simp
next
  case JNull
  then show ?case by (cases j') auto
next
  case (JBool b)
  then show ?case by (cases j') auto
next
  case (JNum s)
  then show ?case by (cases j') auto
next
  case (JStr s)
  then show ?case by (cases j') auto
qed

lemma ex_encode_inj: "inj ex_encode"
proof (rule injI)
  fix o1 o2
  assume "ex_encode o1 = ex_encode o2"
  then have "length (ex_encode o1) = length (ex_encode o2)" by simp
  then have "to_tree (JObj o1) = to_tree (JObj o2)"
    unfolding ex_encode_def by simp
  from to_tree_inject [OF this] show "o1 = o2" by simp
qed

lemma example_json [simp]: "json_ok example_contract"
  unfolding json_ok_def example_fields ex_Marshal_def ex_Unmarshal_def
  by (auto simp: inv_f_f [OF ex_encode_inj]) (simp add: ex_encode_def)

lemma example_labels [simp]: "labels_ok example_contract"
  by (simp add: labels_ok_def)

lemma example_projection [simp]: "projection_ok example_contract"
  by (simp add: projection_ok_def HasPrefix_def TrimPrefix_def)

lemma example_published [simp]: "published_ok example_contract"
  by (simp add: published_ok_def)

lemma example_contract_ok [simp]: "contract_ok example_contract"
  by (simp add: contract_ok_def)

end
