(* ===== verification/Published_Class.thy ===== *)
theory Published_Class
  imports Contract Example_Contract
begin

text \<open>
  Package publishedclass: which of the platform's class objects (storage, ingress, volume
  attributes, snapshot and device classes) a tenant may see and name.  The Go interface Set
  is the locale \<open>published_set\<close>; labelledSet is the implementation that reads a label off the
  objects of an informer's store.
\<close>

subsection \<open>Definitions\<close>

text \<open>
  An object of the store: its name and labels.  The store is client-go's cache.Store: a lookup
  by key that may fail, and the list of the objects.
\<close>

record class_object =
  co_Name :: string
  co_Labels :: strmap

record Store =
  st_GetByKey :: "string \<Rightarrow> class_object option result"
  st_List :: "class_object list"

record labelledSet =
  lset_label :: string
  lset_store :: "Store option"
  lset_synced :: "bool option"
  lset_static :: "string list"

definition New :: "string \<Rightarrow> Store option \<Rightarrow> bool option \<Rightarrow> string list \<Rightarrow> labelledSet" where
  "New label store synced static = \<lparr>
     lset_label = label, lset_store = store, lset_synced = synced,
     lset_static = remdups (filter (\<lambda>name. name \<noteq> []) static)\<rparr>"

definition Static :: "string list \<Rightarrow> labelledSet" where
  "Static static = New [] None (Some True) static"

definition HasSynced :: "labelledSet \<Rightarrow> bool" where
  "HasSynced s = (case lset_synced s of None \<Rightarrow> True | Some synced \<Rightarrow> synced)"

text \<open>The label of the object with that name: None where the code returns false.\<close>

definition labelledSet_value :: "labelledSet \<Rightarrow> string \<Rightarrow> string option" where
  "labelledSet_value s name =
     (case lset_store s of None \<Rightarrow> None
      | Some store \<Rightarrow>
        if \<not> HasSynced s then None
        else (case st_GetByKey store name of
            Inl e \<Rightarrow> None
          | Inr None \<Rightarrow> None
          | Inr (Some object) \<Rightarrow> co_Labels object (lset_label s)))"

definition Visible :: "labelledSet \<Rightarrow> string \<Rightarrow> bool" where
  "Visible s name =
     (if name \<in> set (lset_static s) then True
      else (case labelledSet_value s name of None \<Rightarrow> False | Some published \<Rightarrow> published \<noteq> []))"

definition Retired :: "contract \<Rightarrow> labelledSet \<Rightarrow> string \<Rightarrow> bool" where
  "Retired C s name =
     (if name \<in> set (lset_static s) then False
      else (case labelledSet_value s name of None \<Rightarrow> False
        | Some published \<Rightarrow> published = PublishedDeprecated C))"

fun Names_loop :: "string \<Rightarrow> class_object list \<Rightarrow> string list \<Rightarrow> string list" where
  "Names_loop label [] names = names"
| "Names_loop label (object # objects) names =
     (if (case co_Labels object label of None \<Rightarrow> True | Some v \<Rightarrow> v = []) then Names_loop label objects names
      else if co_Name object \<in> set names then Names_loop label objects names
      else Names_loop label objects (names @ [co_Name object]))"

definition Names :: "labelledSet \<Rightarrow> string list" where
  "Names s =
     (case lset_store s of None \<Rightarrow> lset_static s
      | Some store \<Rightarrow>
        if \<not> HasSynced s then lset_static s
        else Names_loop (lset_label s) (st_List store) (lset_static s))"

subsection \<open>The interface\<close>

text \<open>
  The documented promises of Set: a retired class is still visible, Names lists exactly the
  visible classes and each once.  \<open>good\<close> is what the implementation needs of its backing
  store.
\<close>

locale published_set =
  fixes good :: "contract \<Rightarrow> 's \<Rightarrow> bool"
    and visible :: "'s \<Rightarrow> string \<Rightarrow> bool"
    and retired :: "contract \<Rightarrow> 's \<Rightarrow> string \<Rightarrow> bool"
    and names :: "'s \<Rightarrow> string list"
  assumes retired_visible: "good C s \<Longrightarrow> retired C s n \<Longrightarrow> visible s n"
    and names_visible: "good C s \<Longrightarrow> set (names s) = {n. visible s n}"
    and names_distinct: "good C s \<Longrightarrow> distinct (names s)"
begin

text \<open>Publication is authorization: what a guard refuses as invisible is not listed either.\<close>

lemma hidden_not_listed: "good C s \<Longrightarrow> \<not> visible s n \<Longrightarrow> n \<notin> set (names s)"
  by (simp add: names_visible)

lemma retired_listed: "good C s \<Longrightarrow> retired C s n \<Longrightarrow> n \<in> set (names s)"
  by (simp add: names_visible retired_visible)

text \<open>The classes a new claim may name: visible and not on the way out.\<close>

lemma offered_iff: "good C s \<Longrightarrow>
    n \<in> set (filter (\<lambda>n. \<not> retired C s n) (names s)) \<longleftrightarrow> visible s n \<and> \<not> retired C s n"
  by (simp add: names_visible)

end

subsection \<open>The labelled set implements it\<close>

text \<open>
  The informer keys a cluster-scoped object by its name, so a lookup finds the object of that
  name and nothing else, and never fails.
\<close>

definition store_ok :: "Store \<Rightarrow> bool" where
  "store_ok st \<longleftrightarrow>
     distinct (map co_Name (st_List st)) \<and>
     (\<forall>k. st_GetByKey st k = Inr (find (\<lambda>ob. co_Name ob = k) (st_List st)))"

definition labelledSet_ok :: "contract \<Rightarrow> labelledSet \<Rightarrow> bool" where
  "labelledSet_ok C s \<longleftrightarrow>
     PublishedDeprecated C \<noteq> [] \<and> distinct (lset_static s) \<and>
     (\<forall>st. lset_store s = Some st \<longrightarrow> store_ok st)"

lemma New_ok: "published_ok C \<Longrightarrow> (\<And>st. store = Some st \<Longrightarrow> store_ok st) \<Longrightarrow>
    labelledSet_ok C (New label store synced static)"
  by (simp add: labelledSet_ok_def New_def published_ok_def)

lemma Static_ok: "published_ok C \<Longrightarrow> labelledSet_ok C (Static names)"
  unfolding Static_def by (rule New_ok) simp_all

lemma find_unique:
  "distinct (map f xs) \<Longrightarrow> find (\<lambda>x. f x = k) xs = Some y \<longleftrightarrow> y \<in> set xs \<and> f y = k"
  by (induction xs) (auto simp: image_iff)

lemma Names_loop_set:
  "set (Names_loop label obs names) =
     set names \<union> {co_Name ob |ob v. ob \<in> set obs \<and> co_Labels ob label = Some v \<and> v \<noteq> []}"
  by (induction label obs names rule: Names_loop.induct) (auto split: option.splits)

lemma Names_loop_distinct: "distinct names \<Longrightarrow> distinct (Names_loop label obs names)"
  by (induction label obs names rule: Names_loop.induct) auto

lemma value_iff:
  assumes "labelledSet_ok C s"
  shows "labelledSet_value s n = Some v \<longleftrightarrow>
    (\<exists>st ob. lset_store s = Some st \<and> HasSynced s \<and> ob \<in> set (st_List st) \<and> co_Name ob = n \<and>
       co_Labels ob (lset_label s) = Some v)"
proof (cases "lset_store s")
  case (Some st)
  with assms have st: "store_ok st" by (simp add: labelledSet_ok_def)
  have "find (\<lambda>ob. co_Name ob = n) (st_List st) = Some ob \<longleftrightarrow> ob \<in> set (st_List st) \<and> co_Name ob = n"
    for ob using st by (auto simp: store_ok_def find_unique)
  moreover have "labelledSet_value s n = Some v \<longleftrightarrow> HasSynced s \<and>
      (\<exists>ob. find (\<lambda>ob. co_Name ob = n) (st_List st) = Some ob \<and> co_Labels ob (lset_label s) = Some v)"
    using Some st by (auto simp: labelledSet_value_def store_ok_def split: option.splits)
  ultimately show ?thesis
    using Some by auto
qed (simp add: labelledSet_value_def)

lemma Visible_iff:
  assumes "labelledSet_ok C s"
  shows "Visible s n \<longleftrightarrow> n \<in> set (Names s)"
proof -
  have "(\<exists>v. labelledSet_value s n = Some v \<and> v \<noteq> []) \<longleftrightarrow>
    (\<exists>st ob v. lset_store s = Some st \<and> HasSynced s \<and> ob \<in> set (st_List st) \<and> co_Name ob = n \<and>
       co_Labels ob (lset_label s) = Some v \<and> v \<noteq> [])"
    unfolding value_iff [OF assms] by blast
  then show ?thesis
    by (auto simp: Visible_def Names_def Names_loop_set split: option.splits)
qed

interpretation labelled: published_set labelledSet_ok Visible Retired Names
proof
  fix C s n
  assume good: "labelledSet_ok C s"
  show "Visible s n" if "Retired C s n"
    using that good by (auto simp: Retired_def Visible_def labelledSet_ok_def split: if_splits option.splits)
  show "set (Names s) = {n. Visible s n}"
    using Visible_iff [OF good] by auto
  show "distinct (Names s)"
    using good by (simp add: Names_def labelledSet_ok_def Names_loop_distinct split: option.split)
qed

text \<open>A name given on the command line is always offered, whatever the cluster says.\<close>

lemma static_always_visible: "n \<in> set (lset_static s) \<Longrightarrow> Visible s n \<and> \<not> Retired C s n"
  by (simp add: Visible_def Retired_def)

lemma unsynced_static_only: "\<not> HasSynced s \<Longrightarrow> Visible s n \<longleftrightarrow> n \<in> set (lset_static s)"
  by (simp add: Visible_def labelledSet_value_def split: option.split)

end
