(* ===== verification/Core_Transformers.thy ===== *)
theory Core_Transformers
  imports Default_Convertor Published_Class
begin

text \<open>
  The transformers of package convert for namespaces, endpoints, events, volumes, ingresses
  and network policies (namespace.go, endpoints.go, endpointslice.go, event.go, eventsv1.go,
  pv.go, pvc.go, ingress.go, networkpolicy.go).  A failed type assertion is the error
  TypeAssertion.
\<close>

subsection \<open>Namespaces\<close>

definition pinPodSecurity :: "contract \<Rightarrow> strmap \<Rightarrow> strmap" where
  "pinPodSecurity C labels =
     labels(PodSecurityEnforceLabelKey C \<mapsto> PodSecurityLevel C,
            PodSecurityEnforceVersionLabelKey C \<mapsto> PodSecurityVersion C)"

definition NamespaceTransformer_Forward :: "contract \<Rightarrow> robject \<Rightarrow> string \<Rightarrow> robject result" where
  "NamespaceTransformer_Forward C obj tenantID =
     (case ro_Body obj of
        NamespaceB _ \<Rightarrow>
          (case NamespaceNameForTenant C tenantID
                  (TrimTenantIDPrefix C tenantID (om_Name (ro_Meta obj))) of
             Some err \<Rightarrow> Inl err
           | None \<Rightarrow>
             (let labels = om_Labels (ro_Meta obj) in
              if (case labels (TenantNamespaceLabelKey C) of Some v \<Rightarrow> v \<noteq> tenantID | None \<Rightarrow> False)
              then Inl (Plain ''namespace label is protected'')
              else Inr (upd_meta (\<lambda>m. m\<lparr>om_Labels :=
                pinPodSecurity C (labels(TenantNamespaceLabelKey C \<mapsto> tenantID))\<rparr>) obj)))
      | _ \<Rightarrow> Inl TypeAssertion)"

definition NamespaceTransformer_Backward :: "contract \<Rightarrow> robject \<Rightarrow> string \<Rightarrow> robject result" where
  "NamespaceTransformer_Backward C obj tenantID = Inr obj"

definition NewNamespaceTransformer :: "contract \<Rightarrow> ObjectTransformer" where
  "NewNamespaceTransformer C = \<lparr>
     Forward = NamespaceTransformer_Forward C, Backward = NamespaceTransformer_Backward C\<rparr>"

subsection \<open>Endpoints and endpoint slices\<close>

definition transformTargetRef ::
  "(ObjectReference option \<Rightarrow> string \<Rightarrow> ObjectReference option result) \<Rightarrow>
   string \<Rightarrow> EndpointAddress \<Rightarrow> EndpointAddress result" where
  "transformTargetRef f tenantID a =
     bindR (f (ea_TargetRef a) tenantID) (\<lambda>target. Inr (a\<lparr>ea_TargetRef := target\<rparr>))"

definition transformSubset ::
  "(ObjectReference option \<Rightarrow> string \<Rightarrow> ObjectReference option result) \<Rightarrow>
   string \<Rightarrow> EndpointSubset \<Rightarrow> EndpointSubset result" where
  "transformSubset f tenantID s =
     bindR (mapR (transformTargetRef f tenantID) (es_Addresses s)) (\<lambda>ready.
     bindR (mapR (transformTargetRef f tenantID) (es_NotReadyAddresses s)) (\<lambda>notReady.
     Inr (s\<lparr>es_Addresses := ready, es_NotReadyAddresses := notReady\<rparr>)))"

definition EndpointsTransformer_Forward :: "contract \<Rightarrow> robject \<Rightarrow> string \<Rightarrow> robject result" where
  "EndpointsTransformer_Forward C obj tenantID =
     (case ro_Body obj of
        EndpointsB subsets \<Rightarrow>
          bindR (mapR (transformSubset (objectReferenceTransformer_Forward C) tenantID) subsets)
            (\<lambda>subsets. Inr (obj\<lparr>ro_Body := EndpointsB subsets\<rparr>))
      | _ \<Rightarrow> Inl TypeAssertion)"

definition EndpointsTransformer_Backward :: "contract \<Rightarrow> robject \<Rightarrow> string \<Rightarrow> robject result" where
  "EndpointsTransformer_Backward C obj tenantID =
     (case ro_Body obj of
        EndpointsB subsets \<Rightarrow>
          bindR (mapR (transformSubset (objectReferenceTransformer_Backward C) tenantID) subsets)
            (\<lambda>subsets. Inr (obj\<lparr>ro_Body := EndpointsB subsets\<rparr>))
      | _ \<Rightarrow> Inl TypeAssertion)"

definition NewEndpointsTransformer :: "contract \<Rightarrow> ObjectTransformer" where
  "NewEndpointsTransformer C = \<lparr>
     Forward = EndpointsTransformer_Forward C, Backward = EndpointsTransformer_Backward C\<rparr>"

definition EndpointSliceTransformer_Forward :: "contract \<Rightarrow> robject \<Rightarrow> string \<Rightarrow> robject result" where
  "EndpointSliceTransformer_Forward C obj tenantID =
     (case ro_Body obj of
        EndpointSliceB endpoints rest \<Rightarrow>
          bindR (mapR (\<lambda>e. bindR (objectReferenceTransformer_Forward C (ep_TargetRef e) tenantID)
                   (\<lambda>target. Inr (e\<lparr>ep_TargetRef := target\<rparr>))) endpoints)
            (\<lambda>endpoints. Inr (obj\<lparr>ro_Body := EndpointSliceB endpoints rest\<rparr>))
      | _ \<Rightarrow> Inl TypeAssertion)"

definition EndpointSliceTransformer_Backward :: "contract \<Rightarrow> robject \<Rightarrow> string \<Rightarrow> robject result" where
  "EndpointSliceTransformer_Backward C obj tenantID =
     (case ro_Body obj of
        EndpointSliceB endpoints rest \<Rightarrow>
          bindR (mapR (\<lambda>e. bindR (objectReferenceTransformer_Backward C (ep_TargetRef e) tenantID)
                   (\<lambda>target. Inr (e\<lparr>ep_TargetRef := target\<rparr>))) endpoints)
            (\<lambda>endpoints. Inr (obj\<lparr>ro_Body := EndpointSliceB endpoints rest\<rparr>))
      | _ \<Rightarrow> Inl TypeAssertion)"

definition NewEndpointSliceTransformer :: "contract \<Rightarrow> ObjectTransformer" where
  "NewEndpointSliceTransformer C = \<lparr>
     Forward = EndpointSliceTransformer_Forward C, Backward = EndpointSliceTransformer_Backward C\<rparr>"

subsection \<open>Events\<close>

definition EventTransformer_Forward :: "contract \<Rightarrow> robject \<Rightarrow> string \<Rightarrow> robject result" where
  "EventTransformer_Forward C obj tenantID =
     (case ro_Body obj of
        EventB involved message rest \<Rightarrow>
          bindR (bindR (objectReferenceTransformer_Forward C (Some involved) tenantID) deref)
            (\<lambda>target. Inr (obj\<lparr>ro_Body := EventB target message rest\<rparr>))
      | _ \<Rightarrow> Inl TypeAssertion)"

definition EventTransformer_Backward :: "contract \<Rightarrow> robject \<Rightarrow> string \<Rightarrow> robject result" where
  "EventTransformer_Backward C obj tenantID =
     (case ro_Body obj of
        EventB involved message rest \<Rightarrow>
          bindR (bindR (objectReferenceTransformer_Backward C (Some involved) tenantID) deref)
            (\<lambda>target. Inr (obj\<lparr>ro_Body :=
               EventB target (ReplaceAll message (tenantID @ ''-'') '''') rest\<rparr>))
      | _ \<Rightarrow> Inl TypeAssertion)"

definition NewEventTransformer :: "contract \<Rightarrow> ObjectTransformer" where
  "NewEventTransformer C = \<lparr>
     Forward = EventTransformer_Forward C, Backward = EventTransformer_Backward C\<rparr>"

text \<open>The reference of an events.k8s.io event, lifted to the internal type and back.\<close>

definition liftRef :: "V1ObjectReference \<Rightarrow> ObjectReference" where
  "liftRef ref = \<lparr>obr_Kind = vor_Kind ref, obr_Namespace = vor_Namespace ref,
     obr_Name = vor_Name ref, obr_UID = vor_UID ref, obr_APIVersion = vor_APIVersion ref,
     obr_ResourceVersion = vor_ResourceVersion ref, obr_FieldPath = vor_FieldPath ref\<rparr>"

definition lowerRef :: "ObjectReference \<Rightarrow> V1ObjectReference" where
  "lowerRef ref = \<lparr>vor_Kind = obr_Kind ref, vor_Namespace = obr_Namespace ref,
     vor_Name = obr_Name ref, vor_UID = obr_UID ref, vor_APIVersion = obr_APIVersion ref,
     vor_ResourceVersion = obr_ResourceVersion ref, vor_FieldPath = obr_FieldPath ref\<rparr>"

definition rewriteVersionedRef ::
  "V1ObjectReference \<Rightarrow> string \<Rightarrow>
   (ObjectReference option \<Rightarrow> string \<Rightarrow> ObjectReference option result) \<Rightarrow> V1ObjectReference result" where
  "rewriteVersionedRef ref tenantID rewrite =
     bindR (rewrite (Some (liftRef ref)) tenantID) (\<lambda>rewritten.
       case rewritten of None \<Rightarrow> Inr ref | Some r \<Rightarrow> Inr (lowerRef r))"

text \<open>
  The rewriting mutates the event as it goes, and Backward returns the event even when the
  rewriting stopped with an error: the result is the event as mutated so far together with
  the error.
\<close>

definition EventsV1Transformer_rewrite ::
  "robject \<Rightarrow> string \<Rightarrow> (ObjectReference option \<Rightarrow> string \<Rightarrow> ObjectReference option result) \<Rightarrow>
   robject \<times> error option" where
  "EventsV1Transformer_rewrite obj tenantID rewrite =
     (case ro_Body obj of
        EventsV1B regarding related rest \<Rightarrow>
          (case rewriteVersionedRef regarding tenantID rewrite of
             Inl err \<Rightarrow> (obj, Some err)
           | Inr regarding' \<Rightarrow>
             (case related of
                None \<Rightarrow> (obj\<lparr>ro_Body := EventsV1B regarding' None rest\<rparr>, None)
              | Some rel \<Rightarrow>
                (case rewriteVersionedRef rel tenantID rewrite of
                   Inl err \<Rightarrow> (obj\<lparr>ro_Body := EventsV1B regarding' (Some rel) rest\<rparr>, Some err)
                 | Inr rel' \<Rightarrow> (obj\<lparr>ro_Body := EventsV1B regarding' (Some rel') rest\<rparr>, None))))
      | _ \<Rightarrow> (obj, Some TypeAssertion))"

definition EventsV1Transformer_Forward :: "contract \<Rightarrow> robject \<Rightarrow> string \<Rightarrow> robject result" where
  "EventsV1Transformer_Forward C obj tenantID =
     (case EventsV1Transformer_rewrite obj tenantID (objectReferenceTransformer_Forward C) of
        (obj', Some err) \<Rightarrow> Inl err
      | (obj', None) \<Rightarrow> Inr obj')"

definition EventsV1Transformer_Backward :: "contract \<Rightarrow> robject \<Rightarrow> string \<Rightarrow> robject result" where
  "EventsV1Transformer_Backward C obj tenantID =
     (case EventsV1Transformer_rewrite obj tenantID (objectReferenceTransformer_Backward C) of
        (obj', err) \<Rightarrow> Inr obj')"

definition NewEventsV1Transformer :: "contract \<Rightarrow> ObjectTransformer" where
  "NewEventsV1Transformer C = \<lparr>
     Forward = EventsV1Transformer_Forward C, Backward = EventsV1Transformer_Backward C\<rparr>"

subsection \<open>Persistent volumes and claims\<close>

definition refuseUnreservedPV :: "PersistentVolumeSpec \<Rightarrow> unit result" where
  "refuseUnreservedPV spec =
     (case pv_ClaimRef spec of
        Some ref \<Rightarrow>
          if obr_Namespace ref \<noteq> [] \<and> obr_Name ref \<noteq> [] then Inr ()
          else Inl (Plain ''persistentvolume must reserve itself'')
      | None \<Rightarrow> Inl (Plain ''persistentvolume must reserve itself''))"

definition empty_source :: PersistentVolumeSource where
  "empty_source = \<lparr>pvs_CSI = None, pvs_ISCSI_SecretRef = None, pvs_NFS = None, pvs_FC = None,
     pvs_PortworxVolume = None, pvs_HostPath = None, pvs_Local = None, pvs_Other = None\<rparr>"

definition refuseUnsafePVSource :: "PersistentVolumeSpec \<Rightarrow> unit result" where
  "refuseUnsafePVSource spec =
     (let source = pv_Source spec in
      case pvs_CSI source of
        Some csi \<Rightarrow>
          refuse (list_ex (\<lambda>ref. ref \<noteq> None)
            [csi_ControllerPublishSecretRef csi, csi_NodeStageSecretRef csi,
             csi_NodePublishSecretRef csi, csi_ControllerExpandSecretRef csi,
             csi_NodeExpandSecretRef csi]) (Plain ''csi secretRef names a namespace'')
      | None \<Rightarrow>
        (case pvs_ISCSI_SecretRef source of
           Some secretRef \<Rightarrow> refuse (secretRef \<noteq> None) (Plain ''iscsi secretRef names a namespace'')
         | None \<Rightarrow>
           if pvs_NFS source \<noteq> None \<or> pvs_FC source \<noteq> None \<or> pvs_PortworxVolume source \<noteq> None
           then Inr ()
           else if pvs_HostPath source \<noteq> None \<or> pvs_Local source \<noteq> None
           then Inl (Plain ''hostPath or local volume'')
           else if source = empty_source then Inr ()
           else Inl (Plain ''volume source is not one tenants may write'')))"

definition PVTransformer_Forward :: "contract \<Rightarrow> robject \<Rightarrow> string \<Rightarrow> robject result" where
  "PVTransformer_Forward C obj tenantID =
     (case ro_Body obj of
        PersistentVolumeB spec rest \<Rightarrow>
          bindR (refuseUnsafePVSource spec) (\<lambda>_.
          bindR (refuseUnreservedPV spec) (\<lambda>_.
          Inr (obj\<lparr>ro_Body := PersistentVolumeB
            (case pv_ClaimRef spec of
               Some ref \<Rightarrow>
                 if obr_Namespace ref \<noteq> [] then spec\<lparr>pv_ClaimRef := Some (ref\<lparr>obr_Namespace :=
                   UpstreamNamespace C tenantID (obr_Namespace ref)\<rparr>)\<rparr> else spec
             | None \<Rightarrow> spec) rest\<rparr>)))
      | _ \<Rightarrow> Inl TypeAssertion)"

definition PVTransformer_Backward :: "contract \<Rightarrow> robject \<Rightarrow> string \<Rightarrow> robject result" where
  "PVTransformer_Backward C obj tenantID =
     (case ro_Body obj of
        PersistentVolumeB spec rest \<Rightarrow>
          Inr (obj\<lparr>ro_Body := PersistentVolumeB
            (case pv_ClaimRef spec of
               Some ref \<Rightarrow>
                 if obr_Namespace ref \<noteq> [] then spec\<lparr>pv_ClaimRef := Some (ref\<lparr>obr_Namespace :=
                   trimIfAttributable C (obr_Namespace ref) tenantID\<rparr>)\<rparr> else spec
             | None \<Rightarrow> spec) rest\<rparr>)
      | _ \<Rightarrow> Inl TypeAssertion)"

definition NewPVTransformer :: "contract \<Rightarrow> ObjectTransformer" where
  "NewPVTransformer C = \<lparr>Forward = PVTransformer_Forward C, Backward = PVTransformer_Backward C\<rparr>"

definition boundByController :: "contract \<Rightarrow> robject \<Rightarrow> bool" where
  "boundByController C obj = (om_Annotations (ro_Meta obj) (AnnBoundByController C) \<noteq> None)"

text \<open>The namespace of a data source reference, where there is one.\<close>

definition upd_dataSource :: "(string \<Rightarrow> string) \<Rightarrow> PersistentVolumeClaimSpec \<Rightarrow> PersistentVolumeClaimSpec" where
  "upd_dataSource f spec =
     (case pvc_DataSourceRef spec of
        Some ref \<Rightarrow>
          (case ds_Namespace ref of
             Some ns \<Rightarrow> if ns \<noteq> [] then spec\<lparr>pvc_DataSourceRef := Some (ref\<lparr>ds_Namespace := Some (f ns)\<rparr>)\<rparr> else spec
           | None \<Rightarrow> spec)
      | None \<Rightarrow> spec)"

definition PVCTransformer_Forward :: "contract \<Rightarrow> robject \<Rightarrow> string \<Rightarrow> robject result" where
  "PVCTransformer_Forward C obj tenantID =
     (case ro_Body obj of
        PersistentVolumeClaimB spec rest \<Rightarrow>
          (let spec = (if pvc_VolumeName spec \<noteq> [] \<and> \<not> boundByController C obj
                       then spec\<lparr>pvc_VolumeName := AddTenantIDPrefix C tenantID (pvc_VolumeName spec)\<rparr>
                       else spec);
               spec = upd_dataSource (UpstreamNamespace C tenantID) spec
           in Inr (obj\<lparr>ro_Body := PersistentVolumeClaimB spec rest\<rparr>))
      | _ \<Rightarrow> Inl TypeAssertion)"

definition PVCTransformer_Backward :: "contract \<Rightarrow> robject \<Rightarrow> string \<Rightarrow> robject result" where
  "PVCTransformer_Backward C obj tenantID =
     (case ro_Body obj of
        PersistentVolumeClaimB spec rest \<Rightarrow>
          (let spec = upd_dataSource (TrimTenantIDPrefix C tenantID) spec;
               spec = (if pvc_VolumeName spec \<noteq> [] \<and> \<not> boundByController C obj \<and>
                          HasPrefix (pvc_VolumeName spec) (tenantID @ TenantIDSeparator C)
                       then spec\<lparr>pvc_VolumeName := TrimTenantIDPrefix C tenantID (pvc_VolumeName spec)\<rparr>
                       else spec)
           in Inr (obj\<lparr>ro_Body := PersistentVolumeClaimB spec rest\<rparr>))
      | _ \<Rightarrow> Inl TypeAssertion)"

definition NewPVCTransformer :: "contract \<Rightarrow> ObjectTransformer" where
  "NewPVCTransformer C = \<lparr>Forward = PVCTransformer_Forward C, Backward = PVCTransformer_Backward C\<rparr>"

subsection \<open>Ingresses\<close>

definition deprecatedIngressClassAnnotation :: string where
  "deprecatedIngressClassAnnotation = ''kubernetes.io/ingress.class''"

definition IngressTransformer_toUpstream :: "contract \<Rightarrow> labelledSet \<Rightarrow> string \<Rightarrow> string \<Rightarrow> string" where
  "IngressTransformer_toUpstream C published tenantID class =
     (if Visible published class then class else AddTenantIDPrefix C tenantID class)"

definition IngressTransformer_toTenant :: "contract \<Rightarrow> labelledSet \<Rightarrow> string \<Rightarrow> string \<Rightarrow> string" where
  "IngressTransformer_toTenant C published tenantID class =
     (if Visible published class then class else TrimTenantIDPrefix C tenantID class)"

definition upd_ingressClass :: "(string \<Rightarrow> string) \<Rightarrow> string option \<Rightarrow> string option" where
  "upd_ingressClass f p = (case p of Some s \<Rightarrow> if s \<noteq> [] then Some (f s) else p | None \<Rightarrow> p)"

definition IngressTransformer_Forward ::
  "contract \<Rightarrow> labelledSet \<Rightarrow> robject \<Rightarrow> string \<Rightarrow> robject result" where
  "IngressTransformer_Forward C published obj tenantID =
     (case ro_Body obj of
        IngressB className rest \<Rightarrow>
          (let obj = obj\<lparr>ro_Body := IngressB
                 (upd_ingressClass (IngressTransformer_toUpstream C published tenantID) className) rest\<rparr>
           in Inr (upd_meta (\<lambda>m. m\<lparr>om_Annotations := (om_Annotations m)
                (deprecatedIngressClassAnnotation :=
                   upd_ingressClass (IngressTransformer_toUpstream C published tenantID)
                     (om_Annotations m deprecatedIngressClassAnnotation))\<rparr>) obj))
      | _ \<Rightarrow> Inl TypeAssertion)"

definition IngressTransformer_Backward ::
  "contract \<Rightarrow> labelledSet \<Rightarrow> robject \<Rightarrow> string \<Rightarrow> robject result" where
  "IngressTransformer_Backward C published obj tenantID =
     (case ro_Body obj of
        IngressB className rest \<Rightarrow>
          (let obj = obj\<lparr>ro_Body := IngressB
                 (upd_ingressClass (IngressTransformer_toTenant C published tenantID) className) rest\<rparr>
           in Inr (upd_meta (\<lambda>m. m\<lparr>om_Annotations := (om_Annotations m)
                (deprecatedIngressClassAnnotation :=
                   upd_ingressClass (IngressTransformer_toTenant C published tenantID)
                     (om_Annotations m deprecatedIngressClassAnnotation))\<rparr>) obj))
      | _ \<Rightarrow> Inl TypeAssertion)"

definition NewIngressTransformer :: "contract \<Rightarrow> labelledSet option \<Rightarrow> ObjectTransformer" where
  "NewIngressTransformer C published =
     (let published = (case published of None \<Rightarrow> Static [] | Some s \<Rightarrow> s) in
      \<lparr>Forward = IngressTransformer_Forward C published,
       Backward = IngressTransformer_Backward C published\<rparr>)"

subsection \<open>Network policies\<close>

definition confineToTenant :: "contract \<Rightarrow> LabelSelector \<Rightarrow> string \<Rightarrow> LabelSelector" where
  "confineToTenant C selector tenantID =
     (let labels = ls_MatchLabels selector;
          labels = (case labels (LabelMetadataName C) of
              Some name \<Rightarrow> if name \<noteq> [] then labels(LabelMetadataName C \<mapsto> UpstreamNamespace C tenantID name) else labels
            | None \<Rightarrow> labels)
      in selector\<lparr>ls_MatchLabels := labels(TenantNamespaceLabelKey C \<mapsto> tenantID)\<rparr>)"

definition releaseFromTenant :: "contract \<Rightarrow> LabelSelector \<Rightarrow> string \<Rightarrow> LabelSelector" where
  "releaseFromTenant C selector tenantID =
     (let labels = ls_MatchLabels selector;
          labels = (case labels (LabelMetadataName C) of
              Some name \<Rightarrow> if name \<noteq> [] then labels(LabelMetadataName C \<mapsto> TrimTenantIDPrefix C tenantID name) else labels
            | None \<Rightarrow> labels)
      in selector\<lparr>ls_MatchLabels := map_delete (TenantNamespaceLabelKey C) labels\<rparr>)"

definition forEachPeer :: "(NetworkPolicyPeer \<Rightarrow> NetworkPolicyPeer) \<Rightarrow> NetworkPolicySpec \<Rightarrow> NetworkPolicySpec" where
  "forEachPeer visit spec =
     (let rule = (\<lambda>r. r\<lparr>npr_Peers := map visit (npr_Peers r)\<rparr>)
      in spec\<lparr>np_Ingress := map rule (np_Ingress spec), np_Egress := map rule (np_Egress spec)\<rparr>)"

definition NetworkPolicyTransformer_Forward :: "contract \<Rightarrow> robject \<Rightarrow> string \<Rightarrow> robject result" where
  "NetworkPolicyTransformer_Forward C obj tenantID =
     (case ro_Body obj of
        NetworkPolicyB spec \<Rightarrow>
          Inr (obj\<lparr>ro_Body := NetworkPolicyB (forEachPeer (\<lambda>peer.
            case npp_NamespaceSelector peer of None \<Rightarrow> peer
            | Some sel \<Rightarrow> peer\<lparr>npp_NamespaceSelector := Some (confineToTenant C sel tenantID)\<rparr>) spec)\<rparr>)
      | _ \<Rightarrow> Inl TypeAssertion)"

definition NetworkPolicyTransformer_Backward :: "contract \<Rightarrow> robject \<Rightarrow> string \<Rightarrow> robject result" where
  "NetworkPolicyTransformer_Backward C obj tenantID =
     (case ro_Body obj of
        NetworkPolicyB spec \<Rightarrow>
          Inr (obj\<lparr>ro_Body := NetworkPolicyB (forEachPeer (\<lambda>peer.
            case npp_NamespaceSelector peer of None \<Rightarrow> peer
            | Some sel \<Rightarrow> peer\<lparr>npp_NamespaceSelector := Some (releaseFromTenant C sel tenantID)\<rparr>) spec)\<rparr>)
      | _ \<Rightarrow> Inl TypeAssertion)"

definition NewNetworkPolicyTransformer :: "contract \<Rightarrow> ObjectTransformer" where
  "NewNetworkPolicyTransformer C = \<lparr>
     Forward = NetworkPolicyTransformer_Forward C, Backward = NetworkPolicyTransformer_Backward C\<rparr>"

subsection \<open>Inversion of the type switches\<close>

named_theorems transformer_iffs \<open>when a transformer succeeds, and with which object\<close>

lemma Namespace_Forward_iff [transformer_iffs]:
  "NamespaceTransformer_Forward C obj tid = Inr obj' \<longleftrightarrow>
     (\<exists>rest. ro_Body obj = NamespaceB rest) \<and>
     NamespaceNameForTenant C tid (TrimTenantIDPrefix C tid (om_Name (ro_Meta obj))) = None \<and>
     om_Labels (ro_Meta obj) (TenantNamespaceLabelKey C) \<in> {None, Some tid} \<and>
     obj' = upd_meta (\<lambda>m. m\<lparr>om_Labels :=
       pinPodSecurity C ((om_Labels (ro_Meta obj))(TenantNamespaceLabelKey C \<mapsto> tid))\<rparr>) obj"
  by (cases "ro_Body obj")
     (auto simp: NamespaceTransformer_Forward_def Let_def split: option.splits)

lemma Endpoints_Forward_iff [transformer_iffs]:
  "EndpointsTransformer_Forward C obj tid = Inr obj' \<longleftrightarrow>
     (\<exists>ss ss'. ro_Body obj = EndpointsB ss \<and>
        mapR (transformSubset (objectReferenceTransformer_Forward C) tid) ss = Inr ss' \<and>
        obj' = obj\<lparr>ro_Body := EndpointsB ss'\<rparr>)"
  by (cases "ro_Body obj") (auto simp: EndpointsTransformer_Forward_def bindR_Inr_iff)

lemma Endpoints_Backward_iff [transformer_iffs]:
  "EndpointsTransformer_Backward C obj tid = Inr obj' \<longleftrightarrow>
     (\<exists>ss ss'. ro_Body obj = EndpointsB ss \<and>
        mapR (transformSubset (objectReferenceTransformer_Backward C) tid) ss = Inr ss' \<and>
        obj' = obj\<lparr>ro_Body := EndpointsB ss'\<rparr>)"
  by (cases "ro_Body obj") (auto simp: EndpointsTransformer_Backward_def bindR_Inr_iff)

lemma EndpointSlice_Forward_iff [transformer_iffs]:
  "EndpointSliceTransformer_Forward C obj tid = Inr obj' \<longleftrightarrow>
     (\<exists>es rest es'. ro_Body obj = EndpointSliceB es rest \<and>
        mapR (\<lambda>e. bindR (objectReferenceTransformer_Forward C (ep_TargetRef e) tid)
          (\<lambda>target. Inr (e\<lparr>ep_TargetRef := target\<rparr>))) es = Inr es' \<and>
        obj' = obj\<lparr>ro_Body := EndpointSliceB es' rest\<rparr>)"
  by (cases "ro_Body obj") (auto simp: EndpointSliceTransformer_Forward_def bindR_Inr_iff)

lemma EndpointSlice_Backward_iff [transformer_iffs]:
  "EndpointSliceTransformer_Backward C obj tid = Inr obj' \<longleftrightarrow>
     (\<exists>es rest es'. ro_Body obj = EndpointSliceB es rest \<and>
        mapR (\<lambda>e. bindR (objectReferenceTransformer_Backward C (ep_TargetRef e) tid)
          (\<lambda>target. Inr (e\<lparr>ep_TargetRef := target\<rparr>))) es = Inr es' \<and>
        obj' = obj\<lparr>ro_Body := EndpointSliceB es' rest\<rparr>)"
  by (cases "ro_Body obj") (auto simp: EndpointSliceTransformer_Backward_def bindR_Inr_iff)

lemma Event_Forward_iff [transformer_iffs]:
  "EventTransformer_Forward C obj tid = Inr obj' \<longleftrightarrow>
     (\<exists>ref msg rest ref'. ro_Body obj = EventB ref msg rest \<and>
        objectReferenceTransformer_Forward C (Some ref) tid = Inr (Some ref') \<and>
        obj' = obj\<lparr>ro_Body := EventB ref' msg rest\<rparr>)"
  by (cases "ro_Body obj") (auto simp: EventTransformer_Forward_def bindR_Inr_iff)

lemma Event_Backward_iff [transformer_iffs]:
  "EventTransformer_Backward C obj tid = Inr obj' \<longleftrightarrow>
     (\<exists>ref msg rest ref'. ro_Body obj = EventB ref msg rest \<and>
        objectReferenceTransformer_Backward C (Some ref) tid = Inr (Some ref') \<and>
        obj' = obj\<lparr>ro_Body := EventB ref' (ReplaceAll msg (tid @ ''-'') '''') rest\<rparr>)"
  by (cases "ro_Body obj") (auto simp: EventTransformer_Backward_def bindR_Inr_iff)

lemma PV_Forward_iff [transformer_iffs]:
  "PVTransformer_Forward C obj tid = Inr obj' \<longleftrightarrow>
     (\<exists>spec rest ref. ro_Body obj = PersistentVolumeB spec rest \<and>
        refuseUnsafePVSource spec = Inr () \<and>
        pv_ClaimRef spec = Some ref \<and> obr_Namespace ref \<noteq> [] \<and> obr_Name ref \<noteq> [] \<and>
        obj' = obj\<lparr>ro_Body := PersistentVolumeB (spec\<lparr>pv_ClaimRef := Some (ref\<lparr>obr_Namespace :=
          UpstreamNamespace C tid (obr_Namespace ref)\<rparr>)\<rparr>) rest\<rparr>)"
  by (cases "ro_Body obj")
     (auto simp: PVTransformer_Forward_def refuseUnreservedPV_def bindR_Inr_iff split: option.splits if_splits)

lemma Ingress_Forward_iff [transformer_iffs]:
  "IngressTransformer_Forward C P obj tid = Inr obj' \<longleftrightarrow>
     (\<exists>c rest. ro_Body obj = IngressB c rest \<and>
        obj' = upd_meta (\<lambda>m. m\<lparr>om_Annotations := (om_Annotations m)(deprecatedIngressClassAnnotation :=
            upd_ingressClass (IngressTransformer_toUpstream C P tid)
              (om_Annotations m deprecatedIngressClassAnnotation))\<rparr>)
          (obj\<lparr>ro_Body := IngressB (upd_ingressClass (IngressTransformer_toUpstream C P tid) c) rest\<rparr>))"
  by (cases "ro_Body obj") (auto simp: IngressTransformer_Forward_def Let_def)

lemma NetworkPolicy_Forward_iff [transformer_iffs]:
  "NetworkPolicyTransformer_Forward C obj tid = Inr obj' \<longleftrightarrow>
     (\<exists>spec. ro_Body obj = NetworkPolicyB spec \<and>
        obj' = obj\<lparr>ro_Body := NetworkPolicyB (forEachPeer (\<lambda>peer.
            case npp_NamespaceSelector peer of None \<Rightarrow> peer
            | Some sel \<Rightarrow> peer\<lparr>npp_NamespaceSelector := Some (confineToTenant C sel tid)\<rparr>) spec)\<rparr>)"
  by (cases "ro_Body obj") (auto simp: NetworkPolicyTransformer_Forward_def)

lemma NetworkPolicy_Backward_iff [transformer_iffs]:
  "NetworkPolicyTransformer_Backward C obj tid = Inr obj' \<longleftrightarrow>
     (\<exists>spec. ro_Body obj = NetworkPolicyB spec \<and>
        obj' = obj\<lparr>ro_Body := NetworkPolicyB (forEachPeer (\<lambda>peer.
            case npp_NamespaceSelector peer of None \<Rightarrow> peer
            | Some sel \<Rightarrow> peer\<lparr>npp_NamespaceSelector := Some (releaseFromTenant C sel tid)\<rparr>) spec)\<rparr>)"
  by (cases "ro_Body obj") (auto simp: NetworkPolicyTransformer_Backward_def)

subsection \<open>Round trips\<close>

definition endpoints_ok :: "contract \<Rightarrow> string \<Rightarrow> body \<Rightarrow> bool" where
  "endpoints_ok C tid b \<longleftrightarrow> (\<forall>ss. b = EndpointsB ss \<longrightarrow>
     (\<forall>s\<in>set ss. \<forall>a\<in>set (es_Addresses s) \<union> set (es_NotReadyAddresses s). objref_ok C tid (ea_TargetRef a)))"

lemma transformTargetRef_roundtrip:
  assumes "contract_ok C" "tid_ok tid" "\<forall>a\<in>set as. objref_ok C tid (ea_TargetRef a)"
    and "mapR (transformTargetRef (objectReferenceTransformer_Forward C) tid) as = Inr bs"
  shows "mapR (transformTargetRef (objectReferenceTransformer_Backward C) tid) bs = Inr as"
  using assms(4) by (rule mapR_roundtrip)
    (use assms(1-3) objref.roundtrip in \<open>fastforce simp: transformTargetRef_def bindR_Inr_iff\<close>)

lemma transformSubset_roundtrip:
  assumes "contract_ok C" "tid_ok tid"
    and "\<forall>a\<in>set (es_Addresses s) \<union> set (es_NotReadyAddresses s). objref_ok C tid (ea_TargetRef a)"
    and "transformSubset (objectReferenceTransformer_Forward C) tid s = Inr s'"
  shows "transformSubset (objectReferenceTransformer_Backward C) tid s' = Inr s"
proof -
  let ?f = "transformTargetRef (objectReferenceTransformer_Forward C) tid"
  let ?b = "transformTargetRef (objectReferenceTransformer_Backward C) tid"
  from assms(4) obtain rs ns where rs: "mapR ?f (es_Addresses s) = Inr rs"
    and ns: "mapR ?f (es_NotReadyAddresses s) = Inr ns"
    and s': "s' = s\<lparr>es_Addresses := rs, es_NotReadyAddresses := ns\<rparr>"
    by (auto simp: transformSubset_def bindR_Inr_iff)
  have "mapR ?b rs = Inr (es_Addresses s)" "mapR ?b ns = Inr (es_NotReadyAddresses s)"
    using assms(3) transformTargetRef_roundtrip [OF assms(1,2) _ rs]
      transformTargetRef_roundtrip [OF assms(1,2) _ ns] by auto
  with s' show ?thesis
    by (simp add: transformSubset_def)
qed

interpretation endpoints: body_transformer NewEndpointsTransformer endpoints_ok
proof
  fix C obj tid obj' f
  show "ro_Meta obj' = ro_Meta obj \<and> is_status obj' = is_status obj \<and>
      ro_APIVersion obj' = ro_APIVersion obj \<and> ro_Kind obj' = ro_Kind obj"
    if "Forward (NewEndpointsTransformer C) obj tid = Inr obj'"
    using that by (auto simp: NewEndpointsTransformer_def Endpoints_Forward_iff is_status_def)
  show "Backward (NewEndpointsTransformer C) (upd_meta f obj) tid = Inr (upd_meta f obj')"
    if "Backward (NewEndpointsTransformer C) obj tid = Inr obj'"
    using that by (auto simp: NewEndpointsTransformer_def Endpoints_Backward_iff upd_meta_def)
  show "Backward (NewEndpointsTransformer C) obj' tid = Inr obj"
    if ok: "contract_ok C" "tid_ok tid" "endpoints_ok C tid (ro_Body obj)"
      and f: "Forward (NewEndpointsTransformer C) obj tid = Inr obj'"
  proof -
    from f obtain ss ss' where ss: "ro_Body obj = EndpointsB ss"
      "mapR (transformSubset (objectReferenceTransformer_Forward C) tid) ss = Inr ss'"
      "obj' = obj\<lparr>ro_Body := EndpointsB ss'\<rparr>"
      by (auto simp: NewEndpointsTransformer_def Endpoints_Forward_iff)
    have "mapR (transformSubset (objectReferenceTransformer_Backward C) tid) ss' = Inr ss"
      using ss(2) by (rule mapR_roundtrip)
        (use ok ss(1) in \<open>auto simp: endpoints_ok_def intro: transformSubset_roundtrip\<close>)
    with ss show ?thesis
      by (auto simp: NewEndpointsTransformer_def Endpoints_Backward_iff)
  qed
qed

definition endpointslice_ok :: "contract \<Rightarrow> string \<Rightarrow> body \<Rightarrow> bool" where
  "endpointslice_ok C tid b \<longleftrightarrow> (\<forall>es rest. b = EndpointSliceB es rest \<longrightarrow>
     (\<forall>e\<in>set es. objref_ok C tid (ep_TargetRef e)))"

interpretation endpointslice: body_transformer NewEndpointSliceTransformer endpointslice_ok
proof
  fix C obj tid obj' f
  show "ro_Meta obj' = ro_Meta obj \<and> is_status obj' = is_status obj \<and>
      ro_APIVersion obj' = ro_APIVersion obj \<and> ro_Kind obj' = ro_Kind obj"
    if "Forward (NewEndpointSliceTransformer C) obj tid = Inr obj'"
    using that by (auto simp: NewEndpointSliceTransformer_def EndpointSlice_Forward_iff is_status_def)
  show "Backward (NewEndpointSliceTransformer C) (upd_meta f obj) tid = Inr (upd_meta f obj')"
    if "Backward (NewEndpointSliceTransformer C) obj tid = Inr obj'"
    using that by (auto simp: NewEndpointSliceTransformer_def EndpointSlice_Backward_iff upd_meta_def)
  show "Backward (NewEndpointSliceTransformer C) obj' tid = Inr obj"
    if ok: "contract_ok C" "tid_ok tid" "endpointslice_ok C tid (ro_Body obj)"
      and f: "Forward (NewEndpointSliceTransformer C) obj tid = Inr obj'"
  proof -
    from f obtain es rest es' where es: "ro_Body obj = EndpointSliceB es rest"
      "mapR (\<lambda>e. bindR (objectReferenceTransformer_Forward C (ep_TargetRef e) tid)
          (\<lambda>target. Inr (e\<lparr>ep_TargetRef := target\<rparr>))) es = Inr es'"
      "obj' = obj\<lparr>ro_Body := EndpointSliceB es' rest\<rparr>"
      by (auto simp: NewEndpointSliceTransformer_def EndpointSlice_Forward_iff)
    have "mapR (\<lambda>e. bindR (objectReferenceTransformer_Backward C (ep_TargetRef e) tid)
          (\<lambda>target. Inr (e\<lparr>ep_TargetRef := target\<rparr>))) es' = Inr es"
      using es(2) by (rule mapR_roundtrip)
        (use ok es(1) objref.roundtrip [OF ok(1,2)] in
          \<open>fastforce simp: endpointslice_ok_def bindR_Inr_iff\<close>)
    with es show ?thesis
      by (auto simp: NewEndpointSliceTransformer_def EndpointSlice_Backward_iff)
  qed
qed

definition event_ok :: "contract \<Rightarrow> string \<Rightarrow> body \<Rightarrow> bool" where
  "event_ok C tid b \<longleftrightarrow> (\<forall>ref msg rest. b = EventB ref msg rest \<longrightarrow>
     objref_ok C tid (Some ref) \<and> \<not> sublist (tid @ ''-'') msg)"

interpretation event: body_transformer NewEventTransformer event_ok
proof
  fix C obj tid obj' f
  show "ro_Meta obj' = ro_Meta obj \<and> is_status obj' = is_status obj \<and>
      ro_APIVersion obj' = ro_APIVersion obj \<and> ro_Kind obj' = ro_Kind obj"
    if "Forward (NewEventTransformer C) obj tid = Inr obj'"
    using that by (auto simp: NewEventTransformer_def Event_Forward_iff is_status_def)
  show "Backward (NewEventTransformer C) (upd_meta f obj) tid = Inr (upd_meta f obj')"
    if "Backward (NewEventTransformer C) obj tid = Inr obj'"
    using that by (auto simp: NewEventTransformer_def Event_Backward_iff upd_meta_def)
  show "Backward (NewEventTransformer C) obj' tid = Inr obj"
    if ok: "contract_ok C" "tid_ok tid" "event_ok C tid (ro_Body obj)"
      and f: "Forward (NewEventTransformer C) obj tid = Inr obj'"
    using ok f objref.roundtrip [OF ok(1,2)]
    by (auto simp: NewEventTransformer_def Event_Forward_iff Event_Backward_iff event_ok_def
        ReplaceAll_id)
qed

lemma lowerRef_liftRef [simp]: "lowerRef (liftRef r) = r"
  by (simp add: lowerRef_def liftRef_def)

lemma liftRef_lowerRef [simp]: "liftRef (lowerRef r) = r"
  by (simp add: lowerRef_def liftRef_def)

lemma rewriteVersionedRef_roundtrip:
  assumes "contract_ok C" "tid_ok tid" "objref_ok C tid (Some (liftRef r))"
    and "rewriteVersionedRef r tid (objectReferenceTransformer_Forward C) = Inr r'"
  shows "rewriteVersionedRef r' tid (objectReferenceTransformer_Backward C) = Inr r"
proof -
  from assms(4) obtain x where "objectReferenceTransformer_Forward C (Some (liftRef r)) tid = Inr x"
    by (auto simp: rewriteVersionedRef_def bindR_Inr_iff)
  with objref_Forward_Some obtain q where
    q: "objectReferenceTransformer_Forward C (Some (liftRef r)) tid = Inr (Some q)"
    by blast
  with assms(4) have "r' = lowerRef q"
    by (simp add: rewriteVersionedRef_def)
  note q = q this
  from objref.roundtrip [OF assms(1-3) q(1)] q(2) show ?thesis
    by (simp add: rewriteVersionedRef_def)
qed

definition eventsv1_ok :: "contract \<Rightarrow> string \<Rightarrow> body \<Rightarrow> bool" where
  "eventsv1_ok C tid b \<longleftrightarrow> (\<forall>regarding related rest. b = EventsV1B regarding related rest \<longrightarrow>
     objref_ok C tid (Some (liftRef regarding)) \<and>
     (\<forall>r. related = Some r \<longrightarrow> objref_ok C tid (Some (liftRef r))))"

lemma EventsV1_Forward_iff [transformer_iffs]:
  "EventsV1Transformer_Forward C obj tid = Inr obj' \<longleftrightarrow>
     (\<exists>reg rel rest reg' rel'. ro_Body obj = EventsV1B reg rel rest \<and>
        rewriteVersionedRef reg tid (objectReferenceTransformer_Forward C) = Inr reg' \<and>
        mapOptR (\<lambda>r. rewriteVersionedRef r tid (objectReferenceTransformer_Forward C)) rel = Inr rel' \<and>
        obj' = obj\<lparr>ro_Body := EventsV1B reg' rel' rest\<rparr>)"
proof (cases "ro_Body obj")
  case (EventsV1B reg rel rest)
  then show ?thesis
    by (cases rel) (auto simp: EventsV1Transformer_Forward_def EventsV1Transformer_rewrite_def
        bindR_Inr_iff split: sum.splits)
qed (auto simp: EventsV1Transformer_Forward_def EventsV1Transformer_rewrite_def)

lemma EventsV1_Backward_ok:
  assumes "ro_Body obj = EventsV1B reg rel rest"
    and "rewriteVersionedRef reg tid (objectReferenceTransformer_Backward C) = Inr reg'"
    and "mapOptR (\<lambda>r. rewriteVersionedRef r tid (objectReferenceTransformer_Backward C)) rel = Inr rel'"
  shows "EventsV1Transformer_Backward C obj tid = Inr (obj\<lparr>ro_Body := EventsV1B reg' rel' rest\<rparr>)"
  using assms
  by (cases rel) (auto simp: EventsV1Transformer_Backward_def EventsV1Transformer_rewrite_def
      bindR_Inr_iff split: sum.splits)

lemma EventsV1_rewrite_natural:
  "EventsV1Transformer_rewrite (upd_meta f obj) tid rw =
     (case EventsV1Transformer_rewrite obj tid rw of (obj', e) \<Rightarrow> (upd_meta f obj', e))"
proof (cases "ro_Body obj")
  case (EventsV1B reg rel rest)
  then show ?thesis
    by (cases rel) (auto simp: EventsV1Transformer_rewrite_def upd_meta_def split: sum.splits)
qed (simp_all add: EventsV1Transformer_rewrite_def)

interpretation eventsv1: body_transformer NewEventsV1Transformer eventsv1_ok
proof
  fix C obj tid obj' f
  show "ro_Meta obj' = ro_Meta obj \<and> is_status obj' = is_status obj \<and>
      ro_APIVersion obj' = ro_APIVersion obj \<and> ro_Kind obj' = ro_Kind obj"
    if "Forward (NewEventsV1Transformer C) obj tid = Inr obj'"
    using that by (auto simp: NewEventsV1Transformer_def EventsV1_Forward_iff is_status_def)
  show "Backward (NewEventsV1Transformer C) (upd_meta f obj) tid = Inr (upd_meta f obj')"
    if "Backward (NewEventsV1Transformer C) obj tid = Inr obj'"
    using that by (auto simp: NewEventsV1Transformer_def EventsV1Transformer_Backward_def
        EventsV1_rewrite_natural split: prod.splits)
  show "Backward (NewEventsV1Transformer C) obj' tid = Inr obj"
    if ok: "contract_ok C" "tid_ok tid" "eventsv1_ok C tid (ro_Body obj)"
      and f: "Forward (NewEventsV1Transformer C) obj tid = Inr obj'"
  proof -
    let ?f = "\<lambda>r. rewriteVersionedRef r tid (objectReferenceTransformer_Forward C)"
    let ?b = "\<lambda>r. rewriteVersionedRef r tid (objectReferenceTransformer_Backward C)"
    from f obtain reg rel rest reg' rel' where e: "ro_Body obj = EventsV1B reg rel rest"
      "?f reg = Inr reg'" "mapOptR ?f rel = Inr rel'" "obj' = obj\<lparr>ro_Body := EventsV1B reg' rel' rest\<rparr>"
      by (auto simp: NewEventsV1Transformer_def EventsV1_Forward_iff)
    have "?b reg' = Inr reg"
      using e ok rewriteVersionedRef_roundtrip by (auto simp: eventsv1_ok_def)
    moreover have "mapOptR ?b rel' = Inr rel"
      using e ok rewriteVersionedRef_roundtrip [OF ok(1,2)]
      by (cases rel) (auto simp: eventsv1_ok_def bindR_Inr_iff)
    ultimately show ?thesis
      using EventsV1_Backward_ok [of obj' reg' rel' rest] e by (simp add: NewEventsV1Transformer_def)
  qed
qed

text \<open>The backward direction of an events.k8s.io event never fails.\<close>

lemma EventsV1_Backward_total: "\<exists>obj'. EventsV1Transformer_Backward C obj tid = Inr obj'"
  by (simp add: EventsV1Transformer_Backward_def split: prod.split)

subsection \<open>Volumes\<close>

definition pv_ok :: "contract \<Rightarrow> string \<Rightarrow> body \<Rightarrow> bool" where
  "pv_ok C tid b \<longleftrightarrow> (\<forall>spec rest ref. b = PersistentVolumeB spec rest \<longrightarrow> pv_ClaimRef spec = Some ref \<longrightarrow>
     \<not> HasPrefix (obr_Namespace ref) (tprefix C tid))"

interpretation pv: body_transformer NewPVTransformer pv_ok
proof
  fix C obj tid obj' f
  show "ro_Meta obj' = ro_Meta obj \<and> is_status obj' = is_status obj \<and>
      ro_APIVersion obj' = ro_APIVersion obj \<and> ro_Kind obj' = ro_Kind obj"
    if "Forward (NewPVTransformer C) obj tid = Inr obj'"
    using that by (auto simp: NewPVTransformer_def PV_Forward_iff is_status_def)
  show "Backward (NewPVTransformer C) (upd_meta f obj) tid = Inr (upd_meta f obj')"
    if "Backward (NewPVTransformer C) obj tid = Inr obj'"
    using that by (cases "ro_Body obj")
      (auto simp: NewPVTransformer_def PVTransformer_Backward_def upd_meta_def)
  show "Backward (NewPVTransformer C) obj' tid = Inr obj"
    if "contract_ok C" "tid_ok tid" "pv_ok C tid (ro_Body obj)"
      and "Forward (NewPVTransformer C) obj tid = Inr obj'"
    using that
    by (auto simp: NewPVTransformer_def PV_Forward_iff PVTransformer_Backward_def pv_ok_def)
qed

text \<open>A volume a tenant gets to write is one of the safe sources and is reserved for a claim of its own.\<close>

definition safe_source :: "PersistentVolumeSource \<Rightarrow> bool" where
  "safe_source s \<longleftrightarrow>
     (\<forall>csi. pvs_CSI s = Some csi \<longrightarrow>
        csi_ControllerPublishSecretRef csi = None \<and> csi_NodeStageSecretRef csi = None \<and>
        csi_NodePublishSecretRef csi = None \<and> csi_ControllerExpandSecretRef csi = None \<and>
        csi_NodeExpandSecretRef csi = None) \<and>
     (pvs_CSI s = None \<longrightarrow> (\<forall>ref. pvs_ISCSI_SecretRef s = Some ref \<longrightarrow> ref = None)) \<and>
     (pvs_CSI s = None \<and> pvs_ISCSI_SecretRef s = None \<and> pvs_NFS s = None \<and> pvs_FC s = None \<and>
        pvs_PortworxVolume s = None \<longrightarrow> s = empty_source)"

lemma refuseUnsafePVSource_iff: "refuseUnsafePVSource spec = Inr () \<longleftrightarrow> safe_source (pv_Source spec)"
  by (auto simp: refuseUnsafePVSource_def safe_source_def Let_def empty_source_def split: option.splits)

definition pvc_ok :: "contract \<Rightarrow> string \<Rightarrow> robject \<Rightarrow> bool" where
  "pvc_ok C tid obj \<longleftrightarrow> (\<forall>spec rest ref ns. ro_Body obj = PersistentVolumeClaimB spec rest \<longrightarrow>
     pvc_DataSourceRef spec = Some ref \<longrightarrow> ds_Namespace ref = Some ns \<longrightarrow> \<not> HasPrefix ns (tprefix C tid))"

lemma upd_dataSource_sel [simp]:
  "pvc_VolumeName (upd_dataSource f spec) = pvc_VolumeName spec"
  by (simp add: upd_dataSource_def split: option.split)

lemma upd_dataSource_inverse:
  assumes "\<And>ref ns. pvc_DataSourceRef spec = Some ref \<Longrightarrow> ds_Namespace ref = Some ns \<Longrightarrow> ns \<noteq> [] \<Longrightarrow>
      g (f ns) = ns \<and> f ns \<noteq> []"
  shows "upd_dataSource g (upd_dataSource f spec) = spec"
  using assms by (auto simp: upd_dataSource_def split: option.split)

lemma AnnBoundByController_key:
  "contract_ok C \<Longrightarrow> AnnBoundByController C \<noteq> LastAppliedConfigAnnotation C"
  using contract_okD(4) [of C] unfolding labels_ok_def by blast

lemma boundByController_reident [simp]:
  "contract_ok C \<Longrightarrow> boundByController C (reident C I obj) = boundByController C obj"
  by (simp add: boundByController_def AnnBoundByController_key)

lemma HasPrefix_Add: "naming_ok C \<Longrightarrow> HasPrefix (AddTenantIDPrefix C tid s) (tid @ TenantIDSeparator C)"
  by (simp add: Add_def tprefix_def)

lemma upd_dataSource_volume:
  "upd_dataSource f (spec\<lparr>pvc_VolumeName := v\<rparr>) = (upd_dataSource f spec)\<lparr>pvc_VolumeName := v\<rparr>"
  by (simp add: upd_dataSource_def split: option.split)

interpretation pvc: native_transformer NewPVCTransformer pvc_ok
proof
  fix C obj tid obj'
  show "ro_APIVersion obj' = ro_APIVersion obj \<and> ro_Kind obj' = ro_Kind obj"
    if "Forward (NewPVCTransformer C) obj tid = Inr obj'"
    using that by (cases "ro_Body obj")
      (auto simp: NewPVCTransformer_def PVCTransformer_Forward_def Let_def)
next
  fix C obj tid obj' I
  assume C: "contract_ok C"
  then have N: "naming_ok C" by simp
  show "ident_of C (ro_Meta obj') = ident_of C (ro_Meta obj) \<and> is_status obj' = is_status obj"
    if "Forward (NewPVCTransformer C) obj tid = Inr obj'"
    using that by (cases "ro_Body obj")
      (auto simp: NewPVCTransformer_def PVCTransformer_Forward_def Let_def is_status_def)
  show "pvc_ok C tid (reident C I obj) = pvc_ok C tid obj"
    by (simp add: pvc_ok_def)
  show "Backward (NewPVCTransformer C) (reident C I obj') tid = Inr (reident C I obj)"
    if ok: "pvc_ok C tid obj" and f: "Forward (NewPVCTransformer C) obj tid = Inr obj'"
  proof -
    from f obtain spec rest where b: "ro_Body obj = PersistentVolumeClaimB spec rest"
      by (cases "ro_Body obj") (auto simp: NewPVCTransformer_def PVCTransformer_Forward_def)
    let ?v = "if pvc_VolumeName spec \<noteq> [] \<and> \<not> boundByController C obj
        then AddTenantIDPrefix C tid (pvc_VolumeName spec) else pvc_VolumeName spec"
    let ?u = "upd_dataSource (UpstreamNamespace C tid) spec"
    have o': "obj' = obj\<lparr>ro_Body := PersistentVolumeClaimB (?u\<lparr>pvc_VolumeName := ?v\<rparr>) rest\<rparr>"
      using f b by (auto simp: NewPVCTransformer_def PVCTransformer_Forward_def upd_dataSource_volume)
    have inv: "upd_dataSource (TrimTenantIDPrefix C tid) ?u = spec"
      by (rule upd_dataSource_inverse) (use ok b N in \<open>auto simp: pvc_ok_def\<close>)
    have bc: "boundByController C (reident C I obj') = boundByController C obj"
      using C by (simp add: o') (simp add: boundByController_def)
    have body: "ro_Body obj' = PersistentVolumeClaimB (?u\<lparr>pvc_VolumeName := ?v\<rparr>) rest"
      by (simp add: o')
    have bk: "Backward (NewPVCTransformer C) (reident C I obj') tid
        = Inr ((reident C I obj')\<lparr>ro_Body := PersistentVolumeClaimB spec rest\<rparr>)"
      using N inv by (auto simp: NewPVCTransformer_def PVCTransformer_Backward_def body bc
          upd_dataSource_volume Let_def HasPrefix_Add)
    have "(reident C I obj')\<lparr>ro_Body := PersistentVolumeClaimB spec rest\<rparr> = reident C I obj"
      using b by (simp add: o' reident_def upd_meta_def)
    with bk show ?thesis by simp
  qed
qed

subsection \<open>Ingress classes\<close>

text \<open>
  A class name of the tenant's own does not turn into a published one by being prefixed.
\<close>

definition ingress_class_ok :: "contract \<Rightarrow> labelledSet \<Rightarrow> string \<Rightarrow> string option \<Rightarrow> bool" where
  "ingress_class_ok C P tid p \<longleftrightarrow> (\<forall>c. p = Some c \<longrightarrow> c \<noteq> [] \<longrightarrow> \<not> Visible P c \<longrightarrow> \<not> Visible P (tprefix C tid @ c))"

definition ingress_ok :: "labelledSet \<Rightarrow> contract \<Rightarrow> string \<Rightarrow> robject \<Rightarrow> bool" where
  "ingress_ok P C tid obj \<longleftrightarrow>
     (\<forall>c rest. ro_Body obj = IngressB c rest \<longrightarrow> ingress_class_ok C P tid c) \<and>
     ingress_class_ok C P tid (om_Annotations (ro_Meta obj) deprecatedIngressClassAnnotation)"

lemma ingressClass_roundtrip:
  assumes "naming_ok C" "ingress_class_ok C P tid c"
  shows "upd_ingressClass (IngressTransformer_toTenant C P tid)
      (upd_ingressClass (IngressTransformer_toUpstream C P tid) c) = c"
  using assms
  by (auto simp: upd_ingressClass_def IngressTransformer_toTenant_def IngressTransformer_toUpstream_def
      ingress_class_ok_def Add_def Trim_def tprefix_nonempty split: option.splits)

lemma ingress_annotation_key:
  "contract_ok C \<Longrightarrow> deprecatedIngressClassAnnotation \<noteq> LastAppliedConfigAnnotation C"
  using contract_okD(4) [of C] unfolding labels_ok_def deprecatedIngressClassAnnotation_def by auto

lemma ingress_reident:
  assumes C: "contract_ok C"
  shows "om_Annotations (set_ident C I m) deprecatedIngressClassAnnotation
    = om_Annotations m deprecatedIngressClassAnnotation"
    and "set_ident C I (m\<lparr>om_Annotations := (om_Annotations m)(deprecatedIngressClassAnnotation := v)\<rparr>)
    = (set_ident C I m)\<lparr>om_Annotations := (om_Annotations (set_ident C I m))(deprecatedIngressClassAnnotation := v)\<rparr>"
    and "(om_Annotations (set_ident C I m))(deprecatedIngressClassAnnotation :=
       om_Annotations m deprecatedIngressClassAnnotation) = om_Annotations (set_ident C I m)"
  using ingress_annotation_key [OF C] by (auto simp: set_ident_def fun_upd_twist)

interpretation ingress: native_transformer "\<lambda>C. NewIngressTransformer C (Some P)" "ingress_ok P" for P
proof
  fix C obj tid obj'
  show "ro_APIVersion obj' = ro_APIVersion obj \<and> ro_Kind obj' = ro_Kind obj"
    if "Forward (NewIngressTransformer C (Some P)) obj tid = Inr obj'"
    using that by (auto simp: NewIngressTransformer_def Ingress_Forward_iff)
next
  fix C obj tid obj' I
  assume C: "contract_ok C"
  note key = ingress_annotation_key [OF C]
  show "ident_of C (ro_Meta obj') = ident_of C (ro_Meta obj) \<and> is_status obj' = is_status obj"
    if "Forward (NewIngressTransformer C (Some P)) obj tid = Inr obj'"
    using that key by (auto simp: NewIngressTransformer_def Ingress_Forward_iff is_status_def ident_of_def)
  show "ingress_ok P C tid (reident C I obj) = ingress_ok P C tid obj"
    using key by (simp add: ingress_ok_def)
  show "Backward (NewIngressTransformer C (Some P)) (reident C I obj') tid = Inr (reident C I obj)"
    if ok: "ingress_ok P C tid obj" and f: "Forward (NewIngressTransformer C (Some P)) obj tid = Inr obj'"
  proof -
    from f obtain c rest where b: "ro_Body obj = IngressB c rest"
      by (auto simp: NewIngressTransformer_def Ingress_Forward_iff)
    have c: "ingress_class_ok C P tid c"
      and a: "ingress_class_ok C P tid (om_Annotations (ro_Meta obj) deprecatedIngressClassAnnotation)"
      using ok b by (auto simp: ingress_ok_def)
    note inv = ingressClass_roundtrip [OF contract_okD(1) [OF C] c]
      ingressClass_roundtrip [OF contract_okD(1) [OF C] a]
    have same: "obj\<lparr>ro_Body := IngressB c rest\<rparr> = obj"
      using b by (cases obj) simp
    show ?thesis
      using f b by (simp add: NewIngressTransformer_def Ingress_Forward_iff IngressTransformer_Backward_def
          reident_def upd_meta_def ingress_reident [OF C] inv same)
  qed
qed

text \<open>A class the platform publishes is used as it is; any other name is confined to the tenant.\<close>

lemma IngressTransformer_toUpstream_confined:
  "naming_ok C \<Longrightarrow> \<not> Visible P c \<Longrightarrow> HasPrefix (IngressTransformer_toUpstream C P tid c) (tprefix C tid)"
  by (simp add: IngressTransformer_toUpstream_def Add_def)

subsection \<open>Network policies\<close>

text \<open>The match labels of a selector as Kubernetes reads them: every one of them must hold.\<close>

definition matchLabels_hold :: "LabelSelector \<Rightarrow> strmap \<Rightarrow> bool" where
  "matchLabels_hold sel labels \<longleftrightarrow> (\<forall>k v. ls_MatchLabels sel k = Some v \<longrightarrow> labels k = Some v)"

lemma confineToTenant_label: "ls_MatchLabels (confineToTenant C sel tid) (TenantNamespaceLabelKey C) = Some tid"
  by (simp add: confineToTenant_def Let_def)

lemma confineToTenant_selects_own:
  "matchLabels_hold (confineToTenant C sel tid) labels \<Longrightarrow> labels (TenantNamespaceLabelKey C) = Some tid"
  using confineToTenant_label [of C sel tid] by (auto simp: matchLabels_hold_def)

definition selector_ok :: "contract \<Rightarrow> string \<Rightarrow> LabelSelector \<Rightarrow> bool" where
  "selector_ok C tid sel \<longleftrightarrow>
     ls_MatchLabels sel (TenantNamespaceLabelKey C) = None \<and>
     (\<forall>name. ls_MatchLabels sel (LabelMetadataName C) = Some name \<longrightarrow> \<not> HasPrefix name (tprefix C tid))"

lemma labels_keys_apart:
  "contract_ok C \<Longrightarrow> TenantNamespaceLabelKey C \<noteq> LabelMetadataName C"
  using contract_okD(4) [of C] unfolding labels_ok_def by simp

lemma release_confine:
  assumes C: "contract_ok C" and ok: "selector_ok C tid sel"
  shows "releaseFromTenant C (confineToTenant C sel tid) tid = sel"
proof (cases "ls_MatchLabels sel (LabelMetadataName C)")
  case None
  then show ?thesis
    using ok labels_keys_apart [OF C] by (simp add: releaseFromTenant_def confineToTenant_def selector_ok_def
        Let_def map_delete_absent)
next
  case (Some name)
  have "map_delete (TenantNamespaceLabelKey C) (ls_MatchLabels sel) = ls_MatchLabels sel"
    using ok by (simp add: selector_ok_def map_delete_absent)
  moreover have "(map_delete (TenantNamespaceLabelKey C) (m(LabelMetadataName C \<mapsto> v))) =
      (map_delete (TenantNamespaceLabelKey C) m)(LabelMetadataName C \<mapsto> v)" for m :: strmap and v
    using labels_keys_apart [OF C] by (auto simp: fun_eq_iff)
  moreover have "(ls_MatchLabels sel)(LabelMetadataName C \<mapsto> name) = ls_MatchLabels sel"
    using Some by (simp add: fun_upd_idem)
  ultimately show ?thesis
    using Some ok labels_keys_apart [OF C] C
    by (auto simp: releaseFromTenant_def confineToTenant_def selector_ok_def Let_def)
qed

definition networkpolicy_peers :: "NetworkPolicySpec \<Rightarrow> NetworkPolicyPeer list" where
  "networkpolicy_peers spec = concat (map npr_Peers (np_Ingress spec @ np_Egress spec))"

definition networkpolicy_ok :: "contract \<Rightarrow> string \<Rightarrow> body \<Rightarrow> bool" where
  "networkpolicy_ok C tid b \<longleftrightarrow> (\<forall>spec peer sel. b = NetworkPolicyB spec \<longrightarrow>
     peer \<in> set (networkpolicy_peers spec) \<longrightarrow> npp_NamespaceSelector peer = Some sel \<longrightarrow> selector_ok C tid sel)"

lemma forEachPeer_id:
  assumes "\<And>peer. peer \<in> set (networkpolicy_peers spec) \<Longrightarrow> visit peer = peer"
  shows "forEachPeer visit spec = spec"
proof -
  have "r\<lparr>npr_Peers := map visit (npr_Peers r)\<rparr> = r" if "r \<in> set (np_Ingress spec) \<union> set (np_Egress spec)" for r
  proof -
    have "map visit (npr_Peers r) = npr_Peers r"
      using that assms by (intro map_idI) (auto simp: networkpolicy_peers_def)
    then show ?thesis by simp
  qed
  then show ?thesis
    by (simp add: forEachPeer_def Let_def map_idI)
qed

lemma forEachPeer_comp: "forEachPeer f (forEachPeer g spec) = forEachPeer (f \<circ> g) spec"
  by (simp add: forEachPeer_def Let_def)

lemma networkpolicy_peers_forEach:
  "networkpolicy_peers (forEachPeer f spec) = map f (networkpolicy_peers spec)"
  by (simp add: networkpolicy_peers_def forEachPeer_def Let_def map_concat comp_def)

interpretation networkpolicy: body_transformer NewNetworkPolicyTransformer networkpolicy_ok
proof
  fix C obj tid obj' f
  show "ro_Meta obj' = ro_Meta obj \<and> is_status obj' = is_status obj \<and>
      ro_APIVersion obj' = ro_APIVersion obj \<and> ro_Kind obj' = ro_Kind obj"
    if "Forward (NewNetworkPolicyTransformer C) obj tid = Inr obj'"
    using that by (auto simp: NewNetworkPolicyTransformer_def NetworkPolicy_Forward_iff is_status_def)
  show "Backward (NewNetworkPolicyTransformer C) (upd_meta f obj) tid = Inr (upd_meta f obj')"
    if "Backward (NewNetworkPolicyTransformer C) obj tid = Inr obj'"
    using that by (auto simp: NewNetworkPolicyTransformer_def NetworkPolicy_Backward_iff upd_meta_def)
  show "Backward (NewNetworkPolicyTransformer C) obj' tid = Inr obj"
    if ok: "contract_ok C" "tid_ok tid" "networkpolicy_ok C tid (ro_Body obj)"
      and f: "Forward (NewNetworkPolicyTransformer C) obj tid = Inr obj'"
  proof -
    let ?f = "\<lambda>peer. case npp_NamespaceSelector peer of None \<Rightarrow> peer
      | Some sel \<Rightarrow> peer\<lparr>npp_NamespaceSelector := Some (confineToTenant C sel tid)\<rparr>"
    let ?b = "\<lambda>peer. case npp_NamespaceSelector peer of None \<Rightarrow> peer
      | Some sel \<Rightarrow> peer\<lparr>npp_NamespaceSelector := Some (releaseFromTenant C sel tid)\<rparr>"
    from f obtain spec where spec: "ro_Body obj = NetworkPolicyB spec"
      "obj' = obj\<lparr>ro_Body := NetworkPolicyB (forEachPeer ?f spec)\<rparr>"
      by (auto simp: NewNetworkPolicyTransformer_def NetworkPolicy_Forward_iff)
    have "forEachPeer ?b (forEachPeer ?f spec) = spec"
      unfolding forEachPeer_comp
      by (rule forEachPeer_id)
        (use ok spec release_confine [OF ok(1)] in \<open>auto simp: networkpolicy_ok_def split: option.splits\<close>)
    with spec show ?thesis
      by (cases obj) (simp add: NewNetworkPolicyTransformer_def NetworkPolicyTransformer_Backward_def)
  qed
qed

subsection \<open>Namespaces are marked\<close>

text \<open>
  A namespace the tenant writes reaches the upstream cluster with the tenant's label and the
  pinned pod-security level, whatever labels the tenant asked for.
\<close>

lemma Namespace_Forward_labels:
  assumes "contract_ok C" "NamespaceTransformer_Forward C obj tid = Inr obj'"
  shows "om_Labels (ro_Meta obj') (TenantNamespaceLabelKey C) = Some tid"
    and "om_Labels (ro_Meta obj') (PodSecurityEnforceLabelKey C) = Some (PodSecurityLevel C)"
    and "om_Labels (ro_Meta obj') (PodSecurityEnforceVersionLabelKey C) = Some (PodSecurityVersion C)"
  using assms contract_okD(4) [OF assms(1)]
  by (auto simp: Namespace_Forward_iff pinPodSecurity_def labels_ok_def)

lemma Namespace_Forward_foreign_label:
  assumes "om_Labels (ro_Meta obj) (TenantNamespaceLabelKey C) = Some v" "v \<noteq> tid"
  shows "\<exists>e. NamespaceTransformer_Forward C obj tid = Inl e"
  using assms by (cases "NamespaceTransformer_Forward C obj tid") (auto simp: Namespace_Forward_iff)

end
