(* ===== verification/Extension_Transformers.thy ===== *)
theory Extension_Transformers
  imports Default_Convertor Core_Transformers
begin

text \<open>
  The conversions of package convert for what extends the API (webhookconfiguration.go,
  customresourcedefinition.go, customresource.go): admission webhooks, custom resource
  definitions and custom resources.
\<close>

subsection \<open>Webhook configurations\<close>

definition tenantNamespaceSelector :: "contract \<Rightarrow> string \<Rightarrow> LabelSelector" where
  "tenantNamespaceSelector C tenantID =
     \<lparr>ls_MatchLabels = [TenantNamespaceLabelKey C \<mapsto> tenantID], ls_MatchExpressions = []\<rparr>"

definition forwardWebhookClientConfig ::
  "contract \<Rightarrow> WebhookClientConfig \<Rightarrow> string \<Rightarrow> WebhookClientConfig result" where
  "forwardWebhookClientConfig C clientConfig tenantID =
     (if wcc_URL clientConfig \<noteq> None then Inl (Plain ''clientConfig.url is not available to tenants'')
      else Inr (case wcc_ServiceNamespace clientConfig of
          Some ns \<Rightarrow> if ns \<noteq> [] then clientConfig\<lparr>wcc_ServiceNamespace := Some (AddTenantIDPrefix C tenantID ns)\<rparr>
                     else clientConfig
        | None \<Rightarrow> clientConfig))"

definition backwardWebhookClientConfig ::
  "contract \<Rightarrow> WebhookClientConfig \<Rightarrow> string \<Rightarrow> WebhookClientConfig result" where
  "backwardWebhookClientConfig C clientConfig tenantID =
     Inr (case wcc_ServiceNamespace clientConfig of
          Some ns \<Rightarrow> if ns = [] then clientConfig
                     else clientConfig\<lparr>wcc_ServiceNamespace := Some (trimIfAttributable C ns tenantID)\<rparr>
        | None \<Rightarrow> clientConfig)"

definition confineRulesToNamespacedScope :: "RuleWithOperations list \<Rightarrow> RuleWithOperations list" where
  "confineRulesToNamespacedScope rules = map (\<lambda>r. r\<lparr>rwo_Scope := Some NamespacedScope\<rparr>) rules"

definition forwardWebhook :: "contract \<Rightarrow> string \<Rightarrow> Webhook \<Rightarrow> Webhook result" where
  "forwardWebhook C tenantID w =
     bindR (forwardWebhookClientConfig C (wh_ClientConfig w) tenantID) (\<lambda>clientConfig.
     Inr (w\<lparr>wh_ClientConfig := clientConfig,
       wh_NamespaceSelector := Some (tenantNamespaceSelector C tenantID),
       wh_Rules := confineRulesToNamespacedScope (wh_Rules w)\<rparr>))"

definition backwardWebhook :: "contract \<Rightarrow> string \<Rightarrow> Webhook \<Rightarrow> Webhook result" where
  "backwardWebhook C tenantID w =
     bindR (backwardWebhookClientConfig C (wh_ClientConfig w) tenantID) (\<lambda>clientConfig.
     Inr (w\<lparr>wh_ClientConfig := clientConfig\<rparr>))"

definition WebhookConfigurationTransformer_Forward :: "contract \<Rightarrow> robject \<Rightarrow> string \<Rightarrow> robject result" where
  "WebhookConfigurationTransformer_Forward C obj tenantID =
     (case ro_Body obj of
        MutatingWebhookConfigurationB webhooks \<Rightarrow>
          bindR (mapR (forwardWebhook C tenantID) webhooks)
            (\<lambda>webhooks. Inr (obj\<lparr>ro_Body := MutatingWebhookConfigurationB webhooks\<rparr>))
      | ValidatingWebhookConfigurationB webhooks \<Rightarrow>
          bindR (mapR (forwardWebhook C tenantID) webhooks)
            (\<lambda>webhooks. Inr (obj\<lparr>ro_Body := ValidatingWebhookConfigurationB webhooks\<rparr>))
      | _ \<Rightarrow> Inl TypeAssertion)"

definition WebhookConfigurationTransformer_Backward :: "contract \<Rightarrow> robject \<Rightarrow> string \<Rightarrow> robject result" where
  "WebhookConfigurationTransformer_Backward C obj tenantID =
     (case ro_Body obj of
        MutatingWebhookConfigurationB webhooks \<Rightarrow>
          bindR (mapR (backwardWebhook C tenantID) webhooks)
            (\<lambda>webhooks. Inr (obj\<lparr>ro_Body := MutatingWebhookConfigurationB webhooks\<rparr>))
      | ValidatingWebhookConfigurationB webhooks \<Rightarrow>
          bindR (mapR (backwardWebhook C tenantID) webhooks)
            (\<lambda>webhooks. Inr (obj\<lparr>ro_Body := ValidatingWebhookConfigurationB webhooks\<rparr>))
      | _ \<Rightarrow> Inl TypeAssertion)"

definition NewWebhookConfigurationTransformer :: "contract \<Rightarrow> ObjectTransformer" where
  "NewWebhookConfigurationTransformer C = \<lparr>
     Forward = WebhookConfigurationTransformer_Forward C,
     Backward = WebhookConfigurationTransformer_Backward C\<rparr>"

subsection \<open>Custom resource definitions\<close>

definition forwardCRDConversionWebhook ::
  "contract \<Rightarrow> CustomResourceDefinitionSpec \<Rightarrow> string \<Rightarrow> CustomResourceDefinitionSpec result" where
  "forwardCRDConversionWebhook C spec tenantID =
     (case crd_ConversionClientConfig spec of None \<Rightarrow> Inr spec
      | Some clientConfig \<Rightarrow>
        if wcc_URL clientConfig \<noteq> None then Inl (Plain ''conversion webhook url is not available to tenants'')
        else Inr (case wcc_ServiceNamespace clientConfig of
            Some ns \<Rightarrow> if ns \<noteq> [] then spec\<lparr>crd_ConversionClientConfig := Some (clientConfig\<lparr>
                wcc_ServiceNamespace := Some (AddTenantIDPrefix C tenantID ns)\<rparr>)\<rparr> else spec
          | None \<Rightarrow> spec))"

definition backwardCRDConversionWebhook ::
  "contract \<Rightarrow> CustomResourceDefinitionSpec \<Rightarrow> string \<Rightarrow> CustomResourceDefinitionSpec result" where
  "backwardCRDConversionWebhook C spec tenantID =
     (case crd_ConversionClientConfig spec of None \<Rightarrow> Inr spec
      | Some clientConfig \<Rightarrow>
        (case wcc_ServiceNamespace clientConfig of None \<Rightarrow> Inr spec
         | Some ns \<Rightarrow> if ns = [] then Inr spec
             else Inr (spec\<lparr>crd_ConversionClientConfig := Some (clientConfig\<lparr>
               wcc_ServiceNamespace := Some (trimIfAttributable C ns tenantID)\<rparr>)\<rparr>)))"

definition CRDConvertor_ConvertTenantObjectToUpstreamObject ::
  "contract \<Rightarrow> robject \<Rightarrow> string \<Rightarrow> bool \<Rightarrow> robject result" where
  "CRDConvertor_ConvertTenantObjectToUpstreamObject C obj tenantID isNamespaceScoped =
     (case ro_Body obj of
        CustomResourceDefinitionB spec \<Rightarrow>
          if om_Name (ro_Meta obj) \<noteq> crd_Plural spec @ ''.'' @ crd_Group spec
          then Inl (Plain ''metadata.name must be spec.names.plural.spec.group'')
          else
            let spec = spec\<lparr>crd_Group := AddTenantIDPrefix C tenantID (crd_Group spec)\<rparr>;
                name = crd_Plural spec @ ''.'' @ crd_Group spec
            in bindR (forwardCRDConversionWebhook C spec tenantID) (\<lambda>spec.
               bindR (mapR (\<lambda>r. bindR (ownerReferenceTransformer_Forward C (Some r) tenantID) deref)
                        (om_OwnerReferences (ro_Meta obj))) (\<lambda>refs.
               Inr (obj\<lparr>ro_Meta := (ro_Meta obj)\<lparr>om_Name := name, om_OwnerReferences := refs\<rparr>,
                 ro_Body := CustomResourceDefinitionB spec\<rparr>)))
      | _ \<Rightarrow> Inl TypeAssertion)"

definition CRDConvertor_ConvertUpstreamObjectToTenantObject ::
  "contract \<Rightarrow> robject \<Rightarrow> string \<Rightarrow> bool \<Rightarrow> robject result" where
  "CRDConvertor_ConvertUpstreamObjectToTenantObject C obj tenantID isNamespaceScoped =
     (case ro_Body obj of
        CustomResourceDefinitionB spec \<Rightarrow>
          if \<not> HasPrefix (crd_Group spec) tenantID then Inl (Plain ''invalid spec.group'')
          else
            let spec = spec\<lparr>crd_Group := TrimTenantIDPrefix C tenantID (crd_Group spec)\<rparr>;
                name = crd_Plural spec @ ''.'' @ crd_Group spec
            in bindR (backwardCRDConversionWebhook C spec tenantID) (\<lambda>spec.
               bindR (mapR (\<lambda>r. bindR (ownerReferenceTransformer_Backward C (Some r) tenantID) deref)
                        (om_OwnerReferences (ro_Meta obj))) (\<lambda>refs.
               Inr (obj\<lparr>ro_Meta := (ro_Meta obj)\<lparr>om_Name := name, om_OwnerReferences := refs\<rparr>,
                 ro_Body := CustomResourceDefinitionB spec\<rparr>)))
      | _ \<Rightarrow> Inl TypeAssertion)"

definition NewCRDConvertor :: "contract \<Rightarrow> ObjectConvertor" where
  "NewCRDConvertor C = \<lparr>
     ConvertTenantObjectToUpstreamObject = CRDConvertor_ConvertTenantObjectToUpstreamObject C,
     ConvertUpstreamObjectToTenantObject = CRDConvertor_ConvertUpstreamObjectToTenantObject C\<rparr>"

subsection \<open>Custom resources\<close>

definition CustomResourceTransformer_shared :: "(string \<Rightarrow> bool) option \<Rightarrow> string \<Rightarrow> bool" where
  "CustomResourceTransformer_shared isSharedGroup apiVersion =
     (case isSharedGroup of None \<Rightarrow> False
      | Some shared \<Rightarrow> (case Cut apiVersion ''/'' of (grp, _, _) \<Rightarrow> shared grp))"

definition rewriteManagedFieldVersions :: "(string \<Rightarrow> string) \<Rightarrow> robject \<Rightarrow> robject" where
  "rewriteManagedFieldVersions rewrite u =
     upd_meta (\<lambda>m. m\<lparr>om_ManagedFields := map (\<lambda>e. if mf_APIVersion e \<noteq> []
       then e\<lparr>mf_APIVersion := rewrite (mf_APIVersion e)\<rparr> else e) (om_ManagedFields m)\<rparr>) u"

definition isUnstructured :: "robject \<Rightarrow> bool" where
  "isUnstructured obj = (case ro_Body obj of UnstructuredB _ \<Rightarrow> True | _ \<Rightarrow> False)"

definition CustomResourceTransformer_Forward ::
  "contract \<Rightarrow> (string \<Rightarrow> bool) option \<Rightarrow> robject \<Rightarrow> string \<Rightarrow> robject result" where
  "CustomResourceTransformer_Forward C isSharedGroup obj tenantID =
     (if \<not> isUnstructured obj then Inl TypeAssertion
      else let groupVersion = ro_APIVersion obj in
        if CustomResourceTransformer_shared isSharedGroup groupVersion then Inr obj
        else Inr (rewriteManagedFieldVersions (AddTenantIDPrefix C tenantID)
          (obj\<lparr>ro_APIVersion := AddTenantIDPrefix C tenantID groupVersion\<rparr>)))"

definition CustomResourceTransformer_Backward ::
  "contract \<Rightarrow> (string \<Rightarrow> bool) option \<Rightarrow> robject \<Rightarrow> string \<Rightarrow> robject result" where
  "CustomResourceTransformer_Backward C isSharedGroup obj tenantID =
     (if \<not> isUnstructured obj then Inl TypeAssertion
      else let groupVersion = ro_APIVersion obj in
        if CustomResourceTransformer_shared isSharedGroup groupVersion then Inr obj
        else Inr (rewriteManagedFieldVersions (\<lambda>version.
            if \<not> HasPrefix version tenantID then version else TrimTenantIDPrefix C tenantID version)
          (obj\<lparr>ro_APIVersion := trimIfAttributable C groupVersion tenantID\<rparr>)))"

definition NewCustomResourceTransformer :: "contract \<Rightarrow> (string \<Rightarrow> bool) option \<Rightarrow> ObjectTransformer" where
  "NewCustomResourceTransformer C isSharedGroup = \<lparr>
     Forward = CustomResourceTransformer_Forward C isSharedGroup,
     Backward = CustomResourceTransformer_Backward C isSharedGroup\<rparr>"

subsection \<open>A tenant's webhook sees the tenant's objects only\<close>

definition webhook_confined :: "contract \<Rightarrow> string \<Rightarrow> Webhook \<Rightarrow> bool" where
  "webhook_confined C tid w \<longleftrightarrow>
     wcc_URL (wh_ClientConfig w) = None \<and>
     (\<forall>ns. wcc_ServiceNamespace (wh_ClientConfig w) = Some ns \<longrightarrow> ns = [] \<or> HasPrefix ns (tprefix C tid)) \<and>
     (\<exists>sel. wh_NamespaceSelector w = Some sel \<and>
        (\<forall>labels. matchLabels_hold sel labels \<longrightarrow> labels (TenantNamespaceLabelKey C) = Some tid)) \<and>
     (\<forall>r\<in>set (wh_Rules w). rwo_Scope r = Some NamespacedScope)"

lemma forwardWebhook_confined:
  assumes "naming_ok C" "forwardWebhook C tid w = Inr w'"
  shows "webhook_confined C tid w'"
  using assms
  by (auto simp: forwardWebhook_def forwardWebhookClientConfig_def webhook_confined_def
      tenantNamespaceSelector_def matchLabels_hold_def confineRulesToNamespacedScope_def bindR_Inr_iff
      Add_def split: if_splits option.splits)

lemma Webhook_Forward_iff:
  "WebhookConfigurationTransformer_Forward C obj tid = Inr obj' \<longleftrightarrow>
     (\<exists>ws ws'. mapR (forwardWebhook C tid) ws = Inr ws' \<and>
        (ro_Body obj = MutatingWebhookConfigurationB ws \<and> obj' = obj\<lparr>ro_Body := MutatingWebhookConfigurationB ws'\<rparr> \<or>
         ro_Body obj = ValidatingWebhookConfigurationB ws \<and> obj' = obj\<lparr>ro_Body := ValidatingWebhookConfigurationB ws'\<rparr>))"
  by (cases "ro_Body obj") (auto simp: WebhookConfigurationTransformer_Forward_def bindR_Inr_iff)

text \<open>The service a webhook names reads back as the tenant wrote it.\<close>

lemma webhook_clientConfig_roundtrip:
  assumes "naming_ok C" "forwardWebhookClientConfig C cc tid = Inr cc'"
  shows "backwardWebhookClientConfig C cc' tid = Inr cc"
  using assms
  by (auto simp: forwardWebhookClientConfig_def backwardWebhookClientConfig_def split: if_splits option.splits)

subsection \<open>Custom resource definitions: round trip\<close>

lemma forwardCRDConversionWebhook_sel:
  "forwardCRDConversionWebhook C spec tid = Inr spec' \<Longrightarrow>
     crd_Group spec' = crd_Group spec \<and> crd_Plural spec' = crd_Plural spec"
  by (auto simp: forwardCRDConversionWebhook_def split: option.splits if_splits)

lemma CRDConversionWebhook_roundtrip:
  assumes "naming_ok C" "forwardCRDConversionWebhook C spec tid = Inr spec'"
  shows "backwardCRDConversionWebhook C (spec'\<lparr>crd_Group := g\<rparr>) tid = Inr (spec\<lparr>crd_Group := g\<rparr>)"
  using assms
  by (auto simp: forwardCRDConversionWebhook_def backwardCRDConversionWebhook_def split: option.splits if_splits)

lemma CRD_roundtrip:
  assumes C: "contract_ok C" "tid_ok tid"
    and f: "CRDConvertor_ConvertTenantObjectToUpstreamObject C obj tid ns = Inr obj'"
  shows "CRDConvertor_ConvertUpstreamObjectToTenantObject C obj' tid ns = Inr obj"
proof -
  have N: "naming_ok C" using C by simp
  from f obtain spec where b: "ro_Body obj = CustomResourceDefinitionB spec"
    by (cases "ro_Body obj") (auto simp: CRDConvertor_ConvertTenantObjectToUpstreamObject_def)
  let ?up = "spec\<lparr>crd_Group := AddTenantIDPrefix C tid (crd_Group spec)\<rparr>"
  from f b obtain spec' refs where
    name: "om_Name (ro_Meta obj) = crd_Plural spec @ ''.'' @ crd_Group spec" and
    wh: "forwardCRDConversionWebhook C ?up tid = Inr spec'" and
    refs: "mapR (\<lambda>r. bindR (ownerReferenceTransformer_Forward C (Some r) tid) deref)
      (om_OwnerReferences (ro_Meta obj)) = Inr refs" and
    obj': "obj' = obj\<lparr>ro_Meta := (ro_Meta obj)\<lparr>om_Name := crd_Plural spec @ ''.'' @ AddTenantIDPrefix C tid (crd_Group spec),
      om_OwnerReferences := refs\<rparr>, ro_Body := CustomResourceDefinitionB spec'\<rparr>"
    by (auto simp: CRDConvertor_ConvertTenantObjectToUpstreamObject_def bindR_Inr_iff Let_def split: if_splits)
  have g: "crd_Group spec' = AddTenantIDPrefix C tid (crd_Group spec)" "crd_Plural spec' = crd_Plural spec"
    using forwardCRDConversionWebhook_sel [OF wh] by simp_all
  have "HasPrefix (AddTenantIDPrefix C tid (crd_Group spec)) tid"
    using N by (simp add: Add_def tprefix_def)
  moreover have "backwardCRDConversionWebhook C (spec'\<lparr>crd_Group := crd_Group spec\<rparr>) tid = Inr spec"
    using CRDConversionWebhook_roundtrip [OF N wh, of "crd_Group spec"] by simp
  moreover note owner_list_roundtrip [OF C refs]
  ultimately show ?thesis
    using N b name by (cases obj) (simp add: obj' CRDConvertor_ConvertUpstreamObjectToTenantObject_def g Let_def)
qed

text \<open>The upstream definition lives in a group of the tenant's own.\<close>

lemma CRD_upstream_group:
  assumes "naming_ok C" "CRDConvertor_ConvertTenantObjectToUpstreamObject C obj tid ns = Inr obj'"
    and "ro_Body obj' = CustomResourceDefinitionB spec'"
  shows "HasPrefix (crd_Group spec') (tprefix C tid) \<and>
    om_Name (ro_Meta obj') = crd_Plural spec' @ ''.'' @ crd_Group spec'"
  using assms forwardCRDConversionWebhook_sel [of C _ tid spec']
  by (cases "ro_Body obj") (fastforce simp: CRDConvertor_ConvertTenantObjectToUpstreamObject_def
      bindR_Inr_iff Let_def Add_def split: if_splits)+

subsection \<open>Custom resources: round trip\<close>

text \<open>
  Prefixing a group of the tenant's own does not turn it into a shared one.
\<close>

definition customresource_ok :: "(string \<Rightarrow> bool) option \<Rightarrow> contract \<Rightarrow> string \<Rightarrow> robject \<Rightarrow> bool" where
  "customresource_ok isSharedGroup C tid obj \<longleftrightarrow>
     (\<not> CustomResourceTransformer_shared isSharedGroup (ro_APIVersion obj) \<longrightarrow>
      \<not> CustomResourceTransformer_shared isSharedGroup (AddTenantIDPrefix C tid (ro_APIVersion obj)))"

lemma rewriteManagedFieldVersions_inverse:
  assumes "\<And>v. v \<noteq> [] \<Longrightarrow> g (f v) = v \<and> f v \<noteq> []"
  shows "rewriteManagedFieldVersions g (rewriteManagedFieldVersions f u) = u"
proof -
  let ?e = "\<lambda>h e. if mf_APIVersion e \<noteq> [] then e\<lparr>mf_APIVersion := h (mf_APIVersion e)\<rparr> else e"
  have "?e g (?e f e) = e" for e :: ManagedFieldsEntry
    using assms by simp
  then have "map (?e g) (map (?e f) es) = es" for es :: "ManagedFieldsEntry list"
    unfolding map_map comp_def by simp
  then show ?thesis
    by (simp add: rewriteManagedFieldVersions_def upd_meta_def)
qed

lemma rewriteManaged_reident:
  "rewriteManagedFieldVersions f (reident C I u) = reident C I (rewriteManagedFieldVersions f u)"
  by (simp add: rewriteManagedFieldVersions_def reident_def upd_meta_def set_ident_def)

lemma rewriteManaged_simps [simp]:
  "ro_APIVersion (rewriteManagedFieldVersions f u) = ro_APIVersion u"
  "ro_Body (rewriteManagedFieldVersions f u) = ro_Body u"
  "(rewriteManagedFieldVersions f u)\<lparr>ro_APIVersion := a\<rparr> = rewriteManagedFieldVersions f (u\<lparr>ro_APIVersion := a\<rparr>)"
  "ident_of C (ro_Meta (rewriteManagedFieldVersions f u)) = ident_of C (ro_Meta u)"
  by (simp_all add: rewriteManagedFieldVersions_def upd_meta_def ident_of_def)

lemma reident_APIVersion: "(reident C I u)\<lparr>ro_APIVersion := a\<rparr> = reident C I (u\<lparr>ro_APIVersion := a\<rparr>)"
  by (simp add: reident_def upd_meta_def)

interpretation customresource: object_transformer
  "\<lambda>C. NewCustomResourceTransformer C shared" "customresource_ok shared" for shared
proof
  fix C obj tid obj' I
  assume C: "contract_ok C"
  have N: "naming_ok C" using C by simp
  show "ident_of C (ro_Meta obj') = ident_of C (ro_Meta obj) \<and> is_status obj' = is_status obj"
    if "Forward (NewCustomResourceTransformer C shared) obj tid = Inr obj'"
    using that by (auto simp: NewCustomResourceTransformer_def CustomResourceTransformer_Forward_def
        is_status_def Let_def split: if_splits)
  show "customresource_ok shared C tid (reident C I obj) = customresource_ok shared C tid obj"
    by (simp add: customresource_ok_def)
  show "Backward (NewCustomResourceTransformer C shared) (reident C I obj') tid = Inr (reident C I obj)"
    if ok: "customresource_ok shared C tid obj"
      and f: "Forward (NewCustomResourceTransformer C shared) obj tid = Inr obj'"
  proof (cases "CustomResourceTransformer_shared shared (ro_APIVersion obj)")
    case True
    with f show ?thesis
      by (auto simp: NewCustomResourceTransformer_def CustomResourceTransformer_Forward_def
          CustomResourceTransformer_Backward_def isUnstructured_def Let_def split: if_splits)
  next
    case False
    let ?bwd = "\<lambda>version. if \<not> HasPrefix version tid then version else TrimTenantIDPrefix C tid version"
    have inv: "rewriteManagedFieldVersions ?bwd (rewriteManagedFieldVersions (AddTenantIDPrefix C tid) u) = u" for u
      by (rule rewriteManagedFieldVersions_inverse) (use N in \<open>simp add: Add_def tprefix_def Trim_def TrimPrefix_def\<close>)
    from False f have o': "isUnstructured obj" "obj' = rewriteManagedFieldVersions (AddTenantIDPrefix C tid)
          (obj\<lparr>ro_APIVersion := AddTenantIDPrefix C tid (ro_APIVersion obj)\<rparr>)"
      by (auto simp: NewCustomResourceTransformer_def CustomResourceTransformer_Forward_def Let_def
          split: if_splits)
    with False ok N inv show ?thesis
      by (simp add: NewCustomResourceTransformer_def CustomResourceTransformer_Backward_def Let_def
          isUnstructured_def customresource_ok_def reident_APIVersion rewriteManaged_reident)
  qed
qed

end
