(* ===== verification/Proxy_Guards.thy ===== *)
theory Proxy_Guards
  imports Upstream Service_Rules Extension_Transformers
begin

text \<open>
  The guards of the write path (the refuse functions of proxy.go and of the files beside it).  A
  guard answers with an error or lets the object through; refuseForeignClusterIP also puts back
  the stored address.  The proxy of a resource is the record \<open>tenantProxy\<close>.
\<close>

subsection \<open>The proxy of a resource\<close>

text \<open>
  The fields the operations below read.  newFunc gives the fresh object of the resource,
  newListFunc whether the fresh list is an unstructured one.
\<close>

record tenantProxy =
  tp_kind :: GroupVersionKind
  tp_convertor :: ObjectConvertor
  tp_namespaceScoped :: bool
  tp_resource :: string
  tp_subresource :: string
  tp_shortNames :: "string list"
  tp_isCustomResource :: bool
  tp_isSharedGroup :: "(string \<Rightarrow> bool) option"
  tp_hideProjected :: bool
  tp_newFunc :: "robject option"
  tp_newListFunc :: "bool option"
  tp_groupVersionKindFunc :: "(string \<times> string \<Rightarrow> GroupVersionKind) option"
  tp_typeConverter :: "TypeConverter option"
  tp_injectedPaths :: "fieldset option"
  tp_publishedStorageClasses :: "labelledSet option"
  tp_publishedSnapshotClasses :: "labelledSet option"
  tp_publishedVolumeAttributesClasses :: "labelledSet option"
  tp_publishedDeviceClasses :: "labelledSet option"
  tp_maxNamespaces :: int
  tp_maxCRDs :: int
  tp_tenants :: TenantLister
  tp_tenantDNS :: TenantDNSFunc
  tp_storageView :: bool
  tp_hiddenMetadata :: "HiddenMetadata option"

definition servesRoleBindings :: "tenantProxy \<Rightarrow> bool" where
  "servesRoleBindings tp = tp_hideProjected tp"

subsection \<open>Reserved and projected names\<close>

definition hideProjections :: "contract \<Rightarrow> tenantProxy \<Rightarrow> UnstructuredList \<Rightarrow> UnstructuredList" where
  "hideProjections C tp l =
     (if \<not> servesRoleBindings tp then l
      else l\<lparr>ul_Items := filter (\<lambda>item. \<not> IsManagedBindingName C (om_Name (ro_Meta item))) (ul_Items l)\<rparr>)"

definition refuseProjectedName :: "contract \<Rightarrow> tenantProxy \<Rightarrow> string \<Rightarrow> unit result" where
  "refuseProjectedName C tp name =
     refuse (servesRoleBindings tp \<and> IsManagedBindingName C name) (Forbidden ''binding kept for the tenant'')"

definition refuseProjectedLabel :: "contract \<Rightarrow> tenantProxy \<Rightarrow> robject \<Rightarrow> unit result" where
  "refuseProjectedLabel C tp obj =
     refuse (servesRoleBindings tp \<and> om_Labels (ro_Meta obj) (ProjectedClusterRoleBindingLabelKey C) \<noteq> None)
       (Forbidden ''label of the projection'')"

definition refuseReservedName :: "contract \<Rightarrow> tenantProxy \<Rightarrow> string \<Rightarrow> string \<Rightarrow> unit result" where
  "refuseReservedName C tp tenantID upstreamName =
     refuse (\<not> tp_namespaceScoped tp \<and> gvk_Group (tp_kind tp) = ''rbac.authorization.k8s.io'' \<and>
         IsReservedClusterName C tenantID upstreamName)
       (Forbidden ''name managed by the platform'')"

subsection \<open>Published classes\<close>

definition refuseUnpublishedStorageClass :: "contract \<Rightarrow> tenantProxy \<Rightarrow> robject \<Rightarrow> unit result" where
  "refuseUnpublishedStorageClass C tp obj =
     (case tp_publishedStorageClasses tp of None \<Rightarrow> Inr ()
      | Some classes \<Rightarrow>
        (case ro_Body obj of
           PersistentVolumeClaimB pvc _ \<Rightarrow>
             (case pvc_StorageClassName pvc of None \<Rightarrow> Inr ()
              | Some name \<Rightarrow>
                if name = [] then Inr ()
                else if \<not> HasSynced classes then Inl (ServiceUnavailable ''storage classes'')
                else if \<not> Visible classes name then Inl (Invalid ''spec.storageClassName'')
                else if Retired C classes name then Inl (Invalid ''spec.storageClassName retired'')
                else Inr ())
         | _ \<Rightarrow> Inr ()))"

definition derefClass :: "string option \<Rightarrow> string" where
  "derefClass name = (case name of None \<Rightarrow> [] | Some n \<Rightarrow> n)"

definition refuseUnpublishedVolumeAttributesClass ::
  "contract \<Rightarrow> tenantProxy \<Rightarrow> robject \<Rightarrow> robject option \<Rightarrow> unit result" where
  "refuseUnpublishedVolumeAttributesClass C tp obj old =
     (case tp_publishedVolumeAttributesClasses tp of None \<Rightarrow> Inr ()
      | Some classes \<Rightarrow>
        (case ro_Body obj of
           PersistentVolumeClaimB pvc _ \<Rightarrow>
             let name = derefClass (pvc_VolumeAttributesClassName pvc) in
             if name = [] then Inr ()
             else if (case map_option ro_Body old of
                 Some (PersistentVolumeClaimB oldPVC _) \<Rightarrow> derefClass (pvc_VolumeAttributesClassName oldPVC) = name
               | _ \<Rightarrow> False) then Inr ()
             else if \<not> HasSynced classes then Inl (ServiceUnavailable ''volume attributes classes'')
             else if \<not> Visible classes name then Inl (Invalid ''spec.volumeAttributesClassName'')
             else if Retired C classes name then Inl (Invalid ''spec.volumeAttributesClassName retired'')
             else Inr ()
         | _ \<Rightarrow> Inr ()))"

text \<open>The claim an ephemeral volume asks for; the old claim is the first one of the same name.\<close>

definition ephemeralClaim :: "Volume \<Rightarrow> robject option" where
  "ephemeralClaim v =
     (case vol_Ephemeral v of
        Some (Some spec) \<Rightarrow> Some \<lparr>ro_APIVersion = [], ro_Kind = [],
          ro_Meta = empty_meta\<lparr>om_Name := vol_Name v\<rparr>, ro_Body = PersistentVolumeClaimB spec []\<rparr>
      | _ \<Rightarrow> None)"

definition oldEphemeralClaim :: "PodSpec option \<Rightarrow> string \<Rightarrow> robject option" where
  "oldEphemeralClaim oldSpec name =
     (case oldSpec of None \<Rightarrow> None
      | Some s \<Rightarrow>
        (case find (\<lambda>ov. vol_Name ov = name \<and> ephemeralClaim ov \<noteq> None) (ps_Volumes s) of
           None \<Rightarrow> None
         | Some ov \<Rightarrow> ephemeralClaim ov))"

definition retargetToEphemeral :: "error \<Rightarrow> error" where
  "retargetToEphemeral err =
     (case err of ServiceUnavailable m \<Rightarrow> ServiceUnavailable m
      | _ \<Rightarrow> Invalid ''spec.volumes.ephemeral.volumeClaimTemplate'')"

definition retarget :: "unit result \<Rightarrow> unit result" where
  "retarget r = (case r of Inl e \<Rightarrow> Inl (retargetToEphemeral e) | Inr u \<Rightarrow> Inr u)"

fun checkEphemeralVolumes :: "contract \<Rightarrow> tenantProxy \<Rightarrow> PodSpec option \<Rightarrow> Volume list \<Rightarrow> unit result" where
  "checkEphemeralVolumes C tp oldSpec [] = Inr ()"
| "checkEphemeralVolumes C tp oldSpec (v # vs) =
     (case ephemeralClaim v of None \<Rightarrow> checkEphemeralVolumes C tp oldSpec vs
      | Some claim \<Rightarrow>
        bindR (retarget (refuseUnpublishedStorageClass C tp claim)) (\<lambda>_.
        bindR (retarget (refuseUnpublishedVolumeAttributesClass C tp claim (oldEphemeralClaim oldSpec (vol_Name v)))) (\<lambda>_.
        checkEphemeralVolumes C tp oldSpec vs)))"

text \<open>
  PodSpecOf answers with an error for an object that carries no pod template; the guard then has
  nothing to check.  PodSpecOf of a nil object is such an error.
\<close>

definition podSpec_or_nil :: "robject \<Rightarrow> PodSpec option" where
  "podSpec_or_nil obj = (case PodSpecOf obj of Inl _ \<Rightarrow> None | Inr s \<Rightarrow> s)"

definition refuseUnpublishedEphemeralClasses ::
  "contract \<Rightarrow> tenantProxy \<Rightarrow> robject \<Rightarrow> robject option \<Rightarrow> unit result" where
  "refuseUnpublishedEphemeralClasses C tp obj old =
     (case podSpec_or_nil obj of None \<Rightarrow> Inr ()
      | Some spec \<Rightarrow> checkEphemeralVolumes C tp (Option.bind old podSpec_or_nil) (ps_Volumes spec))"

definition requestedDeviceClasses :: "DeviceRequest list \<Rightarrow> string list" where
  "requestedDeviceClasses requests =
     concat (map (\<lambda>r. (case dr_Exactly r of None \<Rightarrow> [] | Some c \<Rightarrow> [c]) @ dr_FirstAvailable r) requests)"

definition deviceClassNamesOf :: "robject \<Rightarrow> string list" where
  "deviceClassNamesOf obj =
     (case ro_Body obj of
        ResourceClaimB requests _ \<Rightarrow> requestedDeviceClasses requests
      | ResourceClaimTemplateB requests _ \<Rightarrow> requestedDeviceClasses requests
      | _ \<Rightarrow> [])"

definition refuseUnpublishedDeviceClass :: "tenantProxy \<Rightarrow> robject \<Rightarrow> unit result" where
  "refuseUnpublishedDeviceClass tp obj =
     (case tp_publishedDeviceClasses tp of None \<Rightarrow> Inr ()
      | Some classes \<Rightarrow>
        refuse (list_ex (\<lambda>name. name \<noteq> [] \<and> \<not> Visible classes name) (deviceClassNamesOf obj))
          (Invalid ''spec.devices.requests.deviceClassName''))"

subsection \<open>Snapshots\<close>

definition snapshotGroup :: string where
  "snapshotGroup = ''snapshot.storage.k8s.io''"

definition volumeSnapshotKind :: string where
  "volumeSnapshotKind = ''VolumeSnapshot''"

definition snapshotClassSource :: string where
  "snapshotClassSource = ''volumeSnapshotClassName''"

definition volumeSnapshotOf :: "contract \<Rightarrow> robject \<Rightarrow> json_object option" where
  "volumeSnapshotOf C obj =
     (case ro_Body obj of
        UnstructuredB u \<Rightarrow> if GroupKindOf C obj = (snapshotGroup, volumeSnapshotKind) then Some u else None
      | _ \<Rightarrow> None)"

text \<open>unstructured.NestedString: None where it is not found or not a string, which the callers treat alike.\<close>

fun nested_object :: "json_object \<Rightarrow> string list \<Rightarrow> json_object option" where
  "nested_object u [] = Some u"
| "nested_object u (f # fs) = Option.bind (obj_at u f) (\<lambda>u'. nested_object u' fs)"

definition NestedString :: "json_object \<Rightarrow> string list \<Rightarrow> string \<Rightarrow> string option" where
  "NestedString u path field = Option.bind (nested_object u path) (\<lambda>u'. str_at u' field)"

definition refusePreProvisionedSnapshot :: "contract \<Rightarrow> robject \<Rightarrow> unit result" where
  "refusePreProvisionedSnapshot C obj =
     (case volumeSnapshotOf C obj of None \<Rightarrow> Inr ()
      | Some u \<Rightarrow>
        (case NestedString u [''spec'', ''source''] ''volumeSnapshotContentName'' of None \<Rightarrow> Inr ()
         | Some name \<Rightarrow> refuse (name \<noteq> []) (Invalid ''spec.source.volumeSnapshotContentName'')))"

definition refuseUnpublishedSnapshotClass :: "contract \<Rightarrow> tenantProxy \<Rightarrow> robject \<Rightarrow> unit result" where
  "refuseUnpublishedSnapshotClass C tp obj =
     (case tp_publishedSnapshotClasses tp of None \<Rightarrow> Inr ()
      | Some classes \<Rightarrow>
        (case volumeSnapshotOf C obj of None \<Rightarrow> Inr ()
         | Some u \<Rightarrow>
           (case NestedString u [''spec''] snapshotClassSource of None \<Rightarrow> Inr ()
            | Some name \<Rightarrow>
              if name = [] then Inr ()
              else if \<not> HasSynced classes then Inl (ServiceUnavailable ''volume snapshot classes'')
              else if Retired C classes name then Inl (Invalid ''spec.volumeSnapshotClassName retired'')
              else if \<not> Visible classes name then Inl (Invalid ''spec.volumeSnapshotClassName'')
              else Inr ())))"

subsection \<open>Pods\<close>

definition inlineCSIError :: "PodSpec \<Rightarrow> unit result" where
  "inlineCSIError spec = refuse (list_ex (\<lambda>v. vol_CSI v \<noteq> None) (ps_Volumes spec)) (Invalid ''spec.volumes.csi'')"

definition refuseInlineCSIVolume :: "robject \<Rightarrow> unit result" where
  "refuseInlineCSIVolume obj =
     (if isPod obj then Inr ()
      else (case podSpec_or_nil obj of None \<Rightarrow> Inr () | Some spec \<Rightarrow> inlineCSIError spec))"

definition RefusePodInlineCSIVolume :: "PodSpec \<Rightarrow> unit result" where
  "RefusePodInlineCSIVolume spec = inlineCSIError spec"

record handlerHosts =
  hh_httpGet :: string
  hh_tcpSocket :: string

definition httpHost :: "string option \<Rightarrow> string" where
  "httpHost a = (case a of None \<Rightarrow> [] | Some host \<Rightarrow> host)"

definition tcpHost :: "string option \<Rightarrow> string" where
  "tcpHost a = (case a of None \<Rightarrow> [] | Some host \<Rightarrow> host)"

definition probeHandler :: "Handler option \<Rightarrow> handlerHosts" where
  "probeHandler p = (case p of None \<Rightarrow> \<lparr>hh_httpGet = [], hh_tcpSocket = []\<rparr>
     | Some p \<Rightarrow> \<lparr>hh_httpGet = httpHost (hd_HTTPGet p), hh_tcpSocket = tcpHost (hd_TCPSocket p)\<rparr>)"

definition lifecycleHandler :: "Handler option \<Rightarrow> handlerHosts" where
  "lifecycleHandler h = (case h of None \<Rightarrow> \<lparr>hh_httpGet = [], hh_tcpSocket = []\<rparr>
     | Some h \<Rightarrow> \<lparr>hh_httpGet = httpHost (hd_HTTPGet h), hh_tcpSocket = tcpHost (hd_TCPSocket h)\<rparr>)"

definition refuseHandlerHost :: "handlerHosts \<Rightarrow> unit result" where
  "refuseHandlerHost h =
     (if hh_httpGet h \<noteq> [] then Inl (Invalid ''httpGet.host'')
      else if hh_tcpSocket h \<noteq> [] then Inl (Invalid ''tcpSocket.host'') else Inr ())"

definition containerHandlers :: "Container \<Rightarrow> handlerHosts list" where
  "containerHandlers c =
     map probeHandler [ct_LivenessProbe c, ct_ReadinessProbe c, ct_StartupProbe c] @
     (case ct_Lifecycle c of None \<Rightarrow> []
      | Some l \<Rightarrow> [lifecycleHandler (lc_PostStart l), lifecycleHandler (lc_PreStop l)])"

fun firstError :: "unit result list \<Rightarrow> unit result" where
  "firstError [] = Inr ()"
| "firstError (r # rs) = bindR r (\<lambda>_. firstError rs)"

definition refuseProbeHost :: "robject \<Rightarrow> unit result" where
  "refuseProbeHost obj =
     (case podSpec_or_nil obj of None \<Rightarrow> Inr ()
      | Some spec \<Rightarrow>
        firstError (map refuseHandlerHost
          (concat (map containerHandlers (ps_Containers spec @ ps_InitContainers spec)))))"

definition samePodIPs :: "string list \<Rightarrow> string list \<Rightarrow> bool" where
  "samePodIPs a b = (length a = length b \<and> list_all (\<lambda>i. a ! i = b ! i) [0..<length a])"

definition sameHostIPs :: "string list \<Rightarrow> string list \<Rightarrow> bool" where
  "sameHostIPs a b = (length a = length b \<and> list_all (\<lambda>i. a ! i = b ! i) [0..<length a])"

definition refuseTenantWrittenPodAddresses :: "tenantProxy \<Rightarrow> robject \<Rightarrow> robject option \<Rightarrow> unit result" where
  "refuseTenantWrittenPodAddresses tp obj old =
     (if tp_subresource tp \<noteq> ''status'' then Inr ()
      else (case (ro_Body obj, map_option ro_Body old) of
          (PodB _ st, Some (PodB _ oldst)) \<Rightarrow>
            if \<not> samePodIPs (pst_PodIPs st) (pst_PodIPs oldst) then Inl (Invalid ''status.podIPs'')
            else if pst_HostIP st \<noteq> pst_HostIP oldst then Inl (Invalid ''status.hostIP'')
            else if \<not> sameHostIPs (pst_HostIPs st) (pst_HostIPs oldst) then Inl (Invalid ''status.hostIPs'')
            else if pst_NominatedNodeName st \<noteq> pst_NominatedNodeName oldst
              then Inl (Invalid ''status.nominatedNodeName'')
            else Inr ()
        | _ \<Rightarrow> Inr ()))"

definition refuseTenantBinding :: "robject \<Rightarrow> unit result" where
  "refuseTenantBinding obj = (case ro_Body obj of BindingB _ \<Rightarrow> Inl (Invalid ''target'') | _ \<Rightarrow> Inr ())"

definition refuseTenantChosenNode :: "robject \<Rightarrow> unit result" where
  "refuseTenantChosenNode obj =
     (case ro_Body obj of PodB spec _ \<Rightarrow> refuse (ps_NodeName spec \<noteq> []) (Invalid ''spec.nodeName'') | _ \<Rightarrow> Inr ())"

subsection \<open>Services\<close>

definition serviceSpecOf :: "robject option \<Rightarrow> ServiceSpec option" where
  "serviceSpecOf obj = (case map_option ro_Body obj of Some (ServiceB spec _) \<Rightarrow> Some spec | _ \<Rightarrow> None)"

definition serviceOf :: "robject option \<Rightarrow> Service option" where
  "serviceOf obj = (case obj of None \<Rightarrow> None
     | Some obj \<Rightarrow> (case ro_Body obj of ServiceB spec _ \<Rightarrow> Some (ro_Meta obj, spec) | _ \<Rightarrow> None))"

definition refuseNewExternalIPs :: "robject \<Rightarrow> robject option \<Rightarrow> unit result" where
  "refuseNewExternalIPs obj old =
     (case ro_Body obj of
        ServiceB svc _ \<Rightarrow> refuse (ExternalIPsAreNew svc (serviceSpecOf old)) (Invalid ''spec.externalIPs'')
      | _ \<Rightarrow> Inr ())"

text \<open>RestoreUpstreamClusterIP writes to the service: the guard returns the object.\<close>

definition refuseForeignClusterIP :: "robject \<Rightarrow> robject option \<Rightarrow> robject result" where
  "refuseForeignClusterIP obj old =
     (case ro_Body obj of
        ServiceB svc st \<Rightarrow>
          (case RestoreUpstreamClusterIP svc (serviceOf old) of
             Some svc' \<Rightarrow> Inr (obj\<lparr>ro_Body := ServiceB svc' st\<rparr>)
           | None \<Rightarrow> Inl (Invalid ''spec.clusterIP''))
      | _ \<Rightarrow> Inr obj)"

definition refuseNodePorts :: "robject \<Rightarrow> robject option \<Rightarrow> unit result" where
  "refuseNodePorts obj old =
     (case ro_Body obj of
        ServiceB svc _ \<Rightarrow>
          if svc_Type svc = ServiceTypeNodePort then Inl (Invalid ''spec.type'')
          else refuse (NodePortsAreNew svc (serviceSpecOf old)) (Invalid ''spec.ports.nodePort'')
      | _ \<Rightarrow> Inr ())"

definition refuseExternalNameService :: "robject \<Rightarrow> unit result" where
  "refuseExternalNameService obj =
     (case ro_Body obj of
        ServiceB svc _ \<Rightarrow> refuse (svc_Type svc = ServiceTypeExternalName) (Invalid ''spec.type'')
      | _ \<Rightarrow> Inr ())"

subsection \<open>Quotas and caps\<close>

definition refusePlatformQuotaWrite :: "contract \<Rightarrow> robject \<Rightarrow> unit result" where
  "refusePlatformQuotaWrite C obj =
     (case ro_Body obj of
        ResourceQuotaB _ \<Rightarrow> refuse (om_Labels (ro_Meta obj) (ClusterResourceQuotaCreatedby C) \<noteq> None)
          (Forbidden ''quota of the platform'')
      | _ \<Rightarrow> Inr ())"

definition countTenantCRDs :: "'s env \<Rightarrow> 's \<Rightarrow> Context \<Rightarrow> string \<Rightarrow> nat result" where
  "countTenantCRDs E s ctx tenantID =
     bindR (up_List (ev_client E) s \<lparr>tg_User = cx_User (asTenantAdmin E ctx tenantID), tg_Resource = crdGVR,
         tg_Namespace = []\<rparr> empty_ListOptions) (\<lambda>l.
       Inr (length (filter (\<lambda>item.
         case ro_Body item of
           CustomResourceDefinitionB spec \<Rightarrow> HasPrefix (crd_Group spec) (tenantID @ ''-'')
         | _ \<Rightarrow> False) (ul_Items l))))"

definition refuseTooManyCRDs :: "'s env \<Rightarrow> 's \<Rightarrow> tenantProxy \<Rightarrow> Context \<Rightarrow> robject \<Rightarrow> string \<Rightarrow> unit result" where
  "refuseTooManyCRDs E s tp ctx obj tenantID =
     (let limit = maxCRDsFor (tp_tenants tp) tenantID (tp_maxCRDs tp) in
      if limit \<le> 0 then Inr ()
      else (case ro_Body obj of
          CustomResourceDefinitionB _ \<Rightarrow>
            (case countTenantCRDs E s ctx tenantID of
               Inl _ \<Rightarrow> Inr ()
             | Inr owned \<Rightarrow> if int owned < limit then Inr () else Inl (Forbidden ''customresourcedefinitions''))
        | _ \<Rightarrow> Inr ()))"

definition refuseTooManyNamespaces :: "'s env \<Rightarrow> 's \<Rightarrow> tenantProxy \<Rightarrow> Context \<Rightarrow> robject \<Rightarrow> string \<Rightarrow> unit result" where
  "refuseTooManyNamespaces E s tp ctx obj tenantID =
     (let limit = maxNamespacesFor (tp_tenants tp) tenantID (tp_maxNamespaces tp) in
      if limit \<le> 0 then Inr ()
      else (case ro_Body obj of
          NamespaceB _ \<Rightarrow>
            (case tenantNamespaces E s ctx tenantID [] of
               Inl _ \<Rightarrow> Inr ()
             | Inr (owned, _) \<Rightarrow> if int (length owned) < limit then Inr () else Inl (Forbidden ''namespaces''))
        | _ \<Rightarrow> Inr ()))"

subsection \<open>Addresses of endpoints\<close>

definition podIPsOf :: "robject \<Rightarrow> string list" where
  "podIPsOf pod = (case ro_Body pod of PodB _ st \<Rightarrow> pst_PodIPs st | _ \<Rightarrow> [])"

definition addressBelongsToAPod ::
  "'s env \<Rightarrow> 's \<Rightarrow> Context \<Rightarrow> string \<Rightarrow> ObjectReference option \<Rightarrow> string \<Rightarrow> unit result" where
  "addressBelongsToAPod E s ctx address targetRef namespace =
     (if address = [] then Inr ()
      else (case targetRef of None \<Rightarrow> Inl (Invalid ''address names no pod'')
        | Some ref \<Rightarrow>
          if obr_Kind ref \<noteq> ''Pod'' \<or> obr_Name ref = [] then Inl (Invalid ''address names no pod'')
          else if obr_Namespace ref \<noteq> [] \<and> obr_Namespace ref \<noteq> namespace
            then Inl (Invalid ''targetRef names another namespace'')
          else (case up_Get (ev_client E) s \<lparr>tg_User = cx_User ctx, tg_Resource = podGVR, tg_Namespace = namespace\<rparr>
              (obr_Name ref) [] [] of
              Inl err \<Rightarrow> (case err of NotFound _ \<Rightarrow> Inl (Invalid ''targetRef names no pod'') | _ \<Rightarrow> Inl err)
            | Inr pod \<Rightarrow>
              refuse (address \<notin> set (podIPsOf pod)) (Invalid ''address of another pod''))))"

definition endpointAddresses :: "robject \<Rightarrow> (string \<times> ObjectReference option) list" where
  "endpointAddresses obj =
     (case ro_Body obj of
        EndpointsB subsets \<Rightarrow>
          concat (map (\<lambda>ss. map (\<lambda>a. (ea_IP a, ea_TargetRef a)) (es_Addresses ss @ es_NotReadyAddresses ss)) subsets)
      | EndpointSliceB endpoints _ \<Rightarrow>
          concat (map (\<lambda>e. map (\<lambda>ip. (ip, ep_TargetRef e)) (ep_Addresses e)) endpoints)
      | _ \<Rightarrow> [])"

definition refuseForgedEndpointAddress :: "'s env \<Rightarrow> 's \<Rightarrow> Context \<Rightarrow> robject \<Rightarrow> unit result" where
  "refuseForgedEndpointAddress E s ctx obj =
     firstError (map (\<lambda>(address, ref). addressBelongsToAPod E s ctx address ref (om_Namespace (ro_Meta obj)))
       (endpointAddresses obj))"

section \<open>What the guards let through\<close>

lemma firstError_Inr: "firstError rs = Inr u \<longleftrightarrow> (\<forall>r \<in> set rs. r = Inr ())"
proof (induction rs)
  case (Cons r rs)
  then show ?case by (cases r) auto
qed simp

lemma retarget_Inr [simp]: "retarget r = Inr u \<longleftrightarrow> r = Inr ()"
  by (cases r) (auto simp: retarget_def)

lemma bindR_unit_Inr: "bindR r (\<lambda>_. f) = Inr x \<longleftrightarrow> r = Inr () \<and> f = Inr x" for r :: "unit result"
  by (cases r) auto

subsection \<open>Classes\<close>

text \<open>A published class that takes new users.\<close>

definition offered :: "contract \<Rightarrow> labelledSet \<Rightarrow> string \<Rightarrow> bool" where
  "offered C classes name \<longleftrightarrow> HasSynced classes \<and> Visible classes name \<and> \<not> Retired C classes name"

lemma refuseUnpublishedStorageClass_Inr:
  "refuseUnpublishedStorageClass C tp obj = Inr u \<longleftrightarrow>
     (\<forall>classes pvc st name. tp_publishedStorageClasses tp = Some classes \<longrightarrow>
        ro_Body obj = PersistentVolumeClaimB pvc st \<longrightarrow> pvc_StorageClassName pvc = Some name \<longrightarrow>
        name = [] \<or> offered C classes name)"
  by (auto simp: refuseUnpublishedStorageClass_def offered_def split: option.splits body.splits)

lemma refuseUnpublishedVolumeAttributesClass_Inr:
  "refuseUnpublishedVolumeAttributesClass C tp obj old = Inr u \<longleftrightarrow>
     (\<forall>classes pvc st. tp_publishedVolumeAttributesClasses tp = Some classes \<longrightarrow>
        ro_Body obj = PersistentVolumeClaimB pvc st \<longrightarrow>
        (let name = derefClass (pvc_VolumeAttributesClassName pvc) in
          name = [] \<or> offered C classes name \<or>
          (\<exists>o' oldPVC st'. old = Some o' \<and> ro_Body o' = PersistentVolumeClaimB oldPVC st' \<and>
             derefClass (pvc_VolumeAttributesClassName oldPVC) = name)))"
  by (auto simp: refuseUnpublishedVolumeAttributesClass_def offered_def Let_def split: option.splits body.splits)

lemma checkEphemeralVolumes_Inr:
  "checkEphemeralVolumes C tp oldSpec vs = Inr u \<longleftrightarrow>
     (\<forall>v \<in> set vs. \<forall>claim. ephemeralClaim v = Some claim \<longrightarrow>
        refuseUnpublishedStorageClass C tp claim = Inr () \<and>
        refuseUnpublishedVolumeAttributesClass C tp claim (oldEphemeralClaim oldSpec (vol_Name v)) = Inr ())"
  by (induction vs) (auto simp: bindR_unit_Inr split: option.splits)

lemma refuseUnpublishedDeviceClass_Inr:
  "refuseUnpublishedDeviceClass tp obj = Inr u \<longleftrightarrow>
     (\<forall>classes name. tp_publishedDeviceClasses tp = Some classes \<longrightarrow> name \<in> set (deviceClassNamesOf obj) \<longrightarrow>
        name = [] \<or> Visible classes name)"
  by (auto simp: refuseUnpublishedDeviceClass_def list_ex_iff split: option.splits)

subsection \<open>Pods\<close>

lemma refuseHandlerHost_Inr: "refuseHandlerHost h = Inr u \<longleftrightarrow> hh_httpGet h = [] \<and> hh_tcpSocket h = []"
  by (auto simp: refuseHandlerHost_def)

text \<open>A handler that names no host: the kubelet probes the pod itself.\<close>

definition probes_itself :: "Handler option \<Rightarrow> bool" where
  "probes_itself h \<longleftrightarrow> (\<forall>x. h = Some x \<longrightarrow> httpHost (hd_HTTPGet x) = [] \<and> tcpHost (hd_TCPSocket x) = [])"

definition container_probes_itself :: "Container \<Rightarrow> bool" where
  "container_probes_itself c \<longleftrightarrow>
     probes_itself (ct_LivenessProbe c) \<and> probes_itself (ct_ReadinessProbe c) \<and> probes_itself (ct_StartupProbe c) \<and>
     (\<forall>l. ct_Lifecycle c = Some l \<longrightarrow> probes_itself (lc_PostStart l) \<and> probes_itself (lc_PreStop l))"

lemma handlers_probe:
  "refuseHandlerHost (probeHandler h) = Inr u \<longleftrightarrow> probes_itself h"
  "refuseHandlerHost (lifecycleHandler h) = Inr u \<longleftrightarrow> probes_itself h"
  by (auto simp: refuseHandlerHost_Inr probeHandler_def lifecycleHandler_def probes_itself_def split: option.splits)

lemma container_handlers_probe:
  "(\<forall>h \<in> set (containerHandlers c). refuseHandlerHost h = Inr ()) \<longleftrightarrow> container_probes_itself c"
  by (auto simp: containerHandlers_def container_probes_itself_def handlers_probe split: option.splits)

lemma refuseProbeHost_Inr:
  "refuseProbeHost obj = Inr u \<longleftrightarrow>
     (\<forall>spec. podSpec_or_nil obj = Some spec \<longrightarrow>
        (\<forall>c \<in> set (ps_Containers spec) \<union> set (ps_InitContainers spec). container_probes_itself c))"
  by (simp add: refuseProbeHost_def firstError_Inr container_handlers_probe [symmetric] ball_Un image_Un
      split: option.splits)

lemma same_IPs_iff [simp]: "samePodIPs a b \<longleftrightarrow> a = b" "sameHostIPs a b \<longleftrightarrow> a = b"
  by (auto simp: samePodIPs_def sameHostIPs_def list_all_iff intro: nth_equalityI)

lemma refuseTenantWrittenPodAddresses_Inr:
  assumes "tp_subresource tp = ''status''" "ro_Body obj = PodB spec st" "ro_Body o' = PodB ospec ost"
  shows "refuseTenantWrittenPodAddresses tp obj (Some o') = Inr u \<longleftrightarrow>
     pst_PodIPs st = pst_PodIPs ost \<and> pst_HostIP st = pst_HostIP ost \<and> pst_HostIPs st = pst_HostIPs ost \<and>
     pst_NominatedNodeName st = pst_NominatedNodeName ost"
  using assms by (simp add: refuseTenantWrittenPodAddresses_def)

lemma refuseInlineCSIVolume_Inr:
  "\<not> isPod obj \<Longrightarrow> refuseInlineCSIVolume obj = Inr u \<longleftrightarrow>
     (\<forall>spec. podSpec_or_nil obj = Some spec \<longrightarrow> (\<forall>v \<in> set (ps_Volumes spec). vol_CSI v = None))"
  by (auto simp: refuseInlineCSIVolume_def inlineCSIError_def list_ex_iff split: option.splits)

subsection \<open>Endpoints\<close>

text \<open>The address is one of a pod of that namespace.\<close>

definition pod_address :: "'s env \<Rightarrow> 's \<Rightarrow> User option \<Rightarrow> string \<Rightarrow> string \<Rightarrow> bool" where
  "pod_address E s who namespace address \<longleftrightarrow>
     (\<exists>name pod. up_Get (ev_client E) s \<lparr>tg_User = who, tg_Resource = podGVR, tg_Namespace = namespace\<rparr> name [] [] =
        Inr pod \<and> address \<in> set (podIPsOf pod))"

lemma addressBelongsToAPod_sound:
  "addressBelongsToAPod E s ctx address ref namespace = Inr u \<Longrightarrow>
     address = [] \<or> pod_address E s (cx_User ctx) namespace address"
  by (auto simp: addressBelongsToAPod_def pod_address_def split: if_splits option.splits sum.splits error.splits)

lemma refuseForgedEndpointAddress_sound:
  "refuseForgedEndpointAddress E s ctx obj = Inr u \<Longrightarrow> (address, ref) \<in> set (endpointAddresses obj) \<Longrightarrow>
     address = [] \<or> pod_address E s (cx_User ctx) (om_Namespace (ro_Meta obj)) address"
  unfolding refuseForgedEndpointAddress_def firstError_Inr
  using addressBelongsToAPod_sound by fastforce

subsection \<open>Services\<close>

lemma refuseForeignClusterIP_None [simp]: "refuseForeignClusterIP obj None = Inr obj"
  by (cases obj) (auto simp: refuseForeignClusterIP_def serviceOf_def RestoreUpstreamClusterIP_def split: body.splits)

lemma refuseForeignClusterIP_meta:
  "refuseForeignClusterIP obj old = Inr obj' \<Longrightarrow> ro_Meta obj' = ro_Meta obj \<and> ro_APIVersion obj' = ro_APIVersion obj \<and>
     ro_Kind obj' = ro_Kind obj"
  by (auto simp: refuseForeignClusterIP_def split: body.splits option.splits)

lemma refuseForeignClusterIP_other:
  "(\<And>svc st. ro_Body obj \<noteq> ServiceB svc st) \<Longrightarrow> refuseForeignClusterIP obj old = Inr obj"
  by (auto simp: refuseForeignClusterIP_def split: body.splits)

subsection \<open>Caps\<close>

lemma refuseTooManyNamespaces_counted:
  assumes "tenantNamespaces E s ctx tid [] = Inr (owned, rv)" "ro_Body obj = NamespaceB st"
  shows "refuseTooManyNamespaces E s tp ctx obj tid = Inr u \<longleftrightarrow>
    (let limit = maxNamespacesFor (tp_tenants tp) tid (tp_maxNamespaces tp) in 0 < limit \<longrightarrow> int (length owned) < limit)"
  using assms by (auto simp: refuseTooManyNamespaces_def Let_def)

lemma refuseTooManyCRDs_counted:
  assumes "countTenantCRDs E s ctx tid = Inr owned" "ro_Body obj = CustomResourceDefinitionB spec"
  shows "refuseTooManyCRDs E s tp ctx obj tid = Inr u \<longleftrightarrow>
    (let limit = maxCRDsFor (tp_tenants tp) tid (tp_maxCRDs tp) in 0 < limit \<longrightarrow> int owned < limit)"
  using assms by (auto simp: refuseTooManyCRDs_def Let_def)

end
