(* ===== verification/Fanout.thy ===== *)
theory Fanout
  imports Proxy_Guards
begin

text \<open>
  Lists across the namespaces of a tenant (fanout.go) and the continue tokens of the two kinds of
  list (fanout.go and clusterscopedcursor.go).  encoding/base64 is modelled; the JSON text of the
  two structs is a parameter.
\<close>

subsection \<open>base64.RawURLEncoding\<close>

text \<open>The alphabet is A to Z, a to z, 0 to 9, the dash (45) and the underscore (95).\<close>

definition b64_char :: "nat \<Rightarrow> char" where
  "b64_char v = char_of (if v < 26 then v + 65 else if v < 52 then v + 71 else if v < 62 then v - 4
     else if v = 62 then 45 else 95 :: nat)"

definition b64_val :: "char \<Rightarrow> nat option" where
  "b64_val c = (let n = of_char c in
     if 65 \<le> n \<and> n \<le> 90 then Some (n - 65) else if 97 \<le> n \<and> n \<le> 122 then Some (n - 71)
     else if 48 \<le> n \<and> n \<le> 57 then Some (n + 4) else if n = 45 then Some 62
     else if n = 95 then Some 63 else None)"

fun b64_groups :: "nat list \<Rightarrow> nat list" where
  "b64_groups [] = []"
| "b64_groups [a] = [a div 4, a mod 4 * 16]"
| "b64_groups [a, b] = [a div 4, a mod 4 * 16 + b div 16, b mod 16 * 4]"
| "b64_groups (a # b # c # r) =
     [a div 4, a mod 4 * 16 + b div 16, b mod 16 * 4 + c div 64, c mod 64] @ b64_groups r"

fun b64_bytes :: "nat list \<Rightarrow> nat list option" where
  "b64_bytes [] = Some []"
| "b64_bytes [w] = None"
| "b64_bytes [w, x] = Some [w * 4 + x div 16]"
| "b64_bytes [w, x, y] = Some [w * 4 + x div 16, x mod 16 * 16 + y div 4]"
| "b64_bytes (w # x # y # z # r) =
     map_option (\<lambda>bs. [w * 4 + x div 16, x mod 16 * 16 + y div 4, y mod 4 * 64 + z] @ bs) (b64_bytes r)"

definition EncodeToString :: "string \<Rightarrow> string" where
  "EncodeToString raw = map b64_char (b64_groups (map of_char raw))"

text \<open>The decoder skips line breaks and does not insist on zero trailing bits.\<close>

definition DecodeString :: "string \<Rightarrow> string option" where
  "DecodeString token =
     Option.bind (those (map b64_val (filter (\<lambda>c. of_char c \<notin> {10::nat, 13}) token))) (\<lambda>vs.
       map_option (map char_of) (b64_bytes vs))"

subsection \<open>Cursors\<close>

record fanoutContinue =
  fc_APIVersion :: string
  fc_ResourceVersion :: string
  fc_NamespaceIndex :: int
  fc_Inner :: string

record clusterScopedContinue =
  cs_APIVersion :: string
  cs_Upstream :: string

text \<open>encoding/json on the two structs; marshalling them cannot fail.\<close>

record cursor_json =
  json_fanout :: "fanoutContinue \<Rightarrow> string"
  unjson_fanout :: "string \<Rightarrow> fanoutContinue option"
  json_cluster :: "clusterScopedContinue \<Rightarrow> string"
  unjson_cluster :: "string \<Rightarrow> clusterScopedContinue option"

definition fanoutContinueVersion :: string where
  "fanoutContinueVersion = ''kubezoo/v1''"

definition clusterScopedContinueVersion :: string where
  "clusterScopedContinueVersion = ''kubezoo.io/cluster-scoped-v1''"

definition not_issued :: error where
  "not_issued = BadRequest ''the continue parameter is not one this server issued''"

definition encodeFanoutContinue :: "cursor_json \<Rightarrow> fanoutContinue \<Rightarrow> string" where
  "encodeFanoutContinue J c = EncodeToString (json_fanout J (c\<lparr>fc_APIVersion := fanoutContinueVersion\<rparr>))"

definition decodeFanoutContinue :: "cursor_json \<Rightarrow> string \<Rightarrow> fanoutContinue result" where
  "decodeFanoutContinue J token =
     (case DecodeString token of None \<Rightarrow> Inl not_issued
      | Some raw \<Rightarrow>
        (case unjson_fanout J raw of None \<Rightarrow> Inl not_issued
         | Some c \<Rightarrow>
           if fc_APIVersion c \<noteq> fanoutContinueVersion then Inl not_issued
           else if fc_ResourceVersion c = [] \<or> fc_NamespaceIndex c < 0 then Inl not_issued
           else Inr c))"

definition encodeClusterScopedContinue :: "cursor_json \<Rightarrow> string \<Rightarrow> string" where
  "encodeClusterScopedContinue J upstreamToken =
     EncodeToString (json_cluster J \<lparr>cs_APIVersion = clusterScopedContinueVersion, cs_Upstream = upstreamToken\<rparr>)"

definition decodeClusterScopedContinue :: "cursor_json \<Rightarrow> string \<Rightarrow> string result" where
  "decodeClusterScopedContinue J token =
     (case DecodeString token of None \<Rightarrow> Inl not_issued
      | Some raw \<Rightarrow>
        (case unjson_cluster J raw of None \<Rightarrow> Inl not_issued
         | Some c \<Rightarrow> if cs_APIVersion c \<noteq> clusterScopedContinueVersion then Inl not_issued else Inr (cs_Upstream c)))"

definition hideUpstreamListCursor :: "cursor_json \<Rightarrow> UnstructuredList \<Rightarrow> UnstructuredList" where
  "hideUpstreamListCursor J l =
     (let l = l\<lparr>ul_RemainingItemCount := None\<rparr> in
      if ul_Continue l = [] then l else l\<lparr>ul_Continue := encodeClusterScopedContinue J (ul_Continue l)\<rparr>)"

subsection \<open>Lists across namespaces\<close>

definition upstreamGroupVersion :: "contract \<Rightarrow> tenantProxy \<Rightarrow> string \<Rightarrow> string \<times> string" where
  "upstreamGroupVersion C tp tenantID =
     (let group = gvk_Group (tp_kind tp); version = gvk_Version (tp_kind tp) in
      if \<not> tp_isCustomResource tp then (group, version)
      else if (case tp_isSharedGroup tp of None \<Rightarrow> False | Some shared \<Rightarrow> shared group) then (group, version)
      else (AddTenantIDPrefix C tenantID group, version))"

definition upstreamResource :: "contract \<Rightarrow> tenantProxy \<Rightarrow> string \<Rightarrow> GroupVersionResource" where
  "upstreamResource C tp tenantID =
     (case upstreamGroupVersion C tp tenantID of (g, v) \<Rightarrow>
        \<lparr>gvr_Group = g, gvr_Version = v, gvr_Resource = tp_resource tp\<rparr>)"

definition perNamespaceOptions :: "ListOptions \<Rightarrow> string \<Rightarrow> string \<Rightarrow> int \<Rightarrow> ListOptions" where
  "perNamespaceOptions options revision inner remaining =
     (let o1 = options\<lparr>lo_Continue := inner\<rparr>;
          o2 = (if inner = [] then o1\<lparr>lo_ResourceVersion := revision, lo_ResourceVersionMatch := ''Exact''\<rparr>
                else o1\<lparr>lo_ResourceVersion := [], lo_ResourceVersionMatch := []\<rparr>)
      in if lo_Limit options > 0 then o2\<lparr>lo_Limit := remaining\<rparr> else o2)"

text \<open>
  The loop over the namespaces from an index on; \<open>gathered\<close> is the list so far, None before the
  first page.
\<close>

definition gatheredItems :: "UnstructuredList option \<Rightarrow> robject list" where
  "gatheredItems gathered = (case gathered of None \<Rightarrow> [] | Some l \<Rightarrow> ul_Items l)"

definition gather :: "UnstructuredList option \<Rightarrow> UnstructuredList \<Rightarrow> UnstructuredList" where
  "gather gathered page = (case gathered of None \<Rightarrow> page | Some l \<Rightarrow> l\<lparr>ul_Items := ul_Items l @ ul_Items page\<rparr>)"

definition empty_list :: UnstructuredList where
  "empty_list = \<lparr>ul_APIVersion = [], ul_ResourceVersion = [], ul_Continue = [], ul_RemainingItemCount = None, ul_Items = []\<rparr>"

definition finished :: "string \<Rightarrow> UnstructuredList option \<Rightarrow> UnstructuredList" where
  "finished revision gathered =
     (case gathered of None \<Rightarrow> empty_list | Some l \<Rightarrow> l)\<lparr>ul_Continue := [], ul_ResourceVersion := revision\<rparr>"

fun fanoutLoop ::
  "cursor_json \<Rightarrow> (string \<Rightarrow> ListOptions \<Rightarrow> UnstructuredList result) \<Rightarrow> ListOptions \<Rightarrow> string \<Rightarrow> nat \<Rightarrow>
   string list \<Rightarrow> nat \<Rightarrow> string \<Rightarrow> int \<Rightarrow> UnstructuredList option \<Rightarrow> UnstructuredList result" where
  "fanoutLoop J lst options revision owned [] index inner remaining gathered = Inr (finished revision gathered)"
| "fanoutLoop J lst options revision owned (ns # nss) index inner remaining gathered =
     bindR (lst ns (perNamespaceOptions options revision inner remaining)) (\<lambda>page.
     let gathered = gather gathered page; inner = ul_Continue page in
     if lo_Limit options \<le> 0 then
       fanoutLoop J lst options revision owned nss (index + 1) inner remaining (Some gathered)
     else let remaining = lo_Limit options - int (length (ul_Items gathered)) in
       if remaining > 0 then fanoutLoop J lst options revision owned nss (index + 1) [] remaining (Some gathered)
       else let nextIndex = (if inner = [] then index + 1 else index) in
         if nextIndex \<ge> owned \<and> inner = [] then Inr (finished revision (Some gathered))
         else Inr (gathered\<lparr>
           ul_Continue := encodeFanoutContinue J \<lparr>fc_APIVersion = [], fc_ResourceVersion = revision,
             fc_NamespaceIndex = int nextIndex, fc_Inner = inner\<rparr>,
           ul_ResourceVersion := revision\<rparr>))"

definition listAcrossNamespaces ::
  "cursor_json \<Rightarrow> 's env \<Rightarrow> 's \<Rightarrow> tenantProxy \<Rightarrow> Context \<Rightarrow> ListOptions \<Rightarrow> string \<Rightarrow> UnstructuredList result" where
  "listAcrossNamespaces J E s tp ctx options tenantID =
     bindR (if lo_Continue options = []
         then Inr \<lparr>fc_APIVersion = [], fc_ResourceVersion = [], fc_NamespaceIndex = 0, fc_Inner = []\<rparr>
         else decodeFanoutContinue J (lo_Continue options)) (\<lambda>cursor.
     bindR (tenantNamespaces E s ctx tenantID (fc_ResourceVersion cursor)) (\<lambda>(namespaces, revision0).
     let revision = (if fc_ResourceVersion cursor = [] then revision0 else fc_ResourceVersion cursor);
         index = nat (fc_NamespaceIndex cursor) in
     if fc_NamespaceIndex cursor > int (length namespaces) then Inl (BadRequest ''past the end'')
     else fanoutLoop J (\<lambda>ns. up_List (ev_client E) s \<lparr>tg_User = cx_User ctx,
            tg_Resource = upstreamResource (ev_contract E) tp tenantID, tg_Namespace = ns\<rparr>)
          options revision (length namespaces) (drop index namespaces) index (fc_Inner cursor) (lo_Limit options) None))"

section \<open>Round trips\<close>

lemma b64_val_char: "v < 64 \<Longrightarrow> b64_val (b64_char v) = Some v"
  by (auto simp: b64_val_def b64_char_def Let_def)

lemma b64_not_break: "v < 64 \<Longrightarrow> of_char (b64_char v) \<notin> {10::nat, 13}"
  by (auto simp: b64_char_def split: if_splits)

lemma b64_groups_bound: "\<forall>b \<in> set bs. b < 256 \<Longrightarrow> \<forall>v \<in> set (b64_groups bs). v < 64"
  by (induction bs rule: b64_groups.induct) auto

lemma b64_roundtrip: "\<forall>b \<in> set bs. b < 256 \<Longrightarrow> b64_bytes (b64_groups bs) = Some bs"
proof (induction bs rule: b64_groups.induct)
  case (2 a) then show ?case by simp
next
  case (3 a b)
  then have "b div 16 < 16" by (simp add: less_mult_imp_div_less)
  then show ?case using 3 by simp
next
  case (4 a b c r)
  then have "b div 16 < 16" "c div 64 < 4" by (simp_all add: less_mult_imp_div_less)
  then show ?case using 4 by simp
qed simp

lemma those_vals: "\<forall>v \<in> set vs. v < 64 \<Longrightarrow> those (map b64_val (map b64_char vs)) = Some vs"
  using b64_val_char by (induction vs) auto

lemma filter_breaks: "\<forall>v \<in> set vs. v < 64 \<Longrightarrow>
    filter (\<lambda>c. of_char c \<notin> {10::nat, 13}) (map b64_char vs) = map b64_char vs"
  using b64_not_break by (induction vs) auto

lemma Decode_Encode: "DecodeString (EncodeToString raw) = Some raw"
proof -
  let ?bs = "map of_char raw :: nat list"
  have b: "\<forall>b \<in> set ?bs. b < 256" by auto
  have v: "\<forall>v \<in> set (b64_groups ?bs). v < 64" using b64_groups_bound [OF b] .
  have "map char_of ?bs = raw" by (induction raw) auto
  then show ?thesis
    unfolding DecodeString_def EncodeToString_def filter_breaks [OF v] those_vals [OF v]
    using b64_roundtrip [OF b] by simp
qed

text \<open>
  What encoding/json promises on the two structs: a struct of ASCII strings reads back, the text
  is never empty, and a struct of one kind read as the other keeps the member both call \<open>v\<close>.
\<close>

definition ascii :: "string \<Rightarrow> bool" where
  "ascii text = list_all (\<lambda>c. of_char c < (128::nat)) text"

definition cursor_json_ok :: "cursor_json \<Rightarrow> bool" where
  "cursor_json_ok J \<longleftrightarrow>
     (\<forall>c. ascii (fc_APIVersion c) \<longrightarrow> ascii (fc_ResourceVersion c) \<longrightarrow> ascii (fc_Inner c) \<longrightarrow>
        unjson_fanout J (json_fanout J c) = Some c) \<and>
     (\<forall>c. ascii (cs_APIVersion c) \<longrightarrow> ascii (cs_Upstream c) \<longrightarrow> unjson_cluster J (json_cluster J c) = Some c) \<and>
     (\<forall>c. json_fanout J c \<noteq> []) \<and> (\<forall>c. json_cluster J c \<noteq> []) \<and>
     (\<forall>c d. unjson_fanout J (json_cluster J c) = Some d \<longrightarrow> fc_APIVersion d = cs_APIVersion c) \<and>
     (\<forall>c d. unjson_cluster J (json_fanout J c) = Some d \<longrightarrow> cs_APIVersion d = fc_APIVersion c)"

lemma Encode_nonempty: "raw \<noteq> [] \<Longrightarrow> EncodeToString raw \<noteq> []"
  using Decode_Encode [of raw] by (auto simp: DecodeString_def)

lemma encodeFanout_nonempty: "cursor_json_ok J \<Longrightarrow> encodeFanoutContinue J c \<noteq> []"
  by (simp add: encodeFanoutContinue_def Encode_nonempty cursor_json_ok_def)

lemma versions_ascii: "ascii fanoutContinueVersion" "ascii clusterScopedContinueVersion"
  by code_simp+

lemma decode_encode_fanout:
  assumes "cursor_json_ok J" "ascii (fc_ResourceVersion c)" "ascii (fc_Inner c)"
    "fc_ResourceVersion c \<noteq> []" "0 \<le> fc_NamespaceIndex c"
  shows "decodeFanoutContinue J (encodeFanoutContinue J c) = Inr (c\<lparr>fc_APIVersion := fanoutContinueVersion\<rparr>)"
  using assms
  by (simp add: decodeFanoutContinue_def encodeFanoutContinue_def Decode_Encode cursor_json_ok_def versions_ascii)

lemma decode_encode_cluster:
  assumes "cursor_json_ok J" "ascii token"
  shows "decodeClusterScopedContinue J (encodeClusterScopedContinue J token) = Inr token"
  using assms
  by (simp add: decodeClusterScopedContinue_def encodeClusterScopedContinue_def Decode_Encode cursor_json_ok_def
      versions_ascii)

lemma versions_differ: "clusterScopedContinueVersion \<noteq> fanoutContinueVersion"
  by code_simp

lemma fanout_refuses_cluster:
  assumes "cursor_json_ok J"
  shows "decodeFanoutContinue J (encodeClusterScopedContinue J token) = Inl not_issued"
proof (cases "unjson_fanout J (json_cluster J \<lparr>cs_APIVersion = clusterScopedContinueVersion, cs_Upstream = token\<rparr>)")
  case (Some d)
  then have "fc_APIVersion d = clusterScopedContinueVersion"
    using assms unfolding cursor_json_ok_def by fastforce
  then show ?thesis
    using versions_differ Some
    by (simp add: decodeFanoutContinue_def encodeClusterScopedContinue_def Decode_Encode)
qed (simp add: decodeFanoutContinue_def encodeClusterScopedContinue_def Decode_Encode)

lemma cluster_refuses_fanout:
  assumes "cursor_json_ok J"
  shows "decodeClusterScopedContinue J (encodeFanoutContinue J c) = Inl not_issued"
proof (cases "unjson_cluster J (json_fanout J (c\<lparr>fc_APIVersion := fanoutContinueVersion\<rparr>))")
  case (Some d)
  then have "cs_APIVersion d = fanoutContinueVersion"
    using assms unfolding cursor_json_ok_def by fastforce
  then show ?thesis
    using versions_differ Some
    by (simp add: decodeClusterScopedContinue_def encodeFanoutContinue_def Decode_Encode)
qed (simp add: decodeClusterScopedContinue_def encodeFanoutContinue_def Decode_Encode)

section \<open>Pages of a list across namespaces\<close>

text \<open>
  How the upstream pages the objects of one namespace at the revision: \<open>items\<close> are all of them,
  \<open>tok\<close> the token of an offset.  A page has as many items as were asked for as long as there are
  any, and a token exactly when some are left.
\<close>

definition paged ::
  "(string \<Rightarrow> ListOptions \<Rightarrow> UnstructuredList result) \<Rightarrow> ListOptions \<Rightarrow> string \<Rightarrow> (string \<Rightarrow> robject list) \<Rightarrow>
   (string \<Rightarrow> nat \<Rightarrow> string) \<Rightarrow> bool" where
  "paged lst options rv items tok \<longleftrightarrow>
     (\<forall>ns k r. 0 < r \<longrightarrow> k = 0 \<or> k < length (items ns) \<longrightarrow>
        (\<exists>page. lst ns (perNamespaceOptions options rv (if k = 0 then [] else tok ns k) r) = Inr page \<and>
           ul_Items page = take (nat r) (drop k (items ns)) \<and>
           ul_Continue page = (if k + nat r < length (items ns) then tok ns (k + nat r) else []))) \<and>
     (\<forall>ns k. tok ns k \<noteq> [] \<and> ascii (tok ns k))"

fun pending :: "(string \<Rightarrow> robject list) \<Rightarrow> nat \<Rightarrow> string list \<Rightarrow> robject list" where
  "pending items k [] = []"
| "pending items k (ns # nss) = drop k (items ns) @ concat (map items nss)"

lemma pending_0 [simp]: "pending items 0 nss = concat (map items nss)"
  by (cases nss) auto

definition cursor_at :: "(string \<Rightarrow> robject list) \<Rightarrow> (string \<Rightarrow> nat \<Rightarrow> string) \<Rightarrow> nat \<Rightarrow> string list \<Rightarrow> string \<Rightarrow> bool" where
  "cursor_at items tok k nss inner \<longleftrightarrow>
     k = 0 \<and> inner = [] \<or> (\<exists>ns nss'. nss = ns # nss' \<and> 0 < k \<and> k < length (items ns) \<and> inner = tok ns k)"

lemma gatheredItems_gather [simp]: "ul_Items (gather g page) = gatheredItems g @ ul_Items page"
  by (auto simp: gather_def gatheredItems_def split: option.splits)

lemma gatheredItems_Some [simp]: "gatheredItems (Some l) = ul_Items l"
  by (simp add: gatheredItems_def)

lemma finished_simps [simp]:
  "ul_Items (finished rv g) = gatheredItems g" "ul_Continue (finished rv g) = []" "ul_ResourceVersion (finished rv g) = rv"
  by (auto simp: finished_def gatheredItems_def empty_list_def split: option.splits)

text \<open>One call returns the next items and a cursor to the ones after them.\<close>

definition page_ok ::
  "cursor_json \<Rightarrow> (string \<Rightarrow> robject list) \<Rightarrow> (string \<Rightarrow> nat \<Rightarrow> string) \<Rightarrow> string \<Rightarrow> nat \<Rightarrow> nat \<Rightarrow> string list \<Rightarrow> nat \<Rightarrow>
   UnstructuredList \<Rightarrow> bool" where
  "page_ok J items tok rv k r nss index l \<longleftrightarrow>
     (ul_Continue l = [] \<and> length (pending items k nss) \<le> r \<or>
      (\<exists>j k' inner'. j \<le> length nss \<and> cursor_at items tok k' (drop j nss) inner' \<and>
        ul_Continue l = encodeFanoutContinue J \<lparr>fc_APIVersion = [], fc_ResourceVersion = rv,
          fc_NamespaceIndex = int (index + j), fc_Inner = inner'\<rparr> \<and>
        r \<le> length (pending items k nss) \<and>
        pending items k' (drop j nss) = drop r (pending items k nss)))"

lemma page_ok_step:
  assumes "page_ok J items tok rv 0 (r - (length (items ns) - k)) nss (Suc index) l"
    and "length (items ns) - k < r" and "k = 0 \<or> k < length (items ns)"
  shows "page_ok J items tok rv k r (ns # nss) index l"
proof -
  let ?n = "length (items ns) - k"
  from assms(1) consider
      "ul_Continue l = []" "length (concat (map items nss)) \<le> r - ?n"
    | j k' inner' where "j \<le> length nss" "cursor_at items tok k' (drop j nss) inner'"
        "ul_Continue l = encodeFanoutContinue J \<lparr>fc_APIVersion = [], fc_ResourceVersion = rv,
          fc_NamespaceIndex = int (Suc index + j), fc_Inner = inner'\<rparr>"
        "r - ?n \<le> length (concat (map items nss))"
        "pending items k' (drop j nss) = drop (r - ?n) (concat (map items nss))"
    unfolding page_ok_def pending_0 by blast
  then show ?thesis
  proof cases
    case 1
    then show ?thesis unfolding page_ok_def using assms(2) by (intro disjI1) simp
  next
    case 2
    then show ?thesis
      unfolding page_ok_def using assms(2)
      by (intro disjI2 exI [of _ "Suc j"] exI [of _ k'] exI [of _ inner']) simp
  qed
qed

lemma fanoutLoop_page:
  assumes "paged lst options rv items tok" "0 < lo_Limit options"
    and "cursor_at items tok k nss inner" "0 < r" "r = lo_Limit options - int (length (gatheredItems g))"
    and "owned = index + length nss"
  shows "\<exists>l. fanoutLoop J lst options rv owned nss index inner r g = Inr l \<and>
     ul_Items l = gatheredItems g @ take (nat r) (pending items k nss) \<and> ul_ResourceVersion l = rv \<and>
     page_ok J items tok rv k (nat r) nss index l"
  using assms(3-)
proof (induction nss arbitrary: k inner r g index)
  case Nil
  then show ?case by (auto simp: page_ok_def cursor_at_def)
next
  case (Cons ns nss)
  have k: "k = 0 \<or> k < length (items ns)" "inner = (if k = 0 then [] else tok ns k)"
    using Cons.prems(1) by (auto simp: cursor_at_def)
  have "\<exists>page. lst ns (perNamespaceOptions options rv (if k = 0 then [] else tok ns k) r) = Inr page \<and>
      ul_Items page = take (nat r) (drop k (items ns)) \<and>
      ul_Continue page = (if k + nat r < length (items ns) then tok ns (k + nat r) else [])"
    using assms(1) Cons.prems(2) k(1) unfolding paged_def by blast
  then obtain page where page: "lst ns (perNamespaceOptions options rv inner r) = Inr page"
      "ul_Items page = take (nat r) (drop k (items ns))"
      "ul_Continue page = (if k + nat r < length (items ns) then tok ns (k + nat r) else [])"
    unfolding k(2) by blast
  define n where "n = length (items ns) - k"
  have left: "lo_Limit options - int (length (ul_Items (gather g page))) = r - int (min (nat r) n)"
    using Cons.prems(3) page(2) by (simp add: n_def min.commute)
  have left_pos: "int (length (ul_Items (gather g page))) < lo_Limit options \<longleftrightarrow> int (min (nat r) n) < r"
    using left by linarith
  have lim: "\<not> lo_Limit options \<le> 0" using assms(2) by simp
  consider (short) "n < nat r" | (exact) "n = nat r" | (more) "nat r < n" by linarith
  then show ?case
  proof cases
    case short
    have nn: "nat (r - int n) = nat r - n" by simp
    have "\<exists>l. fanoutLoop J lst options rv owned nss (Suc index) [] (r - int n) (Some (gather g page)) = Inr l \<and>
        ul_Items l = gatheredItems (Some (gather g page)) @ take (nat (r - int n)) (pending items 0 nss) \<and>
        ul_ResourceVersion l = rv \<and> page_ok J items tok rv 0 (nat (r - int n)) nss (Suc index) l"
      using short left Cons.prems(2,3,4) by (intro Cons.IH) (auto simp: cursor_at_def)
    then obtain l where l: "fanoutLoop J lst options rv owned nss (Suc index) [] (r - int n) (Some (gather g page)) = Inr l"
        "ul_Items l = gatheredItems (Some (gather g page)) @ take (nat r - n) (concat (map items nss))"
        "ul_ResourceVersion l = rv" "page_ok J items tok rv 0 (nat r - n) nss (Suc index) l"
      unfolding nn pending_0 by blast
    have "page_ok J items tok rv k (nat r) (ns # nss) index l"
      using page_ok_step [OF l(4) [unfolded n_def] short [unfolded n_def] k(1)] .
    moreover have "fanoutLoop J lst options rv owned (ns # nss) index inner r g = Inr l"
      using l(1) short lim page(1) by (simp add: Let_def left left_pos min_def del: gatheredItems_gather)
    moreover have "ul_Items l = gatheredItems g @ take (nat r) (pending items k (ns # nss))"
      using l(2) short page(2) by (simp add: n_def)
    ultimately show ?thesis using l(3) by blast
  next
    case exact
    then have c: "ul_Continue page = []" using page(3) Cons.prems(2) k(1) by (auto simp: n_def)
    have taken: "take (nat r) (pending items k (ns # nss)) = ul_Items page"
      using exact page(2) by (simp add: n_def)
    show ?thesis
    proof (cases "nss = []")
      case True
      have "fanoutLoop J lst options rv owned (ns # nss) index inner r g = Inr (finished rv (Some (gather g page)))"
        using page(1) lim c exact True Cons.prems(2,4) by (simp add: Let_def left left_pos del: gatheredItems_gather)
      moreover have "page_ok J items tok rv k (nat r) (ns # nss) index (finished rv (Some (gather g page)))"
        using exact True by (simp add: page_ok_def n_def)
      ultimately show ?thesis using taken by simp
    next
      case False
      let ?l = "(gather g page)\<lparr>ul_Continue := encodeFanoutContinue J \<lparr>fc_APIVersion = [], fc_ResourceVersion = rv,
          fc_NamespaceIndex = int (Suc index), fc_Inner = []\<rparr>, ul_ResourceVersion := rv\<rparr>"
      have "fanoutLoop J lst options rv owned (ns # nss) index inner r g = Inr ?l"
        using page(1) lim c exact False Cons.prems(2,4) by (simp add: Let_def left left_pos del: gatheredItems_gather)
      moreover have "page_ok J items tok rv k (nat r) (ns # nss) index ?l"
        unfolding page_ok_def using exact
        by (intro disjI2 exI [of _ "Suc 0"] exI [of _ 0] exI [of _ "[]"]) (simp add: n_def cursor_at_def)
      ultimately show ?thesis using taken by simp
    qed
  next
    case more
    have c: "ul_Continue page = tok ns (k + nat r)" "tok ns (k + nat r) \<noteq> []"
      using page(3) more assms(1) by (auto simp: n_def paged_def)
    have at: "cursor_at items tok (k + nat r) (ns # nss) (tok ns (k + nat r))"
      using more Cons.prems(2) by (auto simp: cursor_at_def n_def)
    let ?l = "(gather g page)\<lparr>ul_Continue := encodeFanoutContinue J \<lparr>fc_APIVersion = [], fc_ResourceVersion = rv,
        fc_NamespaceIndex = int index, fc_Inner = tok ns (k + nat r)\<rparr>, ul_ResourceVersion := rv\<rparr>"
    have "fanoutLoop J lst options rv owned (ns # nss) index inner r g = Inr ?l"
      using page(1) lim c more Cons.prems(2) by (simp add: Let_def left left_pos del: gatheredItems_gather)
    moreover have "page_ok J items tok rv k (nat r) (ns # nss) index ?l"
      unfolding page_ok_def using more at
      by (intro disjI2 exI [of _ 0] exI [of _ "k + nat r"] exI [of _ "tok ns (k + nat r)"])
        (simp add: n_def add.commute)
    moreover have "take (nat r) (pending items k (ns # nss)) = ul_Items page"
      using more page(2) by (simp add: n_def)
    ultimately show ?thesis by simp
  qed
qed

text \<open>A client that follows the tokens for at most so many pages.\<close>

fun follow :: "nat \<Rightarrow> (string \<Rightarrow> UnstructuredList result) \<Rightarrow> string \<Rightarrow> UnstructuredList list result" where
  "follow 0 req token = Inl (Plain ''more pages'')"
| "follow (Suc n) req token =
     bindR (req token) (\<lambda>page.
       if ul_Continue page = [] then Inr [page]
       else bindR (follow n req (ul_Continue page)) (\<lambda>pages. Inr (page # pages)))"

definition namespaceList :: "'s env \<Rightarrow> 's \<Rightarrow> tenantProxy \<Rightarrow> Context \<Rightarrow> string \<Rightarrow> string \<Rightarrow> ListOptions \<Rightarrow> UnstructuredList result" where
  "namespaceList E s tp ctx tid ns =
     up_List (ev_client E) s \<lparr>tg_User = cx_User ctx, tg_Resource = upstreamResource (ev_contract E) tp tid, tg_Namespace = ns\<rparr>"

text \<open>The namespaces of the tenant stay what they were at a revision.\<close>

definition namespaces_at :: "'s env \<Rightarrow> 's \<Rightarrow> Context \<Rightarrow> string \<Rightarrow> string list \<Rightarrow> string \<Rightarrow> bool" where
  "namespaces_at E s ctx tid nss rv \<longleftrightarrow>
     rv \<noteq> [] \<and> ascii rv \<and> tenantNamespaces E s ctx tid [] = Inr (nss, rv) \<and>
     (\<exists>rv'. tenantNamespaces E s ctx tid rv = Inr (nss, rv'))"

lemma perNamespace_continue [simp]:
  "perNamespaceOptions (options\<lparr>lo_Continue := t\<rparr>) rv inner r = perNamespaceOptions options rv inner r"
  by (simp add: perNamespaceOptions_def Let_def)

lemma fanoutLoop_continue [simp]:
  "fanoutLoop J lst (options\<lparr>lo_Continue := t\<rparr>) rv owned nss index inner r g =
   fanoutLoop J lst options rv owned nss index inner r g"
  by (induction nss arbitrary: index inner r g) (simp_all add: Let_def cong: if_cong)

lemma list_first:
  assumes "namespaces_at E s ctx tid nss rv"
  shows "listAcrossNamespaces J E s tp ctx (options\<lparr>lo_Continue := []\<rparr>) tid =
    fanoutLoop J (namespaceList E s tp ctx tid) options rv (length nss) nss 0 [] (lo_Limit options) None"
  using assms by (auto simp: listAcrossNamespaces_def namespaces_at_def namespaceList_def [abs_def])

lemma list_next:
  assumes "namespaces_at E s ctx tid nss rv" "cursor_json_ok J" "ascii inner" "i \<le> length nss"
  shows "listAcrossNamespaces J E s tp ctx (options\<lparr>lo_Continue := encodeFanoutContinue J
      \<lparr>fc_APIVersion = [], fc_ResourceVersion = rv, fc_NamespaceIndex = int i, fc_Inner = inner\<rparr>\<rparr>) tid =
    fanoutLoop J (namespaceList E s tp ctx tid) options rv (length nss) (drop i nss) i inner (lo_Limit options) None"
  using assms
  by (auto simp: listAcrossNamespaces_def namespaces_at_def namespaceList_def [abs_def] encodeFanout_nonempty
      decode_encode_fanout)

lemma follow_pages:
  assumes "namespaces_at E s ctx tid nss rv" "cursor_json_ok J" "0 < lo_Limit options"
    and "paged (namespaceList E s tp ctx tid) options rv items tok"
    and "i \<le> length nss" "cursor_at items tok k (drop i nss) inner"
    and "req = (\<lambda>t. listAcrossNamespaces J E s tp ctx (options\<lparr>lo_Continue := t\<rparr>) tid)"
    and "req token = fanoutLoop J (namespaceList E s tp ctx tid) options rv (length nss) (drop i nss) i inner
          (lo_Limit options) None"
    and "length (pending items k (drop i nss)) < n"
  shows "\<exists>pages. follow n req token = Inr pages \<and>
     concat (map ul_Items pages) = pending items k (drop i nss) \<and>
     (\<forall>p \<in> set pages. int (length (ul_Items p)) \<le> lo_Limit options \<and> ul_ResourceVersion p = rv)"
  using assms(5,6,8,9)
proof (induction n arbitrary: i k inner token)
  case (Suc n)
  let ?r = "nat (lo_Limit options)" and ?p = "pending items k (drop i nss)"
  have "\<exists>l. fanoutLoop J (namespaceList E s tp ctx tid) options rv (length nss) (drop i nss) i inner
        (lo_Limit options) None = Inr l \<and>
      ul_Items l = gatheredItems None @ take ?r ?p \<and> ul_ResourceVersion l = rv \<and>
      page_ok J items tok rv k ?r (drop i nss) i l"
    using Suc.prems(1,2) assms(3) by (intro fanoutLoop_page [OF assms(4)]) (auto simp: gatheredItems_def)
  then obtain l where l: "req token = Inr l" "ul_Items l = take ?r ?p" "ul_ResourceVersion l = rv"
      "page_ok J items tok rv k ?r (drop i nss) i l"
    using Suc.prems(3) by (auto simp: gatheredItems_def)
  have bound: "int (length (ul_Items l)) \<le> lo_Limit options" using l(2) assms(3) by simp
  from l(4) consider (last) "ul_Continue l = []" "length ?p \<le> ?r"
    | (next_page) j k' inner' where "j \<le> length nss - i" "cursor_at items tok k' (drop (i + j) nss) inner'"
        "ul_Continue l = encodeFanoutContinue J \<lparr>fc_APIVersion = [], fc_ResourceVersion = rv,
          fc_NamespaceIndex = int (i + j), fc_Inner = inner'\<rparr>"
        "?r \<le> length ?p" "pending items k' (drop (i + j) nss) = drop ?r ?p"
    unfolding page_ok_def by (auto simp: add.commute)
  then show ?case
  proof cases
    case last
    then show ?thesis using l bound by simp
  next
    case next_page
    have ij: "i + j \<le> length nss" using next_page(1) Suc.prems(1) by simp
    have asc: "ascii inner'"
      using next_page(2) assms(4) by (auto simp: cursor_at_def paged_def ascii_def)
    have "req (ul_Continue l) = fanoutLoop J (namespaceList E s tp ctx tid) options rv (length nss) (drop (i + j) nss)
        (i + j) inner' (lo_Limit options) None"
      unfolding assms(7) next_page(3) by (rule list_next [OF assms(1,2) asc ij])
    moreover have "length (pending items k' (drop (i + j) nss)) < n"
      using next_page(4,5) Suc.prems(4) assms(3) by simp
    ultimately obtain pages where pages: "follow n req (ul_Continue l) = Inr pages"
        "concat (map ul_Items pages) = drop ?r ?p"
        "\<forall>p \<in> set pages. int (length (ul_Items p)) \<le> lo_Limit options \<and> ul_ResourceVersion p = rv"
      using Suc.IH [OF ij next_page(2)] next_page(5) by metis
    have "ul_Continue l \<noteq> []" using next_page(3) encodeFanout_nonempty [OF assms(2)] by simp
    then have "follow (Suc n) req token = Inr (l # pages)" using l(1) pages(1) by simp
    then show ?thesis using l bound pages(2,3) by simp
  qed
qed simp

end
