(* ===== verification/Rbac_Transformers.thy ===== *)
theory Rbac_Transformers
  imports Default_Convertor
begin

text \<open>
  The transformers of package convert for access control (role.go, clusterrole.go,
  rolebinding.go, clusterrolebinding.go, tokenreview.go, accessreview.go): rules, subjects,
  role references, and the reviews a client asks about permissions.
\<close>

subsection \<open>Roles\<close>

definition transformRuleToUpstream ::
  "contract \<Rightarrow> PolicyRule \<Rightarrow> crd_v1 list \<Rightarrow> string \<Rightarrow> PolicyRule result" where
  "transformRuleToUpstream C rule grm tenantID =
     Inr (rule\<lparr>
       pr_APIGroups := map (\<lambda>g. if HasGroup C grm (AddTenantIDPrefix C tenantID g)
         then AddTenantIDPrefix C tenantID g else g) (pr_APIGroups rule),
       pr_ResourceNames := pr_ResourceNames rule @
         map (AddTenantIDPrefix C tenantID) (pr_ResourceNames rule)\<rparr>)"

definition transformRuleToTenant ::
  "contract \<Rightarrow> PolicyRule \<Rightarrow> crd_v1 list \<Rightarrow> string \<Rightarrow> PolicyRule result" where
  "transformRuleToTenant C rule grm tenantID =
     Inr (rule\<lparr>
       pr_APIGroups := map (TrimTenantIDPrefix C tenantID) (pr_APIGroups rule),
       pr_ResourceNames := filter (\<lambda>n. \<not> HasPrefix n (tenantID @ ''-'')) (pr_ResourceNames rule)\<rparr>)"

definition RoleTransformer_transformRuleList ::
  "contract \<Rightarrow> PolicyRule list \<Rightarrow> string \<Rightarrow>
   (PolicyRule \<Rightarrow> crd_v1 list \<Rightarrow> string \<Rightarrow> PolicyRule result) \<Rightarrow> PolicyRule list result" where
  "RoleTransformer_transformRuleList C ruleList tenantID transform =
     (if ruleList = [] then Inr []
      else bindR (listTenantCRDs C tenantID) (\<lambda>crdList.
        mapR (\<lambda>rule. transform rule crdList tenantID) ruleList))"

definition RoleTransformer_Forward :: "contract \<Rightarrow> robject \<Rightarrow> string \<Rightarrow> robject result" where
  "RoleTransformer_Forward C obj tenantID =
     (case ro_Body obj of
        RoleB rules \<Rightarrow>
          bindR (RoleTransformer_transformRuleList C rules tenantID (transformRuleToUpstream C))
            (\<lambda>rules. Inr (obj\<lparr>ro_Body := RoleB rules\<rparr>))
      | _ \<Rightarrow> Inl TypeAssertion)"

definition RoleTransformer_Backward :: "contract \<Rightarrow> robject \<Rightarrow> string \<Rightarrow> robject result" where
  "RoleTransformer_Backward C obj tenantID =
     (case ro_Body obj of
        RoleB rules \<Rightarrow>
          bindR (RoleTransformer_transformRuleList C rules tenantID (transformRuleToTenant C))
            (\<lambda>rules. Inr (obj\<lparr>ro_Body := RoleB rules\<rparr>))
      | _ \<Rightarrow> Inl TypeAssertion)"

definition NewRoleTransformer :: "contract \<Rightarrow> ObjectTransformer" where
  "NewRoleTransformer C = \<lparr>Forward = RoleTransformer_Forward C, Backward = RoleTransformer_Backward C\<rparr>"

definition ClusterRoleTransformer_transformRuleList ::
  "contract \<Rightarrow> PolicyRule list \<Rightarrow> string \<Rightarrow>
   (PolicyRule \<Rightarrow> crd_v1 list \<Rightarrow> string \<Rightarrow> PolicyRule result) \<Rightarrow> PolicyRule list result" where
  "ClusterRoleTransformer_transformRuleList C ruleList tenantID transform =
     (if ruleList = [] then Inr []
      else bindR (listTenantCRDs C tenantID) (\<lambda>crdList.
        mapR (\<lambda>rule. transform rule crdList tenantID) ruleList))"

definition ClusterRoleTransformer_Forward :: "contract \<Rightarrow> robject \<Rightarrow> string \<Rightarrow> robject result" where
  "ClusterRoleTransformer_Forward C obj tenantID =
     (case ro_Body obj of
        ClusterRoleB rules rest \<Rightarrow>
          bindR (ClusterRoleTransformer_transformRuleList C rules tenantID (transformRuleToUpstream C))
            (\<lambda>rules. Inr (obj\<lparr>ro_Body := ClusterRoleB rules rest\<rparr>))
      | _ \<Rightarrow> Inl TypeAssertion)"

definition ClusterRoleTransformer_Backward :: "contract \<Rightarrow> robject \<Rightarrow> string \<Rightarrow> robject result" where
  "ClusterRoleTransformer_Backward C obj tenantID =
     (case ro_Body obj of
        ClusterRoleB rules rest \<Rightarrow>
          bindR (ClusterRoleTransformer_transformRuleList C rules tenantID (transformRuleToTenant C))
            (\<lambda>rules. Inr (obj\<lparr>ro_Body := ClusterRoleB rules rest\<rparr>))
      | _ \<Rightarrow> Inl TypeAssertion)"

definition NewClusterRoleTransformer :: "contract \<Rightarrow> ObjectTransformer" where
  "NewClusterRoleTransformer C = \<lparr>
     Forward = ClusterRoleTransformer_Forward C, Backward = ClusterRoleTransformer_Backward C\<rparr>"

subsection \<open>Bindings\<close>

definition transformSubjectToUpstream :: "contract \<Rightarrow> Subject \<Rightarrow> string \<Rightarrow> Subject result" where
  "transformSubjectToUpstream C subject tenantID =
     (if sub_Kind subject = ''User'' then
        Inr (if sub_Name subject \<noteq> []
             then subject\<lparr>sub_Name := AddTenantIDPrefix C tenantID (sub_Name subject)\<rparr> else subject)
      else if sub_Kind subject = ''ServiceAccount'' then
        Inr (if sub_Namespace subject \<noteq> []
             then subject\<lparr>sub_Namespace := AddTenantIDPrefix C tenantID (sub_Namespace subject)\<rparr> else subject)
      else if sub_Kind subject = ''Group'' then
        Inr (if HasPrefix (sub_Name subject) (ServiceAccountGroupPrefix C) \<and>
                length (sub_Name subject) > length (ServiceAccountGroupPrefix C)
             then subject\<lparr>sub_Name := MakeNamespaceGroupName C (AddTenantIDPrefix C tenantID
                    (TrimPrefix (sub_Name subject) (ServiceAccountGroupPrefix C)))\<rparr>
             else if sub_Name subject \<noteq> []
             then subject\<lparr>sub_Name := AddTenantIDPrefix C tenantID (sub_Name subject)\<rparr>
             else subject)
      else Inr subject)"

definition transformSubjectToTenant :: "contract \<Rightarrow> Subject \<Rightarrow> string \<Rightarrow> Subject result" where
  "transformSubjectToTenant C subject tenantID =
     (if sub_Kind subject = ''User'' then
        (if \<not> HasPrefix (sub_Name subject) tenantID then Inl (Plain ''invalid subject name'')
         else Inr (subject\<lparr>sub_Name := TrimTenantIDPrefix C tenantID (sub_Name subject)\<rparr>))
      else if sub_Kind subject = ''ServiceAccount'' then
        (if sub_Namespace subject = [] then Inr subject
         else if \<not> HasPrefix (sub_Namespace subject) tenantID then Inl (Plain ''invalid subject namespace'')
         else Inr (subject\<lparr>sub_Namespace := TrimTenantIDPrefix C tenantID (sub_Namespace subject)\<rparr>))
      else if sub_Kind subject = ''Group'' then
        (if HasPrefix (sub_Name subject) (ServiceAccountGroupPrefix C) then
           (let namespace = TrimPrefix (sub_Name subject) (ServiceAccountGroupPrefix C) in
            if \<not> HasPrefix namespace tenantID then Inl (Plain ''invalid subject name'')
            else Inr (subject\<lparr>sub_Name :=
              MakeNamespaceGroupName C (TrimTenantIDPrefix C tenantID namespace)\<rparr>))
         else if HasPrefix (sub_Name subject) tenantID
         then Inr (subject\<lparr>sub_Name := TrimTenantIDPrefix C tenantID (sub_Name subject)\<rparr>)
         else Inr subject)
      else Inr subject)"

definition transformSubjectList ::
  "Subject list \<Rightarrow> string \<Rightarrow> (Subject \<Rightarrow> string \<Rightarrow> Subject result) \<Rightarrow> Subject list result" where
  "transformSubjectList subjectList tenantID transform =
     mapR (\<lambda>subject. transform subject tenantID) subjectList"

definition RoleBindingTransformer_Forward :: "contract \<Rightarrow> robject \<Rightarrow> string \<Rightarrow> robject result" where
  "RoleBindingTransformer_Forward C obj tenantID =
     (case ro_Body obj of
        RoleBindingB subjects roleRef \<Rightarrow>
          bindR (transformSubjectList subjects tenantID (transformSubjectToUpstream C)) (\<lambda>subjects.
            let roleRef = (if rr_Kind roleRef = ''ClusterRole'' \<and> rr_Name roleRef \<noteq> []
                           then roleRef\<lparr>rr_Name := AddTenantIDPrefix C tenantID (rr_Name roleRef)\<rparr>
                           else roleRef)
            in Inr (obj\<lparr>ro_Body := RoleBindingB subjects roleRef\<rparr>))
      | _ \<Rightarrow> Inl TypeAssertion)"

definition RoleBindingTransformer_Backward :: "contract \<Rightarrow> robject \<Rightarrow> string \<Rightarrow> robject result" where
  "RoleBindingTransformer_Backward C obj tenantID =
     (case ro_Body obj of
        RoleBindingB subjects roleRef \<Rightarrow>
          bindR (transformSubjectList subjects tenantID (transformSubjectToTenant C)) (\<lambda>subjects.
            let roleRef = (if rr_Kind roleRef = ''ClusterRole'' \<and> HasPrefix (rr_Name roleRef) tenantID
                           then roleRef\<lparr>rr_Name := TrimTenantIDPrefix C tenantID (rr_Name roleRef)\<rparr>
                           else roleRef)
            in Inr (obj\<lparr>ro_Body := RoleBindingB subjects roleRef\<rparr>))
      | _ \<Rightarrow> Inl TypeAssertion)"

definition NewRoleBindingTransformer :: "contract \<Rightarrow> ObjectTransformer" where
  "NewRoleBindingTransformer C = \<lparr>
     Forward = RoleBindingTransformer_Forward C, Backward = RoleBindingTransformer_Backward C\<rparr>"

definition ClusterRoleBindingTransformer_Forward :: "contract \<Rightarrow> robject \<Rightarrow> string \<Rightarrow> robject result" where
  "ClusterRoleBindingTransformer_Forward C obj tenantID =
     (case ro_Body obj of
        ClusterRoleBindingB subjects roleRef \<Rightarrow>
          bindR (transformSubjectList subjects tenantID (transformSubjectToUpstream C)) (\<lambda>subjects.
            let roleRef = (if rr_Kind roleRef = ''ClusterRole'' \<and> rr_Name roleRef \<noteq> []
                           then roleRef\<lparr>rr_Name := AddTenantIDPrefix C tenantID (rr_Name roleRef)\<rparr>
                           else roleRef)
            in Inr (obj\<lparr>ro_Body := ClusterRoleBindingB subjects roleRef\<rparr>))
      | _ \<Rightarrow> Inl TypeAssertion)"

definition ClusterRoleBindingTransformer_Backward :: "contract \<Rightarrow> robject \<Rightarrow> string \<Rightarrow> robject result" where
  "ClusterRoleBindingTransformer_Backward C obj tenantID =
     (case ro_Body obj of
        ClusterRoleBindingB subjects roleRef \<Rightarrow>
          bindR (transformSubjectList subjects tenantID (transformSubjectToTenant C)) (\<lambda>subjects.
            let roleRef = (if rr_Kind roleRef = ''ClusterRole''
                           then roleRef\<lparr>rr_Name := trimIfAttributable C (rr_Name roleRef) tenantID\<rparr>
                           else roleRef)
            in Inr (obj\<lparr>ro_Body := ClusterRoleBindingB subjects roleRef\<rparr>))
      | _ \<Rightarrow> Inl TypeAssertion)"

definition NewClusterRoleBindingTransformer :: "contract \<Rightarrow> ObjectTransformer" where
  "NewClusterRoleBindingTransformer C = \<lparr>
     Forward = ClusterRoleBindingTransformer_Forward C,
     Backward = ClusterRoleBindingTransformer_Backward C\<rparr>"

subsection \<open>Token reviews\<close>

definition TokenReviewTransformer_Forward :: "contract \<Rightarrow> robject \<Rightarrow> string \<Rightarrow> robject result" where
  "TokenReviewTransformer_Forward C obj tenantID = Inr obj"

definition TokenReviewTransformer_Backward :: "contract \<Rightarrow> robject \<Rightarrow> string \<Rightarrow> robject result" where
  "TokenReviewTransformer_Backward C obj tenantID =
     (case ro_Body obj of
        TokenReviewB rest username groups \<Rightarrow>
          (case SplitUsername C username of
             None \<Rightarrow> Inr obj
           | Some (prefixedNamespace, name) \<Rightarrow>
             (let namespace = TrimTenantIDPrefix C tenantID prefixedNamespace;
                  prefixedGroup = MakeNamespaceGroupName C prefixedNamespace
              in Inr (obj\<lparr>ro_Body := TokenReviewB rest (MakeUsername C namespace name)
                   (map (\<lambda>g. if g = prefixedGroup then MakeNamespaceGroupName C namespace else g) groups)\<rparr>)))
      | _ \<Rightarrow> Inl TypeAssertion)"

definition NewTokenReviewTransformer :: "contract \<Rightarrow> ObjectTransformer" where
  "NewTokenReviewTransformer C = \<lparr>
     Forward = TokenReviewTransformer_Forward C, Backward = TokenReviewTransformer_Backward C\<rparr>"

subsection \<open>Access reviews\<close>

definition forwardResourceAttributes ::
  "contract \<Rightarrow> ResourceAttributes option \<Rightarrow> string \<Rightarrow> ResourceAttributes option" where
  "forwardResourceAttributes C attributes tenantID = map_option (\<lambda>a.
     let a = (if ra_Namespace a \<noteq> []
              then a\<lparr>ra_Namespace := UpstreamNamespace C tenantID (ra_Namespace a)\<rparr> else a);
         a = (if ra_Group a \<noteq> [] \<and> \<not> IsNativeAPIGroup C (ra_Group a)
              then a\<lparr>ra_Group := AddTenantIDPrefix C tenantID (ra_Group a)\<rparr> else a)
     in a) attributes"

definition backwardResourceAttributes ::
  "contract \<Rightarrow> ResourceAttributes option \<Rightarrow> string \<Rightarrow> ResourceAttributes option" where
  "backwardResourceAttributes C attributes tenantID = map_option (\<lambda>a.
     a\<lparr>ra_Namespace := TrimTenantIDPrefix C tenantID (ra_Namespace a),
       ra_Group := TrimTenantIDPrefix C tenantID (ra_Group a)\<rparr>) attributes"

definition serviceAccountsGroupNamespace :: "string \<Rightarrow> string option" where
  "serviceAccountsGroupNamespace grp =
     (if \<not> HasPrefix grp sa_group_prefix then None
      else let namespace = TrimPrefix grp sa_group_prefix in
        if namespace = [] then None else Some namespace)"

definition forwardUsername :: "contract \<Rightarrow> string \<Rightarrow> string \<Rightarrow> string result" where
  "forwardUsername C username tenantID =
     (case SplitUsername C username of
        Some (namespace, name) \<Rightarrow> Inr (MakeUsername C (UpstreamNamespace C tenantID namespace) name)
      | None \<Rightarrow>
        if HasPrefix username ''system:'' then Inl (Plain ''user belongs to the cluster itself'')
        else Inr (AddTenantIDPrefix C tenantID username))"

definition backwardUsername :: "contract \<Rightarrow> string \<Rightarrow> string \<Rightarrow> string" where
  "backwardUsername C username tenantID =
     (case SplitUsername C username of
        Some (namespace, name) \<Rightarrow> MakeUsername C (TrimTenantIDPrefix C tenantID namespace) name
      | None \<Rightarrow> TrimTenantIDPrefix C tenantID username)"

definition forwardGroup :: "contract \<Rightarrow> string \<Rightarrow> string \<Rightarrow> string result" where
  "forwardGroup C grp tenantID =
     (if grp \<in> {''system:authenticated'', ''system:unauthenticated'', ''system:serviceaccounts''}
      then Inr grp
      else (case serviceAccountsGroupNamespace grp of
          Some namespace \<Rightarrow> Inr (MakeNamespaceGroupName C (UpstreamNamespace C tenantID namespace))
        | None \<Rightarrow>
          if HasPrefix grp ''system:'' then Inl (Plain ''group belongs to the cluster itself'')
          else Inr (AddTenantIDPrefix C tenantID grp)))"

definition backwardGroup :: "contract \<Rightarrow> string \<Rightarrow> string \<Rightarrow> string" where
  "backwardGroup C grp tenantID =
     (case serviceAccountsGroupNamespace grp of
        Some namespace \<Rightarrow> MakeNamespaceGroupName C (TrimTenantIDPrefix C tenantID namespace)
      | None \<Rightarrow> TrimTenantIDPrefix C tenantID grp)"

definition forwardSubject ::
  "contract \<Rightarrow> SubjectAccessReviewSpec \<Rightarrow> string \<Rightarrow> SubjectAccessReviewSpec result" where
  "forwardSubject C spec tenantID =
     bindR (if sar_User spec \<noteq> [] then forwardUsername C (sar_User spec) tenantID
            else Inr (sar_User spec)) (\<lambda>user.
     bindR (mapR (\<lambda>group. forwardGroup C group tenantID) (sar_Groups spec)) (\<lambda>groups.
     Inr (spec\<lparr>sar_User := user, sar_Groups := groups\<rparr>)))"

definition backwardSubject ::
  "contract \<Rightarrow> SubjectAccessReviewSpec \<Rightarrow> string \<Rightarrow> SubjectAccessReviewSpec" where
  "backwardSubject C spec tenantID =
     spec\<lparr>sar_User := backwardUsername C (sar_User spec) tenantID,
       sar_Groups := map (\<lambda>g. backwardGroup C g tenantID) (sar_Groups spec)\<rparr>"

fun trimAndDedupe_loop :: "contract \<Rightarrow> string \<Rightarrow> string list \<Rightarrow> string list \<Rightarrow> string list" where
  "trimAndDedupe_loop C tenantID [] trimmed = trimmed"
| "trimAndDedupe_loop C tenantID (v # values) trimmed =
     (let v = TrimTenantIDPrefix C tenantID v in
      if v \<in> set trimmed then trimAndDedupe_loop C tenantID values trimmed
      else trimAndDedupe_loop C tenantID values (trimmed @ [v]))"

definition trimAndDedupe :: "contract \<Rightarrow> string list \<Rightarrow> string \<Rightarrow> string list" where
  "trimAndDedupe C values tenantID =
     (if values = [] then values else trimAndDedupe_loop C tenantID values [])"

definition backwardRules :: "contract \<Rightarrow> ResourceRule list \<Rightarrow> string \<Rightarrow> ResourceRule list" where
  "backwardRules C rules tenantID = map (\<lambda>r. r\<lparr>
     rsr_APIGroups := trimAndDedupe C (rsr_APIGroups r) tenantID,
     rsr_ResourceNames := trimAndDedupe C (rsr_ResourceNames r) tenantID\<rparr>) rules"

definition AccessReviewTransformer_Forward :: "contract \<Rightarrow> robject \<Rightarrow> string \<Rightarrow> robject result" where
  "AccessReviewTransformer_Forward C obj tenantID =
     (case ro_Body obj of
        SelfSubjectAccessReviewB attributes rest \<Rightarrow>
          Inr (obj\<lparr>ro_Body := SelfSubjectAccessReviewB
            (forwardResourceAttributes C attributes tenantID) rest\<rparr>)
      | LocalSubjectAccessReviewB spec rest \<Rightarrow>
          bindR (forwardSubject C (spec\<lparr>sar_ResourceAttributes :=
              forwardResourceAttributes C (sar_ResourceAttributes spec) tenantID\<rparr>) tenantID)
            (\<lambda>spec. Inr (obj\<lparr>ro_Body := LocalSubjectAccessReviewB spec rest\<rparr>))
      | SubjectAccessReviewB spec rest \<Rightarrow>
          bindR (forwardSubject C (spec\<lparr>sar_ResourceAttributes :=
              forwardResourceAttributes C (sar_ResourceAttributes spec) tenantID\<rparr>) tenantID)
            (\<lambda>spec. Inr (obj\<lparr>ro_Body := SubjectAccessReviewB spec rest\<rparr>))
      | SelfSubjectRulesReviewB namespace rules rest \<Rightarrow>
          Inr (obj\<lparr>ro_Body := SelfSubjectRulesReviewB
            (if namespace \<noteq> [] then UpstreamNamespace C tenantID namespace else namespace) rules rest\<rparr>)
      | _ \<Rightarrow> Inl TypeAssertion)"

definition AccessReviewTransformer_Backward :: "contract \<Rightarrow> robject \<Rightarrow> string \<Rightarrow> robject result" where
  "AccessReviewTransformer_Backward C obj tenantID =
     (case ro_Body obj of
        SelfSubjectAccessReviewB attributes rest \<Rightarrow>
          Inr (obj\<lparr>ro_Body := SelfSubjectAccessReviewB
            (backwardResourceAttributes C attributes tenantID) rest\<rparr>)
      | LocalSubjectAccessReviewB spec rest \<Rightarrow>
          Inr (obj\<lparr>ro_Body := LocalSubjectAccessReviewB (backwardSubject C (spec\<lparr>sar_ResourceAttributes :=
              backwardResourceAttributes C (sar_ResourceAttributes spec) tenantID\<rparr>) tenantID) rest\<rparr>)
      | SubjectAccessReviewB spec rest \<Rightarrow>
          Inr (obj\<lparr>ro_Body := SubjectAccessReviewB (backwardSubject C (spec\<lparr>sar_ResourceAttributes :=
              backwardResourceAttributes C (sar_ResourceAttributes spec) tenantID\<rparr>) tenantID) rest\<rparr>)
      | SelfSubjectRulesReviewB namespace rules rest \<Rightarrow>
          Inr (obj\<lparr>ro_Body := SelfSubjectRulesReviewB
            (TrimTenantIDPrefix C tenantID namespace) (backwardRules C rules tenantID) rest\<rparr>)
      | _ \<Rightarrow> Inl TypeAssertion)"

definition NewAccessReviewTransformer :: "contract \<Rightarrow> ObjectTransformer" where
  "NewAccessReviewTransformer C = \<lparr>
     Forward = AccessReviewTransformer_Forward C, Backward = AccessReviewTransformer_Backward C\<rparr>"

subsection \<open>Rules\<close>

definition rule_ok :: "contract \<Rightarrow> string \<Rightarrow> PolicyRule \<Rightarrow> bool" where
  "rule_ok C tid r \<longleftrightarrow>
     (\<forall>g\<in>set (pr_APIGroups r). \<not> HasPrefix g (tprefix C tid)) \<and>
     (\<forall>n\<in>set (pr_ResourceNames r). \<not> HasPrefix n (tprefix C tid))"

lemma transformRule_roundtrip:
  assumes N: "naming_ok C" and ok: "rule_ok C tid r"
    and f: "transformRuleToUpstream C r grm tid = Inr r'"
  shows "transformRuleToTenant C r' grm' tid = Inr r"
proof -
  have "map (TrimTenantIDPrefix C tid) (pr_APIGroups r') = pr_APIGroups r"
    using f ok N by (auto simp: transformRuleToUpstream_def rule_ok_def intro!: map_idI)
  moreover have "filter (\<lambda>n. \<not> HasPrefix n (tid @ ''-'')) (pr_ResourceNames r') = pr_ResourceNames r"
    using f ok N
    by (auto simp: transformRuleToUpstream_def rule_ok_def filter_id_conv filter_empty_conv
        tprefix_dash [OF N, symmetric] Add_def)
  ultimately show ?thesis
    using f by (auto simp: transformRuleToTenant_def transformRuleToUpstream_def)
qed

lemma transformRuleList_roundtrip:
  assumes N: "naming_ok C" and ok: "\<forall>r\<in>set rs. rule_ok C tid r"
    and f: "RoleTransformer_transformRuleList C rs tid (transformRuleToUpstream C) = Inr rs'"
  shows "RoleTransformer_transformRuleList C rs' tid (transformRuleToTenant C) = Inr rs"
proof (cases "rs = []")
  case True
  with f show ?thesis by (simp add: RoleTransformer_transformRuleList_def)
next
  case False
  with f obtain crds where crds: "listTenantCRDs C tid = Inr crds"
    and m: "mapR (\<lambda>r. transformRuleToUpstream C r crds tid) rs = Inr rs'"
    by (auto simp: RoleTransformer_transformRuleList_def bindR_Inr_iff)
  have "mapR (\<lambda>r. transformRuleToTenant C r crds tid) rs' = Inr rs"
    using m by (rule mapR_roundtrip) (use N ok transformRule_roundtrip in blast)
  moreover have "rs' \<noteq> []" using m False by (auto dest: mapR_length)
  ultimately show ?thesis
    using crds by (simp add: RoleTransformer_transformRuleList_def)
qed

lemma ClusterRole_transformRuleList [simp]:
  "ClusterRoleTransformer_transformRuleList = RoleTransformer_transformRuleList"
  by (intro ext) (simp add: ClusterRoleTransformer_transformRuleList_def RoleTransformer_transformRuleList_def)

lemma Role_Forward_iff:
  "RoleTransformer_Forward C obj tid = Inr obj' \<longleftrightarrow>
     (\<exists>rs rs'. ro_Body obj = RoleB rs \<and>
        RoleTransformer_transformRuleList C rs tid (transformRuleToUpstream C) = Inr rs' \<and>
        obj' = obj\<lparr>ro_Body := RoleB rs'\<rparr>)"
  by (cases "ro_Body obj") (auto simp: RoleTransformer_Forward_def bindR_Inr_iff)

lemma Role_Backward_iff:
  "RoleTransformer_Backward C obj tid = Inr obj' \<longleftrightarrow>
     (\<exists>rs rs'. ro_Body obj = RoleB rs \<and>
        RoleTransformer_transformRuleList C rs tid (transformRuleToTenant C) = Inr rs' \<and>
        obj' = obj\<lparr>ro_Body := RoleB rs'\<rparr>)"
  by (cases "ro_Body obj") (auto simp: RoleTransformer_Backward_def bindR_Inr_iff)

lemma ClusterRole_Forward_iff:
  "ClusterRoleTransformer_Forward C obj tid = Inr obj' \<longleftrightarrow>
     (\<exists>rs rest rs'. ro_Body obj = ClusterRoleB rs rest \<and>
        RoleTransformer_transformRuleList C rs tid (transformRuleToUpstream C) = Inr rs' \<and>
        obj' = obj\<lparr>ro_Body := ClusterRoleB rs' rest\<rparr>)"
  by (cases "ro_Body obj") (auto simp: ClusterRoleTransformer_Forward_def bindR_Inr_iff)

lemma ClusterRole_Backward_iff:
  "ClusterRoleTransformer_Backward C obj tid = Inr obj' \<longleftrightarrow>
     (\<exists>rs rest rs'. ro_Body obj = ClusterRoleB rs rest \<and>
        RoleTransformer_transformRuleList C rs tid (transformRuleToTenant C) = Inr rs' \<and>
        obj' = obj\<lparr>ro_Body := ClusterRoleB rs' rest\<rparr>)"
  by (cases "ro_Body obj") (auto simp: ClusterRoleTransformer_Backward_def bindR_Inr_iff)

definition rules_ok :: "contract \<Rightarrow> string \<Rightarrow> body \<Rightarrow> bool" where
  "rules_ok C tid b \<longleftrightarrow> (\<forall>rs rest. b = RoleB rs \<or> b = ClusterRoleB rs rest \<longrightarrow> (\<forall>r\<in>set rs. rule_ok C tid r))"

interpretation role: body_transformer NewRoleTransformer rules_ok
proof
  fix C obj tid obj' f
  show "ro_Meta obj' = ro_Meta obj \<and> is_status obj' = is_status obj \<and>
      ro_APIVersion obj' = ro_APIVersion obj \<and> ro_Kind obj' = ro_Kind obj"
    if "Forward (NewRoleTransformer C) obj tid = Inr obj'"
    using that by (auto simp: NewRoleTransformer_def Role_Forward_iff is_status_def)
  show "Backward (NewRoleTransformer C) (upd_meta f obj) tid = Inr (upd_meta f obj')"
    if "Backward (NewRoleTransformer C) obj tid = Inr obj'"
    using that by (auto simp: NewRoleTransformer_def Role_Backward_iff upd_meta_def)
  show "Backward (NewRoleTransformer C) obj' tid = Inr obj"
    if ok: "contract_ok C" "tid_ok tid" "rules_ok C tid (ro_Body obj)"
      and f: "Forward (NewRoleTransformer C) obj tid = Inr obj'"
    using f ok transformRuleList_roundtrip [OF contract_okD(1) [OF ok(1)]]
    by (cases obj) (auto simp: NewRoleTransformer_def Role_Forward_iff Role_Backward_iff rules_ok_def)
qed

interpretation clusterrole: body_transformer NewClusterRoleTransformer rules_ok
proof
  fix C obj tid obj' f
  show "ro_Meta obj' = ro_Meta obj \<and> is_status obj' = is_status obj \<and>
      ro_APIVersion obj' = ro_APIVersion obj \<and> ro_Kind obj' = ro_Kind obj"
    if "Forward (NewClusterRoleTransformer C) obj tid = Inr obj'"
    using that by (auto simp: NewClusterRoleTransformer_def ClusterRole_Forward_iff is_status_def)
  show "Backward (NewClusterRoleTransformer C) (upd_meta f obj) tid = Inr (upd_meta f obj')"
    if "Backward (NewClusterRoleTransformer C) obj tid = Inr obj'"
    using that by (auto simp: NewClusterRoleTransformer_def ClusterRole_Backward_iff upd_meta_def)
  show "Backward (NewClusterRoleTransformer C) obj' tid = Inr obj"
    if ok: "contract_ok C" "tid_ok tid" "rules_ok C tid (ro_Body obj)"
      and f: "Forward (NewClusterRoleTransformer C) obj tid = Inr obj'"
    using f ok transformRuleList_roundtrip [OF contract_okD(1) [OF ok(1)]]
    by (cases obj) (auto simp: NewClusterRoleTransformer_def ClusterRole_Forward_iff ClusterRole_Backward_iff rules_ok_def)
qed

text \<open>
  A rule restricted to names that all carry the tenant's prefix loses its restriction on the
  way back: the tenant reads a rule for every name.
\<close>

lemma transformRuleToTenant_drops_names:
  assumes N: "naming_ok C" and "\<forall>n\<in>set (pr_ResourceNames r). HasPrefix n (tprefix C tid)"
    and "transformRuleToUpstream C r grm tid = Inr r'"
  shows "\<exists>r''. transformRuleToTenant C r' grm' tid = Inr r'' \<and> pr_ResourceNames r'' = []"
  using assms
  by (auto simp: transformRuleToUpstream_def transformRuleToTenant_def Add_def
      tprefix_dash [OF N, symmetric])

subsection \<open>Prefixed names are not system names\<close>

lemma HasPrefix_apart:
  assumes "HasPrefix (tid @ ''-'' @ s) p" "CHR ''-'' \<notin> set p" "CHR '':'' \<in> set p" "CHR '':'' \<notin> set tid"
  shows False
proof -
  have "prefix p ((tid @ ''-'') @ s)" "prefix (tid @ ''-'') ((tid @ ''-'') @ s)"
    using assms(1) by (simp_all add: HasPrefix_def)
  then have "prefix p (tid @ ''-'') \<or> prefix (tid @ ''-'') p"
    using prefix_same_cases by blast
  then show False
    using assms(2-4) set_mono_prefix [of p "tid @ ''-''"] set_mono_prefix [of "tid @ ''-''" p] by auto
qed

lemma Add_not_sa_group: "naming_ok C \<Longrightarrow> tid_ok tid \<Longrightarrow> \<not> HasPrefix (AddTenantIDPrefix C tid s) sa_group_prefix"
  using HasPrefix_apart [of tid s sa_group_prefix]
  by (auto simp: Add_def tprefix_dash tid_ok_def sa_group_prefix_def)

lemma Add_not_sa_user: "naming_ok C \<Longrightarrow> tid_ok tid \<Longrightarrow> \<not> HasPrefix (AddTenantIDPrefix C tid s) sa_user_prefix"
  using HasPrefix_apart [of tid s sa_user_prefix]
  by (auto simp: Add_def tprefix_dash tid_ok_def sa_user_prefix_def)

lemma Add_has_tid: "naming_ok C \<Longrightarrow> HasPrefix (AddTenantIDPrefix C tid s) tid"
  by (simp add: Add_def tprefix_def)

lemma dashless_not_prefixed: "naming_ok C \<Longrightarrow> CHR ''-'' \<notin> set s \<Longrightarrow> \<not> HasPrefix s (tprefix C tid)"
  using set_mono_prefix [of "tid @ ''-''" s] by (auto simp: HasPrefix_def tprefix_dash)

subsection \<open>Subjects\<close>

definition subject_ok :: "contract \<Rightarrow> string \<Rightarrow> Subject \<Rightarrow> bool" where
  "subject_ok C tid s \<longleftrightarrow> (sub_Kind s = ''User'' \<longrightarrow> sub_Name s \<noteq> [])"

lemma transformSubject_roundtrip:
  assumes C: "contract_ok C" and tid: "tid_ok tid" and ok: "subject_ok C tid s"
    and f: "transformSubjectToUpstream C s tid = Inr s'"
  shows "transformSubjectToTenant C s' tid = Inr s"
proof -
  have N: "naming_ok C" using C by simp
  have S: "ServiceAccountGroupPrefix C = sa_group_prefix" "\<And>ns. MakeNamespaceGroupName C ns = sa_group_prefix @ ns"
    using contract_okD(2) [OF C] by (simp_all add: serviceaccount_ok_def)
  consider (user) "sub_Kind s = ''User''" | (sa) "sub_Kind s = ''ServiceAccount''"
    | (grp) "sub_Kind s = ''Group''" | (other) "sub_Kind s \<notin> {''User'', ''ServiceAccount'', ''Group''}"
    by blast
  then show ?thesis
  proof cases
    case user
    with f ok N show ?thesis
      by (auto simp: transformSubjectToUpstream_def transformSubjectToTenant_def subject_ok_def Add_has_tid)
  next
    case sa
    then have "s' = (if sub_Namespace s = [] then s
        else s\<lparr>sub_Namespace := AddTenantIDPrefix C tid (sub_Namespace s)\<rparr>)"
      using f by (simp add: transformSubjectToUpstream_def split: if_split_asm)
    with sa N show ?thesis
      by (cases "sub_Namespace s = []") (simp_all add: transformSubjectToTenant_def Add_has_tid)
  next
    case grp
    show ?thesis
    proof (cases "HasPrefix (sub_Name s) sa_group_prefix \<and> length (sub_Name s) > length sa_group_prefix")
      case True
      then obtain ns where ns: "sub_Name s = sa_group_prefix @ ns" by (auto elim: HasPrefix_obtain)
      with f grp True S N show ?thesis
        by (auto simp: transformSubjectToUpstream_def transformSubjectToTenant_def Add_has_tid)
    next
      case False
      have "\<not> HasPrefix [] sa_group_prefix" "\<not> HasPrefix [] tid"
        using tid by (simp_all add: HasPrefix_def sa_group_prefix_def tid_ok_def)
      note empty = this
      have s': "s' = (if sub_Name s = [] then s
          else s\<lparr>sub_Name := AddTenantIDPrefix C tid (sub_Name s)\<rparr>)"
        using f grp False S by (simp add: transformSubjectToUpstream_def split: if_split_asm)
      show ?thesis
      proof (cases "sub_Name s = []")
        case True
        with s' grp empty S show ?thesis by (simp add: transformSubjectToTenant_def)
      next
        case False
        with s' grp S N Add_not_sa_group [OF N tid] show ?thesis
          by (simp add: transformSubjectToTenant_def Add_has_tid)
      qed
    qed
  next
    case other
    with f show ?thesis
      by (auto simp: transformSubjectToUpstream_def transformSubjectToTenant_def)
  qed
qed

interpretation subject: reversible subject_ok "transformSubjectToUpstream" "transformSubjectToTenant"
  by unfold_locales (rule transformSubject_roundtrip)

subsection \<open>Bindings\<close>

definition binding_ok :: "contract \<Rightarrow> string \<Rightarrow> body \<Rightarrow> bool" where
  "binding_ok C tid b \<longleftrightarrow> (\<forall>subjects roleRef.
     b = RoleBindingB subjects roleRef \<or> b = ClusterRoleBindingB subjects roleRef \<longrightarrow>
     (\<forall>s\<in>set subjects. subject_ok C tid s) \<and> (rr_Kind roleRef = ''ClusterRole'' \<longrightarrow> rr_Name roleRef \<noteq> []))"

definition roleRef_to_upstream :: "contract \<Rightarrow> string \<Rightarrow> RoleRef \<Rightarrow> RoleRef" where
  "roleRef_to_upstream C tid r =
     (if rr_Kind r = ''ClusterRole'' \<and> rr_Name r \<noteq> [] then r\<lparr>rr_Name := AddTenantIDPrefix C tid (rr_Name r)\<rparr> else r)"

lemma RoleBinding_Forward_iff:
  "RoleBindingTransformer_Forward C obj tid = Inr obj' \<longleftrightarrow>
     (\<exists>ss ref ss'. ro_Body obj = RoleBindingB ss ref \<and>
        transformSubjectList ss tid (transformSubjectToUpstream C) = Inr ss' \<and>
        obj' = obj\<lparr>ro_Body := RoleBindingB ss' (roleRef_to_upstream C tid ref)\<rparr>)"
  by (cases "ro_Body obj")
     (auto simp: RoleBindingTransformer_Forward_def bindR_Inr_iff roleRef_to_upstream_def Let_def)

lemma ClusterRoleBinding_Forward_iff:
  "ClusterRoleBindingTransformer_Forward C obj tid = Inr obj' \<longleftrightarrow>
     (\<exists>ss ref ss'. ro_Body obj = ClusterRoleBindingB ss ref \<and>
        transformSubjectList ss tid (transformSubjectToUpstream C) = Inr ss' \<and>
        obj' = obj\<lparr>ro_Body := ClusterRoleBindingB ss' (roleRef_to_upstream C tid ref)\<rparr>)"
  by (cases "ro_Body obj")
     (auto simp: ClusterRoleBindingTransformer_Forward_def bindR_Inr_iff roleRef_to_upstream_def Let_def)

lemma transformSubjectList_roundtrip:
  assumes "contract_ok C" "tid_ok tid" "\<forall>s\<in>set ss. subject_ok C tid s"
    and "transformSubjectList ss tid (transformSubjectToUpstream C) = Inr ss'"
  shows "transformSubjectList ss' tid (transformSubjectToTenant C) = Inr ss"
  using subject.roundtrip_list [OF assms(1-3)] assms(4) by (simp add: transformSubjectList_def)

interpretation rolebinding: body_transformer NewRoleBindingTransformer binding_ok
proof
  fix C obj tid obj' f
  show "ro_Meta obj' = ro_Meta obj \<and> is_status obj' = is_status obj \<and>
      ro_APIVersion obj' = ro_APIVersion obj \<and> ro_Kind obj' = ro_Kind obj"
    if "Forward (NewRoleBindingTransformer C) obj tid = Inr obj'"
    using that by (auto simp: NewRoleBindingTransformer_def RoleBinding_Forward_iff is_status_def)
  show "Backward (NewRoleBindingTransformer C) (upd_meta f obj) tid = Inr (upd_meta f obj')"
    if "Backward (NewRoleBindingTransformer C) obj tid = Inr obj'"
    using that by (cases "ro_Body obj") (auto simp: NewRoleBindingTransformer_def
        RoleBindingTransformer_Backward_def upd_meta_def bindR_Inr_iff Let_def)
  show "Backward (NewRoleBindingTransformer C) obj' tid = Inr obj"
    if ok: "contract_ok C" "tid_ok tid" "binding_ok C tid (ro_Body obj)"
      and f: "Forward (NewRoleBindingTransformer C) obj tid = Inr obj'"
  proof -
    have N: "naming_ok C" using ok(1) by simp
    from f obtain ss ref ss' where b: "ro_Body obj = RoleBindingB ss ref"
      "transformSubjectList ss tid (transformSubjectToUpstream C) = Inr ss'"
      "obj' = obj\<lparr>ro_Body := RoleBindingB ss' (roleRef_to_upstream C tid ref)\<rparr>"
      by (auto simp: NewRoleBindingTransformer_def RoleBinding_Forward_iff)
    from ok(3) b(1) have "transformSubjectList ss' tid (transformSubjectToTenant C) = Inr ss"
      using transformSubjectList_roundtrip [OF ok(1,2) _ b(2)] by (auto simp: binding_ok_def)
    with b ok(3) N show ?thesis
      by (cases obj) (auto simp: NewRoleBindingTransformer_def RoleBindingTransformer_Backward_def
          roleRef_to_upstream_def binding_ok_def Add_has_tid)
  qed
qed

interpretation clusterrolebinding: body_transformer NewClusterRoleBindingTransformer binding_ok
proof
  fix C obj tid obj' f
  show "ro_Meta obj' = ro_Meta obj \<and> is_status obj' = is_status obj \<and>
      ro_APIVersion obj' = ro_APIVersion obj \<and> ro_Kind obj' = ro_Kind obj"
    if "Forward (NewClusterRoleBindingTransformer C) obj tid = Inr obj'"
    using that by (auto simp: NewClusterRoleBindingTransformer_def ClusterRoleBinding_Forward_iff is_status_def)
  show "Backward (NewClusterRoleBindingTransformer C) (upd_meta f obj) tid = Inr (upd_meta f obj')"
    if "Backward (NewClusterRoleBindingTransformer C) obj tid = Inr obj'"
    using that by (cases "ro_Body obj") (auto simp: NewClusterRoleBindingTransformer_def
        ClusterRoleBindingTransformer_Backward_def upd_meta_def bindR_Inr_iff Let_def)
  show "Backward (NewClusterRoleBindingTransformer C) obj' tid = Inr obj"
    if ok: "contract_ok C" "tid_ok tid" "binding_ok C tid (ro_Body obj)"
      and f: "Forward (NewClusterRoleBindingTransformer C) obj tid = Inr obj'"
  proof -
    have N: "naming_ok C" using ok(1) by simp
    from f obtain ss ref ss' where b: "ro_Body obj = ClusterRoleBindingB ss ref"
      "transformSubjectList ss tid (transformSubjectToUpstream C) = Inr ss'"
      "obj' = obj\<lparr>ro_Body := ClusterRoleBindingB ss' (roleRef_to_upstream C tid ref)\<rparr>"
      by (auto simp: NewClusterRoleBindingTransformer_def ClusterRoleBinding_Forward_iff)
    from ok(3) b(1) have "transformSubjectList ss' tid (transformSubjectToTenant C) = Inr ss"
      using transformSubjectList_roundtrip [OF ok(1,2) _ b(2)] by (auto simp: binding_ok_def)
    with b ok(3) N show ?thesis
      by (cases obj) (auto simp: NewClusterRoleBindingTransformer_def ClusterRoleBindingTransformer_Backward_def
          roleRef_to_upstream_def binding_ok_def)
  qed
qed

text \<open>
  Every subject a tenant binds is one of its own: the user or group name carries the tenant's
  prefix, or the service account's namespace does.
\<close>

definition own_subject :: "contract \<Rightarrow> string \<Rightarrow> Subject \<Rightarrow> bool" where
  "own_subject C tid s \<longleftrightarrow>
     (sub_Kind s = ''User'' \<longrightarrow> sub_Name s = [] \<or> HasPrefix (sub_Name s) (tprefix C tid)) \<and>
     (sub_Kind s = ''ServiceAccount'' \<longrightarrow> sub_Namespace s = [] \<or> HasPrefix (sub_Namespace s) (tprefix C tid)) \<and>
     (sub_Kind s = ''Group'' \<longrightarrow> sub_Name s = [] \<or> HasPrefix (sub_Name s) (tprefix C tid) \<or>
        HasPrefix (sub_Name s) (sa_group_prefix @ tprefix C tid))"

lemma transformSubjectToUpstream_own:
  assumes C: "contract_ok C" and f: "transformSubjectToUpstream C s tid = Inr s'"
  shows "own_subject C tid s' \<and> sub_Kind s' = sub_Kind s"
proof -
  have N: "naming_ok C" using C by simp
  have S: "ServiceAccountGroupPrefix C = sa_group_prefix" "\<And>ns. MakeNamespaceGroupName C ns = sa_group_prefix @ ns"
    using contract_okD(2) [OF C] by (simp_all add: serviceaccount_ok_def)
  consider (user) "sub_Kind s = ''User''" | (sa) "sub_Kind s = ''ServiceAccount''"
    | (grp) "sub_Kind s = ''Group''" | (other) "sub_Kind s \<notin> {''User'', ''ServiceAccount'', ''Group''}"
    by blast
  then show ?thesis
  proof cases
    case user
    with f N show ?thesis
      by (cases "sub_Name s = []") (auto simp: transformSubjectToUpstream_def own_subject_def Add_def)
  next
    case sa
    with f N show ?thesis
      by (cases "sub_Namespace s = []") (auto simp: transformSubjectToUpstream_def own_subject_def Add_def)
  next
    case grp
    with f N S show ?thesis
      by (cases "HasPrefix (sub_Name s) sa_group_prefix \<and> length (sub_Name s) > length sa_group_prefix";
          cases "sub_Name s = []")
        (auto simp: transformSubjectToUpstream_def own_subject_def Add_def)
  next
    case other
    with f show ?thesis by (auto simp: transformSubjectToUpstream_def own_subject_def)
  qed
qed

subsection \<open>Access reviews\<close>

lemma serviceAccountsGroupNamespace_Some:
  "serviceAccountsGroupNamespace g = Some ns \<longleftrightarrow> g = sa_group_prefix @ ns \<and> ns \<noteq> []"
  by (auto simp: serviceAccountsGroupNamespace_def Let_def elim: HasPrefix_obtain split: if_splits)

lemma Split_facts:
  assumes "contract_ok C" "SplitUsername C u = Some (ns, n)"
  shows "MakeUsername C ns n = u" "HasPrefix u sa_user_prefix" "ns \<noteq> []" "CHR '':'' \<notin> set ns"
    and "ns' \<noteq> [] \<Longrightarrow> CHR '':'' \<notin> set ns' \<Longrightarrow> SplitUsername C (MakeUsername C ns' n) = Some (ns', n)"
  using contract_okD(2) [OF assms(1)] assms(2) unfolding serviceaccount_ok_def by blast+

definition username_ok :: "contract \<Rightarrow> string \<Rightarrow> string \<Rightarrow> bool" where
  "username_ok C tid u \<longleftrightarrow> (\<forall>ns n. SplitUsername C u = Some (ns, n) \<longrightarrow> \<not> HasPrefix ns (tprefix C tid))"

definition group_ok :: "contract \<Rightarrow> string \<Rightarrow> string \<Rightarrow> bool" where
  "group_ok C tid g \<longleftrightarrow> (\<forall>ns. serviceAccountsGroupNamespace g = Some ns \<longrightarrow> \<not> HasPrefix ns (tprefix C tid))"

lemma username_roundtrip:
  assumes C: "contract_ok C" and tid: "tid_ok tid" and ok: "username_ok C tid u"
    and f: "forwardUsername C u tid = Inr u'"
  shows "backwardUsername C u' tid = u"
proof (cases "SplitUsername C u")
  case None
  have N: "naming_ok C" using C by simp
  from f None have u': "u' = AddTenantIDPrefix C tid u"
    by (simp add: forwardUsername_def split: if_splits)
  have "SplitUsername C u' = None"
    using Split_facts(2) [OF C] Add_not_sa_user [OF N tid] u' by (cases "SplitUsername C u'") auto
  with u' N show ?thesis by (simp add: backwardUsername_def)
next
  case (Some p)
  obtain ns n where p: "p = (ns, n)" by (cases p)
  note sp = Some [unfolded p]
  have N: "naming_ok C" using C by simp
  have "CHR '':'' \<notin> set (UpstreamNamespace C tid ns)" "UpstreamNamespace C tid ns \<noteq> []"
    using Split_facts(3,4) [OF C sp] tid N by (auto simp: Upstream_def tprefix_dash tid_ok_def)
  with Split_facts(5) [OF C sp] f sp have
    "SplitUsername C u' = Some (UpstreamNamespace C tid ns, n)"
    by (auto simp: forwardUsername_def)
  with Split_facts(1) [OF C sp] ok sp N show ?thesis
    by (auto simp: backwardUsername_def username_ok_def)
qed

lemma group_roundtrip:
  assumes C: "contract_ok C" and tid: "tid_ok tid" and ok: "group_ok C tid g"
    and f: "forwardGroup C g tid = Inr g'"
  shows "backwardGroup C g' tid = g"
proof -
  have N: "naming_ok C" using C by simp
  have S: "\<And>ns. MakeNamespaceGroupName C ns = sa_group_prefix @ ns"
    using contract_okD(2) [OF C] by (simp add: serviceaccount_ok_def)
  show ?thesis
  proof (cases "g \<in> {''system:authenticated'', ''system:unauthenticated'', ''system:serviceaccounts''}")
    case True
    then have "\<not> HasPrefix g sa_group_prefix"
      by (auto simp: HasPrefix_def sa_group_prefix_def)
    moreover have "\<not> HasPrefix g (tprefix C tid)"
      using True by (intro dashless_not_prefixed [OF N]) auto
    moreover have "g' = g" using True f by (auto simp: forwardGroup_def)
    ultimately show ?thesis
      using N by (simp add: backwardGroup_def serviceAccountsGroupNamespace_def)
  next
    case other: False
    show ?thesis
    proof (cases "serviceAccountsGroupNamespace g")
      case None
      with f other have g': "g' = AddTenantIDPrefix C tid g"
        by (simp add: forwardGroup_def split: if_splits)
      then have "serviceAccountsGroupNamespace g' = None"
        using Add_not_sa_group [OF N tid] by (simp add: serviceAccountsGroupNamespace_def)
      with g' N show ?thesis by (simp add: backwardGroup_def)
    next
      case (Some ns)
      then have g: "g = sa_group_prefix @ ns" "ns \<noteq> []"
        by (simp_all add: serviceAccountsGroupNamespace_Some)
      have "g' = sa_group_prefix @ UpstreamNamespace C tid ns"
        using f other Some S by (simp add: forwardGroup_def)
      then have "serviceAccountsGroupNamespace g' = Some (UpstreamNamespace C tid ns)"
        using g(2) N by (simp add: serviceAccountsGroupNamespace_Some)
      with ok Some g N S show ?thesis
        by (simp add: backwardGroup_def group_ok_def)
    qed
  qed
qed

definition attributes_ok :: "contract \<Rightarrow> string \<Rightarrow> ResourceAttributes option \<Rightarrow> bool" where
  "attributes_ok C tid p \<longleftrightarrow> (\<forall>a. p = Some a \<longrightarrow> \<not> HasPrefix (ra_Namespace a) (tprefix C tid) \<and>
     (IsNativeAPIGroup C (ra_Group a) \<longrightarrow> \<not> HasPrefix (ra_Group a) (tprefix C tid)))"

lemma attributes_roundtrip:
  assumes N: "naming_ok C" and ok: "attributes_ok C tid p"
  shows "backwardResourceAttributes C (forwardResourceAttributes C p tid) tid = p"
proof (cases p)
  case (Some a)
  have "ra_Group a = [] \<Longrightarrow> TrimTenantIDPrefix C tid (ra_Group a) = ra_Group a" using N by simp
  with Some ok N show ?thesis
    by (auto simp: forwardResourceAttributes_def backwardResourceAttributes_def attributes_ok_def Let_def)
qed (simp add: forwardResourceAttributes_def backwardResourceAttributes_def)

definition sar_ok :: "contract \<Rightarrow> string \<Rightarrow> SubjectAccessReviewSpec \<Rightarrow> bool" where
  "sar_ok C tid spec \<longleftrightarrow> attributes_ok C tid (sar_ResourceAttributes spec) \<and>
     username_ok C tid (sar_User spec) \<and> (\<forall>g\<in>set (sar_Groups spec). group_ok C tid g)"

lemma backwardUsername_Nil: "contract_ok C \<Longrightarrow> backwardUsername C [] tid = []"
proof (cases "SplitUsername C []")
  case (Some p)
  assume C: "contract_ok C"
  obtain ns n where "p = (ns, n)" by (cases p)
  with Some Split_facts(2) [OF C, of "[]" ns n] show ?thesis
    by (simp add: HasPrefix_def sa_user_prefix_def)
qed (simp add: backwardUsername_def)

lemma subject_review_roundtrip:
  assumes C: "contract_ok C" and tid: "tid_ok tid" and ok: "sar_ok C tid spec"
    and f: "forwardSubject C (spec\<lparr>sar_ResourceAttributes :=
      forwardResourceAttributes C (sar_ResourceAttributes spec) tid\<rparr>) tid = Inr spec'"
  shows "backwardSubject C (spec'\<lparr>sar_ResourceAttributes :=
      backwardResourceAttributes C (sar_ResourceAttributes spec') tid\<rparr>) tid = spec"
proof -
  from f obtain u gs where
    u: "(if sar_User spec \<noteq> [] then forwardUsername C (sar_User spec) tid else Inr (sar_User spec)) = Inr u"
    and gs: "mapR (\<lambda>g. forwardGroup C g tid) (sar_Groups spec) = Inr gs"
    and spec': "spec' = spec\<lparr>sar_ResourceAttributes :=
        forwardResourceAttributes C (sar_ResourceAttributes spec) tid, sar_User := u, sar_Groups := gs\<rparr>"
    by (auto simp: forwardSubject_def bindR_Inr_iff cong: if_cong)
  have "backwardUsername C u tid = sar_User spec"
    using u ok username_roundtrip [OF C tid] backwardUsername_Nil [OF C]
    by (auto simp: sar_ok_def split: if_splits)
  moreover have "mapR (\<lambda>g. Inr (backwardGroup C g tid)) gs = Inr (sar_Groups spec)"
    using gs by (rule mapR_roundtrip) (use ok group_roundtrip [OF C tid] in \<open>auto simp: sar_ok_def\<close>)
  moreover have "backwardResourceAttributes C (forwardResourceAttributes C (sar_ResourceAttributes spec) tid) tid
      = sar_ResourceAttributes spec"
    using ok C by (intro attributes_roundtrip) (simp_all add: sar_ok_def)
  ultimately show ?thesis
    by (simp add: spec' backwardSubject_def)
qed

definition accessreview_ok :: "contract \<Rightarrow> string \<Rightarrow> body \<Rightarrow> bool" where
  "accessreview_ok C tid b \<longleftrightarrow> (case b of
      SelfSubjectAccessReviewB attributes rest \<Rightarrow> attributes_ok C tid attributes
    | LocalSubjectAccessReviewB spec rest \<Rightarrow> sar_ok C tid spec
    | SubjectAccessReviewB spec rest \<Rightarrow> sar_ok C tid spec
    | SelfSubjectRulesReviewB namespace rules rest \<Rightarrow>
        \<not> HasPrefix namespace (tprefix C tid) \<and> rules = []
    | _ \<Rightarrow> True)"

interpretation accessreview: body_transformer NewAccessReviewTransformer accessreview_ok
proof
  fix C obj tid obj' f
  show "ro_Meta obj' = ro_Meta obj \<and> is_status obj' = is_status obj \<and>
      ro_APIVersion obj' = ro_APIVersion obj \<and> ro_Kind obj' = ro_Kind obj"
    if "Forward (NewAccessReviewTransformer C) obj tid = Inr obj'"
    using that by (cases "ro_Body obj")
      (auto simp: NewAccessReviewTransformer_def AccessReviewTransformer_Forward_def bindR_Inr_iff is_status_def)
  show "Backward (NewAccessReviewTransformer C) (upd_meta f obj) tid = Inr (upd_meta f obj')"
    if "Backward (NewAccessReviewTransformer C) obj tid = Inr obj'"
    using that by (cases "ro_Body obj")
      (auto simp: NewAccessReviewTransformer_def AccessReviewTransformer_Backward_def upd_meta_def)
  show "Backward (NewAccessReviewTransformer C) obj' tid = Inr obj"
    if ok: "contract_ok C" "tid_ok tid" "accessreview_ok C tid (ro_Body obj)"
      and f: "Forward (NewAccessReviewTransformer C) obj tid = Inr obj'"
  proof -
    note N = contract_okD(1) [OF ok(1)]
    note sub = subject_review_roundtrip [OF ok(1,2)]
    note [simp] = NewAccessReviewTransformer_def AccessReviewTransformer_Forward_def
      AccessReviewTransformer_Backward_def accessreview_ok_def
    show ?thesis
    proof (cases "ro_Body obj")
      case (SelfSubjectAccessReviewB a rest)
      with f ok(3) attributes_roundtrip [OF N] show ?thesis by (cases obj) auto
    next
      case (LocalSubjectAccessReviewB spec rest)
      with f ok(3) sub show ?thesis by (cases obj) (auto simp: bindR_Inr_iff)
    next
      case (SubjectAccessReviewB spec rest)
      with f ok(3) sub show ?thesis by (cases obj) (auto simp: bindR_Inr_iff)
    next
      case (SelfSubjectRulesReviewB ns rules rest)
      with f ok(3) N show ?thesis by (cases obj) (auto simp: backwardRules_def)
    qed (use f in simp_all)
  qed
qed

text \<open>
  A tenant can only ask about its own users and groups, or about the groups every user is in.
\<close>

lemma forwardUsername_own:
  assumes C: "contract_ok C" and f: "forwardUsername C u tid = Inr u'"
  shows "HasPrefix u' (tprefix C tid) \<or> (\<exists>ns n. u' = MakeUsername C ns n \<and> HasPrefix ns (tprefix C tid))"
proof (cases "SplitUsername C u")
  case None
  with f C show ?thesis by (auto simp: forwardUsername_def Add_def split: if_splits)
next
  case (Some p)
  then obtain ns n where sp: "SplitUsername C u = Some (ns, n)" by (cases p) auto
  with f Split_facts(3) [OF C sp] C show ?thesis
    by (auto simp: forwardUsername_def)
qed

lemma forwardGroup_own:
  assumes C: "contract_ok C" and f: "forwardGroup C g tid = Inr g'"
  shows "HasPrefix g' (tprefix C tid) \<or> (\<exists>ns. g' = sa_group_prefix @ ns \<and> HasPrefix ns (tprefix C tid)) \<or>
    g' \<in> {''system:authenticated'', ''system:unauthenticated'', ''system:serviceaccounts''}"
proof -
  have N: "naming_ok C" using C by simp
  have S: "\<And>ns. MakeNamespaceGroupName C ns = sa_group_prefix @ ns"
    using contract_okD(2) [OF C] by (simp add: serviceaccount_ok_def)
  show ?thesis
    using f by (auto simp: forwardGroup_def Add_def [OF N] S serviceAccountsGroupNamespace_Some
        Upstream_prefixed [OF N] split: if_splits option.splits)
qed

text \<open>The deduplicated list has the trimmed names, each once.\<close>

lemma trimAndDedupe_loop_props:
  assumes "distinct acc"
  shows "distinct (trimAndDedupe_loop C tid vs acc) \<and>
    set (trimAndDedupe_loop C tid vs acc) = set acc \<union> TrimTenantIDPrefix C tid ` set vs"
  using assms by (induction C tid vs acc rule: trimAndDedupe_loop.induct) (auto simp: Let_def)

lemma trimAndDedupe_props:
  "distinct (trimAndDedupe C vs tid)" "set (trimAndDedupe C vs tid) = TrimTenantIDPrefix C tid ` set vs"
  using trimAndDedupe_loop_props [of "[]" C tid vs] by (auto simp: trimAndDedupe_def)

lemma trimAndDedupe_empty_iff: "trimAndDedupe C vs tid = [] \<longleftrightarrow> vs = []"
  using trimAndDedupe_props(2) [of C vs tid] by auto

subsection \<open>Token reviews\<close>

text \<open>The answer about a service account of the tenant names it in the tenant's spelling.\<close>

lemma TokenReview_Backward_own:
  assumes C: "contract_ok C" "tid_ok tid" and ns: "ns \<noteq> []" "CHR '':'' \<notin> set ns" "\<not> HasPrefix ns (tprefix C tid)"
    and u: "SplitUsername C (MakeUsername C ns n) = Some (ns, n)"
    and b: "ro_Body obj = TokenReviewB rest (MakeUsername C (UpstreamNamespace C tid ns) n) groups"
  shows "TokenReviewTransformer_Backward C obj tid = Inr (obj\<lparr>ro_Body := TokenReviewB rest (MakeUsername C ns n)
    (map (\<lambda>g. if g = sa_group_prefix @ UpstreamNamespace C tid ns then sa_group_prefix @ ns else g) groups)\<rparr>)"
proof -
  have N: "naming_ok C" using C by simp
  have "CHR '':'' \<notin> set (UpstreamNamespace C tid ns)" "UpstreamNamespace C tid ns \<noteq> []"
    using ns C(2) N by (auto simp: Upstream_def tprefix_dash tid_ok_def)
  from Split_facts(5) [OF C(1) u this(2,1)] have
    "SplitUsername C (MakeUsername C (UpstreamNamespace C tid ns) n) = Some (UpstreamNamespace C tid ns, n)" .
  moreover have "\<And>ns. MakeNamespaceGroupName C ns = sa_group_prefix @ ns"
    using contract_okD(2) [OF C(1)] by (simp add: serviceaccount_ok_def)
  ultimately show ?thesis
    using b N ns by (simp add: TokenReviewTransformer_Backward_def Let_def)
qed

end
