(* ===== verification/Convertor_Registry.thy ===== *)
theory Convertor_Registry
  imports Core_Transformers Rbac_Transformers Pod_Transformers Extension_Transformers
begin

text \<open>
  InitConvertors of init.go: the table from kinds to convertors, to which the pod-carrying
  kinds are added with their chain of transformers, and the convertor of custom resources.
  Adding a kind that is already in the table is a panic.
\<close>

subsection \<open>Definitions\<close>

definition nativeKindTable ::
  "contract \<Rightarrow> labelledSet option \<Rightarrow> (GroupKind \<times> ObjectConvertor) list" where
  "nativeKindTable C publishedIngressClasses =
     (let d = NewDefaultConvertor C in
      [(('''', ''Namespace''), NewCrossReferenceConverter d (NewNamespaceTransformer C)),
       (('''', ''Endpoints''), NewCrossReferenceConverter d (NewEndpointsTransformer C)),
       ((''networking.k8s.io'', ''Ingress''),
          NewCrossReferenceConverter d (NewIngressTransformer C publishedIngressClasses)),
       ((''networking.k8s.io'', ''NetworkPolicy''), NewCrossReferenceConverter d (NewNetworkPolicyTransformer C)),
       ((''discovery.k8s.io'', ''EndpointSlice''), NewCrossReferenceConverter d (NewEndpointSliceTransformer C)),
       (('''', ''Event''), NewCrossReferenceConverter d (NewEventTransformer C)),
       ((''events.k8s.io'', ''Event''), NewCrossReferenceConverter d (NewEventsV1Transformer C)),
       ((''apiextensions.k8s.io'', ''CustomResourceDefinition''), NewCRDConvertor C),
       (('''', ''PersistentVolumeClaim''), NewCrossReferenceConverter d (NewPVCTransformer C)),
       (('''', ''PersistentVolume''), NewCrossReferenceConverter d (NewPVTransformer C)),
       ((''rbac.authorization.k8s.io'', ''ClusterRole''), NewCrossReferenceConverter d (NewClusterRoleTransformer C)),
       ((''rbac.authorization.k8s.io'', ''ClusterRoleBinding''),
          NewCrossReferenceConverter d (NewClusterRoleBindingTransformer C)),
       ((''rbac.authorization.k8s.io'', ''Role''), NewCrossReferenceConverter d (NewRoleTransformer C)),
       ((''rbac.authorization.k8s.io'', ''RoleBinding''), NewCrossReferenceConverter d (NewRoleBindingTransformer C)),
       ((''authentication.k8s.io'', ''TokenReview''), NewCrossReferenceConverter d (NewTokenReviewTransformer C)),
       ((''authorization.k8s.io'', ''SelfSubjectAccessReview''),
          NewCrossReferenceConverter d (NewAccessReviewTransformer C)),
       ((''authorization.k8s.io'', ''LocalSubjectAccessReview''),
          NewCrossReferenceConverter d (NewAccessReviewTransformer C)),
       ((''authorization.k8s.io'', ''SubjectAccessReview''),
          NewCrossReferenceConverter d (NewAccessReviewTransformer C)),
       ((''authorization.k8s.io'', ''SelfSubjectRulesReview''),
          NewCrossReferenceConverter d (NewAccessReviewTransformer C)),
       ((''admissionregistration.k8s.io'', ''MutatingWebhookConfiguration''),
          NewCrossReferenceConverter d (NewWebhookConfigurationTransformer C)),
       ((''admissionregistration.k8s.io'', ''ValidatingWebhookConfiguration''),
          NewCrossReferenceConverter d (NewWebhookConfigurationTransformer C))])"

definition podTransformer :: "contract \<Rightarrow> TenantDNSFunc \<Rightarrow> ObjectTransformer" where
  "podTransformer C tenantDNS = chainTransformers
     [NewPlacementTransformer C, NewSATokenNamespaceTransformer C, NewDNSConfigTransformer C tenantDNS]"

fun addPodKinds ::
  "ObjectConvertor \<Rightarrow> GroupKind list \<Rightarrow> (GroupKind \<times> ObjectConvertor) list \<Rightarrow>
   (GroupKind \<times> ObjectConvertor) list result" where
  "addPodKinds convertor [] table = Inr table"
| "addPodKinds convertor (gk # gks) table =
     (if map_of table gk \<noteq> None then Inl (Panic ''a pod-carrying kind already has a convertor'')
      else addPodKinds convertor gks (table @ [(gk, convertor)]))"

definition InitNative ::
  "contract \<Rightarrow> labelledSet option \<Rightarrow> TenantDNSFunc \<Rightarrow> nativeObjectConvertor result" where
  "InitNative C publishedIngressClasses tenantDNS =
     bindR (addPodKinds (NewCrossReferenceConverter (NewDefaultConvertor C) (podTransformer C tenantDNS))
              PodCarryingKinds (nativeKindTable C publishedIngressClasses)) (\<lambda>table.
     Inr \<lparr>defaultConvertor = NewDefaultConvertor C, nativeKindToConvertors = table\<rparr>)"

definition InitConvertors ::
  "contract \<Rightarrow> labelledSet option \<Rightarrow> (string \<Rightarrow> bool) option \<Rightarrow> TenantDNSFunc \<Rightarrow>
   (ObjectConvertor \<times> ObjectConvertor) result" where
  "InitConvertors C publishedIngressClasses isSharedGroup tenantDNS =
     bindR (InitNative C publishedIngressClasses tenantDNS) (\<lambda>native.
     Inr (NewNativeObjectConvertor C native,
       NewCrossReferenceConverter (NewDefaultConvertor C) (NewCustomResourceTransformer C isSharedGroup)))"

subsection \<open>Initialisation succeeds\<close>

definition fullTable ::
  "contract \<Rightarrow> labelledSet option \<Rightarrow> TenantDNSFunc \<Rightarrow> (GroupKind \<times> ObjectConvertor) list" where
  "fullTable C P dns = nativeKindTable C P @
     map (\<lambda>gk. (gk, NewCrossReferenceConverter (NewDefaultConvertor C) (podTransformer C dns))) PodCarryingKinds"

lemma addPodKinds_ok:
  assumes "distinct gks" "set gks \<inter> fst ` set table = {}"
  shows "addPodKinds c gks table = Inr (table @ map (\<lambda>gk. (gk, c)) gks)"
  using assms
proof (induction gks arbitrary: table)
  case (Cons gk gks)
  have "map_of table gk = None"
    using Cons.prems by (auto simp: map_of_eq_None_iff)
  moreover have "set gks \<inter> fst ` set (table @ [(gk, c)]) = {}"
    using Cons.prems by auto
  ultimately show ?case
    using Cons.prems Cons.IH [of "table @ [(gk, c)]"] by simp
qed simp

lemma pod_kinds_fresh: "distinct PodCarryingKinds" "set PodCarryingKinds \<inter> fst ` set (nativeKindTable C P) = {}"
  by (simp_all add: PodCarryingKinds_def nativeKindTable_def Let_def)

lemma table_keys: "map fst (nativeKindTable C P) =
    [('''', ''Namespace''), ('''', ''Endpoints''), (''networking.k8s.io'', ''Ingress''),
     (''networking.k8s.io'', ''NetworkPolicy''), (''discovery.k8s.io'', ''EndpointSlice''),
     ('''', ''Event''), (''events.k8s.io'', ''Event''), (''apiextensions.k8s.io'', ''CustomResourceDefinition''),
     ('''', ''PersistentVolumeClaim''), ('''', ''PersistentVolume''),
     (''rbac.authorization.k8s.io'', ''ClusterRole''), (''rbac.authorization.k8s.io'', ''ClusterRoleBinding''),
     (''rbac.authorization.k8s.io'', ''Role''), (''rbac.authorization.k8s.io'', ''RoleBinding''),
     (''authentication.k8s.io'', ''TokenReview''), (''authorization.k8s.io'', ''SelfSubjectAccessReview''),
     (''authorization.k8s.io'', ''LocalSubjectAccessReview''), (''authorization.k8s.io'', ''SubjectAccessReview''),
     (''authorization.k8s.io'', ''SelfSubjectRulesReview''),
     (''admissionregistration.k8s.io'', ''MutatingWebhookConfiguration''),
     (''admissionregistration.k8s.io'', ''ValidatingWebhookConfiguration'')]"
  by (simp add: nativeKindTable_def Let_def)

lemma table_distinct: "distinct (map fst (nativeKindTable C P))"
  unfolding table_keys by simp

lemma InitNative_eq:
  "InitNative C P dns = Inr \<lparr>defaultConvertor = NewDefaultConvertor C, nativeKindToConvertors = fullTable C P dns\<rparr>"
  unfolding InitNative_def addPodKinds_ok [OF pod_kinds_fresh] by (simp add: fullTable_def)

lemma fullTable_distinct: "distinct (map fst (fullTable C P dns))"
  unfolding fullTable_def map_append distinct_append
  using table_distinct [of C P] pod_kinds_fresh(1) pod_kinds_fresh(2) [of C P]
  by (simp add: comp_def Int_commute)

lemma fullTable_lookup:
  "(gk, c) \<in> set (fullTable C P dns) \<Longrightarrow> map_of (fullTable C P dns) gk = Some c"
  using fullTable_distinct [of C P dns] by (simp add: map_of_is_SomeI)

lemma native_lookup:
  "(gk, c) \<in> set (nativeKindTable C P) \<Longrightarrow> map_of (fullTable C P dns) gk = Some c"
  by (rule fullTable_lookup) (simp add: fullTable_def)

subsection \<open>The round trip of the native kinds\<close>

text \<open>
  Which objects read back as they were written, by kind: a body must not already carry what the
  conversion adds.  Namespaces, token reviews, webhook configurations and the pod-carrying kinds
  are rewritten by the gateway on purpose; what it makes of them is stated separately.
\<close>

definition rewritten_kinds :: "GroupKind list" where
  "rewritten_kinds = [('''', ''Namespace''), (''authentication.k8s.io'', ''TokenReview''),
     (''admissionregistration.k8s.io'', ''MutatingWebhookConfiguration''),
     (''admissionregistration.k8s.io'', ''ValidatingWebhookConfiguration'')] @ PodCarryingKinds"

definition native_ok :: "contract \<Rightarrow> labelledSet \<Rightarrow> string \<Rightarrow> robject \<Rightarrow> bool" where
  "native_ok C P tid obj \<longleftrightarrow>
     (let gk = GroupKindOf C obj; b = ro_Body obj in
      if gk = ('''', ''Endpoints'') then endpoints_ok C tid b
      else if gk = (''networking.k8s.io'', ''Ingress'') then ingress_ok P C tid obj
      else if gk = (''networking.k8s.io'', ''NetworkPolicy'') then networkpolicy_ok C tid b
      else if gk = (''discovery.k8s.io'', ''EndpointSlice'') then endpointslice_ok C tid b
      else if gk = ('''', ''Event'') then event_ok C tid b
      else if gk = (''events.k8s.io'', ''Event'') then eventsv1_ok C tid b
      else if gk = ('''', ''PersistentVolumeClaim'') then pvc_ok C tid obj
      else if gk = ('''', ''PersistentVolume'') then pv_ok C tid b
      else if gk = (''rbac.authorization.k8s.io'', ''ClusterRole'') then rules_ok C tid b
      else if gk = (''rbac.authorization.k8s.io'', ''Role'') then rules_ok C tid b
      else if gk = (''rbac.authorization.k8s.io'', ''ClusterRoleBinding'') then binding_ok C tid b
      else if gk = (''rbac.authorization.k8s.io'', ''RoleBinding'') then binding_ok C tid b
      else if gk \<in> {(''authorization.k8s.io'', ''SelfSubjectAccessReview''),
                    (''authorization.k8s.io'', ''LocalSubjectAccessReview''),
                    (''authorization.k8s.io'', ''SubjectAccessReview''),
                    (''authorization.k8s.io'', ''SelfSubjectRulesReview'')} then accessreview_ok C tid b
      else gk \<notin> set rewritten_kinds)"

lemma CRD_keeps_kind:
  assumes "CRDConvertor_ConvertTenantObjectToUpstreamObject C obj tid ns = Inr obj'"
  shows "GroupKindOf C obj' = GroupKindOf C obj"
  using assms
  by (cases "ro_Body obj")
     (auto simp: CRDConvertor_ConvertTenantObjectToUpstreamObject_def bindR_Inr_iff Let_def upd_meta_def
       intro!: GroupKindOf_cong split: if_splits)

lemma unregistered:
  "gk \<notin> fst ` set (nativeKindTable C P) \<Longrightarrow> gk \<notin> set PodCarryingKinds \<Longrightarrow> map_of (fullTable C P dns) gk = None"
  unfolding fullTable_def by (auto simp: map_of_eq_None_iff map_add_def split: option.splits)

lemma CRD_undoes:
  "contract_ok C \<Longrightarrow> tid_ok tid \<Longrightarrow> undoes C tid ns (NewCRDConvertor C) obj"
  using CRD_keeps_kind CRD_roundtrip by (auto simp: undoes_def NewCRDConvertor_def)

lemmas undoings = CRD_undoes endpoints.cross_undoes endpointslice.cross_undoes event.cross_undoes
  eventsv1.cross_undoes pv.cross_undoes pvc.cross_undoes ingress.cross_undoes networkpolicy.cross_undoes
  role.cross_undoes clusterrole.cross_undoes rolebinding.cross_undoes clusterrolebinding.cross_undoes
  accessreview.cross_undoes

lemma table_undoes:
  assumes C: "contract_ok C" "tid_ok tid" "default_ok C tid ns obj" and ok: "native_ok C P tid obj"
    and m: "(GroupKindOf C obj, conv) \<in> set (nativeKindTable C (Some P))"
  shows "undoes C tid ns conv obj"
  using m ok unfolding nativeKindTable_def Let_def list.set insert_iff empty_iff prod.inject
  by (elim disjE conjE FalseE)
     (simp_all add: undoings C native_ok_def Let_def rewritten_kinds_def)

lemma native_undoes:
  assumes C: "contract_ok C" "tid_ok tid" "default_ok C tid ns obj" and ok: "native_ok C P tid obj"
    and c: "nativeKindToConvertors c = fullTable C (Some P) dns" "defaultConvertor c = NewDefaultConvertor C"
  shows "undoes C tid ns (nativeConvertorOf C c obj) obj"
proof (cases "map_of (fullTable C (Some P) dns) (GroupKindOf C obj)")
  case None
  with c default_undoes [OF C] show ?thesis by (simp add: nativeConvertorOf_def)
next
  case (Some conv)
  then have m: "(GroupKindOf C obj, conv) \<in> set (fullTable C (Some P) dns)" by (rule map_of_SomeD)
  moreover have "GroupKindOf C obj \<notin> set PodCarryingKinds"
    using ok by (auto simp: native_ok_def Let_def rewritten_kinds_def PodCarryingKinds_def split: if_splits)
  ultimately have "undoes C tid ns conv obj"
    by (intro table_undoes [OF C ok]) (auto simp: fullTable_def)
  with Some c show ?thesis by (simp add: nativeConvertorOf_def)
qed

subsection \<open>Workloads\<close>

lemma placed_project [simp]: "placed C tid (snd (project C m s ns)) = placed C tid s"
  by (simp add: project_def placed_def Let_def)

lemma NodeName_project [simp]: "ps_NodeName (snd (project C m s ns)) = ps_NodeName s"
  by (simp add: project_def Let_def)

lemma placed_setTenantDNS [simp]: "placed C tid (setTenantDNS s ns dns t) = placed C tid s"
  by (simp add: setTenantDNS_def placed_def split: option.split)

lemma NodeName_setTenantDNS [simp]: "ps_NodeName (setTenantDNS s ns dns t) = ps_NodeName s"
  by (simp add: setTenantDNS_def split: option.split)

text \<open>The three links of the chain, in their order, on a kind that carries a pod template.\<close>

lemma podTransformer_Forward_eq:
  assumes "podTemplateOf obj = Inr (Some (m, s))" "\<not> isPod obj"
    and "ns = TrimTenantIDPrefix C tid (om_Namespace (ro_Meta obj))"
    and "project C m ((place C s tid)\<lparr>ps_NodeName := []\<rparr>) ns = (m', s')"
  shows "Forward (podTransformer C dns) obj tid = Inr (set_podTemplate m' (setTenantDNS s' ns dns tid) obj)"
  using assms
  by (simp add: podTransformer_def chainTransformers_def NewPlacementTransformer_def
      NewSATokenNamespaceTransformer_def NewDNSConfigTransformer_def PlacementTransformer_Forward_def
      SATokenNamespaceTransformer_Forward_def DNSConfigTransformer_Forward_def)

lemma podTransformer_Forward_template:
  assumes f: "Forward (podTransformer C dns) obj tid = Inr obj'" and pod: "\<not> isPod obj"
    and t: "podTemplateOf obj' = Inr (Some (m', s'))"
    and ns: "ns = TrimTenantIDPrefix C tid (om_Namespace (ro_Meta obj))"
  shows "\<exists>m s. m' = fst (project C m ((place C s tid)\<lparr>ps_NodeName := []\<rparr>) ns) \<and>
    s' = setTenantDNS (snd (project C m ((place C s tid)\<lparr>ps_NodeName := []\<rparr>) ns)) ns dns tid"
proof (cases "podTemplateOf obj")
  case (Inl e)
  with f show ?thesis
    by (simp add: podTransformer_def chainTransformers_def NewPlacementTransformer_def PlacementTransformer_Forward_def)
next
  case (Inr r)
  show ?thesis
  proof (cases r)
    case None
    with Inr f t show ?thesis
      by (simp add: podTransformer_def chainTransformers_def NewPlacementTransformer_def
          NewSATokenNamespaceTransformer_def NewDNSConfigTransformer_def PlacementTransformer_Forward_def
          SATokenNamespaceTransformer_Forward_def DNSConfigTransformer_Forward_def)
  next
    case (Some ms)
    obtain m s where ms: "ms = (m, s)" by (cases ms)
    have tpl: "podTemplateOf obj = Inr (Some (m, s))" using Inr Some ms by simp
    obtain m1 s1 where p: "project C m ((place C s tid)\<lparr>ps_NodeName := []\<rparr>) ns = (m1, s1)" by (rule prod.exhaust)
    from f podTransformer_Forward_eq [OF tpl pod ns p] have "obj' = set_podTemplate m1 (setTenantDNS s1 ns dns tid) obj"
      by simp
    with t podTemplateOf_set [OF tpl] have "m' = m1 \<and> s' = setTenantDNS s1 ns dns tid" by simp
    then show ?thesis using p by (intro exI [of _ m] exI [of _ s]) simp
  qed
qed

subsection \<open>The registry on one kind\<close>

lemma InitConvertors_iff:
  "InitConvertors C P shared dns = Inr (native, custom) \<longleftrightarrow>
     native = NewNativeObjectConvertor C
       \<lparr>defaultConvertor = NewDefaultConvertor C, nativeKindToConvertors = fullTable C P dns\<rparr> \<and>
     custom = NewCrossReferenceConverter (NewDefaultConvertor C) (NewCustomResourceTransformer C shared)"
  by (auto simp: InitConvertors_def InitNative_eq)

text \<open>
  On a kind with a transformer the registry runs the default convertor and then the transformer.
\<close>

lemma native_forward_cross:
  assumes init: "InitConvertors C P shared dns = Inr (native, custom)"
    and reg: "map_of (fullTable C P dns) (GroupKindOf C obj) = Some (NewCrossReferenceConverter (NewDefaultConvertor C) T)"
    and f: "ConvertTenantObjectToUpstreamObject native obj tid ns = Inr obj'"
  obtains I where "ident_to_upstream C tid ns (ident_of C (ro_Meta obj)) = Inr I"
    and "\<not> is_status obj" and "Forward T (reident C I obj) tid = Inr obj'"
  using f reg unfolding InitConvertors_iff [THEN iffD1, OF init, THEN conjunct1]
  by (auto simp: NewNativeObjectConvertor_def nativeObjectConvertor_ConvertTenantObjectToUpstreamObject_def
      nativeConvertorOf_def NewCrossReferenceConverter_def NewDefaultConvertor_def Default_to_upstream_ident
      CrossReferenceConvertor_ConvertTenantObjectToUpstreamObject_def bindR_Inr_iff split: if_splits)

lemma kind_lookups:
  "map_of (fullTable C P dns) ('''', ''Namespace'') =
     Some (NewCrossReferenceConverter (NewDefaultConvertor C) (NewNamespaceTransformer C))"
  "map_of (fullTable C P dns) ('''', ''PersistentVolume'') =
     Some (NewCrossReferenceConverter (NewDefaultConvertor C) (NewPVTransformer C))"
  "map_of (fullTable C P dns) (''networking.k8s.io'', ''NetworkPolicy'') =
     Some (NewCrossReferenceConverter (NewDefaultConvertor C) (NewNetworkPolicyTransformer C))"
  "map_of (fullTable C P dns) (''rbac.authorization.k8s.io'', ''RoleBinding'') =
     Some (NewCrossReferenceConverter (NewDefaultConvertor C) (NewRoleBindingTransformer C))"
  "map_of (fullTable C P dns) (''rbac.authorization.k8s.io'', ''ClusterRoleBinding'') =
     Some (NewCrossReferenceConverter (NewDefaultConvertor C) (NewClusterRoleBindingTransformer C))"
  "map_of (fullTable C P dns) (''admissionregistration.k8s.io'', ''MutatingWebhookConfiguration'') =
     Some (NewCrossReferenceConverter (NewDefaultConvertor C) (NewWebhookConfigurationTransformer C))"
  "map_of (fullTable C P dns) (''admissionregistration.k8s.io'', ''ValidatingWebhookConfiguration'') =
     Some (NewCrossReferenceConverter (NewDefaultConvertor C) (NewWebhookConfigurationTransformer C))"
  "map_of (fullTable C P dns) (''authorization.k8s.io'', ''SubjectAccessReview'') =
     Some (NewCrossReferenceConverter (NewDefaultConvertor C) (NewAccessReviewTransformer C))"
  by (rule native_lookup, simp add: nativeKindTable_def Let_def)+

lemma pod_lookup:
  assumes "gk \<in> set PodCarryingKinds"
  shows "map_of (fullTable C P dns) gk =
    Some (NewCrossReferenceConverter (NewDefaultConvertor C) (podTransformer C dns))"
  by (rule fullTable_lookup) (use assms in \<open>simp add: fullTable_def\<close>)


text \<open>No transformer moves an object: it keeps the name and namespace the default convertor gave it.\<close>

definition keeps_place :: "ObjectTransformer \<Rightarrow> bool" where
  "keeps_place T \<longleftrightarrow> (\<forall>obj tid obj'. Forward T obj tid = Inr obj' \<longrightarrow>
     om_Name (ro_Meta obj') = om_Name (ro_Meta obj) \<and> om_Namespace (ro_Meta obj') = om_Namespace (ro_Meta obj))"

lemma keeps_placeI:
  assumes "\<And>obj tid obj'. Forward T obj tid = Inr obj' \<Longrightarrow>
    om_Name (ro_Meta obj') = om_Name (ro_Meta obj) \<and> om_Namespace (ro_Meta obj') = om_Namespace (ro_Meta obj)"
  shows "keeps_place T"
  using assms by (auto simp: keeps_place_def)

lemma keeps_place_body:
  "keeps_place (NewEndpointsTransformer C)" "keeps_place (NewEndpointSliceTransformer C)"
  "keeps_place (NewEventTransformer C)" "keeps_place (NewEventsV1Transformer C)"
  "keeps_place (NewPVTransformer C)" "keeps_place (NewNetworkPolicyTransformer C)"
  "keeps_place (NewRoleTransformer C)" "keeps_place (NewClusterRoleTransformer C)"
  "keeps_place (NewRoleBindingTransformer C)" "keeps_place (NewClusterRoleBindingTransformer C)"
  "keeps_place (NewAccessReviewTransformer C)"
  by (intro keeps_placeI, drule endpoints.fwd_meta endpointslice.fwd_meta event.fwd_meta eventsv1.fwd_meta
      pv.fwd_meta networkpolicy.fwd_meta role.fwd_meta clusterrole.fwd_meta rolebinding.fwd_meta
      clusterrolebinding.fwd_meta accessreview.fwd_meta, simp)+

lemma keeps_place_ident:
  assumes "contract_ok C"
  shows "keeps_place (NewPVCTransformer C)" "keeps_place (NewIngressTransformer C (Some P))"
  using pvc.keeps_ident [OF assms] ingress.keeps_ident [OF assms]
  by (auto simp: keeps_place_def ident_of_def)

lemma keeps_place_rewriting:
  "keeps_place (NewNamespaceTransformer C)" "keeps_place (NewTokenReviewTransformer C)"
  "keeps_place (NewWebhookConfigurationTransformer C)"
  by (auto simp: keeps_place_def NewNamespaceTransformer_def Namespace_Forward_iff pinPodSecurity_def
      NewTokenReviewTransformer_def TokenReviewTransformer_Forward_def
      NewWebhookConfigurationTransformer_def Webhook_Forward_iff)

lemma keeps_place_chain: "(\<And>T. T \<in> set Ts \<Longrightarrow> keeps_place T) \<Longrightarrow> keeps_place (chainTransformers Ts)"
proof (induction Ts)
  case (Cons T Ts)
  then have "keeps_place T" "keeps_place (chainTransformers Ts)" by auto
  then show ?case
    by (auto simp: keeps_place_def chainTransformers_def bindR_Inr_iff)
qed (simp add: keeps_place_def chainTransformers_def)

lemma set_podTemplate_place:
  assumes "podTemplateOf obj = Inr (Some (m, s))"
    and "om_Name m' = om_Name m" "om_Namespace m' = om_Namespace m"
  shows "om_Name (ro_Meta (set_podTemplate m' s' obj)) = om_Name (ro_Meta obj) \<and>
    om_Namespace (ro_Meta (set_podTemplate m' s' obj)) = om_Namespace (ro_Meta obj)"
  using assms by (cases "ro_Body obj")
    (auto simp: podTemplateOf_def set_podTemplate_def Let_def split: option.splits)

lemma stamp_place [simp]:
  "om_Name (stampTenantNamespace m ns) = om_Name m" "om_Namespace (stampTenantNamespace m ns) = om_Namespace m"
  by (simp_all add: stampTenantNamespace_def)

lemma project_place [simp]:
  "om_Name (fst (project C m s ns)) = om_Name m" "om_Namespace (fst (project C m s ns)) = om_Namespace m"
  by (simp_all add: project_def Let_def)

lemma keeps_place_template:
  assumes "\<And>obj tid obj' m s. podTemplateOf obj = Inr (Some (m, s)) \<Longrightarrow> Forward T obj tid = Inr obj' \<Longrightarrow>
      obj' = obj \<or> (\<exists>m' s'. om_Name m' = om_Name m \<and> om_Namespace m' = om_Namespace m \<and> obj' = set_podTemplate m' s' obj)"
    and "\<And>obj tid. podTemplateOf obj = Inr None \<Longrightarrow> Forward T obj tid = Inr obj"
    and "\<And>obj tid e. podTemplateOf obj = Inl e \<Longrightarrow> Forward T obj tid = Inl e"
  shows "keeps_place T"
proof (rule keeps_placeI)
  fix obj tid obj'
  assume f: "Forward T obj tid = Inr obj'"
  consider (err) e where "podTemplateOf obj = Inl e" | (none) "podTemplateOf obj = Inr None"
    | (some) m s where "podTemplateOf obj = Inr (Some (m, s))"
    by (metis not_None_eq obj_sumE surj_pair)
  then show "om_Name (ro_Meta obj') = om_Name (ro_Meta obj) \<and> om_Namespace (ro_Meta obj') = om_Namespace (ro_Meta obj)"
  proof cases
    case some
    from assms(1) [OF this f] show ?thesis using set_podTemplate_place [OF some] by auto
  qed (use f assms(2,3) in auto)
qed

lemma keeps_place_pod: "keeps_place (podTransformer C dns)"
proof -
  have "keeps_place (NewPlacementTransformer C)"
    by (rule keeps_place_template)
       (auto simp: NewPlacementTransformer_def PlacementTransformer_Forward_def split: if_splits)
  moreover have "keeps_place (NewDNSConfigTransformer C dns)"
    by (rule keeps_place_template)
       (auto simp: NewDNSConfigTransformer_def DNSConfigTransformer_Forward_def split: if_splits)
  moreover have "keeps_place (NewSATokenNamespaceTransformer C)"
    by (rule keeps_place_template)
       (auto simp: NewSATokenNamespaceTransformer_def SATokenNamespaceTransformer_Forward_def Let_def
         case_prod_beta split: if_splits intro: stamp_place project_place)
  ultimately show ?thesis
    unfolding podTransformer_def by (intro keeps_place_chain) auto
qed

lemma table_keeps_place:
  assumes "contract_ok C" "(gk, conv) \<in> set (fullTable C (Some P) dns)"
    and "gk \<noteq> (''apiextensions.k8s.io'', ''CustomResourceDefinition'')"
  shows "\<exists>T. conv = NewCrossReferenceConverter (NewDefaultConvertor C) T \<and> keeps_place T"
proof -
  from assms(2) consider "(gk, conv) \<in> set (nativeKindTable C (Some P))"
    | "conv = NewCrossReferenceConverter (NewDefaultConvertor C) (podTransformer C dns)"
    by (auto simp: fullTable_def)
  then show ?thesis
  proof cases
    case 1
    then show ?thesis
      using assms(3) keeps_place_body keeps_place_ident [OF assms(1)] keeps_place_rewriting
      unfolding nativeKindTable_def Let_def list.set insert_iff empty_iff prod.inject
      by (elim disjE conjE FalseE) auto
  next
    case 2
    then show ?thesis using keeps_place_pod by auto
  qed
qed


lemma native_place:
  assumes C: "contract_ok C" and init: "InitConvertors C (Some P) shared dns = Inr (native, custom)"
    and gk: "GroupKindOf C obj \<noteq> (''apiextensions.k8s.io'', ''CustomResourceDefinition'')"
    and f: "ConvertTenantObjectToUpstreamObject native obj tid ns = Inr obj'"
  shows "om_Namespace (ro_Meta obj') = (if ns \<and> om_Namespace (ro_Meta obj) \<noteq> []
      then UpstreamNamespace C tid (om_Namespace (ro_Meta obj)) else om_Namespace (ro_Meta obj)) \<and>
    om_Name (ro_Meta obj') = (if ns \<or> om_Name (ro_Meta obj) = [] then om_Name (ro_Meta obj)
      else AddTenantIDPrefix C tid (om_Name (ro_Meta obj)))"
proof (cases "map_of (fullTable C (Some P) dns) (GroupKindOf C obj)")
  case None
  with f show ?thesis unfolding InitConvertors_iff [THEN iffD1, OF init, THEN conjunct1]
    by (auto simp: NewNativeObjectConvertor_def nativeObjectConvertor_ConvertTenantObjectToUpstreamObject_def
        nativeConvertorOf_def NewDefaultConvertor_def Default_to_upstream_ident bindR_Inr_iff
        ident_to_upstream_def ident_of_def set_ident_def split: if_splits)
next
  case (Some conv)
  from table_keeps_place [OF C map_of_SomeD [OF Some] gk] obtain T where
    T: "conv = NewCrossReferenceConverter (NewDefaultConvertor C) T" "keeps_place T" by auto
  from native_forward_cross [OF init Some [unfolded T(1)] f] obtain I where
    I: "ident_to_upstream C tid ns (ident_of C (ro_Meta obj)) = Inr I" "Forward T (reident C I obj) tid = Inr obj'"
    by auto
  from T(2) I(2) have "om_Name (ro_Meta obj') = id_Name I" "om_Namespace (ro_Meta obj') = id_Namespace I"
    by (auto simp: keeps_place_def set_ident_def)
  with I(1) show ?thesis by (auto simp: ident_to_upstream_def ident_of_def bindR_Inr_iff)
qed

end
