(* ===== verification/Tenant_Proxy.thy ===== *)
theory Tenant_Proxy
  imports Fanout Convertor_Registry
begin

text \<open>
  The proxy of one resource (proxy.go, apply.go): reads, writes, deletes and lists of a tenant,
  carried out on the upstream cluster.  A write takes the state of the upstream and returns its
  result with the new state.
\<close>

definition bindS :: "'a result \<times> 's \<Rightarrow> ('a \<Rightarrow> 's \<Rightarrow> 'b result \<times> 's) \<Rightarrow> 'b result \<times> 's" where
  "bindS m f = (case m of (Inl e, s) \<Rightarrow> (Inl e, s) | (Inr x, s) \<Rightarrow> f x s)"

lemma bindS_simps [simp, result_simps]: "bindS (Inl e, s) f = (Inl e, s)" "bindS (Inr x, s) f = f x s"
  by (simp_all add: bindS_def)

lemma bindS_Inr: "bindS m f = (Inr y, s') \<longleftrightarrow> (\<exists>x s. m = (Inr x, s) \<and> f x s = (Inr y, s'))"
  by (cases m; cases "fst m") auto

definition mapError :: "(error \<Rightarrow> error) \<Rightarrow> 'a result \<times> 's \<Rightarrow> 'a result \<times> 's" where
  "mapError f m = (case m of (Inl e, s) \<Rightarrow> (Inl (f e), s) | (Inr x, s) \<Rightarrow> (Inr x, s))"

lemma mapError_Inr [simp]: "mapError f m = (Inr x, s) \<longleftrightarrow> m = (Inr x, s)"
  by (cases m; cases "fst m") (auto simp: mapError_def)

section \<open>Definitions\<close>

subsection \<open>Building the storage of a resource\<close>

text \<open>
  The configuration of the storage of a resource (apiconfig.go).  The client of the upstream
  cluster is a parameter of the operations; tables, transports and the address of the upstream
  server belong to storages that only pass bytes on.
\<close>

record StorageConfig =
  cfg_Kind :: GroupVersionKind
  cfg_Resource :: string
  cfg_Subresource :: string
  cfg_ShortNames :: "string list"
  cfg_NamespaceScoped :: bool
  cfg_IsCustomResource :: bool
  cfg_IsSharedGroup :: "(string \<Rightarrow> bool) option"
  cfg_IsConnecter :: bool
  cfg_TypeConverter :: "TypeConverter option"
  cfg_NewFunc :: "robject option"
  cfg_NewListFunc :: "bool option"
  cfg_TenantDNS :: TenantDNSFunc
  cfg_HiddenMetadata :: "HiddenMetadata option"
  cfg_Convertor :: ObjectConvertor
  cfg_PublishedClasses :: "labelledSet option"
  cfg_PublishedStorageClasses :: "labelledSet option"
  cfg_PublishedSnapshotClasses :: "labelledSet option"
  cfg_PublishedVolumeAttributesClasses :: "labelledSet option"
  cfg_PublishedDeviceClasses :: "labelledSet option"
  cfg_Tenants :: TenantLister
  cfg_MaxNamespaces :: int
  cfg_MaxCRDs :: int
  cfg_MaxClusterRoleBindings :: int
  cfg_GroupVersionKindFunc :: "(string \<times> string \<Rightarrow> GroupVersionKind) option"

text \<open>The projection of ClusterRoleBindings onto RoleBindings (crbprojection.go).\<close>

record clusterRoleBindingProjection =
  cp_inner :: tenantProxy
  cp_kind :: GroupVersionKind
  cp_newFunc :: "robject option"
  cp_newListFunc :: "bool option"
  cp_maxBindings :: int
  cp_tenants :: TenantLister

text \<open>
  The storages NewTenantProxy may return.  The connecter and the proxy of pods are storages of
  their own, which hand the request on.
\<close>

datatype Storage =
    ConnecterProxy
  | PodProxyREST
  | ClusterRoleBindingProjection clusterRoleBindingProjection
  | PublicClassStorage StorageConfig labelledSet
  | TenantProxyStorage tenantProxy
  | TenantProxyWithLister tenantProxy

definition rbacGroup :: string where
  "rbacGroup = ''rbac.authorization.k8s.io''"

definition projectsClusterRoleBindings :: "StorageConfig \<Rightarrow> bool" where
  "projectsClusterRoleBindings config \<longleftrightarrow> cfg_Resource config = ''clusterrolebindings'' \<and>
     cfg_Subresource config = [] \<and> gvk_Group (cfg_Kind config) = rbacGroup"

definition newRoleBinding :: robject where
  "newRoleBinding = \<lparr>ro_APIVersion = [], ro_Kind = [], ro_Meta = empty_meta,
     ro_Body = RoleBindingB [] \<lparr>rr_APIGroup = [], rr_Kind = [], rr_Name = []\<rparr>\<rparr>"

text \<open>The configuration of the RoleBindings behind a projection.\<close>

definition innerConfig :: "StorageConfig \<Rightarrow> StorageConfig" where
  "innerConfig config = config\<lparr>
     cfg_Kind := (cfg_Kind config)\<lparr>gvk_Kind := ''RoleBinding''\<rparr>, cfg_Resource := ''rolebindings'',
     cfg_NamespaceScoped := True, cfg_NewFunc := Some newRoleBinding, cfg_NewListFunc := Some False\<rparr>"

definition projectionLabelPath :: "contract \<Rightarrow> fieldset" where
  "projectionLabelPath C = {[''metadata'', ''labels'', ProjectedClusterRoleBindingLabelKey C]}"

definition newClusterRoleBindingProjection :: "contract \<Rightarrow> StorageConfig \<Rightarrow> Storage result \<Rightarrow> Storage result" where
  "newClusterRoleBindingProjection C config inner =
     bindR inner (\<lambda>storage. case storage of
         TenantProxyWithLister lister \<Rightarrow> Inr (ClusterRoleBindingProjection \<lparr>
           cp_inner = lister\<lparr>tp_hideProjected := False, tp_injectedPaths := Some (projectionLabelPath C)\<rparr>,
           cp_kind = cfg_Kind config, cp_newFunc = cfg_NewFunc config, cp_newListFunc = cfg_NewListFunc config,
           cp_maxBindings = cfg_MaxClusterRoleBindings config, cp_tenants = cfg_Tenants config\<rparr>)
       | _ \<Rightarrow> Inl (Plain ''expected a listing proxy for rolebindings''))"

definition tenantProxyOf :: "StorageConfig \<Rightarrow> tenantProxy" where
  "tenantProxyOf config = \<lparr>
     tp_kind = cfg_Kind config, tp_convertor = cfg_Convertor config, tp_namespaceScoped = cfg_NamespaceScoped config,
     tp_resource = cfg_Resource config, tp_subresource = cfg_Subresource config, tp_shortNames = cfg_ShortNames config,
     tp_isCustomResource = cfg_IsCustomResource config, tp_isSharedGroup = cfg_IsSharedGroup config,
     tp_hideProjected = (cfg_Resource config = ''rolebindings'' \<and> cfg_Subresource config = [] \<and>
       gvk_Group (cfg_Kind config) = rbacGroup),
     tp_newFunc = cfg_NewFunc config, tp_newListFunc = cfg_NewListFunc config,
     tp_groupVersionKindFunc = cfg_GroupVersionKindFunc config,
     tp_typeConverter = cfg_TypeConverter config, tp_injectedPaths = None,
     tp_publishedStorageClasses = cfg_PublishedStorageClasses config,
     tp_publishedSnapshotClasses = cfg_PublishedSnapshotClasses config,
     tp_publishedVolumeAttributesClasses = cfg_PublishedVolumeAttributesClasses config,
     tp_publishedDeviceClasses = cfg_PublishedDeviceClasses config,
     tp_maxNamespaces = cfg_MaxNamespaces config, tp_maxCRDs = cfg_MaxCRDs config, tp_tenants = cfg_Tenants config,
     tp_tenantDNS = cfg_TenantDNS config, tp_storageView = False, tp_hiddenMetadata = cfg_HiddenMetadata config\<rparr>"

function NewTenantProxy :: "contract \<Rightarrow> StorageConfig \<Rightarrow> Storage result" where
  "NewTenantProxy C config =
     (if cfg_IsConnecter config then Inr ConnecterProxy
      else if cfg_Resource config \<in> {''pods'', ''services'', ''nodes''} \<and> cfg_Subresource config = ''proxy''
        then Inr PodProxyREST
      else if projectsClusterRoleBindings config
        then newClusterRoleBindingProjection C config (NewTenantProxy C (innerConfig config))
      else (case cfg_PublishedClasses config of Some classes \<Rightarrow> Inr (PublicClassStorage config classes)
        | None \<Rightarrow>
          if cfg_NewFunc config = None \<and> cfg_NewListFunc config = None
            then Inl (Plain ''both NewFunc and NewListFunc is nil'')
          else if cfg_Subresource config \<noteq> [] \<and> cfg_NewListFunc config \<noteq> None
            then Inl (Plain ''subresource should not have list method'')
          else let proxy = tenantProxyOf config in
            if cfg_NewListFunc config = None then Inr (TenantProxyStorage proxy) else Inr (TenantProxyWithLister proxy)))"
  by pat_completeness auto
termination
  by (relation "measure (\<lambda>(C, config). if projectsClusterRoleBindings config then 1 else 0)")
    (auto simp: projectsClusterRoleBindings_def innerConfig_def)

declare NewTenantProxy.simps [simp del]

definition GroupVersionKind_for :: "tenantProxy \<Rightarrow> string \<times> string \<Rightarrow> GroupVersionKind" where
  "GroupVersionKind_for tp containingGV =
     (case tp_groupVersionKindFunc tp of None \<Rightarrow> tp_kind tp | Some f \<Rightarrow> f containingGV)"

definition kindGV :: "tenantProxy \<Rightarrow> string \<times> string" where
  "kindGV tp = (gvk_Group (tp_kind tp), gvk_Version (tp_kind tp))"

subsection \<open>Addressing the upstream\<close>

definition getClient :: "'s env \<Rightarrow> tenantProxy \<Rightarrow> Context \<Rightarrow> Target result" where
  "getClient E tp ctx =
     (case cx_Tenant ctx of None \<Rightarrow> Inl (Plain ''tanentID doesn't exist in context'')
      | Some tenantID \<Rightarrow>
        (case cx_RequestInfo ctx of None \<Rightarrow> Inl (Plain ''missing requestInfo'')
         | Some requestInfo \<Rightarrow>
           Inr \<lparr>tg_User = cx_User ctx, tg_Resource = upstreamResource (ev_contract E) tp tenantID,
             tg_Namespace = (if tp_namespaceScoped tp \<and> ri_Namespace requestInfo \<noteq> []
               then UpstreamNamespace (ev_contract E) tenantID (ri_Namespace requestInfo) else [])\<rparr>))"

definition IsNotFound :: "error \<Rightarrow> bool" where
  "IsNotFound err = (case err of NotFound _ \<Rightarrow> True | _ \<Rightarrow> False)"

definition IsForbidden :: "error \<Rightarrow> bool" where
  "IsForbidden err = (case err of Forbidden _ \<Rightarrow> True | _ \<Rightarrow> False)"

definition IsAlreadyExists :: "error \<Rightarrow> bool" where
  "IsAlreadyExists err = (case err of AlreadyExists _ \<Rightarrow> True | _ \<Rightarrow> False)"

definition shapeError :: "'s env \<Rightarrow> 's \<Rightarrow> tenantProxy \<Rightarrow> Context \<Rightarrow> error \<Rightarrow> string \<Rightarrow> error" where
  "shapeError E s tp ctx err tenantID =
     (let trimmed = TrimTenantIDFromError (ev_contract E) err tenantID in
      if \<not> IsForbidden err \<or> \<not> tp_namespaceScoped tp then trimmed
      else (case cx_RequestInfo ctx of None \<Rightarrow> trimmed
        | Some requestInfo \<Rightarrow>
          if ri_Namespace requestInfo = [] then trimmed
          else (case up_Get (ev_client E) s \<lparr>tg_User = cx_User ctx, tg_Resource = namespaceGVR, tg_Namespace = []\<rparr>
              (UpstreamNamespace (ev_contract E) tenantID (ri_Namespace requestInfo)) [] [] of
              Inr _ \<Rightarrow> trimmed
            | Inl nsErr \<Rightarrow> if \<not> IsNotFound nsErr then trimmed else NotFound (ri_Name requestInfo))))"

subsection \<open>Forms of an object\<close>

definition convertUnstructuredToOutput :: "'s env \<Rightarrow> tenantProxy \<Rightarrow> robject \<Rightarrow> robject \<Rightarrow> robject result" where
  "convertUnstructuredToOutput E tp utd out =
     (if isUnstructured out then Inr utd
      else bindR (sch_New (ev_scheme E) (GroupVersionKind_for tp (kindGV tp))) (\<lambda>original.
        bindR (sch_FromUnstructured (ev_scheme E) utd original) (\<lambda>original.
        sch_Convert (ev_scheme E) original out)))"

definition convertUnstructuredListToOutput :: "'s env \<Rightarrow> tenantProxy \<Rightarrow> UnstructuredList \<Rightarrow> UnstructuredList result" where
  "convertUnstructuredListToOutput E tp l =
     (case tp_newListFunc tp of
        Some False \<Rightarrow> sch_ListFromUnstructured (ev_scheme E) ((tp_kind tp)\<lparr>gvk_Kind := gvk_Kind (tp_kind tp) @ ''List''\<rparr>) l
      | _ \<Rightarrow> Inr l)"

definition convertInternalObjectToVersionedObject :: "'s env \<Rightarrow> tenantProxy \<Rightarrow> robject \<Rightarrow> robject result" where
  "convertInternalObjectToVersionedObject E tp obj =
     sch_ConvertToVersion (ev_scheme E) (GroupVersionKind_for tp (kindGV tp)) obj"

definition convertInternalObjectToUnstructuredObject :: "'s env \<Rightarrow> tenantProxy \<Rightarrow> robject \<Rightarrow> robject result" where
  "convertInternalObjectToUnstructuredObject E tp obj =
     (if isUnstructured obj then Inr obj
      else bindR (convertInternalObjectToVersionedObject E tp obj) (sch_ToUnstructured (ev_scheme E)))"

definition SetGroupVersionKind :: "tenantProxy \<Rightarrow> robject \<Rightarrow> robject" where
  "SetGroupVersionKind tp obj =
     (if isUnstructured obj then obj
      else obj\<lparr>ro_APIVersion := (if gvk_Group (tp_kind tp) = [] then gvk_Version (tp_kind tp)
          else gvk_Group (tp_kind tp) @ ''/'' @ gvk_Version (tp_kind tp)),
        ro_Kind := gvk_Kind (tp_kind tp)\<rparr>)"

definition convertTenantObjectToUpstreamObject :: "tenantProxy \<Rightarrow> robject \<Rightarrow> string \<Rightarrow> robject result" where
  "convertTenantObjectToUpstreamObject tp obj tenantID =
     ConvertTenantObjectToUpstreamObject (tp_convertor tp) (SetGroupVersionKind tp obj) tenantID (tp_namespaceScoped tp)"

definition requestNamespace :: "tenantProxy \<Rightarrow> Context \<Rightarrow> string" where
  "requestNamespace tp ctx =
     (if \<not> tp_namespaceScoped tp then []
      else (case cx_RequestInfo ctx of None \<Rightarrow> [] | Some requestInfo \<Rightarrow> ri_Namespace requestInfo))"

definition showTenantClusterIP :: "robject \<Rightarrow> robject" where
  "showTenantClusterIP obj =
     (case ro_Body obj of
        ServiceB spec st \<Rightarrow>
          (case TenantClusterIP (Some (ro_Meta obj, spec)) of None \<Rightarrow> obj
           | Some address \<Rightarrow>
             let spec = spec\<lparr>svc_ClusterIP := address\<rparr>;
                 spec = (if svc_ClusterIPs spec \<noteq> [] then spec\<lparr>svc_ClusterIPs := (svc_ClusterIPs spec)[0 := address]\<rparr> else spec)
             in obj\<lparr>ro_Body := ServiceB spec st\<rparr>)
      | _ \<Rightarrow> obj)"

definition single :: "runtime_object \<Rightarrow> robject \<Rightarrow> robject" where
  "single r obj = (case r of Single o' \<Rightarrow> o' | _ \<Rightarrow> obj)"

definition applyTenantViews :: "'s env \<Rightarrow> tenantProxy \<Rightarrow> robject \<Rightarrow> robject" where
  "applyTenantViews E tp obj =
     (if tp_storageView tp then obj
      else let shown = showTenantClusterIP obj in
        single (Strip (ev_contract E) (tp_hiddenMetadata tp) (Single shown)) shown)"

definition echoRequestNamespace :: "contract \<Rightarrow> robject \<Rightarrow> string \<Rightarrow> string \<Rightarrow> robject" where
  "echoRequestNamespace C obj tenantID reqNS =
     (if reqNS = [] then obj
      else (case Accessor obj of Inl _ \<Rightarrow> obj
        | Inr m \<Rightarrow>
          let current = om_Namespace m in
          if current = reqNS then obj
          else if UpstreamNamespace C tenantID current \<noteq> UpstreamNamespace C tenantID reqNS then obj
          else upd_meta (\<lambda>m. m\<lparr>om_Namespace := reqNS\<rparr>) obj))"

definition convertUpstreamObjectToTenantObject ::
  "'s env \<Rightarrow> tenantProxy \<Rightarrow> robject \<Rightarrow> string \<Rightarrow> string \<Rightarrow> robject result" where
  "convertUpstreamObjectToTenantObject E tp obj tenantID reqNS =
     bindR (ConvertUpstreamObjectToTenantObject (tp_convertor tp) (SetGroupVersionKind tp obj) tenantID (tp_namespaceScoped tp))
       (\<lambda>obj. Inr (echoRequestNamespace (ev_contract E) (applyTenantViews E tp obj) tenantID reqNS))"

definition shown :: "'s env \<Rightarrow> tenantProxy \<Rightarrow> Context \<Rightarrow> string \<Rightarrow> robject \<Rightarrow> robject \<Rightarrow> robject result" where
  "shown E tp ctx tenantID fresh got =
     bindR (convertUnstructuredToOutput E tp got fresh) (\<lambda>out.
       convertUpstreamObjectToTenantObject E tp out tenantID (requestNamespace tp ctx))"

definition finishWrite :: "'s env \<Rightarrow> tenantProxy \<Rightarrow> robject \<Rightarrow> robject \<Rightarrow> string \<Rightarrow> string \<Rightarrow> bool \<Rightarrow> (robject \<times> bool) result" where
  "finishWrite E tp fresh got tenantID reqNS created =
     bindR (convertUnstructuredToOutput E tp got fresh) (\<lambda>out.
     bindR (convertUpstreamObjectToTenantObject E tp out tenantID reqNS) (\<lambda>out. Inr (out, created)))"

subsection \<open>Reads\<close>

definition upstreamName :: "'s env \<Rightarrow> tenantProxy \<Rightarrow> string \<Rightarrow> string \<Rightarrow> string" where
  "upstreamName E tp name tenantID =
     (if \<not> tp_namespaceScoped tp
      then ConvertTenantObjectNameToUpstream (ev_contract E) name tenantID (gvk_Group (tp_kind tp)) (gvk_Kind (tp_kind tp))
      else name)"

definition Get :: "'s env \<Rightarrow> 's \<Rightarrow> tenantProxy \<Rightarrow> Context \<Rightarrow> string \<Rightarrow> opaque \<Rightarrow> robject result" where
  "Get E s tp ctx name options =
     (if servesRoleBindings tp \<and> IsManagedBindingName (ev_contract E) name then Inl (NotFound name)
      else (case tp_newFunc tp of None \<Rightarrow> Inl (Plain ''newFunc is nil'')
        | Some fresh \<Rightarrow>
          (case cx_Tenant ctx of None \<Rightarrow> Inl (Plain ''tanentID doesn't exist in context'')
           | Some tenantID \<Rightarrow>
             bindR (getClient E tp ctx) (\<lambda>client.
             case up_Get (ev_client E) s client (upstreamName E tp name tenantID) options (tp_subresource tp) of
               Inl err \<Rightarrow> Inl (shapeError E s tp ctx err tenantID)
             | Inr utd \<Rightarrow> shown E tp ctx tenantID fresh utd))))"

definition forUpdate :: "tenantProxy \<Rightarrow> tenantProxy" where
  "forUpdate tp = tp\<lparr>tp_storageView := True, tp_subresource := []\<rparr>"

definition readForUpdate :: "'s env \<Rightarrow> 's \<Rightarrow> tenantProxy \<Rightarrow> Context \<Rightarrow> string \<Rightarrow> robject result" where
  "readForUpdate E s tp ctx name = Get E s (forUpdate tp) ctx name []"

subsection \<open>Deletes\<close>

definition fresh_status :: robject where
  "fresh_status = \<lparr>ro_APIVersion = [], ro_Kind = [], ro_Meta = empty_meta, ro_Body = StatusB []\<rparr>"

definition Delete ::
  "'s env \<Rightarrow> 's \<Rightarrow> tenantProxy \<Rightarrow> Context \<Rightarrow> string \<Rightarrow> opaque \<Rightarrow> (robject \<times> bool) result \<times> 's" where
  "Delete E s tp ctx name0 options =
     (case tp_newFunc tp of None \<Rightarrow> (Inl (Plain ''newFunc is nil''), s)
      | Some fresh \<Rightarrow>
      (case cx_Tenant ctx of None \<Rightarrow> (Inl (Plain ''tanentID doesn't exist in context''), s)
      | Some tenantID \<Rightarrow>
        let name = upstreamName E tp name0 tenantID in
        bindS (refuseProjectedName (ev_contract E) tp name, s) (\<lambda>_ s.
        bindS (refuseReservedName (ev_contract E) tp tenantID name, s) (\<lambda>_ s.
        bindS (getClient E tp ctx, s) (\<lambda>client s.
        bindS (mapError (\<lambda>err. TrimTenantIDFromError (ev_contract E) err tenantID)
            (up_Delete (ev_client E) s client name options (tp_subresource tp))) (\<lambda>(got, deleted) s.
        if ro_APIVersion got = ''v1'' \<and> ro_Kind got = ''Status'' then
          mapError (\<lambda>err. TrimTenantIDFromError (ev_contract E) err tenantID)
            (bindR (sch_FromUnstructured (ev_scheme E) got fresh_status) (\<lambda>status.
              Inr (TrimTenantIDFromStatus (ev_util E) status tenantID, deleted)), s)
        else (bindR (shown E tp ctx tenantID fresh got) (\<lambda>out. Inr (out, deleted)), s)))))))"

subsection \<open>Lists\<close>

definition shouldFanOut :: "tenantProxy \<Rightarrow> Context \<Rightarrow> bool" where
  "shouldFanOut tp ctx =
     (if \<not> tp_namespaceScoped tp then False
      else (case cx_RequestInfo ctx of None \<Rightarrow> False | Some requestInfo \<Rightarrow> ri_Namespace requestInfo = []))"

definition convertItem :: "'s env \<Rightarrow> tenantProxy \<Rightarrow> Context \<Rightarrow> string \<Rightarrow> robject \<Rightarrow> robject \<Rightarrow> robject result" where
  "convertItem E tp ctx tenantID fresh item =
     bindR (shown E tp ctx tenantID fresh item) (convertInternalObjectToUnstructuredObject E tp)"

text \<open>The loop over the items; with no newFunc the scheme has nothing to convert into.\<close>

definition convertItems :: "'s env \<Rightarrow> tenantProxy \<Rightarrow> Context \<Rightarrow> string \<Rightarrow> robject list \<Rightarrow> robject list result" where
  "convertItems E tp ctx tenantID items =
     (case tp_newFunc tp of
        None \<Rightarrow> if items = [] then Inr [] else Inl (Plain ''nil output'')
      | Some fresh \<Rightarrow> mapR (convertItem E tp ctx tenantID fresh) items)"

text \<open>The pages of a list that is not fanned out; the token of a cluster-scoped one is wrapped.\<close>

definition listUpstream ::
  "cursor_json \<Rightarrow> 's env \<Rightarrow> 's \<Rightarrow> tenantProxy \<Rightarrow> Context \<Rightarrow> ListOptions \<Rightarrow> string \<Rightarrow> UnstructuredList result" where
  "listUpstream J E s tp ctx proxyOptions tenantID =
     bindR (getClient E tp ctx) (\<lambda>client.
     bindR (if \<not> tp_namespaceScoped tp \<and> lo_Continue proxyOptions \<noteq> []
         then bindR (decodeClusterScopedContinue J (lo_Continue proxyOptions)) (\<lambda>upstreamToken.
           Inr (proxyOptions\<lparr>lo_Continue := upstreamToken\<rparr>))
         else Inr proxyOptions) (\<lambda>proxyOptions.
     (case up_List (ev_client E) s client proxyOptions of
        Inl err \<Rightarrow> Inl (TrimTenantIDFromError (ev_contract E) err tenantID)
      | Inr l \<Rightarrow>
        let l = FilterUnstructuredList (ev_util E) l tenantID (tp_namespaceScoped tp) in
        Inr (if \<not> tp_namespaceScoped tp then hideUpstreamListCursor J l else l))))"

definition list ::
  "cursor_json \<Rightarrow> 's env \<Rightarrow> 's \<Rightarrow> tenantProxy \<Rightarrow> Context \<Rightarrow> ListOptions \<Rightarrow> UnstructuredList result" where
  "list J E s tp ctx options =
     (if tp_newListFunc tp = None then Inl (Plain ''newListFunc is nil'')
      else (case cx_Tenant ctx of None \<Rightarrow> Inl (Plain ''tanentID doesn't exist in context'')
      | Some tenantID \<Rightarrow>
        bindR (ConvertInternalListOptions (ev_util E) ctx options tenantID (tp_namespaceScoped tp) (tp_kind tp)) (\<lambda>proxyOptions.
        bindR (if shouldFanOut tp ctx
            then (case listAcrossNamespaces J E s tp ctx proxyOptions tenantID of
                Inl err \<Rightarrow> Inl (TrimTenantIDFromError (ev_contract E) err tenantID) | Inr l \<Rightarrow> Inr l)
            else listUpstream J E s tp ctx proxyOptions tenantID) (\<lambda>l.
        let l = hideProjections (ev_contract E) tp l in
        bindR (convertItems E tp ctx tenantID (ul_Items l)) (\<lambda>items.
        let l = l\<lparr>ul_Items := items\<rparr>;
            l = (if tp_isCustomResource tp
              then l\<lparr>ul_APIVersion := TrimTenantIDPrefix (ev_contract E) tenantID (ul_APIVersion l)\<rparr> else l)
        in convertUnstructuredListToOutput E tp l)))))"

subsection \<open>Collections\<close>

text \<open>The loop that deletes the items: a name the proxy would not let the tenant delete is passed over.\<close>

fun deleteItems ::
  "'s env \<Rightarrow> tenantProxy \<Rightarrow> Target \<Rightarrow> string \<Rightarrow> opaque \<Rightarrow> robject list \<Rightarrow> 's \<Rightarrow> unit result \<times> 's" where
  "deleteItems E tp client tenantID options [] s = (Inr (), s)"
| "deleteItems E tp client tenantID options (item # items) s =
     (let name = om_Name (ro_Meta item) in
      if refuseProjectedName (ev_contract E) tp name \<noteq> Inr () \<or> refuseReservedName (ev_contract E) tp tenantID name \<noteq> Inr ()
      then deleteItems E tp client tenantID options items s
      else bindS (mapError (\<lambda>err. TrimTenantIDFromError (ev_contract E) err tenantID)
          (up_Delete (ev_client E) s client name options [])) (\<lambda>_ s.
        deleteItems E tp client tenantID options items s))"

definition DeleteCollection ::
  "cursor_json \<Rightarrow> 's env \<Rightarrow> 's \<Rightarrow> tenantProxy \<Rightarrow> Context \<Rightarrow> opaque \<Rightarrow> ListOptions \<Rightarrow> UnstructuredList result \<times> 's" where
  "DeleteCollection J E s tp ctx options listOptions =
     (if tp_newListFunc tp = None then (Inl (Plain ''newListFunc is nil''), s)
      else (case cx_Tenant ctx of None \<Rightarrow> (Inl (Plain ''tanentID doesn't exist in context''), s)
      | Some tenantID \<Rightarrow>
        bindS (ConvertInternalListOptions (ev_util E) ctx listOptions tenantID (tp_namespaceScoped tp) (tp_kind tp), s)
          (\<lambda>proxyListOptions s.
        bindS (getClient E tp ctx, s) (\<lambda>client s.
        bindS (mapError (\<lambda>err. TrimTenantIDFromError (ev_contract E) err tenantID)
            (up_List (ev_client E) s client proxyListOptions, s)) (\<lambda>l s.
        let l = FilterUnstructuredList (ev_util E) l tenantID (tp_namespaceScoped tp);
            l = (if \<not> tp_namespaceScoped tp then hideUpstreamListCursor J l else l);
            l = hideProjections (ev_contract E) tp l in
        bindS (deleteItems E tp client tenantID options (ul_Items l) s) (\<lambda>_ s.
        (bindR (convertItems E tp ctx tenantID (ul_Items l)) (\<lambda>items.
           convertUnstructuredListToOutput E tp (l\<lparr>ul_Items := items\<rparr>)), s)))))))"

end
