(* ===== verification/Tenant_Writes.thy ===== *)
theory Tenant_Writes
  imports Tenant_Proxy
begin

text \<open>
  The writes of the proxy (Create, Update, update and guaranteedUpdate of proxy.go, and apply.go).
\<close>

section \<open>Server-side apply\<close>

definition applyEntry :: "robject \<Rightarrow> string \<Rightarrow> ManagedFieldsEntry option" where
  "applyEntry obj fieldManager =
     (if fieldManager = [] then None
      else find (\<lambda>entry. mf_Manager entry = fieldManager \<and> mf_Operation entry = ''Apply'' \<and>
          mf_Subresource entry = [] \<and> mf_FieldsV1 entry \<noteq> None)
        (om_ManagedFields (ro_Meta obj)))"

definition asAPIVersion :: "robject \<Rightarrow> string \<Rightarrow> robject" where
  "asAPIVersion obj apiVersion =
     (if apiVersion = [] \<or> apiVersion = ro_APIVersion obj then obj else obj\<lparr>ro_APIVersion := apiVersion\<rparr>)"

definition typeObject :: "'s env \<Rightarrow> TypeConverter \<Rightarrow> robject \<Rightarrow> string \<Rightarrow> (TypedValue \<times> TypeConverter) result" where
  "typeObject E typeConverter obj tenantAPIVersion =
     (let candidate = asAPIVersion obj tenantAPIVersion in
      case typeConverter candidate of
        Inr typedObj \<Rightarrow> Inr (typedObj, typeConverter)
      | Inl _ \<Rightarrow>
        bindR (sch_deducedTypeConverter (ev_scheme E) candidate) (\<lambda>typedObj.
          Inr (typedObj, sch_deducedTypeConverter (ev_scheme E))))"

definition conversionDelta :: "TypeConverter \<Rightarrow> robject \<Rightarrow> robject \<Rightarrow> string \<Rightarrow> fieldset result" where
  "conversionDelta converter tenantForm upstream tenantAPIVersion =
     bindR (converter tenantForm) (\<lambda>before.
     bindR (converter (asAPIVersion upstream tenantAPIVersion)) (\<lambda>after.
     bindR (tv_Compare before (tv_object after)) (\<lambda>(added, modified). Inr (added \<union> modified))))"

text \<open>What the patch carries: the owned fields, those the conversion touched, and the declared ones.\<close>

definition appliedFields :: "tenantProxy \<Rightarrow> fieldset \<Rightarrow> fieldset \<Rightarrow> fieldset" where
  "appliedFields tp ownedFields injected =
     ownedFields \<union> injected \<union> (case tp_injectedPaths tp of None \<Rightarrow> {} | Some paths \<Rightarrow> paths)"

definition patchIdentity :: "robject \<Rightarrow> robject \<Rightarrow> robject" where
  "patchIdentity upstream extracted =
     (let patch = extracted\<lparr>ro_APIVersion := ro_APIVersion upstream, ro_Kind := ro_Kind upstream\<rparr>;
          patch = upd_meta (\<lambda>m. m\<lparr>om_Name := om_Name (ro_Meta upstream)\<rparr>) patch
      in if om_Namespace (ro_Meta upstream) \<noteq> []
         then upd_meta (\<lambda>m. m\<lparr>om_Namespace := om_Namespace (ro_Meta upstream)\<rparr>) patch else patch)"

text \<open>The patch an apply is forwarded as; None where the write is not forwarded as an apply.\<close>

definition applyPatch ::
  "'s env \<Rightarrow> tenantProxy \<Rightarrow> Context \<Rightarrow> robject \<Rightarrow> robject option \<Rightarrow> string \<Rightarrow> robject option result" where
  "applyPatch E tp ctx upstream tenantForm fieldManager =
     (if \<not> cx_IsApplyPatch ctx then Inr None
      else (case applyEntry upstream fieldManager of None \<Rightarrow> Inr None
      | Some entry \<Rightarrow>
      (case tp_typeConverter tp of None \<Rightarrow> Inr None
      | Some typeConverter \<Rightarrow>
      (case tenantForm of None \<Rightarrow> Inl (Plain ''cannot forward this apply'')
      | Some tenantForm \<Rightarrow>
        bindR (sch_FieldsFromJSON (ev_scheme E) (the (mf_FieldsV1 entry))) (\<lambda>ownedFields.
        let stripped = upd_meta (\<lambda>m. m\<lparr>om_ManagedFields := []\<rparr>) upstream in
        (case typeObject E typeConverter stripped (ro_APIVersion tenantForm) of
           Inl _ \<Rightarrow> Inr None
         | Inr (typedUpstream, converter) \<Rightarrow>
           bindR (conversionDelta converter tenantForm stripped (ro_APIVersion tenantForm)) (\<lambda>injected.
           (case tv_ExtractItems typedUpstream (sch_Leaves (ev_scheme E) (appliedFields tp ownedFields injected)) of
              None \<Rightarrow> Inl (Plain ''the fields this apply owns did not come back as an object'')
            | Some extracted \<Rightarrow> Inr (Some (patchIdentity upstream extracted))))))))))"

definition forwardApply ::
  "'s env \<Rightarrow> 's \<Rightarrow> tenantProxy \<Rightarrow> Context \<Rightarrow> robject \<Rightarrow> robject option \<Rightarrow> string \<Rightarrow> WriteOptions \<Rightarrow>
   robject option result \<times> 's" where
  "forwardApply E s tp ctx upstream tenantForm fieldManager options =
     (case applyPatch E tp ctx upstream tenantForm fieldManager of
        Inl e \<Rightarrow> (Inl e, s)
      | Inr None \<Rightarrow> (Inr None, s)
      | Inr (Some patch) \<Rightarrow>
        bindS (getClient E tp ctx, s) (\<lambda>client s.
        bindS (up_Patch (ev_client E) s client (om_Name (ro_Meta upstream)) patch
            \<lparr>po_FieldManager = fieldManager, po_DryRun = wo_DryRun options, po_Force = cx_ApplyForce ctx\<rparr>)
          (\<lambda>applied s. (Inr (Some applied), s))))"

text \<open>The object as the tenant sent it, kept for an apply.\<close>

definition tenantSnapshot :: "'s env \<Rightarrow> tenantProxy \<Rightarrow> Context \<Rightarrow> robject \<Rightarrow> robject option result" where
  "tenantSnapshot E tp ctx obj =
     (if tp_subresource tp = [] \<and> cx_IsApplyPatch ctx
      then bindR (convertInternalObjectToUnstructuredObject E tp obj) (\<lambda>snapshot. Inr (Some snapshot))
      else Inr None)"

section \<open>Create\<close>

text \<open>The pod of a create is placed, projected and given its resolver before anything is checked.\<close>

definition createPod :: "'s env \<Rightarrow> tenantProxy \<Rightarrow> robject \<Rightarrow> string \<Rightarrow> robject result" where
  "createPod E tp obj tenantID =
     (if isPod obj \<and> tp_subresource tp = [] then
        let pod = PlacePod (ev_contract E) obj tenantID;
            pod = ProjectPodNamespace (ev_contract E) pod tenantID;
            pod = SetPodDNS (ev_contract E) pod tenantID (tp_tenantDNS tp)
        in (case ro_Body pod of PodB spec _ \<Rightarrow> bindR (RefusePodInlineCSIVolume spec) (\<lambda>_. Inr pod) | _ \<Rightarrow> Inr pod)
      else Inr obj)"

definition restoreObject :: "HiddenMetadata option \<Rightarrow> robject \<Rightarrow> robject option \<Rightarrow> robject" where
  "restoreObject h obj old = single (Restore h (Single obj) old) obj"

text \<open>
  The guards of a create, on the converted object.  Restore writes to the object: the guards after
  it see the object without hidden keys.
\<close>

definition createGuardsBefore :: "'s env \<Rightarrow> tenantProxy \<Rightarrow> robject \<Rightarrow> unit result" where
  "createGuardsBefore E tp obj =
     firstError [
       refuseInlineCSIVolume obj,
       refuseUnpublishedSnapshotClass (ev_contract E) tp obj,
       refusePreProvisionedSnapshot (ev_contract E) obj,
       refuseUnpublishedStorageClass (ev_contract E) tp obj,
       refuseUnpublishedVolumeAttributesClass (ev_contract E) tp obj None,
       refuseTenantChosenNode obj,
       refuseTenantBinding obj]"

definition createGuardsAfter :: "'s env \<Rightarrow> 's \<Rightarrow> tenantProxy \<Rightarrow> Context \<Rightarrow> robject \<Rightarrow> string \<Rightarrow> unit result" where
  "createGuardsAfter E s tp ctx obj tenantID =
     firstError [
       refuseTooManyNamespaces E s tp ctx obj tenantID,
       refuseTooManyCRDs E s tp ctx obj tenantID,
       refuseExternalNameService obj,
       refuseForgedEndpointAddress E s ctx obj,
       refuseUnpublishedEphemeralClasses (ev_contract E) tp obj None,
       refuseProbeHost obj,
       refuseNewExternalIPs obj None,
       refuseNodePorts obj None,
       bindR (refuseForeignClusterIP obj None) (\<lambda>_. Inr ()),
       refuseUnpublishedDeviceClass tp obj,
       refusePlatformQuotaWrite (ev_contract E) obj]"

text \<open>
  What is sent upstream.  The unstructured form is taken before Restore; it is the object itself
  when that is unstructured already, and a copy otherwise.
\<close>

definition createRequest :: "'s env \<Rightarrow> 's \<Rightarrow> tenantProxy \<Rightarrow> Context \<Rightarrow> robject \<Rightarrow> string \<Rightarrow> robject result" where
  "createRequest E s tp ctx obj tenantID =
     bindR (convertTenantObjectToUpstreamObject tp obj tenantID) (\<lambda>obj.
     bindR (createPod E tp obj tenantID) (\<lambda>obj.
     bindR (convertInternalObjectToUnstructuredObject E tp obj) (\<lambda>utd.
     bindR (refuseReservedName (ev_contract E) tp tenantID (om_Name (ro_Meta utd))) (\<lambda>_.
     bindR (refuseProjectedName (ev_contract E) tp (om_Name (ro_Meta utd))) (\<lambda>_.
     bindR (refuseProjectedLabel (ev_contract E) tp utd) (\<lambda>_.
     bindR (createGuardsBefore E tp obj) (\<lambda>_.
     let restored = restoreObject (tp_hiddenMetadata tp) obj None in
     bindR (createGuardsAfter E s tp ctx restored tenantID) (\<lambda>_.
     Inr (if isUnstructured obj then restored else utd)))))))))"

definition createSend ::
  "'s env \<Rightarrow> 's \<Rightarrow> tenantProxy \<Rightarrow> Context \<Rightarrow> robject \<Rightarrow> string \<Rightarrow> WriteOptions option \<Rightarrow> robject result \<times> 's" where
  "createSend E s tp ctx utd tenantID options =
     bindS (getClient E tp ctx, s) (\<lambda>client s.
     if tp_subresource tp = [] then
       (case options of None \<Rightarrow> (Inl (Panic ''nil options''), s)
        | Some options \<Rightarrow>
          mapError (\<lambda>err. TrimTenantIDFromError (ev_contract E) err tenantID)
            (up_Create (ev_client E) s client utd options))
     else
       (case cx_RequestInfo ctx of None \<Rightarrow> (Inl (Plain ''no request info in context''), s)
        | Some requestInfo \<Rightarrow>
        (case options of None \<Rightarrow> (Inl (Panic ''nil options''), s)
        | Some options \<Rightarrow>
          mapError (\<lambda>err. TrimTenantIDFromError (ev_contract E) err tenantID)
            (up_CreateSubresource (ev_client E) s client (upstreamName E tp (ri_Name requestInfo) tenantID) utd options
              (tp_subresource tp)))))"

definition Create ::
  "'s env \<Rightarrow> 's \<Rightarrow> tenantProxy \<Rightarrow> Context \<Rightarrow> robject \<Rightarrow> WriteOptions option \<Rightarrow> robject result \<times> 's" where
  "Create E s tp ctx obj options =
     (case tp_newFunc tp of None \<Rightarrow> (Inl (Plain ''newFunc is nil''), s)
      | Some fresh \<Rightarrow>
      (case cx_Tenant ctx of None \<Rightarrow> (Inl (Plain ''tanentID doesn't exist in context''), s)
      | Some tenantID \<Rightarrow>
        bindS (tenantSnapshot E tp ctx obj, s) (\<lambda>tenantForm s.
        bindS (createRequest E s tp ctx obj tenantID, s) (\<lambda>utd s.
        bindS (case options of
            Some o' \<Rightarrow>
              if tp_subresource tp = [] \<and> wo_FieldManager o' \<noteq> [] then
                mapError (\<lambda>err. TrimTenantIDFromError (ev_contract E) err tenantID)
                  (forwardApply E s tp ctx utd tenantForm (wo_FieldManager o')
                    \<lparr>wo_FieldManager = wo_FieldManager o', wo_DryRun = wo_DryRun o', wo_Rest = []\<rparr>)
              else (Inr None, s)
          | None \<Rightarrow> (Inr None, s)) (\<lambda>applied s.
        (case applied of
           Some got \<Rightarrow> (bindR (finishWrite E tp fresh got tenantID (requestNamespace tp ctx) True) (\<lambda>(out, _). Inr out), s)
         | None \<Rightarrow>
           bindS (createSend E s tp ctx utd tenantID options) (\<lambda>got s.
             (shown E tp ctx tenantID fresh got, s))))))))"

section \<open>Update\<close>

definition updateRequest :: "'s env \<Rightarrow> tenantProxy \<Rightarrow> Context \<Rightarrow> robject \<Rightarrow> string \<Rightarrow> (Target \<times> robject) result" where
  "updateRequest E tp ctx obj tenantID =
     bindR (convertTenantObjectToUpstreamObject tp obj tenantID) (\<lambda>obj.
     bindR (convertInternalObjectToUnstructuredObject E tp obj) (\<lambda>utd.
     bindR (getClient E tp ctx) (\<lambda>client.
     bindR (refuseReservedName (ev_contract E) tp tenantID (om_Name (ro_Meta utd))) (\<lambda>_.
     bindR (refuseProjectedName (ev_contract E) tp (om_Name (ro_Meta utd))) (\<lambda>_.
     bindR (refuseProjectedLabel (ev_contract E) tp utd) (\<lambda>_.
     Inr (client, utd)))))))"

definition updateSend ::
  "'s env \<Rightarrow> 's \<Rightarrow> tenantProxy \<Rightarrow> Target \<Rightarrow> robject \<Rightarrow> WriteOptions \<Rightarrow> (robject \<times> bool) result \<times> 's" where
  "updateSend E s tp client utd options =
     (if tp_subresource tp = [] then up_Update (ev_client E) s client utd options []
      else if tp_subresource tp = ''status'' then
        bindS (up_UpdateStatus (ev_client E) s client utd options) (\<lambda>got s. (Inr (got, False), s))
      else up_Update (ev_client E) s client utd options (tp_subresource tp))"

text \<open>The callers have checked that there is a fresh object.\<close>

definition update ::
  "'s env \<Rightarrow> 's \<Rightarrow> tenantProxy \<Rightarrow> Context \<Rightarrow> robject \<Rightarrow> robject \<Rightarrow> WriteOptions option \<Rightarrow> (robject \<times> bool) result \<times> 's" where
  "update E s tp ctx fresh obj options =
     (case cx_Tenant ctx of None \<Rightarrow> (Inl (Plain ''missing tenantID in context''), s)
      | Some tenantID \<Rightarrow>
        bindS (refuseInlineCSIVolume obj, s) (\<lambda>_ s.
        bindS (tenantSnapshot E tp ctx obj, s) (\<lambda>tenantForm s.
        bindS (updateRequest E tp ctx obj tenantID, s) (\<lambda>(client, utd) s.
        bindS (case options of
            Some o' \<Rightarrow>
              if tp_subresource tp = [] then
                mapError (\<lambda>err. TrimTenantIDFromError (ev_contract E) err tenantID)
                  (forwardApply E s tp ctx utd tenantForm (wo_FieldManager o') o')
              else (Inr None, s)
          | None \<Rightarrow> (Inr None, s)) (\<lambda>applied s.
        (case applied of
           Some got \<Rightarrow> (finishWrite E tp fresh got tenantID (requestNamespace tp ctx) False, s)
         | None \<Rightarrow>
           (case options of None \<Rightarrow> (Inl (Panic ''nil options''), s)
            | Some options \<Rightarrow>
              bindS (mapError (\<lambda>err. TrimTenantIDFromError (ev_contract E) err tenantID)
                  (updateSend E s tp client utd options)) (\<lambda>(got, created) s.
                (bindR (shown E tp ctx tenantID fresh got) (\<lambda>out. Inr (out, created)), s)))))))))"

text \<open>The guards Update and guaranteedUpdate run, in this order, on the object in the tenant's terms.\<close>

definition updateGuards :: "'s env \<Rightarrow> 's \<Rightarrow> tenantProxy \<Rightarrow> Context \<Rightarrow> robject \<Rightarrow> robject \<Rightarrow> robject result" where
  "updateGuards E s tp ctx obj original =
     bindR (firstError [
       refuseUnpublishedVolumeAttributesClass (ev_contract E) tp obj (Some original),
       refuseExternalNameService obj,
       refuseForgedEndpointAddress E s ctx obj,
       refuseUnpublishedEphemeralClasses (ev_contract E) tp obj (Some original),
       refuseTenantWrittenPodAddresses tp obj (Some original),
       refuseProbeHost obj,
       refuseNewExternalIPs obj (Some original)]) (\<lambda>_.
     bindR (refuseForeignClusterIP obj (Some original)) (\<lambda>obj.
     bindR (refuseTenantBinding obj) (\<lambda>_.
     let obj = restoreObject (tp_hiddenMetadata tp) obj (Some original) in
     bindR (firstError [
       refuseNodePorts obj (Some original),
       refuseUnpublishedDeviceClass tp obj,
       refusePlatformQuotaWrite (ev_contract E) obj]) (\<lambda>_. Inr obj))))"

text \<open>rest.UpdatedObjectInfo: the tenant's change as a function of the stored object.\<close>

record Preconditions =
  pc_UID :: "string option"
  pc_ResourceVersion :: "string option"

record UpdatedObjectInfo =
  oi_UpdatedObject :: "Context \<Rightarrow> robject \<Rightarrow> robject result"
  oi_Preconditions :: "Preconditions option"

definition checkPreconditions :: "Preconditions option \<Rightarrow> robject \<Rightarrow> unit result" where
  "checkPreconditions preconditions obj =
     (case preconditions of None \<Rightarrow> Inr ()
      | Some p \<Rightarrow>
        (case Accessor obj of Inl _ \<Rightarrow> Inl (Plain ''un-introspectable object'')
         | Inr m \<Rightarrow>
           if (case pc_UID p of None \<Rightarrow> False | Some uid \<Rightarrow> uid \<noteq> om_UID m)
             then Inl (Plain ''precondition failed: UID'')
           else if (case pc_ResourceVersion p of None \<Rightarrow> False | Some rv \<Rightarrow> rv \<noteq> om_ResourceVersion m)
             then Inl (Plain ''precondition failed: ResourceVersion'')
           else Inr ()))"

text \<open>
  What both updates start from: the stored object, or a fresh one where there is none and the
  write may create it.  The boolean is whether it was missing.
\<close>

definition originalFor ::
  "'s env \<Rightarrow> 's \<Rightarrow> tenantProxy \<Rightarrow> Context \<Rightarrow> string \<Rightarrow> robject \<Rightarrow> bool \<Rightarrow> (robject \<times> bool) result" where
  "originalFor E s tp ctx name fresh forceAllowCreate =
     (case readForUpdate E s tp ctx name of
        Inr original \<Rightarrow> Inr (original, False)
      | Inl err \<Rightarrow> if \<not> IsNotFound err \<or> \<not> forceAllowCreate then Inl err else Inr (fresh, True))"

datatype 'a attempt = Done 'a | Retry

definition sublist_of :: "string \<Rightarrow> string \<Rightarrow> bool" where
  "sublist_of sub text = list_ex (\<lambda>i. take (length sub) (drop i text) = sub) [0..<Suc (length text)]"

definition isStaleWrite :: "'s env \<Rightarrow> error \<Rightarrow> bool" where
  "isStaleWrite E err =
     (case err of Conflict msg \<Rightarrow> sublist_of (OptimisticLockErrorMsg (ev_util E)) msg | _ \<Rightarrow> False)"

text \<open>One turn of the loop of guaranteedUpdate.\<close>

definition guaranteedUpdate_attempt ::
  "'s env \<Rightarrow> 's \<Rightarrow> tenantProxy \<Rightarrow> Context \<Rightarrow> string \<Rightarrow> robject \<Rightarrow> UpdatedObjectInfo \<Rightarrow> bool \<Rightarrow> WriteOptions \<Rightarrow>
   (robject \<times> bool) result attempt \<times> 's" where
  "guaranteedUpdate_attempt E s tp ctx name fresh objInfo forceAllowCreate options =
     (case originalFor E s tp ctx name fresh forceAllowCreate of
        Inl err \<Rightarrow> (Done (Inl err), s)
      | Inr (original, missing) \<Rightarrow>
        (case bindR (checkPreconditions (oi_Preconditions objInfo) original) (\<lambda>_. oi_UpdatedObject objInfo ctx original) of
           Inl err \<Rightarrow> (Done (Inl err), s)
         | Inr updated \<Rightarrow>
           if missing then
             (case Create E s tp ctx updated (Some \<lparr>wo_FieldManager = wo_FieldManager options,
                 wo_DryRun = wo_DryRun options, wo_Rest = []\<rparr>) of
                (Inl err, s) \<Rightarrow> if IsAlreadyExists err then (Retry, s) else (Done (Inl err), s)
              | (Inr created, s) \<Rightarrow> (Done (Inr (created, True)), s))
           else
             (case updateGuards E s tp ctx updated original of
                Inl err \<Rightarrow> (Done (Inl err), s)
              | Inr obj \<Rightarrow>
                (case update E s tp ctx fresh obj (Some options) of
                   (Inl err, s) \<Rightarrow> if isStaleWrite E err then (Retry, s) else (Done (Inl err), s)
                 | (Inr got, s) \<Rightarrow> (Done (Inr got), s)))))"

text \<open>
  The loop.  Other clients write between the turns: \<open>others n\<close> is what they did to the state
  before turn n.  None is a loop that never returns.
\<close>

partial_function (option) guaranteedUpdate ::
  "'s env \<Rightarrow> (nat \<Rightarrow> 's \<Rightarrow> 's) \<Rightarrow> nat \<Rightarrow> 's \<Rightarrow> tenantProxy \<Rightarrow> Context \<Rightarrow> string \<Rightarrow> robject \<Rightarrow> UpdatedObjectInfo \<Rightarrow> bool \<Rightarrow>
   WriteOptions \<Rightarrow> ((robject \<times> bool) result \<times> 's) option" where
  "guaranteedUpdate E others n s tp ctx name fresh objInfo forceAllowCreate options =
     (case guaranteedUpdate_attempt E (others n s) tp ctx name fresh objInfo forceAllowCreate options of
        (Done r, s') \<Rightarrow> Some (r, s')
      | (Retry, s') \<Rightarrow> guaranteedUpdate E others (Suc n) s' tp ctx name fresh objInfo forceAllowCreate options)"

definition Update ::
  "'s env \<Rightarrow> (nat \<Rightarrow> 's \<Rightarrow> 's) \<Rightarrow> 's \<Rightarrow> tenantProxy \<Rightarrow> Context \<Rightarrow> string \<Rightarrow> UpdatedObjectInfo \<Rightarrow> bool \<Rightarrow> WriteOptions \<Rightarrow>
   ((robject \<times> bool) result \<times> 's) option" where
  "Update E others s tp ctx name objInfo forceAllowCreate options =
     (case tp_newFunc tp of None \<Rightarrow> Some (Inl (Plain ''newFunc is nil''), s)
      | Some fresh \<Rightarrow>
      (case cx_RequestInfo ctx of None \<Rightarrow> Some (Inl (Plain ''missing requestInfo''), s)
      | Some requestInfo \<Rightarrow>
        if ri_Verb requestInfo = ''patch'' then
          guaranteedUpdate E others 0 s tp ctx name fresh objInfo forceAllowCreate options
        else Some
          (bindS (originalFor E s tp ctx name fresh forceAllowCreate, s) (\<lambda>(original, _) s.
           bindS (oi_UpdatedObject objInfo ctx original, s) (\<lambda>obj s.
           bindS (updateGuards E s tp ctx obj original, s) (\<lambda>obj s.
           update E s tp ctx fresh obj (Some options)))))))"

section \<open>What a create sends\<close>

lemma scheme_okD:
  assumes "scheme_ok S"
  shows "sch_FromUnstructured S u orig = Inr v \<Longrightarrow> v = u" "sch_Convert S v out = Inr w \<Longrightarrow> w = v"
    "sch_ConvertToVersion S k obj = Inr v' \<Longrightarrow> v' = obj" "sch_ToUnstructured S v = Inr u' \<Longrightarrow> u' = v"
    "sch_ListFromUnstructured S k l = Inr l' \<Longrightarrow> l' = l"
  using assms unfolding scheme_ok_def by blast+

lemma convertInternal_same:
  assumes "scheme_ok (ev_scheme E)" "convertInternalObjectToUnstructuredObject E tp obj = Inr u"
  shows "u = obj"
  using assms(2)
  by (auto simp: convertInternalObjectToUnstructuredObject_def convertInternalObjectToVersionedObject_def
      bindR_Inr_iff split: if_splits dest!: scheme_okD(3,4) [OF assms(1)])

lemma convertOutput_same:
  assumes "scheme_ok (ev_scheme E)" "convertUnstructuredToOutput E tp utd fresh = Inr out"
  shows "out = utd"
  using assms(2)
  by (auto simp: convertUnstructuredToOutput_def bindR_Inr_iff split: if_splits dest!: scheme_okD(1,2) [OF assms(1)])

lemma restoreObject_alt:
  "restoreObject h obj old = (if h = None \<or> is_status obj then obj
     else restore_one h obj (case old of Some o' \<Rightarrow> if is_status o' then fresh_status else o' | None \<Rightarrow> fresh_status))"
  by (auto simp: restoreObject_def Restore_def forEachObject_def single_def restore_one_def Let_def fresh_status_def
      empty_meta_def split: option.splits)

lemma restoreObject_sel [simp]:
  "ro_Body (restoreObject h obj old) = ro_Body obj"
  "ro_Kind (restoreObject h obj old) = ro_Kind obj"
  "ro_APIVersion (restoreObject h obj old) = ro_APIVersion obj"
  "om_Name (ro_Meta (restoreObject h obj old)) = om_Name (ro_Meta obj)"
  "om_Namespace (ro_Meta (restoreObject h obj old)) = om_Namespace (ro_Meta obj)"
  by (simp_all add: restoreObject_alt restore_one_def)

lemma body_cong:
  assumes "ro_Body a = ro_Body b"
  shows "isPod a = isPod b" "isUnstructured a = isUnstructured b"
    "podSpec_or_nil a = podSpec_or_nil b" "endpointAddresses a = endpointAddresses b"
    "deviceClassNamesOf a = deviceClassNamesOf b"
  using assms
  by (simp_all add: isPod_def isUnstructured_def podSpec_or_nil_def PodSpecOf_def podSpecOf_def podTemplateOf_def
      endpointAddresses_def deviceClassNamesOf_def split: body.splits)

lemma project_volumes:
  "v \<in> set (ps_Volumes (snd (project C m s ns))) \<Longrightarrow> vol_CSI v \<noteq> None \<Longrightarrow>
     \<exists>w \<in> set (ps_Volumes s). vol_CSI w \<noteq> None"
proof -
  have upd: "v \<in> set (upd_saVolume retargetNamespaceSource vs) \<Longrightarrow> vol_CSI v \<noteq> None \<Longrightarrow>
      \<exists>w \<in> set vs. vol_CSI w \<noteq> None" for vs
    by (induction vs) (auto simp: retargetNamespaceSource_def split: if_splits option.splits)
  show "v \<in> set (ps_Volumes (snd (project C m s ns))) \<Longrightarrow> vol_CSI v \<noteq> None \<Longrightarrow>
     \<exists>w \<in> set (ps_Volumes s). vol_CSI w \<noteq> None"
    by (auto simp: project_def Let_def split: if_splits dest: upd)
qed

lemma createPod_other: "\<not> (isPod obj \<and> tp_subresource tp = []) \<Longrightarrow> createPod E tp obj tid = Inr pod \<longleftrightarrow> pod = obj"
  by (auto simp: createPod_def)

lemma createPod_pod:
  assumes "createPod E tp obj tid = Inr pod" "isPod obj" "tp_subresource tp = []"
  shows "\<exists>spec st. ro_Body pod = PodB spec st \<and> placed (ev_contract E) tid spec \<and>
      (\<forall>v \<in> set (ps_Volumes spec). vol_CSI v = None)"
    and "om_Name (ro_Meta pod) = om_Name (ro_Meta obj) \<and> om_Namespace (ro_Meta pod) = om_Namespace (ro_Meta obj)"
proof -
  from assms(2) obtain spec st where obj: "ro_Body obj = PodB spec st"
    by (cases "ro_Body obj") (auto simp: isPod_def)
  let ?C = "ev_contract E"
  let ?ns = "TrimTenantIDPrefix ?C tid (om_Namespace (ro_Meta obj))"
  obtain m s where p: "project ?C (ro_Meta obj) (place ?C spec tid) ?ns = (m, s)" by (rule prod.exhaust)
  have m: "om_Name m = om_Name (ro_Meta obj)" "om_Namespace m = om_Namespace (ro_Meta obj)"
    using p by (auto simp: project_def stampTenantNamespace_def Let_def split: if_splits)
  have placed: "placed ?C tid s" using placed_project [of ?C tid "ro_Meta obj" "place ?C spec tid" ?ns] p by simp
  from assms obj p m placed
  show "\<exists>spec st. ro_Body pod = PodB spec st \<and> placed ?C tid spec \<and> (\<forall>v \<in> set (ps_Volumes spec). vol_CSI v = None)"
    and "om_Name (ro_Meta pod) = om_Name (ro_Meta obj) \<and> om_Namespace (ro_Meta pod) = om_Namespace (ro_Meta obj)"
    by (auto simp: createPod_def PlacePod_def ProjectPodNamespace_def SetPodDNS_def RefusePodInlineCSIVolume_def
        inlineCSIError_def list_ex_iff Let_def bindR_Inr_iff)
qed

lemma createRequest_Inr:
  assumes "scheme_ok (ev_scheme E)" "createRequest E s tp ctx obj tid = Inr sent"
  shows "\<exists>up pod. convertTenantObjectToUpstreamObject tp obj tid = Inr up \<and> createPod E tp up tid = Inr pod \<and>
     refuseReservedName (ev_contract E) tp tid (om_Name (ro_Meta pod)) = Inr () \<and>
     refuseProjectedName (ev_contract E) tp (om_Name (ro_Meta pod)) = Inr () \<and>
     refuseProjectedLabel (ev_contract E) tp pod = Inr () \<and>
     createGuardsBefore E tp pod = Inr () \<and>
     createGuardsAfter E s tp ctx (restoreObject (tp_hiddenMetadata tp) pod None) tid = Inr () \<and>
     sent = (if isUnstructured pod then restoreObject (tp_hiddenMetadata tp) pod None else pod)"
  using assms unfolding createRequest_def bindR_Inr_iff Let_def
  by (auto dest!: convertInternal_same [OF assms(1)])

end
