(* ===== verification/Crb_Projection.thy ===== *)
theory Crb_Projection
  imports Tenant_Writes
begin

text \<open>
  The projection of ClusterRoleBindings (crbprojection.go).  A ClusterRoleBinding of a tenant is
  kept as a RoleBinding, the record, in the tenant's kube-system, with a copy in every other
  namespace of the tenant.
\<close>

section \<open>Definitions\<close>

text \<open>The selectors of the Kubernetes libraries: labels.Selector and fields.Selector, as text.\<close>

record selectors =
  sel_FromSet :: "string \<Rightarrow> string \<Rightarrow> string"
  sel_Empty :: "string \<Rightarrow> bool"
  sel_Requirements :: "string \<Rightarrow> string list option"
  sel_Add :: "string \<Rightarrow> string list \<Rightarrow> string"
  sel_Transform :: "string \<Rightarrow> (string \<Rightarrow> string \<Rightarrow> (string \<times> string) result) \<Rightarrow> string result"

definition canonicalNamespace :: string where
  "canonicalNamespace = ''kube-system''"

definition roleBindingGVR :: GroupVersionResource where
  "roleBindingGVR = \<lparr>gvr_Group = ''rbac.authorization.k8s.io'', gvr_Version = ''v1'', gvr_Resource = ''rolebindings''\<rparr>"

definition inNamespace :: "Context \<Rightarrow> string \<Rightarrow> Context" where
  "inNamespace ctx namespace =
     (case cx_RequestInfo ctx of None \<Rightarrow> ctx
      | Some info \<Rightarrow> ctx\<lparr>cx_RequestInfo := Some (info\<lparr>ri_Namespace := namespace\<rparr>)\<rparr>)"

subsection \<open>The record and the object\<close>

definition asRoleBinding :: "contract \<Rightarrow> robject \<Rightarrow> robject result" where
  "asRoleBinding C obj =
     (case ro_Body obj of
        ClusterRoleBindingB subjects roleRef \<Rightarrow>
          if list_ex (\<lambda>s. sub_Kind s = ''ServiceAccount'' \<and> sub_Namespace s = []) subjects
            then Inl (Invalid ''subjects.namespace'')
          else
            let crb = ro_Meta obj in
            bindR (if om_Name crb \<noteq> [] then Inr (crb\<lparr>om_Name := ProjectedBindingName C (om_Name crb), om_GenerateName := []\<rparr>)
                else if om_GenerateName crb \<noteq> []
                  then Inr (crb\<lparr>om_Name := [], om_GenerateName := ProjectedBindingName C (om_GenerateName crb)\<rparr>)
                else Inl (BadRequest ''a ClusterRoleBinding needs a name or a generateName'')) (\<lambda>record.
              Inr \<lparr>ro_APIVersion = [], ro_Kind = [],
                ro_Meta = record\<lparr>om_Namespace := canonicalNamespace,
                  om_Labels := (om_Labels record)(ProjectedClusterRoleBindingLabelKey C \<mapsto> ''true'')\<rparr>,
                ro_Body = RoleBindingB subjects roleRef\<rparr>)
      | _ \<Rightarrow> Inl (Plain ''expected a ClusterRoleBinding''))"

definition asClusterRoleBinding :: "contract \<Rightarrow> robject \<Rightarrow> robject result" where
  "asClusterRoleBinding C obj =
     (case ro_Body obj of
        RoleBindingB subjects roleRef \<Rightarrow>
          let record = ro_Meta obj in
          Inr \<lparr>ro_APIVersion = [], ro_Kind = [],
            ro_Meta = record\<lparr>om_Name := TrimProjectedBindingName C (om_Name record),
              om_GenerateName := (if om_GenerateName record \<noteq> [] then TrimProjectedBindingName C (om_GenerateName record)
                else om_GenerateName record),
              om_Namespace := [],
              om_Labels := (om_Labels record)(ProjectedClusterRoleBindingLabelKey C := None)\<rparr>,
            ro_Body = ClusterRoleBindingB subjects roleRef\<rparr>
      | _ \<Rightarrow> Inl (Plain ''expected a RoleBinding record''))"

text \<open>An error about the record becomes one about the object; an error without a status stays.\<close>

definition asClusterRoleBindingError :: "contract \<Rightarrow> error \<Rightarrow> string \<Rightarrow> error" where
  "asClusterRoleBindingError C err name =
     (let reshaped = (\<lambda>message. ReplaceAll (ReplaceAll message (ProjectedBindingName C name) name)
        ''rolebindings.rbac.authorization.k8s.io'' ''clusterrolebindings.rbac.authorization.k8s.io'')
      in case err of
        Forbidden m \<Rightarrow> Forbidden (reshaped m) | BadRequest m \<Rightarrow> BadRequest (reshaped m) | Invalid m \<Rightarrow> Invalid (reshaped m)
      | NotFound m \<Rightarrow> NotFound (reshaped m) | AlreadyExists m \<Rightarrow> AlreadyExists (reshaped m) | Conflict m \<Rightarrow> Conflict (reshaped m)
      | MethodNotSupported m \<Rightarrow> MethodNotSupported (reshaped m) | Expired m \<Rightarrow> Expired (reshaped m)
      | ServiceUnavailable m \<Rightarrow> ServiceUnavailable (reshaped m) | InternalError m \<Rightarrow> InternalError (reshaped m)
      | _ \<Rightarrow> err)"

subsection \<open>Selecting the records\<close>

definition projectedField :: "contract \<Rightarrow> string \<Rightarrow> string \<Rightarrow> (string \<times> string) result" where
  "projectedField C label v =
     (if label = ''metadata.name'' then Inr (label, if v \<noteq> [] then ProjectedBindingName C v else v)
      else if label = ''metadata.namespace'' then Inl (Plain ''metadata.namespace is not a field of a clusterrolebinding'')
      else Inr (label, v))"

definition withProjectedSelector :: "contract \<Rightarrow> selectors \<Rightarrow> ListOptions option \<Rightarrow> ListOptions result" where
  "withProjectedSelector C S options =
     (let scoped = (case options of None \<Rightarrow> empty_ListOptions | Some o' \<Rightarrow> o');
          selector = sel_FromSet S (ProjectedClusterRoleBindingLabelKey C) ''true'';
          selector = (if \<not> sel_Empty S (lo_LabelSelector scoped)
            then (case sel_Requirements S (lo_LabelSelector scoped) of
                Some requirements \<Rightarrow> sel_Add S selector requirements | None \<Rightarrow> selector)
            else selector);
          scoped = scoped\<lparr>lo_LabelSelector := selector\<rparr>
      in if lo_FieldSelector scoped \<noteq> []
         then (case sel_Transform S (lo_FieldSelector scoped) (projectedField C) of
             Inl _ \<Rightarrow> Inl (BadRequest ''fieldSelector'')
           | Inr transformed \<Rightarrow> Inr (scoped\<lparr>lo_FieldSelector := transformed\<rparr>))
         else Inr scoped)"

subsection \<open>The copies\<close>

definition bindingsIn :: "Context \<Rightarrow> string \<Rightarrow> Target" where
  "bindingsIn ctx namespace = \<lparr>tg_User = cx_User ctx, tg_Resource = roleBindingGVR, tg_Namespace = namespace\<rparr>"

definition plainWrite :: WriteOptions where
  "plainWrite = \<lparr>wo_FieldManager = [], wo_DryRun = [], wo_Rest = []\<rparr>"

definition copyInto :: "robject \<Rightarrow> string \<Rightarrow> robject" where
  "copyInto record namespace = upd_meta (\<lambda>m. m\<lparr>om_Namespace := namespace, om_ResourceVersion := [], om_UID := [],
     om_CreationTimestamp := [], om_ManagedFields := []\<rparr>) record"

text \<open>One turn of the loop of project: what fails is left to the controller.\<close>

definition putCopy :: "'s env \<Rightarrow> Context \<Rightarrow> string \<Rightarrow> robject \<Rightarrow> string \<Rightarrow> 's \<Rightarrow> 's" where
  "putCopy E ctx recordName record namespace s =
     (let copied = copyInto record namespace; client = bindingsIn ctx namespace in
      case up_Create (ev_client E) s client copied plainWrite of
        (Inr _, s) \<Rightarrow> s
      | (Inl _, s) \<Rightarrow>
        (case up_Get (ev_client E) s client recordName [] [] of
           Inl _ \<Rightarrow> s
         | Inr existing \<Rightarrow>
           snd (up_Update (ev_client E) s client
             (upd_meta (\<lambda>m. m\<lparr>om_ResourceVersion := om_ResourceVersion (ro_Meta existing)\<rparr>) copied) plainWrite [])))"

definition putCopies :: "'s env \<Rightarrow> Context \<Rightarrow> string \<Rightarrow> robject \<Rightarrow> string \<Rightarrow> string list \<Rightarrow> 's \<Rightarrow> 's" where
  "putCopies E ctx recordName record upstreamRecord namespaces s =
     fold (\<lambda>namespace s. if namespace = upstreamRecord then s else putCopy E ctx recordName record namespace s) namespaces s"

definition clusterRoleBindingProjection_project :: "'s env \<Rightarrow> 's \<Rightarrow> Context \<Rightarrow> string \<Rightarrow> 's" where
  "clusterRoleBindingProjection_project E s ctx recordName =
     (case cx_Tenant ctx of None \<Rightarrow> s
      | Some tenantID \<Rightarrow>
      (case tenantNamespaces E s ctx tenantID [] of Inl _ \<Rightarrow> s
      | Inr (namespaces, _) \<Rightarrow>
        let upstreamRecord = AddTenantIDPrefix (ev_contract E) tenantID canonicalNamespace in
        (case up_Get (ev_client E) s (bindingsIn ctx upstreamRecord) recordName [] [] of Inl _ \<Rightarrow> s
         | Inr record \<Rightarrow> putCopies E ctx recordName record upstreamRecord namespaces s)))"

definition clusterRoleBindingProjection_unproject :: "'s env \<Rightarrow> 's \<Rightarrow> Context \<Rightarrow> string \<Rightarrow> 's" where
  "clusterRoleBindingProjection_unproject E s ctx recordName =
     (case cx_Tenant ctx of None \<Rightarrow> s
      | Some tenantID \<Rightarrow>
      (case tenantNamespaces E s ctx tenantID [] of Inl _ \<Rightarrow> s
      | Inr (namespaces, _) \<Rightarrow>
        fold (\<lambda>namespace s. snd (up_Delete (ev_client E) s (bindingsIn ctx namespace) recordName [] [])) namespaces s))"

subsection \<open>The storage\<close>

definition clusterRoleBindingProjection_Get ::
  "'s env \<Rightarrow> 's \<Rightarrow> clusterRoleBindingProjection \<Rightarrow> Context \<Rightarrow> string \<Rightarrow> opaque \<Rightarrow> robject result" where
  "clusterRoleBindingProjection_Get E s p ctx name options =
     (case Get E s (cp_inner p) (inNamespace ctx canonicalNamespace) (ProjectedBindingName (ev_contract E) name) options of
        Inl err \<Rightarrow> Inl (asClusterRoleBindingError (ev_contract E) err name)
      | Inr obj \<Rightarrow> asClusterRoleBinding (ev_contract E) obj)"

fun asClusterRoleBindings :: "contract \<Rightarrow> robject list \<Rightarrow> robject list result" where
  "asClusterRoleBindings C [] = Inr []"
| "asClusterRoleBindings C (item # items) =
     bindR (asClusterRoleBinding C item) (\<lambda>converted.
     bindR (asClusterRoleBindings C items) (\<lambda>rest. Inr (converted # rest)))"

definition clusterRoleBindingProjection_List ::
  "cursor_json \<Rightarrow> selectors \<Rightarrow> 's env \<Rightarrow> 's \<Rightarrow> clusterRoleBindingProjection \<Rightarrow> Context \<Rightarrow> ListOptions option \<Rightarrow>
   UnstructuredList result" where
  "clusterRoleBindingProjection_List J S E s p ctx options =
     bindR (withProjectedSelector (ev_contract E) S options) (\<lambda>scoped.
     bindR (list J E s (cp_inner p) (inNamespace ctx canonicalNamespace) scoped) (\<lambda>l.
     if tp_newListFunc (cp_inner p) \<noteq> Some False then Inl (Plain ''expected a RoleBindingList'')
     else bindR (asClusterRoleBindings (ev_contract E) (ul_Items l)) (\<lambda>items.
       Inr (l\<lparr>ul_APIVersion := [], ul_Items := items\<rparr>))))"

definition refuseTooManyBindings ::
  "cursor_json \<Rightarrow> selectors \<Rightarrow> 's env \<Rightarrow> 's \<Rightarrow> clusterRoleBindingProjection \<Rightarrow> Context \<Rightarrow> unit result" where
  "refuseTooManyBindings J S E s p ctx =
     (let tenantID = (case cx_Tenant ctx of None \<Rightarrow> [] | Some t \<Rightarrow> t);
          limit = maxClusterRoleBindingsFor (cp_tenants p) tenantID (cp_maxBindings p)
      in if limit \<le> 0 then Inr ()
         else bindR (withProjectedSelector (ev_contract E) S (Some empty_ListOptions)) (\<lambda>scoped.
           case list J E s (cp_inner p) (inNamespace ctx canonicalNamespace) scoped of
             Inl _ \<Rightarrow> Inr ()
           | Inr l \<Rightarrow>
             if tp_newListFunc (cp_inner p) \<noteq> Some False then Inr ()
             else if int (length (ul_Items l)) < limit then Inr () else Inl (Forbidden ''clusterrolebindings'')))"

definition clusterRoleBindingProjection_Create ::
  "cursor_json \<Rightarrow> selectors \<Rightarrow> 's env \<Rightarrow> 's \<Rightarrow> clusterRoleBindingProjection \<Rightarrow> Context \<Rightarrow> robject \<Rightarrow> WriteOptions option \<Rightarrow>
   robject result \<times> 's" where
  "clusterRoleBindingProjection_Create J S E s p ctx obj options =
     bindS (asRoleBinding (ev_contract E) obj, s) (\<lambda>record s.
     bindS (refuseTooManyBindings J S E s p ctx, s) (\<lambda>_ s.
     bindS (mapError (\<lambda>err. asClusterRoleBindingError (ev_contract E) err (om_Name (ro_Meta obj)))
         (Create E s (cp_inner p) (inNamespace ctx canonicalNamespace) record options)) (\<lambda>created s.
     (asClusterRoleBinding (ev_contract E) created,
      (case ro_Body created of RoleBindingB _ _ \<Rightarrow> clusterRoleBindingProjection_project E s ctx (om_Name (ro_Meta created)) | _ \<Rightarrow> s)))))"

text \<open>The tenant's change, written against a ClusterRoleBinding, as a change of the record.\<close>

definition projectedUpdatedObject :: "contract \<Rightarrow> UpdatedObjectInfo \<Rightarrow> UpdatedObjectInfo" where
  "projectedUpdatedObject C inner = \<lparr>
     oi_UpdatedObject = (\<lambda>ctx oldObj.
       bindR (asClusterRoleBinding C oldObj) (\<lambda>oldCRB.
       bindR (oi_UpdatedObject inner ctx oldCRB) (\<lambda>updated. asRoleBinding C updated))),
     oi_Preconditions = oi_Preconditions inner\<rparr>"

definition clusterRoleBindingProjection_Update ::
  "'s env \<Rightarrow> (nat \<Rightarrow> 's \<Rightarrow> 's) \<Rightarrow> 's \<Rightarrow> clusterRoleBindingProjection \<Rightarrow> Context \<Rightarrow> string \<Rightarrow> UpdatedObjectInfo \<Rightarrow> bool \<Rightarrow>
   WriteOptions \<Rightarrow> ((robject \<times> bool) result \<times> 's) option" where
  "clusterRoleBindingProjection_Update E others s p ctx name objInfo forceAllowCreate options =
     (let recordName = ProjectedBindingName (ev_contract E) name in
      case Update E others s (cp_inner p) (inNamespace ctx canonicalNamespace) recordName
          (projectedUpdatedObject (ev_contract E) objInfo) forceAllowCreate options of
        None \<Rightarrow> None
      | Some (Inl err, s) \<Rightarrow> Some (Inl (asClusterRoleBindingError (ev_contract E) err name), s)
      | Some (Inr (updated, created), s) \<Rightarrow>
        Some (bindR (asClusterRoleBinding (ev_contract E) updated) (\<lambda>out. Inr (out, created)), clusterRoleBindingProjection_project E s ctx recordName))"

definition clusterRoleBindingProjection_Delete ::
  "'s env \<Rightarrow> 's \<Rightarrow> clusterRoleBindingProjection \<Rightarrow> Context \<Rightarrow> string \<Rightarrow> opaque \<Rightarrow> (robject \<times> bool) result \<times> 's" where
  "clusterRoleBindingProjection_Delete E s p ctx name options =
     (let recordName = ProjectedBindingName (ev_contract E) name in
      bindS (mapError (\<lambda>err. asClusterRoleBindingError (ev_contract E) err name)
          (Delete E s (cp_inner p) (inNamespace ctx canonicalNamespace) recordName options)) (\<lambda>(deleted, immediate) s.
      (case ro_Body deleted of
         RoleBindingB _ _ \<Rightarrow> bindR (asClusterRoleBinding (ev_contract E) deleted) (\<lambda>out. Inr (out, immediate))
       | _ \<Rightarrow> Inr (deleted, immediate),
       clusterRoleBindingProjection_unproject E s ctx recordName)))"

fun deleteBindings ::
  "'s env \<Rightarrow> clusterRoleBindingProjection \<Rightarrow> Context \<Rightarrow> opaque \<Rightarrow> robject list \<Rightarrow> 's \<Rightarrow> unit result \<times> 's" where
  "deleteBindings E p ctx options [] s = (Inr (), s)"
| "deleteBindings E p ctx options (item # items) s =
     bindS (clusterRoleBindingProjection_Delete E s p ctx (om_Name (ro_Meta item)) options) (\<lambda>_ s.
       deleteBindings E p ctx options items s)"

definition clusterRoleBindingProjection_DeleteCollection ::
  "cursor_json \<Rightarrow> selectors \<Rightarrow> 's env \<Rightarrow> 's \<Rightarrow> clusterRoleBindingProjection \<Rightarrow> Context \<Rightarrow> opaque \<Rightarrow> ListOptions option \<Rightarrow>
   UnstructuredList result \<times> 's" where
  "clusterRoleBindingProjection_DeleteCollection J S E s p ctx options listOptions =
     bindS (clusterRoleBindingProjection_List J S E s p ctx listOptions, s) (\<lambda>l s.
     bindS (deleteBindings E p ctx options (ul_Items l) s) (\<lambda>_ s. (Inr l, s)))"

section \<open>Properties\<close>

subsection \<open>The record and the object\<close>

text \<open>What a ClusterRoleBinding keeps on its way into the record and out of it again.\<close>

definition projected_view :: "contract \<Rightarrow> robject \<Rightarrow> robject" where
  "projected_view C obj = \<lparr>ro_APIVersion = [], ro_Kind = [],
     ro_Meta = (ro_Meta obj)\<lparr>om_GenerateName := (if om_Name (ro_Meta obj) \<noteq> [] then [] else om_GenerateName (ro_Meta obj)),
       om_Namespace := [], om_Labels := (om_Labels (ro_Meta obj))(ProjectedClusterRoleBindingLabelKey C := None)\<rparr>,
     ro_Body = ro_Body obj\<rparr>"

lemma asRoleBinding_Inr:
  "asRoleBinding C obj = Inr record \<longleftrightarrow>
     (\<exists>subjects roleRef. ro_Body obj = ClusterRoleBindingB subjects roleRef \<and>
        (\<forall>s \<in> set subjects. sub_Kind s = ''ServiceAccount'' \<longrightarrow> sub_Namespace s \<noteq> []) \<and>
        (om_Name (ro_Meta obj) \<noteq> [] \<or> om_GenerateName (ro_Meta obj) \<noteq> []) \<and>
        record = \<lparr>ro_APIVersion = [], ro_Kind = [],
          ro_Meta = (ro_Meta obj)\<lparr>
            om_Name := (if om_Name (ro_Meta obj) \<noteq> [] then ProjectedBindingName C (om_Name (ro_Meta obj)) else []),
            om_GenerateName := (if om_Name (ro_Meta obj) \<noteq> [] then [] else ProjectedBindingName C (om_GenerateName (ro_Meta obj))),
            om_Namespace := canonicalNamespace,
            om_Labels := (om_Labels (ro_Meta obj))(ProjectedClusterRoleBindingLabelKey C \<mapsto> ''true'')\<rparr>,
          ro_Body = RoleBindingB subjects roleRef\<rparr>)"
  by (cases "ro_Body obj") (auto simp: asRoleBinding_def Let_def list_ex_iff)

lemma asClusterRoleBinding_asRoleBinding:
  assumes "projection_ok C" "TrimProjectedBindingName C [] = []" "asRoleBinding C obj = Inr record"
  shows "asClusterRoleBinding C record = Inr (projected_view C obj)"
  using assms(1,2) assms(3) [unfolded asRoleBinding_Inr]
  by (auto simp: asClusterRoleBinding_def projected_view_def projection_ok_def Let_def)

lemma projected_view_same:
  assumes "ro_APIVersion obj = []" "ro_Kind obj = []" "om_Namespace (ro_Meta obj) = []"
    and "om_Name (ro_Meta obj) = [] \<or> om_GenerateName (ro_Meta obj) = []"
    and "om_Labels (ro_Meta obj) (ProjectedClusterRoleBindingLabelKey C) = None"
  shows "projected_view C obj = obj"
proof -
  have "(om_Labels (ro_Meta obj))(ProjectedClusterRoleBindingLabelKey C := None) = om_Labels (ro_Meta obj)"
    using assms(5) by (simp add: fun_upd_idem)
  with assms(1-4) show ?thesis
    by (cases obj; cases "ro_Meta obj") (auto simp: projected_view_def)
qed

subsection \<open>The copies\<close>

text \<open>
  What the upstream cluster grants through role bindings, by namespace and name, and how the calls
  that write them change it.  A create is refused only for a name that is taken, and an update
  that carries the stored resource version is accepted; a tenant may write in its own namespaces.
\<close>

type_synonym 's granted = "'s \<Rightarrow> string \<times> string \<Rightarrow> body option"

definition grants_ok :: "'s env \<Rightarrow> Context \<Rightarrow> 's granted \<Rightarrow> bool" where
  "grants_ok E ctx granted \<longleftrightarrow>
     (\<forall>s ns n obj. up_Get (ev_client E) s (bindingsIn ctx ns) n [] [] = Inr obj \<longrightarrow>
        granted s (ns, n) = Some (ro_Body obj) \<and> om_Name (ro_Meta obj) = n) \<and>
     (\<forall>s ns obj x s'. up_Create (ev_client E) s (bindingsIn ctx ns) obj plainWrite = (Inr x, s') \<longrightarrow>
        granted s' = (granted s)((ns, om_Name (ro_Meta obj)) \<mapsto> ro_Body obj)) \<and>
     (\<forall>s ns obj e s'. up_Create (ev_client E) s (bindingsIn ctx ns) obj plainWrite = (Inl e, s') \<longrightarrow>
        granted s' = granted s \<and> (\<exists>existing. up_Get (ev_client E) s' (bindingsIn ctx ns) (om_Name (ro_Meta obj)) [] [] = Inr existing)) \<and>
     (\<forall>s ns obj existing. up_Get (ev_client E) s (bindingsIn ctx ns) (om_Name (ro_Meta obj)) [] [] = Inr existing \<longrightarrow>
        om_ResourceVersion (ro_Meta obj) = om_ResourceVersion (ro_Meta existing) \<longrightarrow>
        granted (snd (up_Update (ev_client E) s (bindingsIn ctx ns) obj plainWrite [])) =
          (granted s)((ns, om_Name (ro_Meta obj)) \<mapsto> ro_Body obj)) \<and>
     (\<forall>s ns n. granted (snd (up_Delete (ev_client E) s (bindingsIn ctx ns) n [] [])) = (granted s)((ns, n) := None))"

lemma grants_okD:
  assumes "grants_ok E ctx granted"
  shows grants_get: "up_Get (ev_client E) s (bindingsIn ctx ns) n [] [] = Inr obj \<Longrightarrow>
      granted s (ns, n) = Some (ro_Body obj) \<and> om_Name (ro_Meta obj) = n"
    and grants_create: "up_Create (ev_client E) s (bindingsIn ctx ns) obj plainWrite = (Inr x, s') \<Longrightarrow>
      granted s' = (granted s)((ns, om_Name (ro_Meta obj)) \<mapsto> ro_Body obj)"
    and grants_taken: "up_Create (ev_client E) s (bindingsIn ctx ns) obj plainWrite = (Inl e, s') \<Longrightarrow>
      granted s' = granted s \<and> (\<exists>existing. up_Get (ev_client E) s' (bindingsIn ctx ns) (om_Name (ro_Meta obj)) [] [] = Inr existing)"
    and grants_update: "up_Get (ev_client E) s (bindingsIn ctx ns) (om_Name (ro_Meta obj)) [] [] = Inr existing \<Longrightarrow>
      om_ResourceVersion (ro_Meta obj) = om_ResourceVersion (ro_Meta existing) \<Longrightarrow>
      granted (snd (up_Update (ev_client E) s (bindingsIn ctx ns) obj plainWrite [])) =
        (granted s)((ns, om_Name (ro_Meta obj)) \<mapsto> ro_Body obj)"
    and grants_delete: "granted (snd (up_Delete (ev_client E) s (bindingsIn ctx ns) n [] [])) = (granted s)((ns, n) := None)"
proof -
  note laws = assms [unfolded grants_ok_def]
  note create = laws [THEN conjunct2, THEN conjunct1] and taken = laws [THEN conjunct2, THEN conjunct2, THEN conjunct1]
    and update = laws [THEN conjunct2, THEN conjunct2, THEN conjunct2, THEN conjunct1]
    and delete = laws [THEN conjunct2, THEN conjunct2, THEN conjunct2, THEN conjunct2]
  show "up_Get (ev_client E) s (bindingsIn ctx ns) n [] [] = Inr obj \<Longrightarrow>
      granted s (ns, n) = Some (ro_Body obj) \<and> om_Name (ro_Meta obj) = n"
    by (rule laws [THEN conjunct1, rule_format])
  show "up_Create (ev_client E) s (bindingsIn ctx ns) obj plainWrite = (Inr x, s') \<Longrightarrow>
      granted s' = (granted s)((ns, om_Name (ro_Meta obj)) \<mapsto> ro_Body obj)"
    by (rule create [rule_format])
  show "up_Create (ev_client E) s (bindingsIn ctx ns) obj plainWrite = (Inl e, s') \<Longrightarrow>
      granted s' = granted s \<and> (\<exists>existing. up_Get (ev_client E) s' (bindingsIn ctx ns) (om_Name (ro_Meta obj)) [] [] = Inr existing)"
    by (rule taken [rule_format])
  show "up_Get (ev_client E) s (bindingsIn ctx ns) (om_Name (ro_Meta obj)) [] [] = Inr existing \<Longrightarrow>
      om_ResourceVersion (ro_Meta obj) = om_ResourceVersion (ro_Meta existing) \<Longrightarrow>
      granted (snd (up_Update (ev_client E) s (bindingsIn ctx ns) obj plainWrite [])) =
        (granted s)((ns, om_Name (ro_Meta obj)) \<mapsto> ro_Body obj)"
    by (rule update [rule_format])
  show "granted (snd (up_Delete (ev_client E) s (bindingsIn ctx ns) n [] [])) = (granted s)((ns, n) := None)"
    by (rule delete [rule_format])
qed

lemma copyInto_simps [simp]:
  "ro_Body (copyInto record ns) = ro_Body record" "om_Name (ro_Meta (copyInto record ns)) = om_Name (ro_Meta record)"
  by (simp_all add: copyInto_def)

lemma putCopy_granted:
  assumes "grants_ok E ctx granted" "om_Name (ro_Meta record) = recordName"
  shows "granted (putCopy E ctx recordName record ns s) = (granted s)((ns, recordName) \<mapsto> ro_Body record)"
proof (cases "up_Create (ev_client E) s (bindingsIn ctx ns) (copyInto record ns) plainWrite")
  case (Pair r s1)
  show ?thesis
  proof (cases r)
    case (Inr x)
    with Pair have "granted s1 = (granted s)((ns, recordName) \<mapsto> ro_Body record)"
      using grants_create [OF assms(1)] assms(2) by fastforce
    then show ?thesis using Pair Inr by (simp add: putCopy_def)
  next
    case (Inl e)
    with Pair obtain existing where e: "granted s1 = granted s"
        "up_Get (ev_client E) s1 (bindingsIn ctx ns) recordName [] [] = Inr existing"
      using grants_taken [OF assms(1), of s ns "copyInto record ns" e s1] assms(2) by auto
    let ?c = "upd_meta (\<lambda>m. m\<lparr>om_ResourceVersion := om_ResourceVersion (ro_Meta existing)\<rparr>) (copyInto record ns)"
    have "granted (snd (up_Update (ev_client E) s1 (bindingsIn ctx ns) ?c plainWrite [])) =
        (granted s1)((ns, om_Name (ro_Meta ?c)) \<mapsto> ro_Body ?c)"
      by (rule grants_update [OF assms(1), of s1 ns ?c existing]) (use assms(2) e(2) in simp_all)
    then show ?thesis using Pair Inl e assms(2) by (simp add: putCopy_def)
  qed
qed

lemma putCopies_granted:
  assumes "grants_ok E ctx granted" "om_Name (ro_Meta record) = recordName"
  shows "granted (putCopies E ctx recordName record upstreamRecord nss s) (ns, n) =
    (if n = recordName \<and> ns \<in> set nss \<and> ns \<noteq> upstreamRecord then Some (ro_Body record) else granted s (ns, n))"
  unfolding putCopies_def
proof (induction nss arbitrary: s)
  case (Cons a nss)
  then show ?case using putCopy_granted [OF assms, of a s] by auto
qed simp

lemma project_granted:
  assumes "grants_ok E ctx granted" "cx_Tenant ctx = Some tid" "tenantNamespaces E s ctx tid [] = Inr (nss, rv)"
    and "up_Get (ev_client E) s (bindingsIn ctx (AddTenantIDPrefix (ev_contract E) tid canonicalNamespace)) recordName [] [] = Inr record"
  shows "granted (clusterRoleBindingProjection_project E s ctx recordName) (ns, n) =
    (if n = recordName \<and> ns \<in> set nss then Some (ro_Body record) else granted s (ns, n))"
proof -
  have r: "om_Name (ro_Meta record) = recordName"
      "granted s (AddTenantIDPrefix (ev_contract E) tid canonicalNamespace, recordName) = Some (ro_Body record)"
    using grants_get [OF assms(1) assms(4)] by simp_all
  show ?thesis
    using assms(2-4) r(2) putCopies_granted [OF assms(1) r(1)] by (auto simp: clusterRoleBindingProjection_project_def)
qed

lemma unproject_granted:
  assumes "grants_ok E ctx granted" "cx_Tenant ctx = Some tid" "tenantNamespaces E s ctx tid [] = Inr (nss, rv)"
  shows "granted (clusterRoleBindingProjection_unproject E s ctx recordName) (ns, n) =
    (if n = recordName \<and> ns \<in> set nss then None else granted s (ns, n))"
proof -
  let ?del = "\<lambda>namespace s. snd (up_Delete (ev_client E) s (bindingsIn ctx namespace) recordName [] [])"
  have d: "granted (?del namespace s') = (granted s')((namespace, recordName) := None)" for namespace s'
    by (rule grants_delete [OF assms(1)])
  have "granted (fold ?del nss s') (ns, n) = (if n = recordName \<and> ns \<in> set nss then None else granted s' (ns, n))" for s'
    by (induction nss arbitrary: s') (auto simp: d)
  then show ?thesis using assms(2,3) by (simp add: clusterRoleBindingProjection_unproject_def)
qed

lemma inNamespace_simps [simp]:
  "cx_Tenant (inNamespace ctx ns) = cx_Tenant ctx" "cx_User (inNamespace ctx ns) = cx_User ctx"
  by (simp_all add: inNamespace_def split: option.split)

end
