(* ===== verification/Watch.thy ===== *)
theory Watch
  imports Crb_Projection
begin

text \<open>
  Watches: the stream of one resource as the tenant sees it (watch.go), the operations of the
  merged stream over the namespaces of a tenant (watchmux.go), and the stream of
  ClusterRoleBindings (crbprojection.go).  How the goroutines of the merged stream interleave is
  the subject of the theory Watch_Mux.
\<close>

section \<open>Events\<close>

datatype EventType = Added | Modified | Deleted | Bookmark | ErrorType | OtherType string

record Event =
  we_Type :: EventType
  we_Object :: robject

text \<open>A status object, the object of an error event.\<close>

definition statusObject :: "string \<Rightarrow> robject" where
  "statusObject message = fresh_status\<lparr>ro_Body := StatusB message\<rparr>"

subsection \<open>Revisions\<close>

text \<open>strconv.ParseUint and FormatUint in base 10, for 64 bits.\<close>

definition digit_of :: "nat \<Rightarrow> char" where
  "digit_of d = char_of (48 + d)"

definition is_digit :: "char \<Rightarrow> bool" where
  "is_digit c \<longleftrightarrow> 48 \<le> (of_char c :: nat) \<and> (of_char c :: nat) \<le> 57"

definition value_of :: "string \<Rightarrow> nat" where
  "value_of str = foldl (\<lambda>n c. 10 * n + (of_char c - 48)) 0 str"

definition ParseUint :: "string \<Rightarrow> nat option" where
  "ParseUint str = (if str \<noteq> [] \<and> list_all is_digit str \<and> value_of str < 2 ^ 64 then Some (value_of str) else None)"

fun FormatUint :: "nat \<Rightarrow> string" where
  "FormatUint n = (if n < 10 then [digit_of n] else FormatUint (n div 10) @ [digit_of (n mod 10)])"

declare FormatUint.simps [simp del]

definition parseRevision :: "string \<Rightarrow> nat" where
  "parseRevision resourceVersion = (case ParseUint resourceVersion of None \<Rightarrow> 0 | Some revision \<Rightarrow> revision)"

definition eventRevision :: "Event \<Rightarrow> nat" where
  "eventRevision event = (case Accessor (we_Object event) of Inl _ \<Rightarrow> 0 | Inr m \<Rightarrow> parseRevision (om_ResourceVersion m))"

definition initialEventsEndAnnotation :: string where
  "initialEventsEndAnnotation = ''k8s.io/initial-events-end''"

definition hasInitialEventsEnd :: "Event \<Rightarrow> bool" where
  "hasInitialEventsEnd event =
     (case Accessor (we_Object event) of Inl _ \<Rightarrow> False
      | Inr m \<Rightarrow> om_Annotations m initialEventsEndAnnotation = Some ''true'')"

definition bookmarkAt :: "Event \<Rightarrow> nat \<Rightarrow> bool \<Rightarrow> Event option" where
  "bookmarkAt event revision endOfReplay =
     (case Accessor (we_Object event) of Inl _ \<Rightarrow> None
      | Inr m \<Rightarrow> Some \<lparr>we_Type = Bookmark,
          we_Object = upd_meta (\<lambda>m. m\<lparr>om_ResourceVersion := FormatUint revision,
            om_Annotations := (if endOfReplay then (om_Annotations m)(initialEventsEndAnnotation \<mapsto> ''true'')
              else (om_Annotations m)(initialEventsEndAnnotation := None))\<rparr>) (we_Object event)\<rparr>)"

section \<open>The stream of a resource\<close>

text \<open>
  The loop of proxyWatch handles one event at a time: it drops it, passes it on, passes it on and
  ends, or ends.  UpstreamObjectBelongsToTenant is a function of kubezoo-contract.
\<close>

type_synonym ownership = "robject \<Rightarrow> string \<Rightarrow> bool \<Rightarrow> bool"

datatype proxied = Dropped | Forwarded Event | LastEvent Event | Over

definition newInternalErrorEvent :: "string \<Rightarrow> Event" where
  "newInternalErrorEvent err = \<lparr>we_Type = ErrorType, we_Object = statusObject err\<rparr>"

definition proxyObject :: "ownership \<Rightarrow> 's env \<Rightarrow> tenantProxy \<Rightarrow> string \<Rightarrow> string \<Rightarrow> Event \<Rightarrow> proxied" where
  "proxyObject UpstreamObjectBelongsToTenant E tp tenantID reqNS event =
     (let obj = we_Object event in
      if \<not> UpstreamObjectBelongsToTenant obj tenantID (tp_namespaceScoped tp) then Dropped
      else if servesRoleBindings tp \<and> IsManagedBindingName (ev_contract E) (om_Name (ro_Meta obj)) then Dropped
      else (case tp_newFunc tp of
        None \<Rightarrow> LastEvent (newInternalErrorEvent ''failed to convert unstructured to output'')
      | Some out \<Rightarrow>
        (case convertUnstructuredToOutput E tp obj out of
           Inl err \<Rightarrow> LastEvent (newInternalErrorEvent ''failed to convert unstructured to output'')
         | Inr out \<Rightarrow>
           (case convertUpstreamObjectToTenantObject E tp out tenantID reqNS of
              Inl err \<Rightarrow> LastEvent (newInternalErrorEvent ''failed to convert upstream object to tenant object'')
            | Inr out \<Rightarrow> Forwarded (event\<lparr>we_Object := out\<rparr>)))))"

definition proxyEvent :: "ownership \<Rightarrow> 's env \<Rightarrow> tenantProxy \<Rightarrow> string \<Rightarrow> string \<Rightarrow> Event \<Rightarrow> proxied" where
  "proxyEvent UpstreamObjectBelongsToTenant E tp tenantID reqNS event =
     (case we_Type event of
        Bookmark \<Rightarrow> Forwarded event
      | ErrorType \<Rightarrow>
        if is_status (we_Object event)
        then LastEvent (event\<lparr>we_Object := TrimTenantIDFromStatus (ev_util E) (we_Object event) tenantID\<rparr>)
        else Over
      | OtherType _ \<Rightarrow> LastEvent (newInternalErrorEvent ''failed to recognize Event type'')
      | _ \<Rightarrow> proxyObject UpstreamObjectBelongsToTenant E tp tenantID reqNS event)"

fun proxyWatch_proxy :: "ownership \<Rightarrow> 's env \<Rightarrow> tenantProxy \<Rightarrow> string \<Rightarrow> string \<Rightarrow> Event list \<Rightarrow> Event list" where
  "proxyWatch_proxy B E tp tenantID reqNS [] = []"
| "proxyWatch_proxy B E tp tenantID reqNS (event # events) =
     (case proxyEvent B E tp tenantID reqNS event of
        Dropped \<Rightarrow> proxyWatch_proxy B E tp tenantID reqNS events
      | Forwarded event \<Rightarrow> event # proxyWatch_proxy B E tp tenantID reqNS events
      | LastEvent event \<Rightarrow> [event]
      | Over \<Rightarrow> [])"

section \<open>The stream of ClusterRoleBindings\<close>

fun projectionWatch_run :: "contract \<Rightarrow> Event list \<Rightarrow> Event list" where
  "projectionWatch_run C [] = []"
| "projectionWatch_run C (event # events) =
     (case ro_Body (we_Object event) of
        RoleBindingB _ _ \<Rightarrow>
          (case asClusterRoleBinding C (we_Object event) of
             Inl _ \<Rightarrow> projectionWatch_run C events
           | Inr converted \<Rightarrow> event\<lparr>we_Object := converted\<rparr> # projectionWatch_run C events)
      | _ \<Rightarrow> event # projectionWatch_run C events)"

section \<open>The merged stream\<close>

record streamProgress =
  sp_revision :: nat
  sp_endOfReplay :: bool

text \<open>
  The fields of watchMux.  The maps watched and streams have the same keys, since add writes both
  and nothing removes an entry: they are one association list.
\<close>

record watchMux =
  mx_resource :: GroupVersionResource
  mx_options :: ListOptions
  mx_tenantID :: string
  mx_bookmarks :: bool
  mx_initialEvents :: bool
  mx_streams :: "(string \<times> streamProgress) list"
  mx_emitted :: nat
  mx_replayed :: bool

text \<open>Opening a watch upstream either fails or gives a stream.\<close>

type_synonym 's watcher = "'s \<Rightarrow> Target \<Rightarrow> ListOptions \<Rightarrow> unit result"

definition streamOptions :: "watchMux \<Rightarrow> string \<Rightarrow> ListOptions" where
  "streamOptions m resourceVersion = (mx_options m)\<lparr>lo_ResourceVersion := resourceVersion, lo_Continue := [], lo_Limit := 0,
     lo_TimeoutSeconds := None\<rparr>"

definition add :: "'s watcher \<Rightarrow> 's \<Rightarrow> Context \<Rightarrow> watchMux \<Rightarrow> string \<Rightarrow> string \<Rightarrow> watchMux result" where
  "add W s ctx m namespace resourceVersion =
     (if namespace \<in> fst ` set (mx_streams m) then Inr m
      else bindR (W s \<lparr>tg_User = cx_User ctx, tg_Resource = mx_resource m, tg_Namespace = namespace\<rparr> (streamOptions m resourceVersion)) (\<lambda>_.
        Inr (m\<lparr>mx_streams := mx_streams m @
          [(namespace, \<lparr>sp_revision = parseRevision resourceVersion, sp_endOfReplay = False\<rparr>)]\<rparr>)))"

definition tenantNamespaceSelector :: "contract \<Rightarrow> string \<Rightarrow> string" where
  "tenantNamespaceSelector C tenantID = TenantNamespaceLabelKey C @ ''='' @ tenantID"

definition followNamespaces :: "'s env \<Rightarrow> 's watcher \<Rightarrow> 's \<Rightarrow> Context \<Rightarrow> watchMux \<Rightarrow> unit result" where
  "followNamespaces E W s ctx m =
     W s \<lparr>tg_User = cx_User (asTenantAdmin E ctx (mx_tenantID m)), tg_Resource = namespaceGVR, tg_Namespace = []\<rparr>
       (empty_ListOptions\<lparr>lo_LabelSelector := tenantNamespaceSelector (ev_contract E) (mx_tenantID m),
          lo_ResourceVersion := lo_ResourceVersion (mx_options m)\<rparr>)"

fun addAll :: "'s watcher \<Rightarrow> 's \<Rightarrow> Context \<Rightarrow> watchMux \<Rightarrow> string list \<Rightarrow> string \<Rightarrow> watchMux result" where
  "addAll W s ctx m [] resourceVersion = Inr m"
| "addAll W s ctx m (namespace # namespaces) resourceVersion =
     bindR (add W s ctx m namespace resourceVersion) (\<lambda>m. addAll W s ctx m namespaces resourceVersion)"

definition newWatchMux ::
  "'s env \<Rightarrow> 's watcher \<Rightarrow> 's \<Rightarrow> Context \<Rightarrow> tenantProxy \<Rightarrow> string \<Rightarrow> ListOptions \<Rightarrow> string list \<Rightarrow> watchMux result" where
  "newWatchMux E W s ctx tp tenantID options namespaces =
     bindR (addAll W s ctx \<lparr>mx_resource = upstreamResource (ev_contract E) tp tenantID, mx_options = options, mx_tenantID = tenantID,
         mx_bookmarks = lo_AllowWatchBookmarks options, mx_initialEvents = (lo_SendInitialEvents options = Some True),
         mx_streams = [], mx_emitted = 0, mx_replayed = False\<rparr> namespaces (lo_ResourceVersion options)) (\<lambda>m.
     bindR (followNamespaces E W s ctx m) (\<lambda>_. Inr m))"

definition recordRevision :: "watchMux \<Rightarrow> string \<Rightarrow> nat \<Rightarrow> watchMux" where
  "recordRevision m namespace revision =
     (if revision = 0 then m
      else m\<lparr>mx_streams := map (\<lambda>(ns, stream).
        (ns, if ns = namespace \<and> revision > sp_revision stream then stream\<lparr>sp_revision := revision\<rparr> else stream)) (mx_streams m)\<rparr>)"

text \<open>The loop over the streams: the least revision, or 0 when there is none.\<close>

fun watermarkLoop :: "bool \<Rightarrow> nat \<Rightarrow> streamProgress list \<Rightarrow> nat" where
  "watermarkLoop first watermark [] = watermark"
| "watermarkLoop first watermark (s # ss) =
     (if first \<or> sp_revision s < watermark then watermarkLoop False (sp_revision s) ss
      else watermarkLoop first watermark ss)"

definition noteBookmark :: "watchMux \<Rightarrow> string \<Rightarrow> nat \<Rightarrow> bool \<Rightarrow> watchMux" where
  "noteBookmark m namespace revision endOfReplay =
     m\<lparr>mx_streams := map (\<lambda>(ns, stream).
        (ns, if ns = namespace then
            stream\<lparr>sp_revision := (if revision > sp_revision stream then revision else sp_revision stream),
              sp_endOfReplay := (endOfReplay \<or> sp_endOfReplay stream)\<rparr>
          else stream)) (mx_streams m)\<rparr>"

text \<open>What onBookmark does while it holds the lock, and the event it then sends.\<close>

definition onBookmark :: "watchMux \<Rightarrow> string \<Rightarrow> Event \<Rightarrow> watchMux \<times> Event option" where
  "onBookmark m namespace event =
     (if namespace \<notin> fst ` set (mx_streams m) then (m, None)
      else
        let m = noteBookmark m namespace (eventRevision event) (hasInitialEventsEnd event);
            watermark = watermarkLoop True 0 (map snd (mx_streams m));
            allReplayed = list_all (\<lambda>(_, s). sp_endOfReplay s) (mx_streams m);
            announceReplayEnd = (mx_initialEvents m \<and> allReplayed \<and> \<not> mx_replayed m);
            m = (if announceReplayEnd then m\<lparr>mx_replayed := True\<rparr> else m);
            advanced = (watermark > mx_emitted m);
            m = (if advanced then m\<lparr>mx_emitted := watermark\<rparr> else m)
        in (m, if \<not> mx_bookmarks m \<or> watermark = 0 \<or> (\<not> advanced \<and> \<not> announceReplayEnd) then None
               else bookmarkAt event watermark announceReplayEnd))"

section \<open>Opening a watch\<close>

datatype stream = OneStream Target ListOptions | MergedStream watchMux

definition tenantProxy_Watch :: "'s env \<Rightarrow> 's watcher \<Rightarrow> 's \<Rightarrow> tenantProxy \<Rightarrow> Context \<Rightarrow> ListOptions \<Rightarrow> stream result" where
  "tenantProxy_Watch E W s tp ctx options =
     (if tp_newListFunc tp = None then Inl (Plain ''newListFunc is nil'')
      else (case cx_Tenant ctx of None \<Rightarrow> Inl (Plain ''tanentID doesn't exist in context'')
      | Some tenantID \<Rightarrow>
        bindR (ConvertInternalListOptions (ev_util E) ctx options tenantID (tp_namespaceScoped tp) (tp_kind tp)) (\<lambda>proxyOpt.
        if shouldFanOut tp ctx then
          (case bindR (tenantNamespaces E s ctx tenantID []) (\<lambda>(namespaces, _). newWatchMux E W s ctx tp tenantID proxyOpt namespaces) of
             Inl err \<Rightarrow> Inl (TrimTenantIDFromError (ev_contract E) err tenantID)
           | Inr m \<Rightarrow> Inr (MergedStream m))
        else bindR (getClient E tp ctx) (\<lambda>client.
          (case W s client proxyOpt of
             Inl err \<Rightarrow> Inl (TrimTenantIDFromError (ev_contract E) err tenantID)
           | Inr _ \<Rightarrow> Inr (OneStream client proxyOpt))))))"

definition clusterRoleBindingProjection_Watch ::
  "selectors \<Rightarrow> 's env \<Rightarrow> 's watcher \<Rightarrow> 's \<Rightarrow> clusterRoleBindingProjection \<Rightarrow> Context \<Rightarrow> ListOptions option \<Rightarrow> stream result" where
  "clusterRoleBindingProjection_Watch S E W s p ctx options =
     bindR (withProjectedSelector (ev_contract E) S options) (\<lambda>scoped.
       tenantProxy_Watch E W s (cp_inner p) (inNamespace ctx canonicalNamespace) scoped)"

section \<open>Properties\<close>

subsection \<open>Revisions\<close>

lemma of_char_digit [simp]: "d < 10 \<Longrightarrow> (of_char (digit_of d) :: nat) = 48 + d"
  by (simp add: digit_of_def)

lemma is_digit_digit [simp]: "d < 10 \<Longrightarrow> is_digit (digit_of d)"
  by (simp add: is_digit_def)

lemma value_of_append [simp]: "value_of (str @ [c]) = 10 * value_of str + (of_char c - 48)"
  by (simp add: value_of_def)

lemma FormatUint_digits: "FormatUint n \<noteq> [] \<and> list_all is_digit (FormatUint n) \<and> value_of (FormatUint n) = n"
proof (induction n rule: FormatUint.induct)
  case (1 n)
  show ?case
  proof (cases "n < 10")
    case True
    then have "FormatUint n = [] @ [digit_of n]" by (simp add: FormatUint.simps [of n])
    with True show ?thesis using value_of_append [of "[]" "digit_of n"] by (simp add: value_of_def)
  next
    case False
    with 1 show ?thesis by (simp add: FormatUint.simps [of n])
  qed
qed

lemma parse_format: "n < 2 ^ 64 \<Longrightarrow> parseRevision (FormatUint n) = n"
  using FormatUint_digits [of n] by (simp add: parseRevision_def ParseUint_def)

lemma parseRevision_bound: "parseRevision str < 2 ^ 64"
  by (simp add: parseRevision_def ParseUint_def)

lemma eventRevision_bound: "eventRevision e < 2 ^ 64"
  using parseRevision_bound by (cases "Accessor (we_Object e)") (simp_all add: eventRevision_def)


lemma bookmarkAt_revision:
  assumes "bookmarkAt e revision r = Some b" "revision < 2 ^ 64"
  shows "eventRevision b = revision" "hasInitialEventsEnd b = r" "we_Type b = Bookmark"
proof -
  from assms(1) have s: "\<not> is_status (we_Object e)" by (auto simp: bookmarkAt_def Accessor_alt split: if_splits)
  from assms(1) s have b: "we_Type b = Bookmark" "is_status (we_Object b) = is_status (we_Object e)"
      "om_ResourceVersion (ro_Meta (we_Object b)) = FormatUint revision"
      "om_Annotations (ro_Meta (we_Object b)) initialEventsEndAnnotation = (if r then Some ''true'' else None)"
    by (auto simp: bookmarkAt_def Accessor_alt is_status_def)
  show "we_Type b = Bookmark" by (rule b(1))
  show "eventRevision b = revision" using b s assms(2) by (simp add: eventRevision_def Accessor_alt parse_format)
  show "hasInitialEventsEnd b = r" using b s by (simp add: hasInitialEventsEnd_def Accessor_alt)
qed

subsection \<open>The watermark\<close>

lemma watermarkLoop_le: "watermarkLoop False w ss \<le> w \<and> (\<forall>s \<in> set ss. watermarkLoop False w ss \<le> sp_revision s)"
proof (induction ss arbitrary: w)
  case (Cons s ss)
  from Cons.IH [of "sp_revision s"] Cons.IH [of w] show ?case by (auto simp: not_less)
qed simp

lemma watermarkLoop_mem: "watermarkLoop False w ss \<in> insert w (sp_revision ` set ss)"
  by (induction ss arbitrary: w) auto

lemma watermarkLoop_Min:
  assumes "ss \<noteq> []"
  shows "watermarkLoop True w ss = Min (sp_revision ` set ss)"
proof -
  obtain s ss' where s: "ss = s # ss'" using assms by (cases ss) auto
  have "Min (insert (sp_revision s) (sp_revision ` set ss')) = watermarkLoop False (sp_revision s) ss'"
    using watermarkLoop_le [of "sp_revision s" ss'] watermarkLoop_mem [of "sp_revision s" ss'] by (intro Min_eqI) auto
  then show ?thesis by (simp add: s)
qed

end
