(* ===== verification/Watch_Mux.thy ===== *)
theory Watch_Mux
  imports Watch
begin

text \<open>
  The goroutines of the merged stream (watchmux.go) and how they interleave.  A step is one
  goroutine moving: the pump of a namespace, the follower of the tenant's namespaces, or the join
  of a new one.  Every critical section under the lock is one step, and so is every exchange on the
  unbuffered channel to the client.
\<close>

section \<open>Definitions\<close>

datatype goroutine = Stream string | Follower | Join string string

text \<open>
  Where a goroutine stands: waiting for an event, about to send one, about to record the revision
  of the one it has sent, about to send a merged bookmark, about to try a join with some attempts
  left, about to send the 410.  The namespaces of a bookmark are those it was computed over.
\<close>

datatype pump = Waiting | Sending Event | Recording nat | Announcing Event "string set" | Trying nat | Expiring

text \<open>What the client has received.\<close>

datatype delivered = Passed string Event | Marked "string set" Event | Gone

text \<open>
  The last two fields follow the run and are read by no step of the code: the highest revision a
  stream has reported, and the namespaces the tenant is known to own.
\<close>

record muxState =
  ms_mux :: watchMux
  ms_pumps :: "goroutine \<Rightarrow> pump option"
  ms_stopped :: bool
  ms_expiring :: bool
  ms_reading :: bool
  ms_result :: "delivered list"
  ms_last :: "string \<Rightarrow> nat"
  ms_owned :: "string set"

definition namespaces_of :: "watchMux \<Rightarrow> string set" where
  "namespaces_of m = fst ` set (mx_streams m)"

definition rev_of :: "watchMux \<Rightarrow> string \<Rightarrow> nat" where
  "rev_of m ns = (case map_of (mx_streams m) ns of None \<Rightarrow> 0 | Some s \<Rightarrow> sp_revision s)"

definition muxStart :: "watchMux \<Rightarrow> muxState" where
  "muxStart m = \<lparr>ms_mux = m,
     ms_pumps = (\<lambda>g. case g of Stream ns \<Rightarrow> if ns \<in> namespaces_of m then Some Waiting else None | Follower \<Rightarrow> Some Waiting | Join _ _ \<Rightarrow> None),
     ms_stopped = False, ms_expiring = False, ms_reading = True, ms_result = [], ms_last = rev_of m, ms_owned = namespaces_of m\<rparr>"

definition moves :: "muxState \<Rightarrow> goroutine \<Rightarrow> pump \<Rightarrow> muxState" where
  "moves S g p = S\<lparr>ms_pumps := (ms_pumps S)(g \<mapsto> p)\<rparr>"

definition ends :: "muxState \<Rightarrow> goroutine \<Rightarrow> muxState" where
  "ends S g = S\<lparr>ms_pumps := (ms_pumps S)(g := None)\<rparr>"

definition expire :: "muxState \<Rightarrow> goroutine \<Rightarrow> muxState" where
  "expire S g =
     (if ms_expiring S then ends S g
      else if ms_stopped S then (ends S g)\<lparr>ms_expiring := True\<rparr>
      else (moves S g Expiring)\<lparr>ms_expiring := True\<rparr>)"

definition joinAttempts :: nat where
  "joinAttempts = 60"

text \<open>
  A stream reports its events in the order of their revisions, and a bookmark says that everything
  up to its revision has been reported; an object without a revision reads as 0.
\<close>

inductive mux_step :: "'s watcher \<Rightarrow> Context \<Rightarrow> muxState \<Rightarrow> muxState \<Rightarrow> bool" for W ctx where
  receive: "ms_pumps S (Stream ns) = Some Waiting \<Longrightarrow> we_Type e \<noteq> Bookmark \<Longrightarrow>
    eventRevision e = 0 \<or> ms_last S ns < eventRevision e \<Longrightarrow>
    mux_step W ctx S ((moves S (Stream ns) (Sending e))\<lparr>ms_last := (ms_last S)(ns := max (ms_last S ns) (eventRevision e))\<rparr>)"
| send: "ms_pumps S (Stream ns) = Some (Sending e) \<Longrightarrow> ms_reading S \<Longrightarrow>
    mux_step W ctx S ((moves S (Stream ns) (Recording (eventRevision e)))
      \<lparr>ms_result := ms_result S @ [Passed ns e], ms_reading := (we_Type e \<noteq> ErrorType)\<rparr>)"
| recording: "ms_pumps S (Stream ns) = Some (Recording r) \<Longrightarrow>
    mux_step W ctx S ((moves S (Stream ns) Waiting)\<lparr>ms_mux := recordRevision (ms_mux S) ns r\<rparr>)"
| bookmark: "ms_pumps S (Stream ns) = Some Waiting \<Longrightarrow> we_Type e = Bookmark \<Longrightarrow> ms_last S ns \<le> eventRevision e \<Longrightarrow>
    onBookmark (ms_mux S) ns e = (m, out) \<Longrightarrow>
    mux_step W ctx S ((moves S (Stream ns) (case out of None \<Rightarrow> Waiting | Some b \<Rightarrow> Announcing b (namespaces_of m)))
      \<lparr>ms_mux := m, ms_last := (ms_last S)(ns := eventRevision e)\<rparr>)"
| announce: "ms_pumps S (Stream ns) = Some (Announcing b known) \<Longrightarrow> ms_reading S \<Longrightarrow>
    mux_step W ctx S ((moves S (Stream ns) Waiting)\<lparr>ms_result := ms_result S @ [Marked known b]\<rparr>)"
| unheard: "ms_pumps S (Stream ns) = Some (Announcing b known) \<Longrightarrow> ms_stopped S \<Longrightarrow>
    mux_step W ctx S (moves S (Stream ns) Waiting)"
| quit: "ms_pumps S g = Some p \<Longrightarrow> (\<forall>r. p \<noteq> Recording r) \<Longrightarrow> ms_stopped S \<Longrightarrow> mux_step W ctx S (ends S g)"
| closed: "ms_pumps S g = Some Waiting \<Longrightarrow> mux_step W ctx S (expire S g)"
| gone: "ms_pumps S g = Some Expiring \<Longrightarrow> ms_reading S \<Longrightarrow>
    mux_step W ctx S ((ends S g)\<lparr>ms_result := ms_result S @ [Gone], ms_reading := False, ms_stopped := True\<rparr>)"
| leave: "mux_step W ctx S (S\<lparr>ms_reading := False, ms_stopped := True\<rparr>)"
| appear: "ms_pumps S Follower = Some Waiting \<Longrightarrow> ms_pumps S (Join ns rv) = None \<Longrightarrow>
    mux_step W ctx S ((moves S (Join ns rv) (Trying joinAttempts))\<lparr>ms_owned := insert ns (ms_owned S)\<rparr>)"
| joined: "ms_pumps S (Join ns rv) = Some (Trying (Suc n)) \<Longrightarrow> add W s ctx (ms_mux S) ns rv = Inr m \<Longrightarrow>
    mux_step W ctx S (if ns \<in> namespaces_of (ms_mux S) then ends S (Join ns rv)
      else (moves (ends S (Join ns rv)) (Stream ns) Waiting)\<lparr>ms_mux := m, ms_last := (ms_last S)(ns := parseRevision rv)\<rparr>)"
| retry: "ms_pumps S (Join ns rv) = Some (Trying (Suc n)) \<Longrightarrow> add W s ctx (ms_mux S) ns rv = Inl err \<Longrightarrow> IsForbidden err \<Longrightarrow>
    mux_step W ctx S (moves S (Join ns rv) (Trying n))"
| refused: "ms_pumps S (Join ns rv) = Some (Trying (Suc n)) \<Longrightarrow> add W s ctx (ms_mux S) ns rv = Inl err \<Longrightarrow> \<not> IsForbidden err \<Longrightarrow>
    mux_step W ctx S (expire S (Join ns rv))"
| given_up: "ms_pumps S (Join ns rv) = Some (Trying 0) \<Longrightarrow> mux_step W ctx S (expire S (Join ns rv))"

inductive mux_reach :: "'s watcher \<Rightarrow> Context \<Rightarrow> watchMux \<Rightarrow> muxState \<Rightarrow> bool" for W ctx m where
  start: "mux_reach W ctx m (muxStart m)"
| step: "mux_reach W ctx m S \<Longrightarrow> mux_step W ctx S S' \<Longrightarrow> mux_reach W ctx m S'"

section \<open>Progress of the streams\<close>

lemma map_of_map_snd: "map_of (map (\<lambda>(k, v). (k, f k v)) xs) k = map_option (f k) (map_of xs k)"
  by (induction xs) auto

lemma in_namespaces: "ns \<in> namespaces_of m \<longleftrightarrow> (\<exists>s. map_of (mx_streams m) ns = Some s)"
  by (metis namespaces_of_def map_of_eq_None_iff option.exhaust_sel option.distinct(1))

lemma namespaces_recordRevision [simp]: "namespaces_of (recordRevision m ns r) = namespaces_of m"
  by (force simp: namespaces_of_def recordRevision_def)

lemma rev_recordRevision:
  "rev_of (recordRevision m ns r) k = (if k = ns \<and> ns \<in> namespaces_of m then max (rev_of m k) r else rev_of m k)"
  by (auto simp: rev_of_def recordRevision_def map_of_map_snd in_namespaces split: option.split)

lemma namespaces_noteBookmark [simp]: "namespaces_of (noteBookmark m ns r d) = namespaces_of m"
  by (force simp: namespaces_of_def noteBookmark_def)

lemma rev_noteBookmark:
  "rev_of (noteBookmark m ns r d) k = (if k = ns \<and> ns \<in> namespaces_of m then max (rev_of m k) r else rev_of m k)"
  by (auto simp: rev_of_def noteBookmark_def map_of_map_snd in_namespaces split: option.split)

lemma onBookmark_known: "onBookmark m ns e = (m', Some b) \<Longrightarrow> ns \<in> namespaces_of m"
  by (auto simp: onBookmark_def namespaces_of_def split: if_splits)

lemma onBookmark_state:
  assumes "onBookmark m ns e = (m', out)"
  shows "mx_streams m' = mx_streams (if ns \<in> namespaces_of m then noteBookmark m ns (eventRevision e) (hasInitialEventsEnd e) else m)"
  using assms by (auto simp: onBookmark_def namespaces_of_def Let_def split: if_splits)

lemma rev_of_cong: "mx_streams m = mx_streams m' \<Longrightarrow> rev_of m = rev_of m' \<and> namespaces_of m = namespaces_of m'"
  by (simp add: rev_of_def namespaces_of_def fun_eq_iff)

lemma onBookmark_rev:
  assumes "onBookmark m ns e = (m', out)"
  shows "namespaces_of m' = namespaces_of m"
    "rev_of m' k = (if k = ns \<and> ns \<in> namespaces_of m then max (rev_of m k) (eventRevision e) else rev_of m k)"
  using rev_of_cong [OF onBookmark_state [OF assms]] by (auto simp: rev_noteBookmark)

lemma watermark_least:
  assumes "k \<in> namespaces_of m"
  shows "watermarkLoop True 0 (map snd (mx_streams m)) \<le> rev_of m k"
proof -
  from assms obtain st where k: "map_of (mx_streams m) k = Some st" by (auto simp: in_namespaces)
  then have "(k, st) \<in> set (mx_streams m)" by (rule map_of_SomeD)
  then have "sp_revision st \<in> sp_revision ` set (map snd (mx_streams m))" "map snd (mx_streams m) \<noteq> []" by force+
  then have "watermarkLoop True 0 (map snd (mx_streams m)) \<le> sp_revision st"
    using Min_le [of "sp_revision ` set (map snd (mx_streams m))" "sp_revision st"] watermarkLoop_Min [of "map snd (mx_streams m)" 0]
    by simp
  with k show ?thesis by (simp add: rev_of_def)
qed

text \<open>The bookmark that is sent carries the watermark, which every stream has reached.\<close>

lemma onBookmark_mark:
  assumes "onBookmark m ns e = (m', Some b)" "\<forall>k. rev_of m k < 2 ^ 64"
  shows "eventRevision b = watermarkLoop True 0 (map snd (mx_streams m'))"
    "k \<in> namespaces_of m \<Longrightarrow> eventRevision b \<le> rev_of m' k"
    "hasInitialEventsEnd b \<longleftrightarrow> mx_initialEvents m \<and> \<not> mx_replayed m \<and> list_all (\<lambda>(_, s). sp_endOfReplay s) (mx_streams m')"
proof -
  let ?n = "noteBookmark m ns (eventRevision e) (hasInitialEventsEnd e)"
  have ns: "ns \<in> namespaces_of m" by (rule onBookmark_known [OF assms(1)])
  then have st: "mx_streams m' = mx_streams ?n" using onBookmark_state [OF assms(1)] by simp
  let ?w = "watermarkLoop True 0 (map snd (mx_streams m'))"
  from assms(1) ns have b: "bookmarkAt e ?w (mx_initialEvents ?n \<and> list_all (\<lambda>(_, s). sp_endOfReplay s) (mx_streams m') \<and> \<not> mx_replayed ?n) = Some b"
    unfolding st by (auto simp: onBookmark_def namespaces_of_def Let_def split: if_splits)
  have "?w \<le> rev_of m' ns" using watermark_least [of ns m'] onBookmark_rev(1) [OF assms(1)] ns by simp
  also have "\<dots> < 2 ^ 64" using onBookmark_rev(2) [OF assms(1)] assms(2) ns eventRevision_bound [of e] by auto
  finally have w: "?w < 2 ^ 64" .
  show e: "eventRevision b = ?w" by (rule bookmarkAt_revision(1) [OF b w])
  show "k \<in> namespaces_of m \<Longrightarrow> eventRevision b \<le> rev_of m' k"
    using watermark_least [of k m'] onBookmark_rev(1) [OF assms(1)] e by simp
  show "hasInitialEventsEnd b \<longleftrightarrow> mx_initialEvents m \<and> \<not> mx_replayed m \<and> list_all (\<lambda>(_, s). sp_endOfReplay s) (mx_streams m')"
    using bookmarkAt_revision(2) [OF b w] by (auto simp: noteBookmark_def)
qed

lemma add_new:
  assumes "add W s ctx m ns rv = Inr m'" "ns \<notin> namespaces_of m"
  shows "namespaces_of m' = insert ns (namespaces_of m)"
    "rev_of m' k = (if k = ns then parseRevision rv else rev_of m k)"
proof -
  have m': "mx_streams m' = mx_streams m @ [(ns, \<lparr>sp_revision = parseRevision rv, sp_endOfReplay = False\<rparr>)]"
    using assms by (auto simp: add_def namespaces_of_def bindR_Inr_iff)
  have "map_of (mx_streams m) ns = None" using assms(2) in_namespaces [of ns m] by (cases "map_of (mx_streams m) ns") auto
  then show "rev_of m' k = (if k = ns then parseRevision rv else rev_of m k)"
    by (auto simp: rev_of_def m' map_add_def split: option.split)
  show "namespaces_of m' = insert ns (namespaces_of m)" by (auto simp: namespaces_of_def m')
qed

section \<open>A bookmark is a safe place to resume\<close>

fun ordered :: "delivered list \<Rightarrow> bool" where
  "ordered [] = True"
| "ordered (x # xs) = ((case x of
       Marked known b \<Rightarrow> (\<forall>ns e. Passed ns e \<in> set xs \<longrightarrow> ns \<in> known \<longrightarrow> eventRevision e = 0 \<or> eventRevision b < eventRevision e)
     | _ \<Rightarrow> True) \<and> ordered xs)"

lemma ordered_split:
  "ordered xs \<longleftrightarrow> (\<forall>before known b after ns e. xs = before @ Marked known b # after \<longrightarrow> Passed ns e \<in> set after \<longrightarrow> ns \<in> known \<longrightarrow>
     eventRevision e = 0 \<or> eventRevision b < eventRevision e)"
proof (induction xs)
  case (Cons x xs)
  show ?case
    unfolding ordered.simps Cons.IH
    by (cases x) (auto simp: Cons_eq_append_conv, blast+)
qed simp

lemma ordered_passed:
  "ordered (xs @ [Passed ns e]) \<longleftrightarrow> ordered xs \<and>
     (\<forall>known b. Marked known b \<in> set xs \<longrightarrow> ns \<in> known \<longrightarrow> eventRevision e = 0 \<or> eventRevision b < eventRevision e)"
  by (induction xs) (auto split: delivered.splits)

lemma ordered_other: "(\<And>ns e. x \<noteq> Passed ns e) \<Longrightarrow> ordered (xs @ [x]) \<longleftrightarrow> ordered xs"
  by (induction xs) (auto split: delivered.splits)

text \<open>A bookmark no stream it was computed over has still to catch up with.\<close>

definition safe_mark :: "watchMux \<Rightarrow> string set \<Rightarrow> Event \<Rightarrow> bool" where
  "safe_mark m known b \<longleftrightarrow> known \<subseteq> namespaces_of m \<and> (\<forall>ns \<in> known. eventRevision b \<le> rev_of m ns)"

lemma safe_mark_mono:
  "safe_mark m known b \<Longrightarrow> namespaces_of m \<subseteq> namespaces_of m' \<Longrightarrow> (\<And>ns. ns \<in> namespaces_of m \<Longrightarrow> rev_of m ns \<le> rev_of m' ns) \<Longrightarrow>
     safe_mark m' known b"
  unfolding safe_mark_def by (meson order_trans subsetD subset_trans)

text \<open>What holds of a goroutine that pumps a stream, at each point of its loop.\<close>

definition pump_ok :: "watchMux \<Rightarrow> nat \<Rightarrow> string \<Rightarrow> pump \<Rightarrow> bool" where
  "pump_ok m seen ns p \<longleftrightarrow> (case p of
       Sending e \<Rightarrow> eventRevision e \<le> seen \<and> (eventRevision e = 0 \<or> rev_of m ns < eventRevision e)
     | Recording r \<Rightarrow> r \<le> seen
     | Announcing b known \<Rightarrow> safe_mark m known b
     | _ \<Rightarrow> True)"

definition mux_inv :: "muxState \<Rightarrow> bool" where
  "mux_inv S \<longleftrightarrow>
     (\<forall>ns p. ms_pumps S (Stream ns) = Some p \<longrightarrow> ns \<in> namespaces_of (ms_mux S) \<and> pump_ok (ms_mux S) (ms_last S ns) ns p) \<and>
     (\<forall>ns. rev_of (ms_mux S) ns \<le> ms_last S ns \<and> ms_last S ns < 2 ^ 64) \<and>
     (\<forall>b known. Marked known b \<in> set (ms_result S) \<longrightarrow> safe_mark (ms_mux S) known b) \<and>
     ordered (ms_result S)"

lemma mux_invD:
  assumes "mux_inv S"
  shows "ms_pumps S (Stream ns) = Some p \<Longrightarrow> ns \<in> namespaces_of (ms_mux S)"
    and "ms_pumps S (Stream ns) = Some p \<Longrightarrow> pump_ok (ms_mux S) (ms_last S ns) ns p"
    and "rev_of (ms_mux S) ns \<le> ms_last S ns" "ms_last S ns < 2 ^ 64"
    and "Marked known b \<in> set (ms_result S) \<Longrightarrow> safe_mark (ms_mux S) known b"
    and "ordered (ms_result S)"
  using assms unfolding mux_inv_def by blast+

text \<open>The streams only grow and only advance.\<close>

definition advances :: "watchMux \<Rightarrow> watchMux \<Rightarrow> bool" where
  "advances m m' \<longleftrightarrow> namespaces_of m \<subseteq> namespaces_of m' \<and> (\<forall>ns \<in> namespaces_of m. rev_of m ns \<le> rev_of m' ns)"

lemma advances_refl [simp]: "advances m m"
  by (simp add: advances_def)

lemma advances_mark: "advances m m' \<Longrightarrow> safe_mark m known b \<Longrightarrow> safe_mark m' known b"
  unfolding advances_def safe_mark_def by (meson order_trans subsetD subset_trans)

lemma advances_pump:
  assumes "advances m m'" "pump_ok m seen ns p" "rev_of m' ns = rev_of m ns" "seen \<le> seen'"
  shows "pump_ok m' seen' ns p"
  using assms by (cases p) (auto simp: pump_ok_def intro: advances_mark)

text \<open>
  One rule for every step: the other pumps and their streams stay as they are, and the moving one
  satisfies its condition.
\<close>

lemma mux_inv_moved:
  assumes "mux_inv S" "advances (ms_mux S) (ms_mux S')"
    and "\<And>ns p. ms_pumps S (Stream ns) = Some p \<Longrightarrow> ms_last S ns \<le> ms_last S' ns" "\<And>ns. rev_of (ms_mux S') ns \<le> ms_last S' ns \<and> ms_last S' ns < 2 ^ 64"
    and "\<And>ns p. ms_pumps S' (Stream ns) = Some p \<Longrightarrow>
      (ms_pumps S (Stream ns) = Some p \<and> rev_of (ms_mux S') ns = rev_of (ms_mux S) ns) \<or>
      (ns \<in> namespaces_of (ms_mux S') \<and> pump_ok (ms_mux S') (ms_last S' ns) ns p)"
    and "\<And>b known. Marked known b \<in> set (ms_result S') \<Longrightarrow> Marked known b \<in> set (ms_result S) \<or> safe_mark (ms_mux S') known b"
    and "ordered (ms_result S')"
  shows "mux_inv S'"
proof -
  note d = mux_invD [OF assms(1)]
  have "ns \<in> namespaces_of (ms_mux S') \<and> pump_ok (ms_mux S') (ms_last S' ns) ns p" if "ms_pumps S' (Stream ns) = Some p" for ns p
    using assms(5) [OF that]
  proof
    assume o: "ms_pumps S (Stream ns) = Some p \<and> rev_of (ms_mux S') ns = rev_of (ms_mux S) ns"
    have "ns \<in> namespaces_of (ms_mux S')" using d(1) [of ns p] o assms(2) unfolding advances_def by blast
    moreover have "pump_ok (ms_mux S') (ms_last S' ns) ns p"
      using advances_pump [OF assms(2) d(2) [of ns p] _ assms(3) [of ns p]] o by blast
    ultimately show ?thesis ..
  qed
  moreover have "safe_mark (ms_mux S') known b" if "Marked known b \<in> set (ms_result S')" for b known
    using assms(6) [OF that] advances_mark [OF assms(2) d(5)] by blast
  ultimately show ?thesis using assms(4,7) unfolding mux_inv_def by blast
qed

lemmas moved = moves_def ends_def expire_def

lemma inv_receive:
  assumes "mux_inv S" "ms_pumps S (Stream ns) = Some Waiting" "eventRevision e = 0 \<or> ms_last S ns < eventRevision e"
  shows "mux_inv ((moves S (Stream ns) (Sending e))\<lparr>ms_last := (ms_last S)(ns := max (ms_last S ns) (eventRevision e))\<rparr>)"
proof (rule mux_inv_moved [OF assms(1)], goal_cases)
  case (3 k)
  then show ?case using mux_invD(3,4) [OF assms(1), of k] eventRevision_bound [of e] by (auto simp: moved)
next
  case (4 k p)
  then show ?case
    using mux_invD(1) [OF assms(1,2)] mux_invD(3) [OF assms(1), of ns] assms(3)
    by (cases "k = ns") (auto simp: moved pump_ok_def)
qed (use mux_invD(6) [OF assms(1)] in \<open>auto simp: moved\<close>)

lemma inv_send:
  assumes "mux_inv S" "ms_pumps S (Stream ns) = Some (Sending e)"
  shows "mux_inv ((moves S (Stream ns) (Recording (eventRevision e)))
    \<lparr>ms_result := ms_result S @ [Passed ns e], ms_reading := r\<rparr>)"
proof (rule mux_inv_moved [OF assms(1)], goal_cases)
  case (3 k)
  then show ?case using mux_invD(3,4) [OF assms(1), of k] by (simp add: moved)
next
  case (4 k p)
  then show ?case
    using mux_invD(1,2) [OF assms(1,2)] by (cases "k = ns") (auto simp: moved pump_ok_def)
next
  case 6
  have "eventRevision e = 0 \<or> eventRevision b < eventRevision e" if "Marked known b \<in> set (ms_result S)" "ns \<in> known" for known b
    using mux_invD(5) [OF assms(1) that(1)] that(2) mux_invD(2) [OF assms(1,2)] by (auto simp: safe_mark_def pump_ok_def)
  then show ?case using mux_invD(6) [OF assms(1)] by (simp add: moved ordered_passed)
qed (auto simp: moved)

lemma inv_recording:
  assumes "mux_inv S" "ms_pumps S (Stream ns) = Some (Recording r)"
  shows "mux_inv ((moves S (Stream ns) Waiting)\<lparr>ms_mux := recordRevision (ms_mux S) ns r\<rparr>)"
proof (rule mux_inv_moved [OF assms(1)], goal_cases)
  case 1
  then show ?case by (simp add: advances_def rev_recordRevision)
next
  case (3 k)
  then show ?case
    using mux_invD(3,4) [OF assms(1), of k] mux_invD(2) [OF assms(1,2)] by (auto simp: moved rev_recordRevision pump_ok_def)
next
  case (4 k p)
  then show ?case
    using mux_invD(1) [OF assms(1,2)] by (cases "k = ns") (auto simp: moved pump_ok_def rev_recordRevision)
qed (use mux_invD(6) [OF assms(1)] in \<open>auto simp: moved\<close>)

lemma inv_bookmark:
  assumes "mux_inv S" "ms_pumps S (Stream ns) = Some Waiting" "ms_last S ns \<le> eventRevision e"
    and "onBookmark (ms_mux S) ns e = (m, out)"
  shows "mux_inv ((moves S (Stream ns) (case out of None \<Rightarrow> Waiting | Some b \<Rightarrow> Announcing b (namespaces_of m)))
    \<lparr>ms_mux := m, ms_last := (ms_last S)(ns := eventRevision e)\<rparr>)"
proof (rule mux_inv_moved [OF assms(1)], goal_cases)
  case 1
  then show ?case by (simp add: advances_def onBookmark_rev [OF assms(4)])
next
  case (3 k)
  then show ?case
    using mux_invD(3,4) [OF assms(1), of k] assms(3) eventRevision_bound [of e] mux_invD(1) [OF assms(1,2)]
    by (auto simp: moved onBookmark_rev [OF assms(4)])
next
  case (4 k p)
  have "\<forall>k. rev_of (ms_mux S) k < 2 ^ 64" using mux_invD(3,4) [OF assms(1)] by (meson le_less_trans)
  then have "safe_mark m (namespaces_of m) b" if "out = Some b" for b
    using onBookmark_mark(2) [OF assms(4) [unfolded that]] onBookmark_rev(1) [OF assms(4)] by (simp add: safe_mark_def)
  then show ?case
    using 4 mux_invD(1) [OF assms(1,2)] onBookmark_rev [OF assms(4)]
    by (cases "k = ns"; cases out) (auto simp: moved pump_ok_def)
qed (use mux_invD(6) [OF assms(1)] assms(3) in \<open>auto simp: moved\<close>)

lemma inv_announce:
  assumes "mux_inv S" "ms_pumps S (Stream ns) = Some (Announcing b known)"
  shows "mux_inv ((moves S (Stream ns) Waiting)\<lparr>ms_result := ms_result S @ [Marked known b]\<rparr>)"
proof (rule mux_inv_moved [OF assms(1)], goal_cases)
  case (3 k)
  then show ?case using mux_invD(3,4) [OF assms(1), of k] by (simp add: moved)
next
  case (4 k p)
  then show ?case using mux_invD(1) [OF assms(1,2)] by (cases "k = ns") (auto simp: moved pump_ok_def)
next
  case (5 b' known')
  then show ?case using mux_invD(2) [OF assms(1,2)] by (auto simp: moved pump_ok_def)
qed (use mux_invD(6) [OF assms(1)] in \<open>auto simp: moved ordered_other\<close>)

lemma inv_joined:
  assumes "mux_inv S" "add W s ctx (ms_mux S) ns rv = Inr m" "ns \<notin> namespaces_of (ms_mux S)"
  shows "mux_inv ((moves (ends S (Join ns rv)) (Stream ns) Waiting)\<lparr>ms_mux := m, ms_last := (ms_last S)(ns := parseRevision rv)\<rparr>)"
proof (rule mux_inv_moved [OF assms(1)], goal_cases)
  case 1
  then show ?case using assms(3) by (auto simp: advances_def add_new [OF assms(2,3)])
next
  case (2 k p)
  then show ?case using mux_invD(1) [OF assms(1) 2] assms(3) by auto
next
  case (3 k)
  then show ?case
    using mux_invD(3,4) [OF assms(1), of k] parseRevision_bound [of rv] by (auto simp: moved add_new [OF assms(2,3)])
next
  case (4 k p)
  then show ?case by (cases "k = ns") (auto simp: moved pump_ok_def add_new [OF assms(2,3)])
qed (use mux_invD(6) [OF assms(1)] in \<open>auto simp: moved\<close>)

text \<open>A step that leaves the streams and what was delivered alone.\<close>

lemma inv_quiet:
  assumes "mux_inv S" "ms_mux S' = ms_mux S" "ms_last S' = ms_last S" "ms_result S' = ms_result S \<or> ms_result S' = ms_result S @ [Gone]"
    and "\<And>ns p. ms_pumps S' (Stream ns) = Some p \<Longrightarrow>
      ms_pumps S (Stream ns) = Some p \<or> (ms_pumps S (Stream ns) \<noteq> None \<and> p \<in> {Waiting, Expiring})"
  shows "mux_inv S'"
proof (rule mux_inv_moved [OF assms(1)], goal_cases)
  case (3 k)
  then show ?case using mux_invD(3,4) [OF assms(1), of k] assms(2,3) by simp
next
  case (4 k p)
  then show ?case using assms(5) [OF 4] mux_invD(1) [OF assms(1), of k] assms(2) by (auto simp: pump_ok_def)
next
  case 6
  then show ?case using assms(4) mux_invD(6) [OF assms(1)] by (auto simp: ordered_other)
qed (use assms(2-4) in auto)

lemma inv_expire: "mux_inv S \<Longrightarrow> ms_pumps S g = Some p \<Longrightarrow> mux_inv (expire S g)"
  by (rule inv_quiet [where S = S]) (auto simp: moved split: if_splits)

lemma mux_inv_step:
  assumes "mux_step W ctx S S'" "mux_inv S"
  shows "mux_inv S'"
  using assms(1)
proof cases
  case (receive ns e)
  then show ?thesis using inv_receive [OF assms(2)] by blast
next
  case (send ns e)
  show ?thesis unfolding send(1) by (rule inv_send [OF assms(2) send(2)])
next
  case (recording ns r)
  show ?thesis unfolding recording(1) by (rule inv_recording [OF assms(2) recording(2)])
next
  case (bookmark ns e m out)
  show ?thesis unfolding bookmark(1) by (rule inv_bookmark [OF assms(2) bookmark(2,4,5)])
next
  case (announce ns b known)
  show ?thesis unfolding announce(1) by (rule inv_announce [OF assms(2) announce(2)])
next
  case (joined ns rv n s m)
  show ?thesis
  proof (cases "ns \<in> namespaces_of (ms_mux S)")
    case True
    then show ?thesis unfolding joined(1) by (simp only: if_True) (rule inv_quiet [OF assms(2)], auto simp: moved)
  next
    case False
    then show ?thesis unfolding joined(1) using inv_joined [OF assms(2) joined(3) False] by simp
  qed
next
  case (closed g)
  then show ?thesis using inv_expire [OF assms(2)] by simp
next
  case (refused ns rv n s err)
  then show ?thesis using inv_expire [OF assms(2)] by simp
next
  case (given_up ns rv)
  then show ?thesis using inv_expire [OF assms(2)] by simp
next
  case (unheard ns b known)
  show ?thesis unfolding unheard(1) by (rule inv_quiet [OF assms(2)]) (use unheard in \<open>auto simp: moved split: if_splits\<close>)
next
  case (quit g p)
  show ?thesis unfolding quit(1) by (rule inv_quiet [OF assms(2)]) (auto simp: moved split: if_splits)
next
  case (gone g)
  show ?thesis unfolding gone(1) by (rule inv_quiet [OF assms(2)]) (auto simp: moved split: if_splits)
next
  case leave
  show ?thesis unfolding leave(1) by (rule inv_quiet [OF assms(2)]) auto
next
  case (appear ns rv)
  show ?thesis unfolding appear(1) by (rule inv_quiet [OF assms(2)]) (auto simp: moved)
next
  case (retry ns rv n s err)
  show ?thesis unfolding retry(1) by (rule inv_quiet [OF assms(2)]) (auto simp: moved)
qed

lemma mux_inv_start: "(\<forall>ns. rev_of m ns < 2 ^ 64) \<Longrightarrow> mux_inv (muxStart m)"
  by (auto simp: mux_inv_def muxStart_def pump_ok_def split: if_splits)

lemma mux_inv_reach: "mux_reach W ctx m S \<Longrightarrow> (\<forall>ns. rev_of m ns < 2 ^ 64) \<Longrightarrow> mux_inv S"
  by (induction rule: mux_reach.induct) (auto intro: mux_inv_start mux_inv_step)

section \<open>No part of the tenant goes uncovered in silence\<close>

text \<open>A namespace has a stream, or a join that is still trying.\<close>

definition covered :: "muxState \<Rightarrow> string \<Rightarrow> bool" where
  "covered S ns \<longleftrightarrow> ms_pumps S (Stream ns) \<noteq> None \<or> (\<exists>rv n. ms_pumps S (Join ns rv) = Some (Trying n))"

text \<open>As long as the stream is open, all of the tenant is covered or the 410 is about to be sent.\<close>

definition mux_cover :: "muxState \<Rightarrow> bool" where
  "mux_cover S \<longleftrightarrow> ms_stopped S \<or> (\<exists>g. ms_pumps S g = Some Expiring) \<or>
     (\<not> ms_expiring S \<and> ms_pumps S Follower = Some Waiting \<and> (\<forall>ns \<in> ms_owned S. covered S ns) \<and>
      (\<forall>ns \<in> namespaces_of (ms_mux S). ms_pumps S (Stream ns) \<noteq> None))"

lemma mux_cover_stopped: "ms_stopped S \<Longrightarrow> mux_cover S"
  by (simp add: mux_cover_def)

lemma mux_cover_expiring: "ms_pumps S g = Some Expiring \<Longrightarrow> mux_cover S"
  unfolding mux_cover_def by blast

lemma mux_cover_cases:
  assumes "mux_cover S"
  obtains "ms_stopped S" | g where "ms_pumps S g = Some Expiring"
    | (fine) "\<not> ms_expiring S" "ms_pumps S Follower = Some Waiting" "\<And>ns. ns \<in> ms_owned S \<Longrightarrow> covered S ns"
      "\<And>ns. ns \<in> namespaces_of (ms_mux S) \<Longrightarrow> ms_pumps S (Stream ns) \<noteq> None"
  using assms unfolding mux_cover_def by blast

lemma cover_moves:
  assumes "mux_cover S" "ms_pumps S (Stream ns) = Some q" "q \<noteq> Expiring"
    and "ms_pumps S' = (ms_pumps S)(Stream ns \<mapsto> p)" "ms_expiring S' = ms_expiring S" "ms_stopped S' = ms_stopped S"
    and "ms_owned S' = ms_owned S" "namespaces_of (ms_mux S') = namespaces_of (ms_mux S)"
  shows "mux_cover S'"
  using assms(1)
proof (cases rule: mux_cover_cases)
  case 1
  then show ?thesis using assms(6) by (simp add: mux_cover_stopped)
next
  case (2 g)
  then have "ms_pumps S' g = Some Expiring" using assms(2-4) by auto
  then show ?thesis by (rule mux_cover_expiring)
next
  case fine
  have "covered S' k" if "k \<in> ms_owned S" for k using fine(3) [OF that] assms(4) by (auto simp: covered_def)
  then show ?thesis using fine(1,2,4) assms(4-8) by (simp add: mux_cover_def)
qed

lemma cover_expire:
  assumes "mux_cover S" "ms_pumps S g = Some p" "p \<noteq> Expiring"
  shows "mux_cover (expire S g)"
proof (cases "ms_expiring S \<and> \<not> ms_stopped S")
  case True
  with assms(1) obtain g' where "ms_pumps S g' = Some Expiring" by (auto elim: mux_cover_cases)
  then have "ms_pumps (expire S g) g' = Some Expiring" using assms(2,3) True by (auto simp: moved)
  then show ?thesis by (rule mux_cover_expiring)
next
  case False
  then show ?thesis
    using mux_cover_expiring [of "expire S g" g] mux_cover_stopped [of "expire S g"] by (auto simp: moved)
qed

lemma cover_joined:
  assumes "mux_cover S" "ms_pumps S (Join ns rv) = Some (Trying n)"
    and "ms_pumps S' = (ms_pumps S)(Join ns rv := None, Stream ns := q)" "q = Some Waiting \<or> q = ms_pumps S (Stream ns)"
    and "ns \<in> namespaces_of (ms_mux S) \<or> q = Some Waiting"
    and "ms_expiring S' = ms_expiring S" "ms_stopped S' = ms_stopped S" "ms_owned S' = ms_owned S"
    and "namespaces_of (ms_mux S') \<subseteq> insert ns (namespaces_of (ms_mux S))" "ms_pumps S (Stream ns) \<noteq> Some Expiring \<or> q \<noteq> Some Waiting"
  shows "mux_cover S'"
proof -
  show ?thesis
    using assms(1)
  proof (cases rule: mux_cover_cases)
    case 1
    then show ?thesis using assms(7) by (simp add: mux_cover_stopped)
  next
    case (2 g)
    then have "ms_pumps S' g = Some Expiring" using assms(2-4,10) by (auto split: if_splits)
    then show ?thesis by (rule mux_cover_expiring)
  next
    case fine
    have q: "q \<noteq> None" using assms(4,5) fine(4) [of ns] by auto
    have "covered S' k" if "k \<in> ms_owned S" for k
    proof (cases "k = ns")
      case True
      then show ?thesis using q assms(3) by (simp add: covered_def)
    next
      case False
      then show ?thesis using fine(3) [OF that] assms(3) by (auto simp: covered_def)
    qed
    moreover have "ms_pumps S' (Stream k) \<noteq> None" if "k \<in> namespaces_of (ms_mux S')" for k
      using that assms(3,9) q fine(4) by (cases "k = ns") auto
    ultimately show ?thesis using fine(1,2) assms(3,6,8) by (simp add: mux_cover_def)
  qed
qed

lemma mux_cover_step:
  assumes "mux_step W ctx S S'" "mux_cover S" "mux_inv S"
  shows "mux_cover S'"
  using assms(1)
proof cases
  case (receive ns e)
  show ?thesis unfolding receive(1) by (rule cover_moves [OF assms(2) receive(2)]) (auto simp: moved)
next
  case (send ns e)
  show ?thesis unfolding send(1) by (rule cover_moves [OF assms(2) send(2)]) (auto simp: moved)
next
  case (recording ns r)
  show ?thesis unfolding recording(1) by (rule cover_moves [OF assms(2) recording(2)]) (auto simp: moved)
next
  case (bookmark ns e m out)
  show ?thesis unfolding bookmark(1)
    by (rule cover_moves [OF assms(2) bookmark(2), where p = "case out of None \<Rightarrow> Waiting | Some b \<Rightarrow> Announcing b (namespaces_of m)"])
      (auto simp: moved onBookmark_rev [OF bookmark(5)] split: option.split)
next
  case (announce ns b known)
  show ?thesis unfolding announce(1) by (rule cover_moves [OF assms(2) announce(2)]) (auto simp: moved)
next
  case (unheard ns b known)
  show ?thesis unfolding unheard(1) by (rule cover_moves [OF assms(2) unheard(2)]) (auto simp: moved)
next
  case (joined ns rv n s m)
  show ?thesis
  proof (cases "ns \<in> namespaces_of (ms_mux S)")
    case True
    then show ?thesis unfolding joined(1)
      by (simp only: if_True) (rule cover_joined [OF assms(2) joined(2), where q = "ms_pumps S (Stream ns)"], auto simp: moved)
  next
    case False
    then have "ms_pumps S (Stream ns) = None" using mux_invD(1) [OF assms(3), of ns] by (cases "ms_pumps S (Stream ns)") auto
    then show ?thesis unfolding joined(1) if_not_P [OF False]
      by (intro cover_joined [OF assms(2) joined(2), where q = "Some Waiting"])
        (use False in \<open>auto simp: moved add_new [OF joined(3) False]\<close>)
  qed
next
  case (closed g)
  then show ?thesis using cover_expire [OF assms(2)] by simp
next
  case (refused ns rv n s err)
  then show ?thesis using cover_expire [OF assms(2)] by simp
next
  case (given_up ns rv)
  then show ?thesis using cover_expire [OF assms(2)] by simp
next
  case (appear ns rv)
  show ?thesis
    using assms(2)
  proof (cases rule: mux_cover_cases)
    case (2 g)
    then have "ms_pumps S' g = Some Expiring" using appear by (auto simp: moved)
    then show ?thesis by (rule mux_cover_expiring)
  next
    case fine
    have "covered S' k" if "k \<in> ms_owned S'" for k
      using fine(3) [of k] that appear(1) by (cases "k = ns") (auto simp: covered_def moved)
    then show ?thesis using fine(1,2,4) appear(1) by (simp add: mux_cover_def moved)
  qed (use appear(1) in \<open>simp add: mux_cover_def moved\<close>)
next
  case (retry ns rv n s err)
  show ?thesis
    using assms(2)
  proof (cases rule: mux_cover_cases)
    case (2 g)
    then have "ms_pumps S' g = Some Expiring" using retry by (auto simp: moved)
    then show ?thesis by (rule mux_cover_expiring)
  next
    case fine
    have "covered S' k" if "k \<in> ms_owned S'" for k
      using fine(3) [of k] that retry(1) by (cases "k = ns") (auto simp: covered_def moved)
    then show ?thesis using fine(1,2,4) retry(1) by (simp add: mux_cover_def moved)
  qed (use retry(1) in \<open>simp add: mux_cover_def moved\<close>)
qed (simp_all add: mux_cover_def moved)

lemma mux_cover_reach: "mux_reach W ctx m S \<Longrightarrow> (\<forall>ns. rev_of m ns < 2 ^ 64) \<Longrightarrow> mux_cover S"
proof (induction rule: mux_reach.induct)
  case start
  show ?case by (auto simp: mux_cover_def muxStart_def covered_def)
next
  case (step S S')
  then show ?case using mux_cover_step mux_inv_reach by blast
qed

section \<open>The 410 is the last word\<close>

lemma mux_gone_step:
  assumes "mux_step W ctx S S'" "Gone \<in> set (ms_result S) \<longrightarrow> \<not> ms_reading S \<and> List.last (ms_result S) = Gone"
  shows "Gone \<in> set (ms_result S') \<longrightarrow> \<not> ms_reading S' \<and> List.last (ms_result S') = Gone"
  using assms by cases (auto simp: moved)

lemma mux_gone_reach:
  "mux_reach W ctx m S \<Longrightarrow> Gone \<in> set (ms_result S) \<Longrightarrow> \<not> ms_reading S \<and> List.last (ms_result S) = Gone"
proof (induction rule: mux_reach.induct)
  case (step S S')
  then show ?case using mux_gone_step [of W ctx S S'] by blast
qed (simp add: muxStart_def)

end
