(* ===== verification/Proxy_Invariants.thy ===== *)
theory Proxy_Invariants
  imports Tenant_Writes
begin

text \<open>
  Facts on the operations of the proxy: what a create or an update has been checked for, what a
  read shows, where a write goes, and when the retry loop returns.
\<close>

section \<open>Creates\<close>

text \<open>A service that opens nothing outside the cluster network.\<close>

definition exposes_nothing :: "robject \<Rightarrow> bool" where
  "exposes_nothing obj \<longleftrightarrow>
     (\<forall>svc st. ro_Body obj = ServiceB svc st \<longrightarrow>
        svc_Type svc \<notin> {ServiceTypeNodePort, ServiceTypeExternalName} \<and>
        node_ports svc = {} \<and> svc_HealthCheckNodePort svc = 0 \<and> svc_ExternalIPs svc = [])"

text \<open>The pods the object stands for: no volume driver of the tenant's choice, no probe of a host.\<close>

definition workload_safe :: "robject \<Rightarrow> bool" where
  "workload_safe obj \<longleftrightarrow>
     (\<forall>spec. podSpec_or_nil obj = Some spec \<longrightarrow>
        (\<forall>v \<in> set (ps_Volumes spec). vol_CSI v = None) \<and>
        (\<forall>c \<in> set (ps_Containers spec) \<union> set (ps_InitContainers spec). container_probes_itself c))"

text \<open>Every class the object names is one the platform offers.\<close>

definition classes_offered :: "contract \<Rightarrow> tenantProxy \<Rightarrow> robject \<Rightarrow> bool" where
  "classes_offered C tp obj \<longleftrightarrow>
     (\<forall>classes pvc st name. tp_publishedStorageClasses tp = Some classes \<longrightarrow>
        ro_Body obj = PersistentVolumeClaimB pvc st \<longrightarrow> pvc_StorageClassName pvc = Some name \<longrightarrow> name \<noteq> [] \<longrightarrow>
        offered C classes name) \<and>
     (\<forall>classes pvc st. tp_publishedVolumeAttributesClasses tp = Some classes \<longrightarrow>
        ro_Body obj = PersistentVolumeClaimB pvc st \<longrightarrow> derefClass (pvc_VolumeAttributesClassName pvc) \<noteq> [] \<longrightarrow>
        offered C classes (derefClass (pvc_VolumeAttributesClassName pvc))) \<and>
     (\<forall>classes name. tp_publishedDeviceClasses tp = Some classes \<longrightarrow> name \<in> set (deviceClassNamesOf obj) \<longrightarrow>
        name = [] \<or> Visible classes name)"

text \<open>Every address of an endpoint object is one of a pod in the namespace of the object.\<close>

definition endpoints_own :: "'s env \<Rightarrow> 's \<Rightarrow> User option \<Rightarrow> robject \<Rightarrow> bool" where
  "endpoints_own E s who obj \<longleftrightarrow>
     (\<forall>(address, ref) \<in> set (endpointAddresses obj).
        address = [] \<or> pod_address E s who (om_Namespace (ro_Meta obj)) address)"

declare firstError.simps [simp del]

lemmas create_guards = createGuardsBefore_def createGuardsAfter_def firstError_Inr

lemma exposes_nothing_guards:
  assumes "refuseExternalNameService obj = Inr ()" "refuseNewExternalIPs obj None = Inr ()" "refuseNodePorts obj None = Inr ()"
  shows "exposes_nothing obj"
  unfolding exposes_nothing_def
proof (intro allI impI)
  fix svc st assume "ro_Body obj = ServiceB svc st"
  then show "svc_Type svc \<notin> {ServiceTypeNodePort, ServiceTypeExternalName} \<and> node_ports svc = {} \<and>
      svc_HealthCheckNodePort svc = 0 \<and> svc_ExternalIPs svc = []"
    using assms NodePortsAreNew_iff [of svc None] ExternalIPsAreNew_iff [of svc None]
    by (simp add: refuseExternalNameService_def refuseNewExternalIPs_def refuseNodePorts_def serviceSpecOf_def
        split: if_splits)
qed

lemma classes_offered_guards:
  assumes "refuseUnpublishedStorageClass C tp obj = Inr ()" "refuseUnpublishedVolumeAttributesClass C tp obj None = Inr ()"
    "refuseUnpublishedDeviceClass tp obj = Inr ()"
  shows "classes_offered C tp obj"
  using assms
  by (auto simp: classes_offered_def refuseUnpublishedStorageClass_Inr refuseUnpublishedVolumeAttributesClass_Inr
      refuseUnpublishedDeviceClass_Inr Let_def)

lemma endpoints_own_guard: "refuseForgedEndpointAddress E s ctx obj = Inr () \<Longrightarrow> endpoints_own E s (cx_User ctx) obj"
  by (auto simp: endpoints_own_def dest: refuseForgedEndpointAddress_sound)

text \<open>The predicates look at the body of an object, its name space and nothing else.\<close>

lemma predicates_cong:
  assumes "ro_Body a = ro_Body b" "om_Namespace (ro_Meta a) = om_Namespace (ro_Meta b)"
  shows "exposes_nothing a = exposes_nothing b" "workload_safe a = workload_safe b"
    "classes_offered C tp a = classes_offered C tp b" "endpoints_own E s who a = endpoints_own E s who b"
  using assms body_cong [OF assms(1)]
  by (simp_all add: exposes_nothing_def workload_safe_def classes_offered_def endpoints_own_def)

lemma podSpec_pod: "ro_Body obj = PodB spec st \<Longrightarrow> podSpec_or_nil obj = Some spec"
  by (simp add: podSpec_or_nil_def PodSpecOf_def podSpecOf_def podTemplateOf_def)

lemma isPod_body: "isPod obj \<longleftrightarrow> (\<exists>spec st. ro_Body obj = PodB spec st)"
  by (cases "ro_Body obj") (auto simp: isPod_def)

lemma createPod_isPod: "createPod E tp obj tid = Inr pod \<Longrightarrow> isPod pod = isPod obj"
  using createPod_pod(1) [of E tp obj tid pod] createPod_other [of obj tp E tid pod]
  by (cases "isPod obj \<and> tp_subresource tp = []") (auto simp: isPod_body)

lemma createPod_place:
  "createPod E tp obj tid = Inr pod \<Longrightarrow>
     om_Name (ro_Meta pod) = om_Name (ro_Meta obj) \<and> om_Namespace (ro_Meta pod) = om_Namespace (ro_Meta obj)"
  using createPod_pod(2) [of E tp obj tid pod] createPod_other [of obj tp E tid pod]
  by (cases "isPod obj \<and> tp_subresource tp = []") auto

lemma createRequest_sound:
  assumes "scheme_ok (ev_scheme E)" "createRequest E s tp ctx obj tid = Inr sent" "tp_subresource tp = []"
  shows "exposes_nothing sent" "workload_safe sent" "classes_offered (ev_contract E) tp sent"
    "endpoints_own E s (cx_User ctx) sent" "\<And>b. ro_Body sent \<noteq> BindingB b"
    "\<And>spec st. ro_Body sent = PodB spec st \<Longrightarrow> ps_NodeName spec = [] \<and> placed (ev_contract E) tid spec"
proof -
  let ?h = "tp_hiddenMetadata tp"
  from createRequest_Inr [OF assms(1,2)] obtain up pod where up:
      "createPod E tp up tid = Inr pod" "createGuardsBefore E tp pod = Inr ()"
      "createGuardsAfter E s tp ctx (restoreObject ?h pod None) tid = Inr ()"
      "sent = (if isUnstructured pod then restoreObject ?h pod None else pod)"
    by blast
  let ?r = "restoreObject ?h pod None"
  have body: "ro_Body sent = ro_Body pod" and ns: "om_Namespace (ro_Meta sent) = om_Namespace (ro_Meta pod)"
    using up(4) by simp_all
  note same = predicates_cong [of ?r pod] predicates_cong [of sent pod, OF body ns]
  have G: "exposes_nothing ?r" "endpoints_own E s (cx_User ctx) ?r"
    using up(3) exposes_nothing_guards [of ?r] endpoints_own_guard [of E s ctx ?r] by (simp_all add: create_guards)
  show "exposes_nothing sent" "endpoints_own E s (cx_User ctx) sent" using G by (simp_all add: same)
  have "refuseUnpublishedDeviceClass tp ?r = Inr ()" using up(3) by (simp add: create_guards)
  then have "refuseUnpublishedDeviceClass tp pod = Inr ()"
    by (simp add: refuseUnpublishedDeviceClass_Inr body_cong(5) [of ?r pod])
  then have "classes_offered (ev_contract E) tp pod"
    using up(2) by (intro classes_offered_guards) (simp_all add: create_guards)
  then show "classes_offered (ev_contract E) tp sent" by (simp add: same)
  show "ro_Body sent \<noteq> BindingB b" for b
    using up(2) body by (auto simp: create_guards refuseTenantBinding_def)
  have probes: "refuseProbeHost ?r = Inr ()" using up(3) by (simp add: create_guards)
  have csi: "\<forall>v \<in> set (ps_Volumes spec). vol_CSI v = None" if "podSpec_or_nil pod = Some spec" for spec
  proof (cases "isPod pod")
    case True
    then show ?thesis
      using createPod_pod(1) [OF up(1) _ assms(3)] createPod_isPod [OF up(1)] that podSpec_pod by fastforce
  next
    case False
    then show ?thesis
      using up(2) that refuseInlineCSIVolume_Inr [OF False, of "()"] by (simp add: create_guards)
  qed
  have "workload_safe ?r"
    using probes csi body_cong(3) [of ?r pod] by (simp add: workload_safe_def refuseProbeHost_Inr)
  then show "workload_safe sent" by (simp add: same)
  show "ps_NodeName spec = [] \<and> placed (ev_contract E) tid spec" if "ro_Body sent = PodB spec st" for spec st
  proof -
    have pod: "ro_Body pod = PodB spec st" using that body by simp
    then have "isPod up" using createPod_isPod [OF up(1)] by (auto simp: isPod_body)
    from createPod_pod(1) [OF up(1) this assms(3)] pod have "placed (ev_contract E) tid spec" by auto
    moreover have "ps_NodeName spec = []" using up(2) pod by (simp add: create_guards refuseTenantChosenNode_def)
    ultimately show ?thesis by blast
  qed
qed

section \<open>Updates\<close>

text \<open>What an update may not do to a stored object.\<close>

definition update_bounded :: "tenantProxy \<Rightarrow> robject \<Rightarrow> robject \<Rightarrow> bool" where
  "update_bounded tp obj original \<longleftrightarrow>
     (\<forall>svc st old ost. ro_Body obj = ServiceB svc st \<longrightarrow> ro_Body original = ServiceB old ost \<longrightarrow>
        svc_Type svc \<notin> {ServiceTypeNodePort, ServiceTypeExternalName} \<and>
        node_ports svc \<subseteq> node_ports old \<and> set (svc_ExternalIPs svc) \<subseteq> set (svc_ExternalIPs old) \<and>
        svc_ClusterIP svc = svc_ClusterIP old) \<and>
     (\<forall>spec st ospec ost. tp_subresource tp = ''status'' \<longrightarrow> ro_Body obj = PodB spec st \<longrightarrow> ro_Body original = PodB ospec ost \<longrightarrow>
        pst_PodIPs st = pst_PodIPs ost \<and> pst_HostIP st = pst_HostIP ost \<and> pst_HostIPs st = pst_HostIPs ost \<and>
        pst_NominatedNodeName st = pst_NominatedNodeName ost)"

text \<open>The hidden keys of an object are those of another.\<close>

definition same_hidden :: "HiddenMetadata option \<Rightarrow> robject \<Rightarrow> robject \<Rightarrow> bool" where
  "same_hidden h obj original \<longleftrightarrow>
     (\<forall>k. hides h k \<longrightarrow> om_Labels (ro_Meta obj) k = om_Labels (ro_Meta original) k \<and>
        om_Annotations (ro_Meta obj) k = om_Annotations (ro_Meta original) k)"

lemma updateGuards_Inr:
  "updateGuards E s tp ctx obj original = Inr obj' \<longleftrightarrow>
     (\<exists>svc. firstError [
         refuseUnpublishedVolumeAttributesClass (ev_contract E) tp obj (Some original),
         refuseExternalNameService obj, refuseForgedEndpointAddress E s ctx obj,
         refuseUnpublishedEphemeralClasses (ev_contract E) tp obj (Some original),
         refuseTenantWrittenPodAddresses tp obj (Some original), refuseProbeHost obj,
         refuseNewExternalIPs obj (Some original)] = Inr () \<and>
       refuseForeignClusterIP obj (Some original) = Inr svc \<and> refuseTenantBinding svc = Inr () \<and>
       obj' = restoreObject (tp_hiddenMetadata tp) svc (Some original) \<and>
       firstError [refuseNodePorts obj' (Some original), refuseUnpublishedDeviceClass tp obj',
         refusePlatformQuotaWrite (ev_contract E) obj'] = Inr ())"
  unfolding updateGuards_def Let_def by (auto simp: bindR_Inr_iff)

lemma Restore_fields:
  "RestoreUpstreamClusterIP svc old = Some svc' \<Longrightarrow>
     svc_Type svc' = svc_Type svc \<and> svc_ExternalIPs svc' = svc_ExternalIPs svc"
  by (auto simp: RestoreUpstreamClusterIP_def Let_def split: option.splits if_splits)

lemma refuseForeignClusterIP_body:
  assumes "refuseForeignClusterIP obj old = Inr svc" "ro_Body svc = ServiceB spec st"
  shows "\<exists>spec0. ro_Body obj = ServiceB spec0 st \<and> RestoreUpstreamClusterIP spec0 (serviceOf old) = Some spec"
  using assms by (cases "ro_Body obj") (auto simp: refuseForeignClusterIP_def split: option.splits)

lemma refuseForeignClusterIP_service:
  assumes "refuseForeignClusterIP obj (Some original) = Inr svc" "ro_Body svc = ServiceB spec st" "ro_Body original = ServiceB old ost"
  shows "svc_ClusterIP spec = svc_ClusterIP old \<and> (\<exists>spec0. ro_Body obj = ServiceB spec0 st \<and>
    svc_Type spec = svc_Type spec0 \<and> svc_ExternalIPs spec = svc_ExternalIPs spec0)"
proof -
  from refuseForeignClusterIP_body [OF assms(1,2)] assms(3) obtain spec0 where
      "ro_Body obj = ServiceB spec0 st" "RestoreUpstreamClusterIP spec0 (Some (ro_Meta original, old)) = Some spec"
    by (auto simp: serviceOf_def)
  with Restore_result Restore_fields show ?thesis by blast
qed

lemma refuseForeignClusterIP_pod:
  "refuseForeignClusterIP obj old = Inr svc \<Longrightarrow> ro_Body svc = PodB spec st \<Longrightarrow> ro_Body obj = PodB spec st"
  by (cases "ro_Body obj") (auto simp: refuseForeignClusterIP_def split: option.splits)

lemma updateGuards_bounded:
  assumes "updateGuards E s tp ctx obj original = Inr obj'"
  shows "update_bounded tp obj' original"
proof -
  from assms obtain svc where g: "refuseExternalNameService obj = Inr ()"
      "refuseTenantWrittenPodAddresses tp obj (Some original) = Inr ()" "refuseNewExternalIPs obj (Some original) = Inr ()"
      "refuseForeignClusterIP obj (Some original) = Inr svc" "ro_Body obj' = ro_Body svc"
      "refuseNodePorts obj' (Some original) = Inr ()"
    unfolding updateGuards_Inr firstError_Inr by auto
  show ?thesis unfolding update_bounded_def
  proof (intro conjI allI impI)
    fix spec st ospec ost
    assume "tp_subresource tp = ''status''" "ro_Body obj' = PodB spec st" "ro_Body original = PodB ospec ost"
    then show "pst_PodIPs st = pst_PodIPs ost" "pst_HostIP st = pst_HostIP ost" "pst_HostIPs st = pst_HostIPs ost"
        "pst_NominatedNodeName st = pst_NominatedNodeName ost"
      using refuseForeignClusterIP_pod [OF g(4)] g(2,5) refuseTenantWrittenPodAddresses_Inr [of tp obj spec st original ospec ost]
      by auto
  next
    fix spec st old ost
    assume b: "ro_Body obj' = ServiceB spec st" "ro_Body original = ServiceB old ost"
    from refuseForeignClusterIP_service [OF g(4) _ b(2)] b(1) g(5) obtain spec0 where s0: "ro_Body obj = ServiceB spec0 st"
        "svc_Type spec = svc_Type spec0" "svc_ExternalIPs spec = svc_ExternalIPs spec0" "svc_ClusterIP spec = svc_ClusterIP old"
      by metis
    show "svc_ClusterIP spec = svc_ClusterIP old" by (rule s0(4))
    show "set (svc_ExternalIPs spec) \<subseteq> set (svc_ExternalIPs old)"
      using g(3) s0 b(2) ExternalIPsAreNew_iff [of spec0 "Some old"] by (simp add: refuseNewExternalIPs_def serviceSpecOf_def)
    show "node_ports spec \<subseteq> node_ports old" "svc_Type spec \<notin> {ServiceTypeNodePort, ServiceTypeExternalName}"
      using g(1,6) s0 b NodePortsAreNew_iff [of spec "Some old"]
      by (auto simp: refuseNodePorts_def refuseExternalNameService_def serviceSpecOf_def split: if_splits)
  qed
qed

lemma updateGuards_hidden:
  assumes "updateGuards E s tp ctx obj original = Inr obj'" "\<not> is_status obj" "\<not> is_status original"
  shows "same_hidden (tp_hiddenMetadata tp) obj' original"
proof -
  from assms(1) obtain svc where g: "refuseForeignClusterIP obj (Some original) = Inr svc"
      "obj' = restoreObject (tp_hiddenMetadata tp) svc (Some original)"
    unfolding updateGuards_Inr by auto
  have "\<not> is_status svc"
    using g(1) assms(2)
    by (cases "ro_Body obj") (auto simp: refuseForeignClusterIP_def is_status_def split: option.splits)
  then show ?thesis
    using g(2) assms(3)
    by (cases "tp_hiddenMetadata tp") (auto simp: same_hidden_def restoreObject_alt restore_one_def hides_def)
qed

section \<open>Reads\<close>

lemma object_clean_namespace:
  "object_clean C h obj \<Longrightarrow> object_clean C h (upd_meta (\<lambda>m. m\<lparr>om_Namespace := n\<rparr>) obj)"
  by (cases "isPod obj") (auto simp: object_clean_def meta_clean_def podTemplateOf_upd_meta dest: podTemplateOf_pod [rotated])

lemma is_status_views [simp]:
  "is_status (showTenantClusterIP obj) = is_status obj"
  "is_status (applyTenantViews E tp obj) = is_status obj"
  "is_status (echoRequestNamespace C obj tid ns) = is_status obj"
proof -
  show ip: "is_status (showTenantClusterIP obj) = is_status obj" for obj
    by (cases "ro_Body obj") (auto simp: showTenantClusterIP_def is_status_def Let_def split: option.split)
  show "is_status (applyTenantViews E tp obj) = is_status obj"
    by (cases "tp_hiddenMetadata tp")
      (simp_all add: applyTenantViews_def single_def Strip_Single Strip_def forEachObject_def strip_one_def ip Let_def)
  show "is_status (echoRequestNamespace C obj tid ns) = is_status obj"
    by (auto simp: echoRequestNamespace_def Let_def split: sum.split)
qed

lemma converted_clean:
  assumes "convertUpstreamObjectToTenantObject E tp got tid ns = Inr out" "json_ok (ev_contract E)" "\<not> tp_storageView tp"
    and "\<not> is_status out" "tp_hiddenMetadata tp \<noteq> None"
  shows "object_clean (ev_contract E) (tp_hiddenMetadata tp) out"
proof -
  obtain h where h: "tp_hiddenMetadata tp = Some h" using assms(5) by auto
  let ?C = "ev_contract E"
  from assms(1) obtain up where out: "out = echoRequestNamespace ?C (applyTenantViews E tp up) tid ns"
    by (auto simp: convertUpstreamObjectToTenantObject_def bindR_Inr_iff)
  have same: "is_status (echoRequestNamespace ?C obj tid ns) = is_status obj"
    "object_clean ?C hm obj \<Longrightarrow> object_clean ?C hm (echoRequestNamespace ?C obj tid ns)" for obj hm ns
    by (auto simp: echoRequestNamespace_def Let_def object_clean_namespace split: sum.split)
  have "applyTenantViews E tp up = (let o' = showTenantClusterIP up in if is_status o' then o' else strip_one ?C (Some h) o')"
    using assms(3) h by (simp add: applyTenantViews_def Strip_Single single_def Let_def)
  moreover have "\<not> is_status (applyTenantViews E tp up)" using assms(4) out same by simp
  ultimately have "object_clean ?C (Some h) (applyTenantViews E tp up)"
    using strip_one_clean [OF assms(2)] by (auto simp: Let_def split: if_splits)
  then show ?thesis using out h same by simp
qed

lemma shown_clean:
  assumes "shown E tp ctx tid fresh got = Inr out" "json_ok (ev_contract E)" "\<not> tp_storageView tp"
    and "\<not> is_status out" "tp_hiddenMetadata tp \<noteq> None"
  shows "object_clean (ev_contract E) (tp_hiddenMetadata tp) out"
  using assms(1) by (auto simp: shown_def bindR_Inr_iff dest: converted_clean [OF _ assms(2-5)])

section \<open>Where a write goes\<close>

text \<open>A property of the upstream state that every write to a target of a set keeps.\<close>

definition kept_by_writes :: "'s env \<Rightarrow> (Target \<Rightarrow> bool) \<Rightarrow> ('s \<Rightarrow> bool) \<Rightarrow> bool" where
  "kept_by_writes E T P \<longleftrightarrow>
     (\<forall>s t. T t \<longrightarrow> P s \<longrightarrow>
        (\<forall>obj o'. P (snd (up_Create (ev_client E) s t obj o'))) \<and>
        (\<forall>n obj o' sub. P (snd (up_CreateSubresource (ev_client E) s t n obj o' sub))) \<and>
        (\<forall>obj o' sub. P (snd (up_Update (ev_client E) s t obj o' sub))) \<and>
        (\<forall>obj o'. P (snd (up_UpdateStatus (ev_client E) s t obj o'))) \<and>
        (\<forall>n o' sub. P (snd (up_Delete (ev_client E) s t n o' sub))) \<and>
        (\<forall>n obj o'. P (snd (up_Patch (ev_client E) s t n obj o'))))"

lemma kept_writes:
  assumes "kept_by_writes E T P" "T t" "P s"
  shows "P (snd (up_Create (ev_client E) s t obj o'))" "P (snd (up_CreateSubresource (ev_client E) s t n obj o' sub))"
    "P (snd (up_Update (ev_client E) s t obj o' sub))" "P (snd (up_UpdateStatus (ev_client E) s t obj o'))"
    "P (snd (up_Delete (ev_client E) s t n d sub))" "P (snd (up_Patch (ev_client E) s t n obj po))"
  using assms unfolding kept_by_writes_def by blast+

lemma snd_mapError [simp]: "snd (mapError f m) = snd m"
  by (cases m; cases "fst m") (auto simp: mapError_def)

lemma snd_bindS_pure [simp]: "snd (bindS m (\<lambda>x s. (g x s, s))) = snd m"
  by (cases m; cases "fst m") auto

lemma kept_bindS:
  "P (snd m) \<Longrightarrow> (\<And>x s. m = (Inr x, s) \<Longrightarrow> P s \<Longrightarrow> P (snd (f x s))) \<Longrightarrow> P (snd (bindS m f))"
  by (cases m; cases "fst m") auto

lemma kept_pure: "P s \<Longrightarrow> (\<And>x. r = Inr x \<Longrightarrow> P (snd (f x s))) \<Longrightarrow> P (snd (bindS (r, s) f))"
  by (cases r) auto

text \<open>The requests of the context go to a set of targets.\<close>

definition addressed :: "'s env \<Rightarrow> tenantProxy \<Rightarrow> Context \<Rightarrow> (Target \<Rightarrow> bool) \<Rightarrow> bool" where
  "addressed E tp ctx T \<longleftrightarrow> (\<forall>t. getClient E tp ctx = Inr t \<longrightarrow> T t)"

lemma kept_forwardApply:
  assumes "kept_by_writes E T P" "addressed E tp ctx T" "P s"
  shows "P (snd (forwardApply E s tp ctx up tf fm o'))"
proof (cases "\<exists>patch client. applyPatch E tp ctx up tf fm = Inr (Some patch) \<and> getClient E tp ctx = Inr client")
  case True
  then obtain patch client where c: "applyPatch E tp ctx up tf fm = Inr (Some patch)" "getClient E tp ctx = Inr client"
    by blast
  then have "T client" using assms(2) by (simp add: addressed_def)
  from kept_writes(6) [OF assms(1) this assms(3)] c show ?thesis by (simp add: forwardApply_def)
next
  case False
  then have "snd (forwardApply E s tp ctx up tf fm o') = s"
    by (cases "getClient E tp ctx") (auto simp: forwardApply_def split: sum.split option.split)
  then show ?thesis using assms(3) by simp
qed

lemma kept_createSend:
  assumes "kept_by_writes E T P" "addressed E tp ctx T" "P s"
  shows "P (snd (createSend E s tp ctx utd tid o'))"
proof (cases "getClient E tp ctx")
  case (Inr client)
  then have "T client" using assms(2) by (simp add: addressed_def)
  with kept_writes(1,2) [OF assms(1) _ assms(3)] Inr assms(3) show ?thesis
    by (simp add: createSend_def split: option.split)
qed (use assms(3) in \<open>simp add: createSend_def\<close>)

lemma kept_Create:
  assumes "kept_by_writes E T P" "addressed E tp ctx T" "P s"
  shows "P (snd (Create E s tp ctx obj o'))"
  unfolding Create_def
  using kept_forwardApply [OF assms(1,2)] kept_createSend [OF assms(1,2)] assms(3)
  by (auto split: option.split intro!: kept_pure [where P = P] kept_bindS [where P = P])

lemma updateRequest_client: "updateRequest E tp ctx obj tid = Inr (client, utd) \<Longrightarrow> getClient E tp ctx = Inr client"
  by (auto simp: updateRequest_def bindR_Inr_iff)

lemma kept_updateSend:
  assumes "kept_by_writes E T P" "T client" "P s"
  shows "P (snd (updateSend E s tp client utd o'))"
  using kept_writes(3,4) [OF assms] by (simp add: updateSend_def)

lemma kept_update:
  assumes "kept_by_writes E T P" "addressed E tp ctx T" "P s"
  shows "P (snd (update E s tp ctx fresh obj o'))"
proof -
  have send: "P (snd (updateSend E s' tp client utd o''))" if "updateRequest E tp ctx obj tid = Inr (client, utd)" "P s'"
    for tid client utd s' o''
    using kept_updateSend [OF assms(1) _ that(2)] updateRequest_client [OF that(1)] assms(2) by (simp add: addressed_def)
  show ?thesis
    unfolding update_def
    using kept_forwardApply [OF assms(1,2)] send assms(3)
    by (auto split: option.split intro!: kept_pure [where P = P] kept_bindS [where P = P])
qed

lemma kept_attempt:
  assumes "kept_by_writes E T P" "addressed E tp ctx T" "P s"
  shows "P (snd (guaranteedUpdate_attempt E s tp ctx name fresh oi force o'))"
proof -
  have create: "P (snd (case Create E s tp ctx obj w of
        (Inl err, s) \<Rightarrow> if IsAlreadyExists err then (Retry, s) else (Done (Inl err), s)
      | (Inr created, s) \<Rightarrow> (Done (Inr (created, True)), s)))" for obj w
    using kept_Create [OF assms, of obj w] by (auto split: prod.splits sum.splits)
  have upd: "P (snd (case update E s tp ctx fresh obj w of
        (Inl err, s) \<Rightarrow> if isStaleWrite E err then (Retry, s) else (Done (Inl err), s)
      | (Inr got, s) \<Rightarrow> (Done (Inr got), s)))" for obj w
    using kept_update [OF assms, of fresh obj w] by (auto split: prod.splits sum.splits)
  show ?thesis
    unfolding guaranteedUpdate_attempt_def using assms(3) create upd
    by (simp split: sum.split prod.split)
qed

section \<open>The retry loop\<close>

text \<open>The loop cut off after so many turns, and the state its k-th turn starts from.\<close>

fun boundedUpdate ::
  "nat \<Rightarrow> (nat \<Rightarrow> 's \<Rightarrow> 'r attempt \<times> 's) \<Rightarrow> nat \<Rightarrow> 's \<Rightarrow> ('r \<times> 's) option" where
  "boundedUpdate 0 turn n s = None"
| "boundedUpdate (Suc fuel) turn n s =
     (case turn n s of (Done r, s') \<Rightarrow> Some (r, s') | (Retry, s') \<Rightarrow> boundedUpdate fuel turn (Suc n) s')"

definition turnOf ::
  "'s env \<Rightarrow> (nat \<Rightarrow> 's \<Rightarrow> 's) \<Rightarrow> tenantProxy \<Rightarrow> Context \<Rightarrow> string \<Rightarrow> robject \<Rightarrow> UpdatedObjectInfo \<Rightarrow> bool \<Rightarrow> WriteOptions \<Rightarrow>
   nat \<Rightarrow> 's \<Rightarrow> (robject \<times> bool) result attempt \<times> 's" where
  "turnOf E others tp ctx name fresh oi force o' n s =
     guaranteedUpdate_attempt E (others n s) tp ctx name fresh oi force o'"

primrec turnState :: "(nat \<Rightarrow> 's \<Rightarrow> 'r attempt \<times> 's) \<Rightarrow> nat \<Rightarrow> 's \<Rightarrow> nat \<Rightarrow> 's" where
  "turnState turn n s 0 = s"
| "turnState turn n s (Suc k) = snd (turn (n + k) (turnState turn n s k))"

lemma turnState_shift: "turnState turn (Suc n) (snd (turn n s)) k = turnState turn n s (Suc k)"
  by (induction k) simp_all

lemma bounded_iff:
  "boundedUpdate fuel turn n s = Some (r, s') \<longleftrightarrow>
     (\<exists>k < fuel. (\<forall>j < k. fst (turn (n + j) (turnState turn n s j)) = Retry) \<and>
        turn (n + k) (turnState turn n s k) = (Done r, s'))"
proof (induction fuel arbitrary: n s)
  case (Suc fuel)
  obtain a s1 where t: "turn n s = (a, s1)" by (rule prod.exhaust)
  show ?case
  proof (cases a)
    case (Done x)
    have "k = 0" if "\<forall>j < k. fst (turn (n + j) (turnState turn n s j)) = Retry" for k
      using that [rule_format, of 0] t Done by (cases k) auto
    then have "(\<exists>k < Suc fuel. (\<forall>j < k. fst (turn (n + j) (turnState turn n s j)) = Retry) \<and>
        turn (n + k) (turnState turn n s k) = (Done r, s')) \<longleftrightarrow> turn n s = (Done r, s')"
      by fastforce
    then show ?thesis using t Done by auto
  next
    case Retry
    let ?Q = "\<lambda>k. (\<forall>j < k. fst (turn (n + j) (turnState turn n s j)) = Retry) \<and>
        turn (n + k) (turnState turn n s k) = (Done r, s')"
    have shift: "?Q (Suc k) \<longleftrightarrow> (\<forall>j < k. fst (turn (Suc n + j) (turnState turn (Suc n) s1 j)) = Retry) \<and>
        turn (Suc n + k) (turnState turn (Suc n) s1 k) = (Done r, s')" for k
      using t Retry turnState_shift [of turn n s] by (auto simp: All_less_Suc2 simp del: turnState.simps(2))
    have "\<not> ?Q 0" using t Retry by simp
    then have "(\<exists>k < Suc fuel. ?Q k) \<longleftrightarrow> (\<exists>k < fuel. ?Q (Suc k))"
      using Ex_less_Suc2 [of fuel ?Q] by blast
    then show ?thesis using t Retry Suc.IH [of "Suc n" s1] shift by simp
  qed
qed simp

lemma bounded_guaranteed:
  "boundedUpdate fuel (turnOf E others tp ctx name fresh oi force o') n s = Some y \<Longrightarrow>
     guaranteedUpdate E others n s tp ctx name fresh oi force o' = Some y"
proof (induction fuel arbitrary: n s)
  case (Suc fuel)
  then show ?case
    by (subst guaranteedUpdate.simps) (auto simp: turnOf_def split: prod.splits attempt.splits)
qed simp

lemma guaranteed_bounded:
  assumes "guaranteedUpdate E others n s tp ctx name fresh oi force o' = Some y"
  shows "\<exists>fuel. boundedUpdate fuel (turnOf E others tp ctx name fresh oi force o') n s = Some y"
proof (rule guaranteedUpdate.raw_induct [where P = "\<lambda>E others n s tp ctx name fresh oi force o' y.
    \<exists>fuel. boundedUpdate fuel (turnOf E others tp ctx name fresh oi force o') n s = Some y", OF _ assms], goal_cases)
  case (1 gu E others n s tp ctx name fresh oi force o' y)
  obtain a s1 where t: "guaranteedUpdate_attempt E (others n s) tp ctx name fresh oi force o' = (a, s1)" by (rule prod.exhaust)
  show ?case
  proof (cases a)
    case (Done r)
    with 1(2) t show ?thesis by (intro exI [of _ "Suc 0"]) (simp add: turnOf_def)
  next
    case Retry
    with 1(2) t have "gu E others (Suc n) s1 tp ctx name fresh oi force o' = Some y" by simp
    from 1(1) [OF this] obtain fuel where
      "boundedUpdate fuel (turnOf E others tp ctx name fresh oi force o') (Suc n) s1 = Some y" by blast
    with t Retry show ?thesis by (intro exI [of _ "Suc fuel"]) (simp add: turnOf_def)
  qed
qed

lemma guaranteedUpdate_iff:
  "guaranteedUpdate E others n s tp ctx name fresh oi force o' = Some (r, s') \<longleftrightarrow>
     (\<exists>k. (\<forall>j < k. fst (turnOf E others tp ctx name fresh oi force o' (n + j)
            (turnState (turnOf E others tp ctx name fresh oi force o') n s j)) = Retry) \<and>
        turnOf E others tp ctx name fresh oi force o' (n + k)
          (turnState (turnOf E others tp ctx name fresh oi force o') n s k) = (Done r, s'))"
proof -
  define turn where "turn = turnOf E others tp ctx name fresh oi force o'"
  have "guaranteedUpdate E others n s tp ctx name fresh oi force o' = Some (r, s') \<longleftrightarrow>
      (\<exists>fuel. boundedUpdate fuel turn n s = Some (r, s'))"
    unfolding turn_def by (rule iffI) (erule guaranteed_bounded, erule exE, erule bounded_guaranteed)
  also have "\<dots> \<longleftrightarrow> (\<exists>k. (\<forall>j < k. fst (turn (n + j) (turnState turn n s j)) = Retry) \<and>
        turn (n + k) (turnState turn n s k) = (Done r, s'))"
    unfolding bounded_iff by (meson lessI)
  finally show ?thesis unfolding turn_def .
qed

lemma kept_guaranteedUpdate:
  assumes "guaranteedUpdate E others n s tp ctx name fresh oi force o' = Some (r, s')"
    and "kept_by_writes E T P" "addressed E tp ctx T" "\<forall>n s. P s \<longrightarrow> P (others n s)" "P s"
  shows "P s'"
proof -
  let ?turn = "turnOf E others tp ctx name fresh oi force o'"
  have turn: "P (snd (?turn m st))" if "P st" for m st
    using kept_attempt [OF assms(2,3)] assms(4) that by (simp add: turnOf_def)
  have "P (turnState ?turn n s k)" for k by (induction k) (simp_all add: assms(5) turn)
  moreover from assms(1) obtain k where "?turn (n + k) (turnState ?turn n s k) = (Done r, s')"
    unfolding guaranteedUpdate_iff by blast
  ultimately show ?thesis using turn [of "turnState ?turn n s k" "n + k"] by simp
qed

section \<open>Deletes\<close>

lemma kept_Delete:
  assumes "kept_by_writes E T P" "addressed E tp ctx T" "P s"
  shows "P (snd (Delete E s tp ctx name o'))"
proof (cases "tp_newFunc tp = None \<or> cx_Tenant ctx = None")
  case True
  then show ?thesis using assms(3) by (auto simp: Delete_def split: option.split)
next
  case False
  then obtain fresh tid where f: "tp_newFunc tp = Some fresh" "cx_Tenant ctx = Some tid" by auto
  have del: "P (snd (up_Delete (ev_client E) s client n o' sub))" if "getClient E tp ctx = Inr client" for client n sub
    using kept_writes(5) [OF assms(1) _ assms(3)] assms(2) that by (simp add: addressed_def)
  show ?thesis
    unfolding Delete_def f Let_def option.case
    by (rule kept_pure [where P = P, OF assms(3)])+
      (rule kept_bindS [where P = P], use del in simp, simp split: prod.split)
qed

lemma kept_deleteItems:
  assumes "kept_by_writes E T P" "T client" "P s"
  shows "P (snd (deleteItems E tp client tid o' items s))"
  using assms(3)
proof (induction items arbitrary: s)
  case (Cons item items)
  then show ?case
    using kept_writes(5) [OF assms(1,2) Cons.prems] by (auto simp: Let_def intro!: kept_bindS [where P = P])
qed simp

lemma kept_DeleteCollection:
  assumes "kept_by_writes E T P" "addressed E tp ctx T" "P s"
  shows "P (snd (DeleteCollection J E s tp ctx o' lo))"
proof (cases "tp_newListFunc tp = None \<or> cx_Tenant ctx = None")
  case True
  then show ?thesis using assms(3) by (auto simp: DeleteCollection_def split: option.split)
next
  case False
  then obtain tid where f: "tp_newListFunc tp \<noteq> None" "cx_Tenant ctx = Some tid" by auto
  have items: "P (snd (deleteItems E tp client tid o' items s))" if "getClient E tp ctx = Inr client" for client items
    using kept_deleteItems [OF assms(1) _ assms(3)] assms(2) that by (simp add: addressed_def)
  have listed: "P (snd (bindS (mapError g (r, s)) (\<lambda>l s. h l s)))" if "\<And>l. P (snd (h l s))"
    for g and r :: "UnstructuredList result" and h :: "UnstructuredList \<Rightarrow> 'a \<Rightarrow> UnstructuredList result \<times> 'a"
    using that assms(3) by (cases r) (simp_all add: mapError_def)
  show ?thesis
    unfolding DeleteCollection_def f(2) Let_def option.case if_not_P [OF f(1)]
    by (rule kept_pure [where P = P, OF assms(3)])+ (rule listed, use items in simp)
qed

end
