(* ===== verification/Example_Upstream.thy ===== *)
theory Example_Upstream
  imports Proxy_Invariants
begin

text \<open>
  An upstream cluster that meets the laws the proxy relies on: a store of objects with pages of a
  list, a scheme whose conversions succeed, and a text form of the two cursors.
\<close>

subsection \<open>Cursors\<close>

definition ex_quote :: "string \<Rightarrow> string" where
  "ex_quote str = concat (map (\<lambda>c. [CHR ''c'', c]) str) @ ''e''"

fun ex_unquote :: "string \<Rightarrow> (string \<times> string) option" where
  "ex_unquote [] = None"
| "ex_unquote (k # r) =
     (if k = CHR ''e'' then Some ([], r)
      else (case r of [] \<Rightarrow> None
        | c # r' \<Rightarrow> map_option (\<lambda>(str, rest). (c # str, rest)) (ex_unquote r')))"

lemma ex_unquote_quote [simp]: "ex_unquote (ex_quote str @ r) = Some (str, r)"
  by (induction str) (simp_all add: ex_quote_def)

lemma ex_quote_nonempty [simp]: "ex_quote str \<noteq> []"
  by (simp add: ex_quote_def)

definition ex_number :: "int \<Rightarrow> string" where
  "ex_number i = (if i < 0 then CHR ''-'' # replicate (nat (- i)) (CHR ''1'') else replicate (nat i) (CHR ''1''))"

definition ex_unnumber :: "string \<Rightarrow> int" where
  "ex_unnumber str = (case str of [] \<Rightarrow> 0
     | c # r \<Rightarrow> if c = CHR ''-'' then - int (length r) else int (length str))"

lemma ex_unnumber_number [simp]: "ex_unnumber (ex_number i) = i"
proof (cases "i \<le> 0")
  case False
  then obtain n where "nat i = Suc n" by (metis Suc_pred zero_less_nat_eq not_le)
  then show ?thesis using False by (simp add: ex_unnumber_def ex_number_def)
qed (auto simp: ex_unnumber_def ex_number_def)

definition ex_json :: cursor_json where
  "ex_json = \<lparr>
     json_fanout = (\<lambda>c. ex_quote (fc_APIVersion c) @ ex_quote (fc_ResourceVersion c) @
       ex_quote (ex_number (fc_NamespaceIndex c)) @ ex_quote (fc_Inner c)),
     unjson_fanout = (\<lambda>str. case ex_unquote str of None \<Rightarrow> None | Some (v, str) \<Rightarrow>
       (case ex_unquote str of None \<Rightarrow> None | Some (rv, str) \<Rightarrow>
       (case ex_unquote str of None \<Rightarrow> None | Some (i, str) \<Rightarrow>
       (case ex_unquote str of Some (inner, []) \<Rightarrow> Some \<lparr>fc_APIVersion = v, fc_ResourceVersion = rv,
          fc_NamespaceIndex = ex_unnumber i, fc_Inner = inner\<rparr> | _ \<Rightarrow> None)))),
     json_cluster = (\<lambda>c. ex_quote (cs_APIVersion c) @ ex_quote (cs_Upstream c)),
     unjson_cluster = (\<lambda>str. case ex_unquote str of None \<Rightarrow> None | Some (v, str) \<Rightarrow>
       (case ex_unquote str of Some (u, []) \<Rightarrow> Some \<lparr>cs_APIVersion = v, cs_Upstream = u\<rparr> | _ \<Rightarrow> None))\<rparr>"

lemma ex_unquote_last [simp]: "ex_unquote (ex_quote str) = Some (str, [])"
  using ex_unquote_quote [of str "[]"] by simp

lemma ex_json_ok: "cursor_json_ok ex_json"
  by (auto simp: cursor_json_ok_def ex_json_def split: list.splits)

subsection \<open>A store of objects\<close>

text \<open>An entry has its resource, its namespace and the object.\<close>

type_synonym ex_state = "(GroupVersionResource \<times> string \<times> robject) list"

definition ex_at :: "Target \<Rightarrow> GroupVersionResource \<times> string \<times> robject \<Rightarrow> bool" where
  "ex_at t entry \<longleftrightarrow> fst entry = tg_Resource t \<and> fst (snd entry) = tg_Namespace t"

definition ex_items :: "ex_state \<Rightarrow> Target \<Rightarrow> robject list" where
  "ex_items s t = map (snd \<circ> snd) (filter (ex_at t) s)"

definition ex_token :: "nat \<Rightarrow> string" where
  "ex_token k = replicate (max 1 k) (CHR ''x'')"

definition ex_page :: "robject list \<Rightarrow> ListOptions \<Rightarrow> UnstructuredList" where
  "ex_page items options =
     (let k = length (lo_Continue options); r = nat (lo_Limit options) in
      \<lparr>ul_APIVersion = ''v1'', ul_ResourceVersion = ''7'',
        ul_Continue = (if 0 < r \<and> k + r < length items then ex_token (k + r) else []),
        ul_RemainingItemCount = None,
        ul_Items = (if 0 < r then take r (drop k items) else drop k items)\<rparr>)"

definition ex_named :: "Target \<Rightarrow> string \<Rightarrow> GroupVersionResource \<times> string \<times> robject \<Rightarrow> bool" where
  "ex_named t name entry \<longleftrightarrow> ex_at t entry \<and> om_Name (ro_Meta (snd (snd entry))) = name"

definition ex_put :: "Target \<Rightarrow> robject \<Rightarrow> ex_state \<Rightarrow> ex_state" where
  "ex_put t obj s = filter (\<lambda>entry. \<not> ex_named t (om_Name (ro_Meta obj)) entry) s @ [(tg_Resource t, tg_Namespace t, obj)]"

definition ex_client :: "ex_state upstream" where
  "ex_client = \<lparr>
     up_Get = (\<lambda>s t name o' sub. case find (ex_named t name) s of None \<Rightarrow> Inl (NotFound name) | Some (g, n, obj) \<Rightarrow> Inr obj),
     up_List = (\<lambda>s t options. Inr (ex_page (ex_items s t) options)),
     up_Create = (\<lambda>s t obj o'. if find (ex_named t (om_Name (ro_Meta obj))) s \<noteq> None
       then (Inl (AlreadyExists (om_Name (ro_Meta obj))), s) else (Inr obj, s @ [(tg_Resource t, tg_Namespace t, obj)])),
     up_CreateSubresource = (\<lambda>s t name obj o' sub. (Inr obj, s)),
     up_Update = (\<lambda>s t obj o' sub. (Inr (obj, False), ex_put t obj s)),
     up_UpdateStatus = (\<lambda>s t obj o'. (Inr obj, ex_put t obj s)),
     up_Delete = (\<lambda>s t name o' sub. case find (ex_named t name) s of None \<Rightarrow> (Inl (NotFound name), s)
       | Some (g, n, obj) \<Rightarrow> if o' = ''dryRun'' then (Inr (obj, True), s)
         else (Inr (obj, True), filter (\<lambda>entry. \<not> ex_named t name entry) s)),
     up_Patch = (\<lambda>s t name obj o'. (Inr obj, ex_put t obj s))\<rparr>"

definition ex_scheme :: scheme where
  "ex_scheme = \<lparr>
     sch_New = (\<lambda>k. Inr fresh_status), sch_FromUnstructured = (\<lambda>u orig. Inr u), sch_Convert = (\<lambda>v out. Inr v),
     sch_ConvertToVersion = (\<lambda>k obj. Inr obj), sch_ToUnstructured = Inr, sch_ListFromUnstructured = (\<lambda>k. Inr),
     sch_FieldsFromJSON = (\<lambda>str. Inr {[str]}), sch_Leaves = (\<lambda>paths. paths),
     sch_deducedTypeConverter = (\<lambda>obj. Inr \<lparr>tv_object = obj, tv_Compare = (\<lambda>other. Inr ({[''metadata'']}, {})),
       tv_ExtractItems = (\<lambda>paths. Some obj)\<rparr>)\<rparr>"

definition ex_util :: request_util where
  "ex_util = \<lparr>
     TenantAdminUser = (\<lambda>tid. tid @ ''-admin''), TenantIDKey = ''tenant'',
     FilterUnstructuredList = (\<lambda>l tid ns. l), TrimTenantIDFromStatus = (\<lambda>status tid. status),
     OptimisticLockErrorMsg = ''the object has been modified'',
     ConvertInternalListOptions = (\<lambda>ctx options tid ns kind. Inr options)\<rparr>"

definition ex_env :: "ex_state env" where
  "ex_env = \<lparr>ev_contract = example_contract, ev_util = ex_util, ev_scheme = ex_scheme, ev_client = ex_client\<rparr>"

lemma ex_env_simps [simp]:
  "ev_contract ex_env = example_contract" "ev_util ex_env = ex_util" "ev_scheme ex_env = ex_scheme"
  "ev_client ex_env = ex_client"
  by (simp_all add: ex_env_def)

lemma ex_scheme_ok [simp]: "scheme_ok ex_scheme"
  by (simp add: scheme_ok_def ex_scheme_def)

text \<open>The store pages the lists of a namespace.\<close>

lemma ex_token_length: "0 < k \<Longrightarrow> length (ex_token k) = k"
  by (simp add: ex_token_def max_def)

lemma ex_paged:
  assumes "0 < lo_Limit options"
  shows "paged (namespaceList ex_env s tp ctx tid) options rv
    (\<lambda>ns. ex_items s \<lparr>tg_User = cx_User ctx, tg_Resource = upstreamResource example_contract tp tid, tg_Namespace = ns\<rparr>)
    (\<lambda>ns. ex_token)"
proof -
  have "ex_token k \<noteq> [] \<and> ascii (ex_token k)" for k by (auto simp: ex_token_def ascii_def list_all_iff)
  then show ?thesis
    unfolding paged_def
    using assms
    by (auto simp: namespaceList_def ex_client_def ex_page_def perNamespaceOptions_def Let_def ex_token_length)
qed

end
