(* ===== verification/Conversion_Properties.thy ===== *)
theory Conversion_Properties
  imports Convertor_Registry Hidden_Metadata Service_Rules Example_Contract
begin

text \<open>
  The properties of the conversion layer, stated on the convertors that InitConvertors builds:
  what a tenant writes reads back unchanged, and what reaches the upstream cluster names only
  what is the tenant's own.
\<close>

subsection \<open>Sample objects\<close>

definition sample_meta :: ObjectMeta where
  "sample_meta = empty_meta\<lparr>om_Name := ''web'', om_Namespace := ''shop''\<rparr>"

definition sample_object :: "string \<Rightarrow> string \<Rightarrow> body \<Rightarrow> robject" where
  "sample_object apiVersion kind b = \<lparr>ro_APIVersion = apiVersion, ro_Kind = kind, ro_Meta = sample_meta, ro_Body = b\<rparr>"

lemma sample_simps [simp]:
  "ro_Meta (sample_object a k b) = sample_meta" "ro_Body (sample_object a k b) = b"
  "ro_APIVersion (sample_object a k b) = a" "ro_Kind (sample_object a k b) = k"
  "om_Name sample_meta = ''web''" "om_Namespace sample_meta = ''shop''" "om_GenerateName sample_meta = []"
  "om_Labels sample_meta = Map.empty" "om_Annotations sample_meta = Map.empty"
  "om_OwnerReferences sample_meta = []"
  by (simp_all add: sample_object_def sample_meta_def empty_meta_def)

lemma sample_status [simp]: "is_status (sample_object a k b) = (case b of StatusB _ \<Rightarrow> True | _ \<Rightarrow> False)"
  by (simp add: is_status_def)

lemma sample_ident [simp]: "ident_of C sample_meta = \<lparr>id_Name = ''web'', id_GenerateName = [],
    id_Namespace = ''shop'', id_OwnerReferences = [], id_LastApplied = None\<rparr>"
  by (simp add: ident_of_def)

definition sample_classes :: labelledSet where
  "sample_classes = Static [''nginx'']"

definition sample_convertors :: "ObjectConvertor \<times> ObjectConvertor" where
  "sample_convertors =
     (NewNativeObjectConvertor example_contract
        \<lparr>defaultConvertor = NewDefaultConvertor example_contract,
          nativeKindToConvertors = fullTable example_contract (Some sample_classes) None\<rparr>,
      NewCrossReferenceConverter (NewDefaultConvertor example_contract)
        (NewCustomResourceTransformer example_contract None))"

lemma sample_init:
  "InitConvertors example_contract (Some sample_classes) None None = Inr (fst sample_convertors, snd sample_convertors)"
  by (simp add: InitConvertors_iff sample_convertors_def)

lemma sample_native_forward:
  assumes "map_of (fullTable example_contract (Some sample_classes) None) (GroupKindOf example_contract (sample_object a k b)) =
      Some (NewCrossReferenceConverter (NewDefaultConvertor example_contract) T)"
    and "\<not> is_status (sample_object a k b)"
  shows "ConvertTenantObjectToUpstreamObject (fst sample_convertors) (sample_object a k b) tid True =
    Forward T (reident example_contract \<lparr>id_Name = ''web'', id_GenerateName = [],
      id_Namespace = (if HasPrefix ''shop'' (tid @ ''-'') then ''shop'' else tid @ ''-shop''), id_OwnerReferences = [],
      id_LastApplied = None\<rparr> (sample_object a k b)) tid"
proof -
  have "ident_to_upstream example_contract tid True (ident_of example_contract sample_meta) =
    Inr \<lparr>id_Name = ''web'', id_GenerateName = [],
      id_Namespace = (if HasPrefix ''shop'' (tid @ ''-'') then ''shop'' else tid @ ''-shop''), id_OwnerReferences = [],
      id_LastApplied = None\<rparr>"
    unfolding sample_ident by (simp add: ident_to_upstream_def lastApplied_to_def)
  with assms show ?thesis
    by (simp add: sample_convertors_def NewNativeObjectConvertor_def
        nativeObjectConvertor_ConvertTenantObjectToUpstreamObject_def nativeConvertorOf_def
        NewCrossReferenceConverter_def NewDefaultConvertor_def Default_to_upstream_ident
        CrossReferenceConvertor_ConvertTenantObjectToUpstreamObject_def del: sample_ident)
qed

definition sample_upstream :: "string \<Rightarrow> robject \<Rightarrow> robject" where
  "sample_upstream tid obj = reident example_contract \<lparr>id_Name = ''web'', id_GenerateName = [],
     id_Namespace = tid @ ''-shop'', id_OwnerReferences = [], id_LastApplied = None\<rparr> obj"

lemma sample_forward:
  assumes "map_of (fullTable example_contract (Some sample_classes) None) (GroupKindOf example_contract (sample_object a k b)) =
      Some (NewCrossReferenceConverter (NewDefaultConvertor example_contract) T)"
    and "\<not> is_status (sample_object a k b)" "\<not> HasPrefix ''shop'' (tid @ ''-'')"
  shows "ConvertTenantObjectToUpstreamObject (fst sample_convertors) (sample_object a k b) tid True =
    Forward T (sample_upstream tid (sample_object a k b)) tid"
  using sample_native_forward [OF assms(1,2), of tid] assms(3) by (simp add: sample_upstream_def)

lemma sample_upstream_sel [simp]:
  "ro_Body (sample_upstream tid obj) = ro_Body obj"
  "om_Labels (ro_Meta (sample_upstream tid obj)) = om_Labels (ro_Meta obj)"
  "om_Namespace (ro_Meta (sample_upstream tid obj)) = tid @ ''-shop''"
  by (simp_all add: sample_upstream_def set_ident_def)

lemma sample_kinds:
  "GroupKindOf example_contract (sample_object ''rbac.authorization.k8s.io/v1'' ''RoleBinding'' b) =
     (''rbac.authorization.k8s.io'', ''RoleBinding'')"
  "GroupKindOf example_contract (sample_object ''networking.k8s.io/v1'' ''NetworkPolicy'' b) =
     (''networking.k8s.io'', ''NetworkPolicy'')"
  "GroupKindOf example_contract (sample_object ''v1'' ''PersistentVolume'' b) = ('''', ''PersistentVolume'')"
  "GroupKindOf example_contract (sample_object ''apps/v1'' ''Deployment'' b) = (''apps'', ''Deployment'')"
  "GroupKindOf example_contract (sample_object ''v1'' ''Namespace'' b) = ('''', ''Namespace'')"
  "GroupKindOf example_contract (sample_object ''admissionregistration.k8s.io/v1'' ''ValidatingWebhookConfiguration'' b) =
     (''admissionregistration.k8s.io'', ''ValidatingWebhookConfiguration'')"
  "GroupKindOf example_contract (sample_object ''authorization.k8s.io/v1'' ''SubjectAccessReview'' b) =
     (''authorization.k8s.io'', ''SubjectAccessReview'')"
  by (simp_all add: GroupKindOf_def ex_ParseGroupVersion_def)

subsection \<open>Round trips\<close>



definition sample_binding :: robject where
  "sample_binding = sample_object ''rbac.authorization.k8s.io/v1'' ''RoleBinding''
     (RoleBindingB [\<lparr>sub_Kind = ''User'', sub_Name = ''alice'', sub_Namespace = []\<rparr>]
        \<lparr>rr_APIGroup = ''rbac.authorization.k8s.io'', rr_Kind = ''ClusterRole'', rr_Name = ''view''\<rparr>)"

definition sample_binding_upstream :: robject where
  "sample_binding_upstream = sample_upstream ''t1'' (sample_object ''rbac.authorization.k8s.io/v1'' ''RoleBinding''
     (RoleBindingB [\<lparr>sub_Kind = ''User'', sub_Name = ''t1-alice'', sub_Namespace = []\<rparr>]
        \<lparr>rr_APIGroup = ''rbac.authorization.k8s.io'', rr_Kind = ''ClusterRole'', rr_Name = ''t1-view''\<rparr>))"

lemma sample_binding_forward:
  "ConvertTenantObjectToUpstreamObject (fst sample_convertors) sample_binding ''t1'' True = Inr sample_binding_upstream"
proof -
  have "ConvertTenantObjectToUpstreamObject (fst sample_convertors) sample_binding ''t1'' True =
    Forward (NewRoleBindingTransformer example_contract) (sample_upstream ''t1'' sample_binding) ''t1''"
    unfolding sample_binding_def by (rule sample_forward) (simp_all add: sample_kinds kind_lookups HasPrefix_def)
  then show ?thesis
    by (simp add: NewRoleBindingTransformer_def RoleBinding_Forward_iff transformSubjectList_def
        transformSubjectToUpstream_def roleRef_to_upstream_def HasPrefix_def sample_binding_def
        sample_binding_upstream_def sample_upstream_def sample_object_def reident_def upd_meta_def deref_def)
qed

lemma sample_binding_ok:
  "default_ok example_contract ''t1'' True sample_binding" "native_ok example_contract sample_classes ''t1'' sample_binding"
  by (simp_all add: default_ok_def ident_ok_def lastApplied_ok_def sample_binding_def HasPrefix_def
      native_ok_def sample_kinds binding_ok_def subject_ok_def)



text \<open>
  C20.  A custom resource that a tenant writes reads back unchanged through the convertor of
  custom resources, whether its group is the tenant's own or a shared one.
\<close>

theorem custom_convertor_roundtrip:
  assumes "contract_ok C" "tid_ok tid" "default_ok C tid ns obj" "customresource_ok shared C tid obj"
    and "InitConvertors C P shared dns = Inr (native, custom)"
    and "ConvertTenantObjectToUpstreamObject custom obj tid ns = Inr obj'"
  shows "ConvertUpstreamObjectToTenantObject custom obj' tid ns = Inr obj"
  using customresource.cross_roundtrip [OF assms(1-4)] assms(5,6)
  by (simp add: InitConvertors_iff NewCrossReferenceConverter_def)

definition sample_widget :: robject where
  "sample_widget = sample_object ''acme.io/v1'' ''Widget'' (UnstructuredB fmempty)"

definition sample_widget_upstream :: robject where
  "sample_widget_upstream = (sample_object ''t1-acme.io/v1'' ''Widget'' (UnstructuredB fmempty))
     \<lparr>ro_Meta := sample_meta\<lparr>om_Namespace := ''t1-shop''\<rparr>\<rparr>"

theorem custom_convertor_roundtrip_witness:
  "ConvertTenantObjectToUpstreamObject (snd sample_convertors) sample_widget ''t1'' True = Inr sample_widget_upstream \<and>
   ConvertUpstreamObjectToTenantObject (snd sample_convertors) sample_widget_upstream ''t1'' True = Inr sample_widget"
proof -
  have f: "ConvertTenantObjectToUpstreamObject (snd sample_convertors) sample_widget ''t1'' True = Inr sample_widget_upstream"
    by (simp add: sample_convertors_def NewCrossReferenceConverter_def NewDefaultConvertor_def
        CrossReferenceConvertor_ConvertTenantObjectToUpstreamObject_def Default_to_upstream_ident ident_to_upstream_def
        lastApplied_to_def sample_widget_def sample_widget_upstream_def NewCustomResourceTransformer_def
        CustomResourceTransformer_Forward_def CustomResourceTransformer_shared_def rewriteManagedFieldVersions_def
        sample_object_def reident_def upd_meta_def set_ident_def sample_meta_def empty_meta_def HasPrefix_def is_status_def
        ident_of_def isUnstructured_def Let_def)
  have "default_ok example_contract ''t1'' True sample_widget" "customresource_ok None example_contract ''t1'' sample_widget"
    by (simp_all add: default_ok_def ident_ok_def lastApplied_ok_def sample_widget_def HasPrefix_def
        customresource_ok_def CustomResourceTransformer_shared_def)
  from custom_convertor_roundtrip [OF example_contract_ok _ this sample_init f] f show ?thesis
    by (simp add: tid_ok_def)
qed

subsection \<open>Confinement\<close>

text \<open>
  C12.  Wherever a native object of a tenant lands upstream, it is under the tenant's prefix: a
  namespaced object in a namespace with the prefix, a cluster-scoped object under a name with
  the prefix.  (A CustomResourceDefinition carries the prefix in its group instead, see below.)
\<close>

theorem native_convertor_confines:
  assumes "contract_ok C" "InitConvertors C (Some P) shared dns = Inr (native, custom)"
    and "GroupKindOf C obj \<noteq> (''apiextensions.k8s.io'', ''CustomResourceDefinition'')"
    and "ConvertTenantObjectToUpstreamObject native obj tid ns = Inr obj'"
    and "if ns then om_Namespace (ro_Meta obj) \<noteq> [] else om_Name (ro_Meta obj) \<noteq> []"
  shows "HasPrefix (if ns then om_Namespace (ro_Meta obj') else om_Name (ro_Meta obj')) (tprefix C tid)"
  using native_place [OF assms(1-4)] assms(1,5) by (auto simp: Add_def)

theorem native_convertor_confines_witness:
  "HasPrefix (om_Namespace (ro_Meta sample_binding_upstream)) (tprefix example_contract ''t1'')"
  using native_convertor_confines [OF example_contract_ok sample_init _ sample_binding_forward]
  by (simp add: sample_binding_def sample_kinds)

text \<open>
  C5.  Two tenants never meet: what one of them writes never lands where an object of the
  other does.  Tenant ids all have the same length.
\<close>

theorem tenants_never_collide:
  assumes "contract_ok C" "InitConvertors C (Some P) shared dns = Inr (native, custom)"
    and "tid1 \<noteq> tid2" "length tid1 = length tid2"
    and "\<forall>obj\<in>{obj1, obj2}. GroupKindOf C obj \<noteq> (''apiextensions.k8s.io'', ''CustomResourceDefinition'') \<and>
      (if ns then om_Namespace (ro_Meta obj) \<noteq> [] else om_Name (ro_Meta obj) \<noteq> [])"
    and "ConvertTenantObjectToUpstreamObject native obj1 tid1 ns = Inr obj1'"
    and "ConvertTenantObjectToUpstreamObject native obj2 tid2 ns = Inr obj2'"
  shows "(om_Namespace (ro_Meta obj1'), om_Name (ro_Meta obj1')) \<noteq> (om_Namespace (ro_Meta obj2'), om_Name (ro_Meta obj2'))"
proof -
  have N: "naming_ok C" using assms(1) by simp
  let ?at = "\<lambda>obj. if ns then om_Namespace (ro_Meta obj) else om_Name (ro_Meta obj)"
  have "HasPrefix (?at obj1') (tprefix C tid1)" "HasPrefix (?at obj2') (tprefix C tid2)"
    using native_place [OF assms(1,2) _ assms(6)] native_place [OF assms(1,2) _ assms(7)] assms(5) N
    by (auto simp: Add_def)
  with tprefix_separates [OF N assms(4)] assms(3) show ?thesis by (auto split: if_splits)
qed

lemma sample_binding_forward_other:
  "\<exists>other. ConvertTenantObjectToUpstreamObject (fst sample_convertors) sample_binding ''t2'' True = Inr other"
proof -
  have "ConvertTenantObjectToUpstreamObject (fst sample_convertors) sample_binding ''t2'' True =
    Forward (NewRoleBindingTransformer example_contract) (sample_upstream ''t2'' sample_binding) ''t2''"
    unfolding sample_binding_def by (rule sample_forward) (simp_all add: sample_kinds kind_lookups HasPrefix_def)
  then show ?thesis
    by (simp add: NewRoleBindingTransformer_def RoleBinding_Forward_iff transformSubjectList_def
        transformSubjectToUpstream_def sample_binding_def deref_def)
qed

theorem tenants_never_collide_witness:
  "\<exists>other. ConvertTenantObjectToUpstreamObject (fst sample_convertors) sample_binding ''t2'' True = Inr other \<and>
     (om_Namespace (ro_Meta sample_binding_upstream), om_Name (ro_Meta sample_binding_upstream)) \<noteq>
       (om_Namespace (ro_Meta other), om_Name (ro_Meta other))"
proof -
  obtain other where
    o2: "ConvertTenantObjectToUpstreamObject (fst sample_convertors) sample_binding ''t2'' True = Inr other"
    using sample_binding_forward_other by blast
  have "\<forall>obj\<in>{sample_binding, sample_binding}.
      GroupKindOf example_contract obj \<noteq> (''apiextensions.k8s.io'', ''CustomResourceDefinition'') \<and>
      (if True then om_Namespace (ro_Meta obj) \<noteq> [] else om_Name (ro_Meta obj) \<noteq> [])"
    by (simp add: sample_binding_def sample_kinds)
  from tenants_never_collide [OF example_contract_ok sample_init _ _ this sample_binding_forward o2] o2
  show ?thesis by auto
qed


text \<open>
  C23.  A network policy peer that a tenant selects by namespace labels selects, once converted,
  only namespaces that carry the label of this tenant.
\<close>

theorem network_policy_confined:
  assumes "InitConvertors C P shared dns = Inr (native, custom)"
    and "GroupKindOf C obj = (''networking.k8s.io'', ''NetworkPolicy'')"
    and "ConvertTenantObjectToUpstreamObject native obj tid ns = Inr obj'"
    and "ro_Body obj' = NetworkPolicyB spec" "peer \<in> set (networkpolicy_peers spec)"
    and "npp_NamespaceSelector peer = Some sel" "matchLabels_hold sel labels"
  shows "labels (TenantNamespaceLabelKey C) = Some tid"
proof -
  from native_forward_cross [OF assms(1) _ assms(3), unfolded assms(2), OF kind_lookups(3)] obtain I where
    "Forward (NewNetworkPolicyTransformer C) (reident C I obj) tid = Inr obj'" by blast
  then show ?thesis using assms(4-7) confineToTenant_selects_own
    by (auto simp: NewNetworkPolicyTransformer_def NetworkPolicy_Forward_iff networkpolicy_peers_forEach
        split: option.splits)
qed

definition sample_policy :: robject where
  "sample_policy = sample_object ''networking.k8s.io/v1'' ''NetworkPolicy''
     (NetworkPolicyB \<lparr>np_Ingress = [\<lparr>npr_Peers = [\<lparr>npp_PodSelector = None,
        npp_NamespaceSelector = Some \<lparr>ls_MatchLabels = Map.empty, ls_MatchExpressions = []\<rparr>, npp_Rest = []\<rparr>],
        npr_Ports = []\<rparr>], np_Egress = [], np_Rest = []\<rparr>)"

lemma sample_policy_forward:
  "\<exists>obj' spec peer sel. ConvertTenantObjectToUpstreamObject (fst sample_convertors) sample_policy ''t1'' True = Inr obj' \<and>
     ro_Body obj' = NetworkPolicyB spec \<and> peer \<in> set (networkpolicy_peers spec) \<and> npp_NamespaceSelector peer = Some sel \<and>
     matchLabels_hold sel [''kubezoo.io/tenant'' \<mapsto> ''t1'', ''app'' \<mapsto> ''web'']"
proof -
  have "ConvertTenantObjectToUpstreamObject (fst sample_convertors) sample_policy ''t1'' True =
    Forward (NewNetworkPolicyTransformer example_contract) (sample_upstream ''t1'' sample_policy) ''t1''"
    unfolding sample_policy_def by (rule sample_forward) (simp_all add: sample_kinds kind_lookups HasPrefix_def)
  then show ?thesis
    by (auto simp: NewNetworkPolicyTransformer_def NetworkPolicy_Forward_iff sample_policy_def forEachPeer_def
        networkpolicy_peers_def confineToTenant_def Let_def matchLabels_hold_def)
qed

theorem network_policy_confined_witness:
  "\<exists>obj' spec peer sel. ConvertTenantObjectToUpstreamObject (fst sample_convertors) sample_policy ''t1'' True = Inr obj' \<and>
     ro_Body obj' = NetworkPolicyB spec \<and> peer \<in> set (networkpolicy_peers spec) \<and> npp_NamespaceSelector peer = Some sel \<and>
     \<not> matchLabels_hold sel [''kubezoo.io/tenant'' \<mapsto> ''t2'']"
proof -
  from sample_policy_forward obtain obj' spec peer sel where
    *: "ConvertTenantObjectToUpstreamObject (fst sample_convertors) sample_policy ''t1'' True = Inr obj'"
      "ro_Body obj' = NetworkPolicyB spec" "peer \<in> set (networkpolicy_peers spec)" "npp_NamespaceSelector peer = Some sel"
    by blast
  have "GroupKindOf example_contract sample_policy = (''networking.k8s.io'', ''NetworkPolicy'')"
    by (simp add: sample_policy_def sample_kinds)
  from network_policy_confined [OF sample_init this *, of "[''kubezoo.io/tenant'' \<mapsto> ''t2'']"] * show ?thesis by auto
qed

text \<open>
  C22.  An admission webhook of a tenant is confined: no URL, its service in a namespace of the
  tenant, its selector matches only namespaces of the tenant, and its rules name namespaced
  resources only.
\<close>

theorem webhook_configuration_confined:
  assumes "contract_ok C" "InitConvertors C P shared dns = Inr (native, custom)"
    and "GroupKindOf C obj \<in> {(''admissionregistration.k8s.io'', ''MutatingWebhookConfiguration''),
      (''admissionregistration.k8s.io'', ''ValidatingWebhookConfiguration'')}"
    and "ConvertTenantObjectToUpstreamObject native obj tid ns = Inr obj'"
    and "ro_Body obj' \<in> {MutatingWebhookConfigurationB ws, ValidatingWebhookConfigurationB ws}" "w \<in> set ws"
  shows "webhook_confined C tid w"
proof -
  have "map_of (fullTable C P dns) (GroupKindOf C obj) =
      Some (NewCrossReferenceConverter (NewDefaultConvertor C) (NewWebhookConfigurationTransformer C))"
    using assms(3) kind_lookups(6,7) by (elim insertE emptyE) simp_all
  from native_forward_cross [OF assms(2) this assms(4)] obtain I where
    "Forward (NewWebhookConfigurationTransformer C) (reident C I obj) tid = Inr obj'" by blast
  then obtain ws0 where "mapR (forwardWebhook C tid) ws0 = Inr ws"
    using assms(5) by (auto simp: NewWebhookConfigurationTransformer_def Webhook_Forward_iff)
  from mapR_in_set [OF this assms(6)] forwardWebhook_confined assms(1) show ?thesis by auto
qed

definition sample_webhook :: Webhook where
  "sample_webhook = \<lparr>wh_Name = ''check'', wh_ClientConfig = \<lparr>wcc_URL = None, wcc_ServiceNamespace = Some ''shop'', wcc_Rest = []\<rparr>,
     wh_NamespaceSelector = None, wh_Rules = [\<lparr>rwo_Scope = None, rwo_Rest = []\<rparr>], wh_Rest = []\<rparr>"

definition sample_webhooks :: robject where
  "sample_webhooks = sample_object ''admissionregistration.k8s.io/v1'' ''ValidatingWebhookConfiguration''
     (ValidatingWebhookConfigurationB [sample_webhook])"

lemma sample_webhooks_forward:
  "\<exists>obj' w. ConvertTenantObjectToUpstreamObject (fst sample_convertors) sample_webhooks ''t1'' True = Inr obj' \<and>
     ro_Body obj' = ValidatingWebhookConfigurationB [w]"
proof -
  have "ConvertTenantObjectToUpstreamObject (fst sample_convertors) sample_webhooks ''t1'' True =
    Forward (NewWebhookConfigurationTransformer example_contract) (sample_upstream ''t1'' sample_webhooks) ''t1''"
    unfolding sample_webhooks_def by (rule sample_forward) (simp_all add: sample_kinds kind_lookups HasPrefix_def)
  then show ?thesis
    by (auto simp: NewWebhookConfigurationTransformer_def Webhook_Forward_iff sample_webhooks_def sample_webhook_def
        forwardWebhook_def forwardWebhookClientConfig_def confineRulesToNamespacedScope_def bindR_Inr_iff)
qed

theorem webhook_configuration_confined_witness:
  "\<exists>obj' w. ConvertTenantObjectToUpstreamObject (fst sample_convertors) sample_webhooks ''t1'' True = Inr obj' \<and>
     ro_Body obj' = ValidatingWebhookConfigurationB [w] \<and> webhook_confined example_contract ''t1'' w"
proof -
  from sample_webhooks_forward obtain obj' w where
    *: "ConvertTenantObjectToUpstreamObject (fst sample_convertors) sample_webhooks ''t1'' True = Inr obj'"
      "ro_Body obj' = ValidatingWebhookConfigurationB [w]" by blast
  have "GroupKindOf example_contract sample_webhooks \<in>
    {(''admissionregistration.k8s.io'', ''MutatingWebhookConfiguration''),
      (''admissionregistration.k8s.io'', ''ValidatingWebhookConfiguration'')}"
    by (simp add: sample_webhooks_def sample_kinds)
  from webhook_configuration_confined [OF example_contract_ok sample_init this *(1), of "[w]" w] * show ?thesis by auto
qed


text \<open>
  C21.  Every subject a tenant's binding grants something to is the tenant's own: a user or group
  under its prefix, a service account in one of its namespaces, or the group of the service
  accounts of one of its namespaces.
\<close>

theorem binding_subjects_own:
  assumes "contract_ok C" "InitConvertors C P shared dns = Inr (native, custom)"
    and "GroupKindOf C obj \<in> {(''rbac.authorization.k8s.io'', ''RoleBinding''),
      (''rbac.authorization.k8s.io'', ''ClusterRoleBinding'')}"
    and "ConvertTenantObjectToUpstreamObject native obj tid ns = Inr obj'"
    and "ro_Body obj' \<in> {RoleBindingB subjects role, ClusterRoleBindingB subjects role}" "s \<in> set subjects"
  shows "own_subject C tid s"
proof -
  consider "GroupKindOf C obj = (''rbac.authorization.k8s.io'', ''RoleBinding'')"
    | "GroupKindOf C obj = (''rbac.authorization.k8s.io'', ''ClusterRoleBinding'')" using assms(3) by blast
  then have "\<exists>ss. transformSubjectList ss tid (transformSubjectToUpstream C) = Inr subjects"
  proof cases
    case 1
    from native_forward_cross [OF assms(2) _ assms(4), unfolded 1, OF kind_lookups(4)] obtain I where
      "Forward (NewRoleBindingTransformer C) (reident C I obj) tid = Inr obj'" by blast
    with assms(5) show ?thesis
      by (auto simp: NewRoleBindingTransformer_def RoleBinding_Forward_iff)
  next
    case 2
    from native_forward_cross [OF assms(2) _ assms(4), unfolded 2, OF kind_lookups(5)] obtain I where
      "Forward (NewClusterRoleBindingTransformer C) (reident C I obj) tid = Inr obj'" by blast
    with assms(5) show ?thesis
      by (auto simp: NewClusterRoleBindingTransformer_def ClusterRoleBinding_Forward_iff)
  qed
  then obtain ss where "mapR (\<lambda>s. transformSubjectToUpstream C s tid) ss = Inr subjects"
    by (auto simp: transformSubjectList_def)
  from mapR_in_set [OF this assms(6)] transformSubjectToUpstream_own [OF assms(1)] show ?thesis by auto
qed

theorem binding_subjects_own_witness:
  "own_subject example_contract ''t1'' \<lparr>sub_Kind = ''User'', sub_Name = ''t1-alice'', sub_Namespace = []\<rparr> \<and>
   ro_Body sample_binding_upstream =
     RoleBindingB [\<lparr>sub_Kind = ''User'', sub_Name = ''t1-alice'', sub_Namespace = []\<rparr>]
        \<lparr>rr_APIGroup = ''rbac.authorization.k8s.io'', rr_Kind = ''ClusterRole'', rr_Name = ''t1-view''\<rparr>"
proof -
  have gk: "GroupKindOf example_contract sample_binding \<in> {(''rbac.authorization.k8s.io'', ''RoleBinding''),
      (''rbac.authorization.k8s.io'', ''ClusterRoleBinding'')}"
    by (simp add: sample_binding_def sample_kinds)
  have b: "ro_Body sample_binding_upstream = RoleBindingB [\<lparr>sub_Kind = ''User'', sub_Name = ''t1-alice'', sub_Namespace = []\<rparr>]
      \<lparr>rr_APIGroup = ''rbac.authorization.k8s.io'', rr_Kind = ''ClusterRole'', rr_Name = ''t1-view''\<rparr>"
    by (simp add: sample_binding_upstream_def)
  from binding_subjects_own [OF example_contract_ok sample_init gk sample_binding_forward] b show ?thesis by auto
qed


definition sample_review :: robject where
  "sample_review = sample_object ''authorization.k8s.io/v1'' ''SubjectAccessReview''
     (SubjectAccessReviewB \<lparr>sar_ResourceAttributes = None, sar_User = ''alice'', sar_Groups = [], sar_Rest = []\<rparr> [])"



definition sample_volume :: robject where
  "sample_volume = sample_object ''v1'' ''PersistentVolume'' (PersistentVolumeB
     \<lparr>pv_Source = empty_source\<lparr>pvs_NFS := Some ''server''\<rparr>,
       pv_ClaimRef = Some \<lparr>obr_Kind = ''PersistentVolumeClaim'', obr_Namespace = ''shop'', obr_Name = ''data'', obr_UID = [],
         obr_APIVersion = ''v1'', obr_ResourceVersion = [], obr_FieldPath = []\<rparr>, pv_Rest = []\<rparr> [])"



text \<open>
  C13.  A workload of a tenant runs where the platform says: the pod template that reaches the
  upstream cluster selects the node pool of the tenant, tolerates only that pool and the two
  node conditions, has the scheduler of the tenants, no affinity, no spread constraint and no
  node of its own choice, and names the tenant's namespace in its annotation.
\<close>

theorem workload_placed:
  assumes "InitConvertors C P shared dns = Inr (native, custom)"
    and "GroupKindOf C obj \<in> set PodCarryingKinds" "\<not> isPod obj"
    and "ConvertTenantObjectToUpstreamObject native obj tid ns = Inr obj'"
    and "podTemplateOf obj' = Inr (Some (m, s))"
  shows "placed C tid s \<and> ps_NodeName s = [] \<and>
    (\<forall>n. TrimTenantIDPrefix C tid (om_Namespace (ro_Meta obj')) = n \<and> n \<noteq> [] \<longrightarrow>
       om_Annotations m TenantNamespaceAnnotation = Some n)"
proof -
  from native_forward_cross [OF assms(1) pod_lookup [OF assms(2)] assms(4)] obtain I where
    f: "Forward (podTransformer C dns) (reident C I obj) tid = Inr obj'" by blast
  have pod: "\<not> isPod (reident C I obj)" using assms(3) by (simp add: isPod_def)
  have ns: "om_Namespace (ro_Meta obj') = om_Namespace (ro_Meta (reident C I obj))"
    using keeps_place_pod f unfolding keeps_place_def by blast
  let ?n = "TrimTenantIDPrefix C tid (om_Namespace (ro_Meta obj'))"
  obtain m0 s0 where ms: "m = fst (project C m0 ((place C s0 tid)\<lparr>ps_NodeName := []\<rparr>) ?n)"
    "s = setTenantDNS (snd (project C m0 ((place C s0 tid)\<lparr>ps_NodeName := []\<rparr>) ?n)) ?n dns tid"
    using podTransformer_Forward_template [OF f pod assms(5), of ?n] ns by auto
  have "om_Annotations m TenantNamespaceAnnotation = Some ?n" if "?n \<noteq> []"
    unfolding ms(1) by (rule project_annotation [OF that]) (rule prod.collapse [symmetric])
  then show ?thesis by (simp add: ms(2))
qed

definition sample_container :: Container where
  "sample_container = \<lparr>ct_Name = ''app'', ct_LivenessProbe = None, ct_ReadinessProbe = None, ct_StartupProbe = None,
     ct_Lifecycle = None, ct_Rest = []\<rparr>"

definition sample_podspec :: PodSpec where
  "sample_podspec = \<lparr>ps_Volumes = [], ps_InitContainers = [], ps_Containers = [sample_container],
     ps_NodeSelector = [''disk'' \<mapsto> ''ssd''], ps_NodeName = ''node-7'', ps_Tolerations = [], ps_SchedulerName = [],
     ps_Affinity = Some ''anywhere'', ps_TopologySpreadConstraints = [], ps_AutomountServiceAccountToken = None,
     ps_DNSPolicy = DNSClusterFirst, ps_DNSConfig = None, ps_Rest = []\<rparr>"

definition sample_deployment :: robject where
  "sample_deployment = sample_object ''apps/v1'' ''Deployment''
     (DeploymentB \<lparr>pt_ObjectMeta = empty_meta, pt_Spec = sample_podspec\<rparr> [])"

lemma sample_deployment_forward:
  "\<exists>obj' m s. ConvertTenantObjectToUpstreamObject (fst sample_convertors) sample_deployment ''t1'' True = Inr obj' \<and>
     podTemplateOf obj' = Inr (Some (m, s))"
proof -
  have gk: "GroupKindOf example_contract sample_deployment \<in> set PodCarryingKinds"
    by (simp add: sample_deployment_def sample_kinds PodCarryingKinds_def)
  have f: "ConvertTenantObjectToUpstreamObject (fst sample_convertors) sample_deployment ''t1'' True =
    Forward (podTransformer example_contract None) (sample_upstream ''t1'' sample_deployment) ''t1''"
    using pod_lookup [OF gk, of example_contract "Some sample_classes" None] unfolding sample_deployment_def
    by (intro sample_forward) (simp_all add: HasPrefix_def)
  have t: "podTemplateOf (sample_upstream ''t1'' sample_deployment) = Inr (Some (empty_meta, sample_podspec))"
    and pod: "\<not> isPod (sample_upstream ''t1'' sample_deployment)"
    by (simp_all add: podTemplateOf_def isPod_def sample_deployment_def)
  obtain m s where
    p: "project example_contract empty_meta ((place example_contract sample_podspec ''t1'')\<lparr>ps_NodeName := []\<rparr>)
      (TrimTenantIDPrefix example_contract ''t1'' (om_Namespace (ro_Meta (sample_upstream ''t1'' sample_deployment)))) = (m, s)"
    using prod.exhaust by blast
  show ?thesis
    unfolding f podTransformer_Forward_eq [OF t pod refl p] using podTemplateOf_set [OF t] by blast
qed

theorem workload_placed_witness:
  "\<exists>obj' m s. ConvertTenantObjectToUpstreamObject (fst sample_convertors) sample_deployment ''t1'' True = Inr obj' \<and>
     podTemplateOf obj' = Inr (Some (m, s)) \<and> placed example_contract ''t1'' s \<and> ps_NodeName s = []"
proof -
  from sample_deployment_forward obtain obj' m s where
    *: "ConvertTenantObjectToUpstreamObject (fst sample_convertors) sample_deployment ''t1'' True = Inr obj'"
      "podTemplateOf obj' = Inr (Some (m, s))" by blast
  have "GroupKindOf example_contract sample_deployment \<in> set PodCarryingKinds" "\<not> isPod sample_deployment"
    by (simp_all add: sample_deployment_def sample_kinds PodCarryingKinds_def isPod_def)
  from workload_placed [OF sample_init this *] * show ?thesis by auto
qed

text \<open>
  The placement and the projected namespace are stable: converting what the conversion
  made of a workload changes nothing, so applying an unchanged manifest again is a no-op.
\<close>

theorem placement_and_projection_stable:
  "(PlacementTransformer_Forward C obj tid = Inr obj' \<longrightarrow> PlacementTransformer_Forward C obj' tid = Inr obj') \<and>
   (SATokenNamespaceTransformer_Forward C obj tid = Inr obj'' \<longrightarrow>
      SATokenNamespaceTransformer_Forward C obj'' tid = Inr obj'')"
  using Placement_Forward_idem SAToken_Forward_idem by blast

theorem placement_and_projection_stable_witness:
  "\<exists>obj'. PlacementTransformer_Forward example_contract sample_deployment ''t1'' = Inr obj' \<and>
     PlacementTransformer_Forward example_contract obj' ''t1'' = Inr obj'"
proof -
  have "podTemplateOf sample_deployment = Inr (Some (empty_meta, sample_podspec))" "\<not> isPod sample_deployment"
    by (simp_all add: sample_deployment_def podTemplateOf_def isPod_def)
  from Placement_Forward_eq [OF this, of example_contract "''t1''"]
    placement_and_projection_stable [of example_contract sample_deployment "''t1''"] show ?thesis by blast
qed

text \<open>
  A CustomResourceDefinition of a tenant defines, upstream, a group under the tenant's
  prefix, under the name that goes with it.
\<close>

theorem crd_group_confined:
  assumes "contract_ok C" "CRDConvertor_ConvertTenantObjectToUpstreamObject C obj tid ns = Inr obj'"
  shows "\<exists>spec'. ro_Body obj' = CustomResourceDefinitionB spec' \<and> HasPrefix (crd_Group spec') (tprefix C tid) \<and>
    om_Name (ro_Meta obj') = crd_Plural spec' @ ''.'' @ crd_Group spec'"
proof -
  from assms(2) obtain spec' where "ro_Body obj' = CustomResourceDefinitionB spec'"
    by (cases "ro_Body obj") (auto simp: CRDConvertor_ConvertTenantObjectToUpstreamObject_def bindR_Inr_iff Let_def
        split: if_splits)
  with CRD_upstream_group [OF _ assms(2)] assms(1) show ?thesis by simp
qed

definition sample_crd :: robject where
  "sample_crd = \<lparr>ro_APIVersion = ''apiextensions.k8s.io/v1'', ro_Kind = ''CustomResourceDefinition'',
     ro_Meta = empty_meta\<lparr>om_Name := ''widgets.acme.io''\<rparr>,
     ro_Body = CustomResourceDefinitionB \<lparr>crd_Group = ''acme.io'', crd_Plural = ''widgets'',
       crd_ConversionClientConfig = None, crd_Rest = []\<rparr>\<rparr>"

theorem crd_group_confined_witness:
  "\<exists>obj' spec'. CRDConvertor_ConvertTenantObjectToUpstreamObject example_contract sample_crd ''t1'' False = Inr obj' \<and>
     ro_Body obj' = CustomResourceDefinitionB spec' \<and> HasPrefix (crd_Group spec') ''t1-'' \<and>
     om_Name (ro_Meta obj') = crd_Plural spec' @ ''.'' @ crd_Group spec'"
proof -
  obtain obj' where
    *: "CRDConvertor_ConvertTenantObjectToUpstreamObject example_contract sample_crd ''t1'' False = Inr obj'"
    by (simp add: CRDConvertor_ConvertTenantObjectToUpstreamObject_def sample_crd_def forwardCRDConversionWebhook_def
        empty_meta_def)
  from crd_group_confined [OF example_contract_ok *] * show ?thesis by auto
qed

text \<open>
  C26.  A namespace a tenant creates carries upstream the label of this tenant and the pinned
  pod security level and version; one that claims to be of another tenant is refused.
\<close>

theorem namespace_labels_pinned:
  assumes "contract_ok C"
  shows "(NamespaceTransformer_Forward C obj tid = Inr obj' \<longrightarrow>
      om_Labels (ro_Meta obj') (TenantNamespaceLabelKey C) = Some tid \<and>
      om_Labels (ro_Meta obj') (PodSecurityEnforceLabelKey C) = Some (PodSecurityLevel C) \<and>
      om_Labels (ro_Meta obj') (PodSecurityEnforceVersionLabelKey C) = Some (PodSecurityVersion C)) \<and>
    (om_Labels (ro_Meta obj) (TenantNamespaceLabelKey C) = Some other \<and> other \<noteq> tid \<longrightarrow>
      (\<exists>e. NamespaceTransformer_Forward C obj tid = Inl e))"
  using Namespace_Forward_labels [OF assms] Namespace_Forward_foreign_label by blast

theorem namespace_labels_pinned_witness:
  "\<exists>e. NamespaceTransformer_Forward example_contract
     \<lparr>ro_APIVersion = ''v1'', ro_Kind = ''Namespace'',
       ro_Meta = empty_meta\<lparr>om_Name := ''shop'', om_Labels := [''kubezoo.io/tenant'' \<mapsto> ''t2'']\<rparr>, ro_Body = NamespaceB []\<rparr> ''t1'' = Inl e"
  using namespace_labels_pinned [OF example_contract_ok, of "\<lparr>ro_APIVersion = ''v1'', ro_Kind = ''Namespace'',
       ro_Meta = empty_meta\<lparr>om_Name := ''shop'', om_Labels := [''kubezoo.io/tenant'' \<mapsto> ''t2'']\<rparr>, ro_Body = NamespaceB []\<rparr>" "''t1''" _ "''t2''"]
  by simp


text \<open>
  Building the convertors never panics: no pod-carrying kind has a convertor of its own,
  whatever classes are published, whichever groups are shared and whoever serves the names.
\<close>

theorem InitConvertors_never_panics:
  "\<exists>native custom. InitConvertors C publishedIngressClasses isSharedGroup tenantDNS = Inr (native, custom)"
  by (simp add: InitConvertors_iff)

text \<open>
  C28.  A Role whose rule names only objects that already carry the tenant's prefix does not
  read back as written: the prefixed resource names are dropped on the way back, and a rule
  without resource names is a rule about every object.
\<close>

theorem role_resource_names_widen:
  assumes "contract_ok C" "\<forall>n\<in>set (pr_ResourceNames r). HasPrefix n (tprefix C tid)"
    and "ro_Body obj = RoleB [r]" "Forward (NewRoleTransformer C) obj tid = Inr obj'"
  shows "\<exists>r''. Backward (NewRoleTransformer C) obj' tid = Inr (obj\<lparr>ro_Body := RoleB [r'']\<rparr>) \<and> pr_ResourceNames r'' = []"
proof -
  from assms(3,4) obtain r' grm where
    r': "transformRuleToUpstream C r grm tid = Inr r'" "obj' = obj\<lparr>ro_Body := RoleB [r']\<rparr>"
    by (auto simp: NewRoleTransformer_def Role_Forward_iff RoleTransformer_transformRuleList_def bindR_Inr_iff)
  have N: "naming_ok C" using assms(1) by simp
  from assms(3,4) obtain crds where crds: "listTenantCRDs C tid = Inr crds"
    by (auto simp: NewRoleTransformer_def Role_Forward_iff RoleTransformer_transformRuleList_def bindR_Inr_iff)
  from transformRuleToTenant_drops_names [OF N assms(2) r'(1)] obtain r'' where
    "transformRuleToTenant C r' crds tid = Inr r''" "pr_ResourceNames r'' = []" by blast
  with crds r'(2) show ?thesis
    by (intro exI [of _ r'']) (simp add: NewRoleTransformer_def Role_Backward_iff RoleTransformer_transformRuleList_def)
qed

definition sample_rule :: PolicyRule where
  "sample_rule = \<lparr>pr_Verbs = [''get''], pr_APIGroups = [''''], pr_Resources = [''secrets''],
     pr_ResourceNames = [''t1-key''], pr_NonResourceURLs = []\<rparr>"

definition sample_role :: robject where
  "sample_role = sample_object ''rbac.authorization.k8s.io/v1'' ''Role'' (RoleB [sample_rule])"

theorem role_resource_names_widen_witness:
  "\<exists>obj' r''. Forward (NewRoleTransformer example_contract) sample_role ''t1'' = Inr obj' \<and>
     Backward (NewRoleTransformer example_contract) obj' ''t1'' = Inr (sample_role\<lparr>ro_Body := RoleB [r'']\<rparr>) \<and>
     pr_ResourceNames r'' = []"
proof -
  have r: "\<forall>n\<in>set (pr_ResourceNames sample_rule). HasPrefix n (tprefix example_contract ''t1'')"
    by (simp add: sample_rule_def HasPrefix_def)
  have b: "ro_Body sample_role = RoleB [sample_rule]" by (simp add: sample_role_def)
  obtain obj' where *: "Forward (NewRoleTransformer example_contract) sample_role ''t1'' = Inr obj'"
    by (simp add: NewRoleTransformer_def Role_Forward_iff RoleTransformer_transformRuleList_def sample_role_def
        transformRuleToUpstream_def)
  from role_resource_names_widen [OF example_contract_ok r b *] * show ?thesis by blast
qed

lemma Strip_total: "\<exists>o'. Strip C (Some h) (Single obj) = Single o'"
  by (simp add: Strip_Single)

lemma Restore_total: "\<exists>o'. Restore (Some h) (Single obj) old = Single o'"
  by (simp add: Restore_def forEachObject_def Let_def)



definition sample_h :: HiddenMetadata where
  "sample_h = \<lparr>hm_patterns = [\<lambda>k. HasPrefix k platform_prefix]\<rparr>"

definition sample_service :: robject where
  "sample_service = \<lparr>ro_APIVersion = ''v1'', ro_Kind = ''Service'',
     ro_Meta = sample_meta\<lparr>om_Labels := [''app'' \<mapsto> ''web'', ''kubezoo.io/tenant'' \<mapsto> ''t1''],
       om_Annotations := [''kubezoo.io/cluster-ip'' \<mapsto> ''10.1.2.3'']\<rparr>,
     ro_Body = ServiceB \<lparr>svc_Type = ServiceTypeClusterIP, svc_ClusterIP = ''172.16.0.9'', svc_ClusterIPs = [''172.16.0.9''],
       svc_ExternalIPs = [], svc_Ports = [], svc_HealthCheckNodePort = 0, svc_Rest = []\<rparr> []\<rparr>"


text \<open>
  C18.  Reading an object and writing it back loses nothing the platform stored: Restore of a
  stripped object against the stored one has the stored labels and, apart from kubectl's copy,
  the stored annotations; and what a tenant submits under a hidden key never survives.
\<close>

theorem restore_undoes_strip:
  assumes "json_ok C" "\<not> is_status obj" "\<not> is_status old" "Strip C (Some h) (Single old) = Single shown"
    and "Restore (Some h) (Single shown) (Some old) = Single written"
    and "Restore (Some h) (Single obj) (Some old) = Single obj'"
  shows "om_Labels (ro_Meta written) = om_Labels (ro_Meta old) \<and>
    (\<forall>k. k \<noteq> lastAppliedKey \<longrightarrow> om_Annotations (ro_Meta written) k = om_Annotations (ro_Meta old) k) \<and>
    (\<forall>k. om_Labels (ro_Meta obj') k = om_Labels (ro_Meta (if hides (Some h) k then old else obj)) k \<and>
       om_Annotations (ro_Meta obj') k = om_Annotations (ro_Meta (if hides (Some h) k then old else obj)) k)"
proof -
  have shown: "shown = strip_one C (Some h) old" using assms(3,4) by (simp add: Strip_Single)
  have "\<not> is_status shown" using assms(3) by (simp add: shown strip_one_def)
  then have b: "written = restore_one (Some h) (strip_one C (Some h) old) old"
    using assms(3,5) shown by (simp add: Restore_Single)
  have o': "obj' = restore_one (Some h) obj old" using assms(2,3,6) by (simp add: Restore_Single)
  show ?thesis using restore_strip [OF assms(1)] by (simp add: b o') (simp add: restore_one_def)
qed

definition sample_submitted :: robject where
  "sample_submitted = sample_service\<lparr>ro_Meta := sample_meta\<lparr>om_Annotations := [''kubezoo.io/cluster-ip'' \<mapsto> ''6.6.6.6'']\<rparr>\<rparr>"

theorem restore_undoes_strip_witness:
  "\<exists>obj'. Restore (Some sample_h) (Single sample_submitted) (Some sample_service) = Single obj' \<and>
     om_Annotations (ro_Meta obj') ''kubezoo.io/cluster-ip'' = Some ''10.1.2.3''"
proof -
  have j: "json_ok example_contract" using contract_okD(5) [OF example_contract_ok] .
  have s: "\<not> is_status sample_service" "\<not> is_status sample_submitted"
    by (simp_all add: sample_service_def sample_submitted_def is_status_def)
  obtain shown written obj' where *: "Strip example_contract (Some sample_h) (Single sample_service) = Single shown"
    "Restore (Some sample_h) (Single shown) (Some sample_service) = Single written"
    "Restore (Some sample_h) (Single sample_submitted) (Some sample_service) = Single obj'"
    using Strip_total Restore_total by metis
  have "hides (Some sample_h) ''kubezoo.io/cluster-ip''"
    by (simp add: hides_def sample_h_def HasPrefix_def platform_prefix_def)
  with restore_undoes_strip [OF j s(2,1) *] have
    "om_Annotations (ro_Meta obj') ''kubezoo.io/cluster-ip'' = om_Annotations (ro_Meta sample_service) ''kubezoo.io/cluster-ip''"
    by simp
  then show ?thesis using *(3) by (simp add: sample_service_def)
qed

text \<open>
  C27.  The metadata of a pod template is stripped but never restored: a workload whose template
  carries a hidden label loses that label when the tenant writes back what it read.
\<close>

theorem template_metadata_not_restored:
  assumes "\<not> is_status old" "podTemplateOf old = Inr (Some (t, s))" "\<not> isPod old"
    and "hides (Some h) k" "om_Labels t k = Some v"
    and "Strip C (Some h) (Single old) = Single shown" "Restore (Some h) (Single shown) (Some old) = Single written"
  shows "\<exists>t'. podTemplateOf written = Inr (Some (t', s)) \<and> om_Labels t' k = None"
proof -
  have shown: "shown = strip_one C (Some h) old" using assms(1,6) by (simp add: Strip_Single)
  have "\<not> is_status shown" using assms(1) by (simp add: shown strip_one_def)
  then have "written = restore_one (Some h) (strip_one C (Some h) old) old"
    using assms(1,7) shown by (simp add: Restore_Single)
  then show ?thesis using template_label_lost [OF assms(2-4)] by simp
qed

definition sample_labelled :: robject where
  "sample_labelled = sample_object ''apps/v1'' ''Deployment''
     (DeploymentB \<lparr>pt_ObjectMeta = empty_meta\<lparr>om_Labels := [''kubezoo.io/platform-workload'' \<mapsto> ''dns'']\<rparr>,
       pt_Spec = sample_podspec\<rparr> [])"

theorem template_metadata_not_restored_witness:
  "\<exists>shown written t'. Strip example_contract (Some sample_h) (Single sample_labelled) = Single shown \<and>
     Restore (Some sample_h) (Single shown) (Some sample_labelled) = Single written \<and>
     podTemplateOf written = Inr (Some (t', sample_podspec)) \<and> om_Labels t' ''kubezoo.io/platform-workload'' = None"
proof -
  have s: "\<not> is_status sample_labelled" "\<not> isPod sample_labelled"
    "podTemplateOf sample_labelled =
      Inr (Some (empty_meta\<lparr>om_Labels := [''kubezoo.io/platform-workload'' \<mapsto> ''dns'']\<rparr>, sample_podspec))"
    by (simp_all add: sample_labelled_def isPod_def podTemplateOf_def)
  have h: "hides (Some sample_h) ''kubezoo.io/platform-workload''"
    "om_Labels (empty_meta\<lparr>om_Labels := [''kubezoo.io/platform-workload'' \<mapsto> ''dns'']\<rparr>) ''kubezoo.io/platform-workload'' =
      Some ''dns''"
    by (simp_all add: hides_def sample_h_def HasPrefix_def platform_prefix_def)
  obtain shown written where *: "Strip example_contract (Some sample_h) (Single sample_labelled) = Single shown"
    "Restore (Some sample_h) (Single shown) (Some sample_labelled) = Single written"
    using Strip_total Restore_total by metis
  from template_metadata_not_restored [OF s(1,3,2) h *] * show ?thesis by blast
qed

text \<open>
  A service never gains a node port or an external address: an update that the rules for
  services let through keeps a subset of what the stored service has, and a create has none.
\<close>

theorem service_exposure_never_grows:
  "(\<not> NodePortsAreNew svc old \<longleftrightarrow>
      node_ports svc \<subseteq> (case old of None \<Rightarrow> {} | Some old \<Rightarrow> node_ports old) \<and>
      svc_HealthCheckNodePort svc \<in> {0} \<union> (case old of None \<Rightarrow> {} | Some old \<Rightarrow> {svc_HealthCheckNodePort old})) \<and>
   (\<not> ExternalIPsAreNew svc old \<longleftrightarrow>
      set (svc_ExternalIPs svc) \<subseteq> (case old of None \<Rightarrow> {} | Some old \<Rightarrow> set (svc_ExternalIPs old)))"
  using NodePortsAreNew_iff ExternalIPsAreNew_iff by blast

text \<open>
  The address a tenant is shown for a service is accepted back: writing the shown spec
  restores the address of the upstream cluster, and whatever is accepted ends up at that address.
\<close>

theorem service_address_roundtrip:
  assumes "svc_ClusterIPs spec = [] \<or> hd (svc_ClusterIPs spec) = svc_ClusterIP spec"
  shows "RestoreUpstreamClusterIP (shown_spec (m, spec)) (Some (m, spec)) = Some spec \<and>
    (\<forall>svc svc'. RestoreUpstreamClusterIP svc (Some (m, spec)) = Some svc' \<longrightarrow> svc_ClusterIP svc' = svc_ClusterIP spec)"
  using Restore_shown [OF assms] Restore_result by blast

definition sample_service_spec :: ServiceSpec where
  "sample_service_spec = \<lparr>svc_Type = ServiceTypeClusterIP, svc_ClusterIP = ''172.16.0.9'', svc_ClusterIPs = [''172.16.0.9''],
     svc_ExternalIPs = [], svc_Ports = [], svc_HealthCheckNodePort = 0, svc_Rest = []\<rparr>"

theorem service_address_roundtrip_witness:
  "svc_ClusterIP (shown_spec (ro_Meta sample_service, sample_service_spec)) = ''10.1.2.3'' \<and>
   RestoreUpstreamClusterIP (shown_spec (ro_Meta sample_service, sample_service_spec))
     (Some (ro_Meta sample_service, sample_service_spec)) = Some sample_service_spec"
proof
  show "svc_ClusterIP (shown_spec (ro_Meta sample_service, sample_service_spec)) = ''10.1.2.3''"
    by (simp add: shown_spec_def TenantClusterIP_def TenantClusterIPFrom_def sample_service_def sample_service_spec_def
        ClusterIPNone_def ClusterIPAnnotation_def ParseIP_def is_digit_def digit_val_def)
  show "RestoreUpstreamClusterIP (shown_spec (ro_Meta sample_service, sample_service_spec))
     (Some (ro_Meta sample_service, sample_service_spec)) = Some sample_service_spec"
    using service_address_roundtrip [of sample_service_spec "ro_Meta sample_service"] by (simp add: sample_service_spec_def)
qed

text \<open>
  The published classes a tenant can list are exactly those it may name, each once; a
  retired class stays among them, and while the informer has not synced only the configured
  names are.
\<close>

theorem published_names_are_visible:
  assumes "labelledSet_ok C s"
  shows "set (Names s) = {n. Visible s n} \<and> distinct (Names s) \<and> (\<forall>n. Retired C s n \<longrightarrow> Visible s n) \<and>
    (\<not> HasSynced s \<longrightarrow> Names s = lset_static s)"
  using labelled.names_visible [OF assms] labelled.names_distinct [OF assms] labelled.retired_visible [OF assms]
  by (auto simp: Names_def split: option.split)


definition sample_store :: Store where
  "sample_store = (let objects = [\<lparr>co_Name = ''fast'', co_Labels = [''published'' \<mapsto> ''true'']\<rparr>,
       \<lparr>co_Name = ''old'', co_Labels = [''published'' \<mapsto> ''deprecated'']\<rparr>, \<lparr>co_Name = ''internal'', co_Labels = Map.empty\<rparr>]
     in \<lparr>st_GetByKey = (\<lambda>k. Inr (find (\<lambda>ob. co_Name ob = k) objects)), st_List = objects\<rparr>)"

theorem published_names_are_visible_witness:
  "set (Names (New ''published'' (Some sample_store) (Some True) [''standard''])) =
     {n. Visible (New ''published'' (Some sample_store) (Some True) [''standard'']) n} \<and>
   Names (New ''published'' (Some sample_store) (Some True) [''standard'']) = [''standard'', ''fast'', ''old'']"
proof -
  have "published_ok example_contract" using contract_okD(7) [OF example_contract_ok] .
  then have "labelledSet_ok example_contract (New ''published'' (Some sample_store) (Some True) [''standard''])"
    by (rule New_ok) (auto simp: store_ok_def sample_store_def Let_def)
  from published_names_are_visible [OF this]
  have "set (Names (New ''published'' (Some sample_store) (Some True) [''standard''])) =
     {n. Visible (New ''published'' (Some sample_store) (Some True) [''standard'']) n}" by (rule conjunct1)
  moreover have "Names (New ''published'' (Some sample_store) (Some True) [''standard'']) = [''standard'', ''fast'', ''old'']"
    by (simp add: Names_def New_def sample_store_def HasSynced_def Let_def)
  ultimately show ?thesis ..
qed

end
