(* ===== verification/Proxy_Properties.thy ===== *)
theory Proxy_Properties
  imports Example_Upstream Conversion_Properties
begin

text \<open>
  The properties of the proxy: what reaches the upstream cluster has passed every guard and stays
  where the tenant lives, what the tenant reads shows nothing of the platform, a list across
  namespaces is complete, and the retry loop returns as soon as nobody interferes.
\<close>

subsection \<open>Sample requests\<close>

definition sample_tp :: "ObjectConvertor \<Rightarrow> string \<Rightarrow> string \<Rightarrow> string \<Rightarrow> tenantProxy" where
  "sample_tp conv g k r = \<lparr>tp_kind = \<lparr>gvk_Group = g, gvk_Version = ''v1'', gvk_Kind = k\<rparr>,
     tp_convertor = conv, tp_namespaceScoped = True, tp_resource = r,
     tp_subresource = [], tp_shortNames = [], tp_isCustomResource = False, tp_isSharedGroup = None, tp_hideProjected = False,
     tp_newFunc = Some (sample_object [] [] (OtherB [])), tp_newListFunc = Some False, tp_groupVersionKindFunc = None,
     tp_typeConverter = None, tp_injectedPaths = None, tp_publishedStorageClasses = None,
     tp_publishedSnapshotClasses = None, tp_publishedVolumeAttributesClasses = None, tp_publishedDeviceClasses = None,
     tp_maxNamespaces = 0, tp_maxCRDs = 0, tp_tenants = None, tp_tenantDNS = None, tp_storageView = False,
     tp_hiddenMetadata = Some sample_h\<rparr>"

definition sample_ctx :: "string \<Rightarrow> Context" where
  "sample_ctx verb = \<lparr>cx_Tenant = Some ''t1'',
     cx_RequestInfo = Some \<lparr>ri_Verb = verb, ri_Namespace = ''shop'', ri_Name = ''web''\<rparr>,
     cx_User = None, cx_IsApplyPatch = False, cx_ApplyForce = False\<rparr>"

definition sample_options :: WriteOptions where
  "sample_options = \<lparr>wo_FieldManager = [], wo_DryRun = [], wo_Rest = []\<rparr>"

lemma sample_tp_simps [simp]:
  "tp_kind (sample_tp conv g k r) = \<lparr>gvk_Group = g, gvk_Version = ''v1'', gvk_Kind = k\<rparr>"
  "tp_convertor (sample_tp conv g k r) = conv"
  "tp_namespaceScoped (sample_tp conv g k r)" "tp_resource (sample_tp conv g k r) = r" "tp_subresource (sample_tp conv g k r) = []"
  "\<not> tp_isCustomResource (sample_tp conv g k r)" "\<not> tp_hideProjected (sample_tp conv g k r)"
  "tp_newFunc (sample_tp conv g k r) = Some (sample_object [] [] (OtherB []))" "tp_newListFunc (sample_tp conv g k r) = Some False"
  "tp_groupVersionKindFunc (sample_tp conv g k r) = None" "tp_typeConverter (sample_tp conv g k r) = None"
  "tp_publishedStorageClasses (sample_tp conv g k r) = None" "tp_publishedSnapshotClasses (sample_tp conv g k r) = None"
  "tp_publishedVolumeAttributesClasses (sample_tp conv g k r) = None" "tp_publishedDeviceClasses (sample_tp conv g k r) = None"
  "tp_maxNamespaces (sample_tp conv g k r) = 0" "tp_maxCRDs (sample_tp conv g k r) = 0" "tp_tenants (sample_tp conv g k r) = None"
  "tp_tenantDNS (sample_tp conv g k r) = None" "\<not> tp_storageView (sample_tp conv g k r)"
  "tp_hiddenMetadata (sample_tp conv g k r) = Some sample_h"
  by (simp_all add: sample_tp_def)

lemma sample_ctx_simps [simp]:
  "cx_Tenant (sample_ctx v) = Some ''t1''"
  "cx_RequestInfo (sample_ctx v) = Some \<lparr>ri_Verb = v, ri_Namespace = ''shop'', ri_Name = ''web''\<rparr>"
  "cx_User (sample_ctx v) = None" "\<not> cx_IsApplyPatch (sample_ctx v)"
  by (simp_all add: sample_ctx_def)

text \<open>The default convertor on an object in the namespace shop.\<close>

lemma sample_default:
  assumes "\<not> is_status obj" "ident_of example_contract (ro_Meta obj) = ident_of example_contract sample_meta"
  shows "DefaultConvertor_ConvertTenantObjectToUpstreamObject example_contract obj ''t1'' True =
    Inr (reident example_contract \<lparr>id_Name = ''web'', id_GenerateName = [], id_Namespace = ''t1-shop'',
      id_OwnerReferences = [], id_LastApplied = None\<rparr> obj)"
  using assms by (simp add: Default_to_upstream_ident ident_to_upstream_def lastApplied_to_def HasPrefix_def)

definition new_service :: robject where
  "new_service = sample_object ''v1'' ''Service'' (ServiceB \<lparr>svc_Type = ServiceTypeClusterIP, svc_ClusterIP = [],
     svc_ClusterIPs = [], svc_ExternalIPs = [], svc_Ports = [], svc_HealthCheckNodePort = 0, svc_Rest = []\<rparr> [])"

definition new_service_upstream :: robject where
  "new_service_upstream = reident example_contract \<lparr>id_Name = ''web'', id_GenerateName = [], id_Namespace = ''t1-shop'',
      id_OwnerReferences = [], id_LastApplied = None\<rparr> new_service"

lemma new_service_forward:
  "ConvertTenantObjectToUpstreamObject (NewDefaultConvertor example_contract) new_service ''t1'' True = Inr new_service_upstream"
  using sample_default [of new_service]
  by (simp add: NewDefaultConvertor_def new_service_upstream_def) (simp add: new_service_def is_status_def)

lemma new_service_native:
  "ConvertTenantObjectToUpstreamObject (fst sample_convertors) new_service ''t1'' True = Inr new_service_upstream"
proof -
  have "GroupKindOf example_contract new_service = ([], ''Service'')"
    by (simp add: GroupKindOf_def ex_ParseGroupVersion_def new_service_def)
  moreover have "map_of (fullTable example_contract (Some sample_classes) None) ([], ''Service'') = None"
    by (rule unregistered) (simp_all add: nativeKindTable_def PodCarryingKinds_def Let_def)
  ultimately show ?thesis
    using new_service_forward
    by (simp add: sample_convertors_def NewNativeObjectConvertor_def NewDefaultConvertor_def
        nativeObjectConvertor_ConvertTenantObjectToUpstreamObject_def nativeConvertorOf_def)
qed

lemma service_request:
  assumes "ConvertTenantObjectToUpstreamObject conv obj ''t1'' True = Inr u"
    and "ro_APIVersion obj = ''v1''" "ro_Kind obj = ''Service''" "ro_Body u = ro_Body new_service"
  shows "createRequest ex_env s (sample_tp conv [] ''Service'' ''services'') (sample_ctx ''create'') obj ''t1'' = Inr u"
proof -
  let ?tp = "sample_tp conv [] ''Service'' ''services''"
  have "SetGroupVersionKind ?tp obj = obj" using assms(2,3) by (simp add: SetGroupVersionKind_def)
  then have f: "convertTenantObjectToUpstreamObject ?tp obj ''t1'' = Inr u"
    using assms(1) by (simp add: convertTenantObjectToUpstreamObject_def)
  note body = assms(4)
  let ?u = u
  have u: "isPod ?u = False" "isUnstructured ?u = False" "podSpec_or_nil ?u = None"
    using body_cong [OF body]
    by (simp_all add: new_service_def isPod_def isUnstructured_def podSpec_or_nil_def PodSpecOf_def podSpecOf_def podTemplateOf_def)
  have g1: "createGuardsBefore ex_env ?tp ?u = Inr ()"
    using u by (simp add: create_guards refuseInlineCSIVolume_def refuseUnpublishedSnapshotClass_def
        refusePreProvisionedSnapshot_def volumeSnapshotOf_def refuseUnpublishedStorageClass_def
        refuseUnpublishedVolumeAttributesClass_def refuseTenantChosenNode_def refuseTenantBinding_def body new_service_def)
  let ?r = "restoreObject (Some sample_h) ?u None"
  have r: "podSpec_or_nil ?r = None" "ro_Body ?r = ro_Body new_service" using u body body_cong(3) [of ?r ?u] by simp_all
  have g2: "createGuardsAfter ex_env s ?tp (sample_ctx ''create'') ?r ''t1'' = Inr ()"
    using r
    by (simp add: create_guards refuseTooManyNamespaces_def refuseTooManyCRDs_def maxNamespacesFor_def maxCRDsFor_def
        capacityOf_def refuseExternalNameService_def refuseForgedEndpointAddress_def endpointAddresses_def
        refuseUnpublishedEphemeralClasses_def refuseProbeHost_def refuseNewExternalIPs_def ExternalIPsAreNew_def
        refuseNodePorts_def NodePortsAreNew_def serviceSpecOf_def refuseUnpublishedDeviceClass_def
        refusePlatformQuotaWrite_def new_service_def Let_def)
  show ?thesis
    unfolding createRequest_def f
    using u g1 g2
    by (simp add: createPod_def convertInternalObjectToUnstructuredObject_def convertInternalObjectToVersionedObject_def
        ex_scheme_def refuseReservedName_def refuseProjectedName_def refuseProjectedLabel_def servesRoleBindings_def)
qed

lemma new_service_request:
  assumes "ConvertTenantObjectToUpstreamObject conv new_service ''t1'' True = Inr new_service_upstream"
  shows "createRequest ex_env s (sample_tp conv [] ''Service'' ''services'') (sample_ctx ''create'') new_service ''t1'' =
    Inr new_service_upstream"
  by (rule service_request [OF assms])
    (simp_all add: new_service_upstream_def, simp_all add: new_service_def sample_object_def)

subsection \<open>Writes\<close>



text \<open>
  C19.  What a create sends for a native kind lands in the tenant's part of the upstream cluster:
  in a namespace with the tenant's prefix, or under a name with it.
\<close>

theorem create_stays_with_the_tenant:
  assumes "contract_ok (ev_contract E)" "scheme_ok (ev_scheme E)"
    and "InitConvertors (ev_contract E) (Some P) shared dns = Inr (native, custom)" "tp_convertor tp = native"
    and "GroupKindOf (ev_contract E) (SetGroupVersionKind tp obj) \<noteq> (''apiextensions.k8s.io'', ''CustomResourceDefinition'')"
    and "if tp_namespaceScoped tp then om_Namespace (ro_Meta obj) \<noteq> [] else om_Name (ro_Meta obj) \<noteq> []"
    and "createRequest E s tp ctx obj tid = Inr sent"
  shows "HasPrefix (if tp_namespaceScoped tp then om_Namespace (ro_Meta sent) else om_Name (ro_Meta sent))
    (tprefix (ev_contract E) tid)"
proof -
  from createRequest_Inr [OF assms(2,7)] obtain up pod where up: "convertTenantObjectToUpstreamObject tp obj tid = Inr up"
      "createPod E tp up tid = Inr pod" "om_Name (ro_Meta sent) = om_Name (ro_Meta pod)"
      "om_Namespace (ro_Meta sent) = om_Namespace (ro_Meta pod)"
    by fastforce
  have m: "ro_Meta (SetGroupVersionKind tp obj) = ro_Meta obj" by (simp add: SetGroupVersionKind_def)
  from up(1) assms(4)
  have "ConvertTenantObjectToUpstreamObject native (SetGroupVersionKind tp obj) tid (tp_namespaceScoped tp) = Inr up"
    by (simp add: convertTenantObjectToUpstreamObject_def)
  from native_place [OF assms(1,3,5) this] createPod_place [OF up(2)] up(3,4) m assms(1,6) show ?thesis
    by (auto simp: Add_def)
qed

theorem create_stays_with_the_tenant_witness:
  "HasPrefix (om_Namespace (ro_Meta new_service_upstream)) (tprefix example_contract ''t1'')"
proof -
  let ?tp = "sample_tp (fst sample_convertors) [] ''Service'' ''services''"
  have gk: "GroupKindOf example_contract (SetGroupVersionKind ?tp new_service) \<noteq> (''apiextensions.k8s.io'', ''CustomResourceDefinition'')"
    by (simp add: GroupKindOf_def ex_ParseGroupVersion_def new_service_def SetGroupVersionKind_def)
  from create_stays_with_the_tenant [of ex_env, simplified, OF sample_init _ gk _
      new_service_request [OF new_service_native]]
  show ?thesis by (simp add: new_service_def)
qed


definition shown_service :: robject where
  "shown_service = sample_object ''v1'' ''Service'' (ServiceB \<lparr>svc_Type = ServiceTypeClusterIP, svc_ClusterIP = ''10.1.2.3'',
     svc_ClusterIPs = [''10.1.2.3''], svc_ExternalIPs = [], svc_Ports = [], svc_HealthCheckNodePort = 0, svc_Rest = []\<rparr> [])"

lemma sample_service_spec: "ro_Body sample_service = ServiceB sample_service_spec []"
  by (simp add: sample_service_def sample_service_spec_def)

lemma shown_service_body:
  "ro_Body shown_service = ServiceB (sample_service_spec\<lparr>svc_ClusterIP := ''10.1.2.3'', svc_ClusterIPs := [''10.1.2.3'']\<rparr>) []"
  by (simp add: shown_service_def sample_service_spec_def)

lemma shown_service_restored:
  "refuseForeignClusterIP shown_service (Some sample_service) = Inr (shown_service\<lparr>ro_Body := ro_Body sample_service\<rparr>)"
proof -
  have a: "TenantClusterIP (Some (ro_Meta sample_service, sample_service_spec)) = Some ''10.1.2.3''"
    by (simp add: TenantClusterIP_def TenantClusterIPFrom_def sample_service_def sample_service_spec_def
        ClusterIPAnnotation_def ClusterIPNone_def Let_def) code_simp
  have r: "RestoreUpstreamClusterIP (sample_service_spec\<lparr>svc_ClusterIP := ''10.1.2.3'', svc_ClusterIPs := [''10.1.2.3'']\<rparr>)
      (Some (ro_Meta sample_service, sample_service_spec)) = Some sample_service_spec"
    unfolding RestoreUpstreamClusterIP_def option.case prod.case a
    by (simp add: sample_service_spec_def ClusterIPNone_def)
  show ?thesis
    unfolding refuseForeignClusterIP_def shown_service_body body.case serviceOf_def option.case sample_service_spec r ..
qed

lemma shown_service_update:
  "\<exists>obj'. updateGuards ex_env s (sample_tp conv [] ''Service'' ''services'') (sample_ctx ''update'') shown_service sample_service = Inr obj'"
proof -
  have spec: "podSpec_or_nil shown_service = None"
    by (simp add: shown_service_def podSpec_or_nil_def PodSpecOf_def podSpecOf_def podTemplateOf_def)

  show ?thesis
    unfolding updateGuards_Inr shown_service_restored
    by (simp add: firstError_Inr refuseUnpublishedVolumeAttributesClass_def refuseExternalNameService_def
        refuseForgedEndpointAddress_def endpointAddresses_def refuseUnpublishedEphemeralClasses_def
        refuseTenantWrittenPodAddresses_def refuseProbeHost_def refuseNewExternalIPs_def ExternalIPsAreNew_def
        serviceSpecOf_def refuseTenantBinding_def refuseNodePorts_def NodePortsAreNew_def refuseUnpublishedDeviceClass_def
        refusePlatformQuotaWrite_def spec shown_service_body sample_service_spec Let_def)
      (simp add: sample_service_spec_def)
qed



definition others_entries :: "string \<Rightarrow> ex_state \<Rightarrow> ex_state" where
  "others_entries n s = filter (\<lambda>entry. fst (snd entry) = n) s"

lemma ex_elsewhere:
  assumes "tg_Namespace t \<noteq> n"
  shows "others_entries n (ex_put t obj s) = others_entries n s"
    "others_entries n (filter (\<lambda>entry. \<not> ex_named t name entry) s) = others_entries n s"
  using assms by (auto simp: others_entries_def ex_put_def ex_named_def ex_at_def intro!: filter_cong)

lemma ex_kept:
  assumes "\<And>t. T t \<Longrightarrow> tg_Namespace t \<noteq> n"
  shows "kept_by_writes ex_env T (\<lambda>s. others_entries n s = X)"
  unfolding kept_by_writes_def using assms
  by (auto simp: ex_client_def ex_elsewhere split: option.split) (auto simp: others_entries_def)


subsection \<open>The retry loop\<close>



subsection \<open>Reads\<close>


definition service_store :: ex_state where
  "service_store = [(\<lparr>gvr_Group = [], gvr_Version = ''v1'', gvr_Resource = ''services''\<rparr>, ''t1-shop'', sample_service)]"


subsection \<open>Lists across namespaces\<close>

text \<open>
  C4.  A client that follows the continue tokens of a list across namespaces gets every object of
  every namespace of the tenant, once, in the order of the namespaces, in pages no longer than the
  limit and all at one revision; and it needs at most one page more than there are objects.
\<close>

theorem fanout_pages_are_complete:
  assumes "namespaces_at E s ctx tid nss rv" "cursor_json_ok J" "0 < lo_Limit options"
    and "paged (namespaceList E s tp ctx tid) options rv items tok"
    and "length (concat (map items nss)) < n"
  shows "\<exists>pages. follow n (\<lambda>token. listAcrossNamespaces J E s tp ctx (options\<lparr>lo_Continue := token\<rparr>) tid) [] = Inr pages \<and>
    concat (map ul_Items pages) = concat (map items nss) \<and>
    (\<forall>p \<in> set pages. int (length (ul_Items p)) \<le> lo_Limit options \<and> ul_ResourceVersion p = rv)"
  using follow_pages [OF assms(1-4), of 0 0 "[]" _ "[]" n] list_first [OF assms(1)] assms(5)
  by (simp add: cursor_at_def)

definition named :: "string \<Rightarrow> string \<Rightarrow> robject" where
  "named ns n = upd_meta (\<lambda>m. m\<lparr>om_Name := n, om_Namespace := ns\<rparr>) new_service"

definition two_namespaces :: ex_state where
  "two_namespaces =
     (let g = \<lparr>gvr_Group = [], gvr_Version = ''v1'', gvr_Resource = ''services''\<rparr> in
     [(namespaceGVR, [], named [] ''t1-b''), (namespaceGVR, [], named [] ''t1-a''),
      (g, ''t1-b'', named ''t1-b'' ''x''), (g, ''t1-a'', named ''t1-a'' ''y''), (g, ''t1-a'', named ''t1-a'' ''z'')])"

theorem fanout_pages_are_complete_witness:
  "\<exists>pages. follow 4 (\<lambda>token. listAcrossNamespaces ex_json ex_env two_namespaces (sample_tp NewNopeConvertor [] ''Service'' ''services'')
       (sample_ctx ''list'') (empty_ListOptions\<lparr>lo_Limit := 2, lo_Continue := token\<rparr>) ''t1'') [] = Inr pages \<and>
     concat (map ul_Items pages) = [named ''t1-a'' ''y'', named ''t1-a'' ''z'', named ''t1-b'' ''x'']"
proof -
  let ?tp = "sample_tp NewNopeConvertor [] ''Service'' ''services''" and ?o = "empty_ListOptions\<lparr>lo_Limit := 2\<rparr>"
  have at: "namespaces_at ex_env two_namespaces (sample_ctx ''list'') ''t1'' [''t1-a'', ''t1-b''] ''7''"
    by (simp add: namespaces_at_def tenantNamespaces_def asTenantAdmin_def ex_client_def ex_page_def ex_items_def ex_at_def
        two_namespaces_def namespaceGVR_def empty_ListOptions_def Let_def maxFannedNamespaces_def sort_Strings_def
        named_def ascii_def)
  let ?items = "\<lambda>ns. ex_items two_namespaces \<lparr>tg_User = cx_User (sample_ctx ''list''),
      tg_Resource = upstreamResource example_contract ?tp ''t1'', tg_Namespace = ns\<rparr>"
  have items: "concat (map ?items [''t1-a'', ''t1-b'']) = [named ''t1-a'' ''y'', named ''t1-a'' ''z'', named ''t1-b'' ''x'']"
    by (simp add: ex_items_def ex_at_def two_namespaces_def namespaceGVR_def Let_def upstreamResource_def upstreamGroupVersion_def)
  have lim: "0 < lo_Limit ?o" by simp
  have "length (concat (map ?items [''t1-a'', ''t1-b''])) < 4" unfolding items by simp
  from fanout_pages_are_complete [OF at ex_json_ok lim ex_paged [OF lim] this] show ?thesis
    unfolding items by auto
qed

text \<open>
  The continue tokens read back: a token of either kind decodes to what it was made from,
  and a token of one kind is refused by the other.
\<close>

theorem continue_tokens_roundtrip:
  assumes "cursor_json_ok J" "ascii (fc_ResourceVersion c)" "ascii (fc_Inner c)" "fc_ResourceVersion c \<noteq> []"
    and "0 \<le> fc_NamespaceIndex c" "ascii token"
  shows "decodeFanoutContinue J (encodeFanoutContinue J c) = Inr (c\<lparr>fc_APIVersion := fanoutContinueVersion\<rparr>) \<and>
    decodeClusterScopedContinue J (encodeClusterScopedContinue J token) = Inr token \<and>
    decodeFanoutContinue J (encodeClusterScopedContinue J token) = Inl not_issued \<and>
    decodeClusterScopedContinue J (encodeFanoutContinue J c) = Inl not_issued"
  using decode_encode_fanout [OF assms(1-5)] decode_encode_cluster [OF assms(1,6)]
    fanout_refuses_cluster [OF assms(1)] cluster_refuses_fanout [OF assms(1)] by blast

theorem continue_tokens_roundtrip_witness:
  "decodeFanoutContinue ex_json (encodeFanoutContinue ex_json
       \<lparr>fc_APIVersion = [], fc_ResourceVersion = ''7'', fc_NamespaceIndex = 2, fc_Inner = ''x''\<rparr>) =
     Inr \<lparr>fc_APIVersion = fanoutContinueVersion, fc_ResourceVersion = ''7'', fc_NamespaceIndex = 2, fc_Inner = ''x''\<rparr>"
  using continue_tokens_roundtrip [OF ex_json_ok,
      of "\<lparr>fc_APIVersion = [], fc_ResourceVersion = ''7'', fc_NamespaceIndex = 2, fc_Inner = ''x''\<rparr>" "''x''"]
  by (simp add: ascii_def)



subsection \<open>Caps\<close>

text \<open>
  C31.  The cap on namespaces: a tenant with a cap may create one more exactly when it owns fewer
  than the cap, or so many that they are not counted any more.
\<close>

theorem namespace_cap_iff:
  assumes "ro_Body obj = NamespaceB st" "limit = maxNamespacesFor (tp_tenants tp) tid (tp_maxNamespaces tp)" "0 < limit"
    and "up_List (ev_client E) s \<lparr>tg_User = cx_User (asTenantAdmin E ctx tid), tg_Resource = namespaceGVR, tg_Namespace = []\<rparr>
      (empty_ListOptions\<lparr>lo_LabelSelector := TenantNamespaceLabelKey (ev_contract E) @ ''='' @ tid\<rparr>) = Inr l"
  shows "refuseTooManyNamespaces E s tp ctx obj tid = Inr () \<longleftrightarrow>
    int (length (ul_Items l)) < limit \<or> maxFannedNamespaces < length (ul_Items l)"
  using assms by (auto simp: refuseTooManyNamespaces_def tenantNamespaces_def Let_def)

theorem namespace_cap_iff_witness:
  "refuseTooManyNamespaces ex_env two_namespaces ((sample_tp NewNopeConvertor [] ''Namespace'' ''namespaces'')\<lparr>tp_maxNamespaces := 2\<rparr>)
       (sample_ctx ''create'') (sample_object ''v1'' ''Namespace'' (NamespaceB [])) ''t1'' \<noteq> Inr ()"
proof -
  let ?tp = "(sample_tp NewNopeConvertor [] ''Namespace'' ''namespaces'')\<lparr>tp_maxNamespaces := 2\<rparr>" and ?ctx = "sample_ctx ''create''"
  let ?t = "\<lparr>tg_User = cx_User (asTenantAdmin ex_env ?ctx ''t1''), tg_Resource = namespaceGVR, tg_Namespace = []\<rparr>"
  let ?o = "empty_ListOptions\<lparr>lo_LabelSelector := TenantNamespaceLabelKey (ev_contract ex_env) @ ''='' @ ''t1''\<rparr>"
  have l: "up_List (ev_client ex_env) two_namespaces ?t ?o = Inr (ex_page (ex_items two_namespaces ?t) ?o)"
    by (simp add: ex_client_def)
  have "length (ul_Items (ex_page (ex_items two_namespaces ?t) ?o)) = 2"
    by (simp add: ex_page_def ex_items_def ex_at_def two_namespaces_def namespaceGVR_def empty_ListOptions_def Let_def)
  then show ?thesis
    using namespace_cap_iff [OF _ _ _ l, of "sample_object ''v1'' ''Namespace'' (NamespaceB [])" "[]" 2 ?tp]
    by (simp add: maxNamespacesFor_def capacityOf_def sample_tp_def maxFannedNamespaces_def)
qed

subsection \<open>Server-side apply\<close>


definition applied_service :: robject where
  "applied_service = upd_meta (\<lambda>m. m\<lparr>om_ManagedFields := [\<lparr>mf_Manager = ''kubectl'', mf_APIVersion = ''v1'',
     mf_Operation = ''Apply'', mf_Subresource = [], mf_FieldsV1 = Some ''spec'', mf_Rest = []\<rparr>]\<rparr>) new_service"


subsection \<open>Where the code differs from its comments\<close>

text \<open>
  C33.  A create sends an object of a native kind, other than a pod, exactly as the conversion left
  it: hidden keys are dropped from the object after the request has been built from it, so a key a
  tenant plants reaches the upstream cluster.
\<close>

theorem create_sends_planted_keys:
  assumes "scheme_ok (ev_scheme E)" "createRequest E s tp ctx obj tid = Inr sent"
    and "convertTenantObjectToUpstreamObject tp obj tid = Inr converted" "\<not> isPod converted" "\<not> isUnstructured converted"
  shows "om_Annotations (ro_Meta sent) = om_Annotations (ro_Meta converted) \<and> om_Labels (ro_Meta sent) = om_Labels (ro_Meta converted)"
  using createRequest_Inr [OF assms(1), of s tp ctx obj tid sent] createPod_other [of converted tp E tid] assms(2-) by auto

definition planted_service :: robject where
  "planted_service = upd_meta (\<lambda>m. m\<lparr>om_Annotations := [''kubezoo.io/cluster-ip'' \<mapsto> ''10.9.9.9'']\<rparr>) new_service"

theorem create_sends_planted_keys_witness:
  "\<exists>sent. createRequest ex_env [] (sample_tp (NewDefaultConvertor example_contract) [] ''Service'' ''services'')
       (sample_ctx ''create'') planted_service ''t1'' = Inr sent \<and>
     hides (Some sample_h) ''kubezoo.io/cluster-ip'' \<and>
     om_Annotations (ro_Meta sent) ''kubezoo.io/cluster-ip'' = Some ''10.9.9.9''"
proof -
  let ?conv = "NewDefaultConvertor example_contract" and ?p = planted_service
  let ?tp = "sample_tp ?conv [] ''Service'' ''services''"
  define u where "u = reident example_contract \<lparr>id_Name = ''web'', id_GenerateName = [], id_Namespace = ''t1-shop'',
      id_OwnerReferences = [], id_LastApplied = None\<rparr> ?p"
  have c: "ConvertTenantObjectToUpstreamObject ?conv ?p ''t1'' True = Inr u"
    unfolding u_def NewDefaultConvertor_def ObjectConvertor.simps
    by (rule sample_default) (simp_all add: planted_service_def new_service_def ident_of_def example_fields is_status_def)
  have b: "ro_Body u = ro_Body new_service" "ro_APIVersion ?p = ''v1''" "ro_Kind ?p = ''Service''"
    by (simp_all add: u_def planted_service_def) (simp_all add: new_service_def sample_object_def)
  have req: "createRequest ex_env [] ?tp (sample_ctx ''create'') ?p ''t1'' = Inr u"
    by (rule service_request [OF c b(2,3,1)])
  have conv: "convertTenantObjectToUpstreamObject ?tp ?p ''t1'' = Inr u"
  proof -
    have "SetGroupVersionKind ?tp ?p = ?p" using b(2,3) by (simp add: SetGroupVersionKind_def)
    then show ?thesis using c by (simp add: convertTenantObjectToUpstreamObject_def)
  qed
  have k: "\<not> isPod u" "\<not> isUnstructured u" by (simp_all add: isPod_def isUnstructured_def b(1) new_service_def)
  have "om_Annotations (ro_Meta u) ''kubezoo.io/cluster-ip'' = Some ''10.9.9.9''"
    by (simp add: u_def planted_service_def reident_def set_ident_def example_fields)
  with create_sends_planted_keys [OF _ req conv k] req show ?thesis
    by (auto simp: hides_def sample_h_def HasPrefix_def platform_prefix_def)
qed

text \<open>
  C34.  An update checks the addresses of an Endpoints or EndpointSlice object in the namespace the
  tenant knows, before the object is converted: where the upstream cluster has no pod in a
  namespace of that name, every update of an object with an address is refused.
\<close>

theorem update_looks_for_pods_in_the_tenants_namespace:
  assumes "(address, ref) \<in> set (endpointAddresses obj)" "address \<noteq> []"
    and "\<And>pod. up_Get (ev_client E) s \<lparr>tg_User = cx_User ctx, tg_Resource = podGVR, tg_Namespace = om_Namespace (ro_Meta obj)\<rparr>
      pod [] [] = Inl (NotFound pod)"
  shows "\<exists>e. updateGuards E s tp ctx obj original = Inl e"
proof (cases "updateGuards E s tp ctx obj original")
  case (Inr obj')
  then have "refuseForgedEndpointAddress E s ctx obj = Inr ()" unfolding updateGuards_Inr firstError_Inr by auto
  with assms(1) have "addressBelongsToAPod E s ctx address ref (om_Namespace (ro_Meta obj)) = Inr ()"
    by (auto simp: refuseForgedEndpointAddress_def firstError_Inr)
  with assms(2,3) show ?thesis by (auto simp: addressBelongsToAPod_def split: option.splits if_splits)
qed simp

definition own_slice :: "string \<Rightarrow> robject" where
  "own_slice ns = upd_meta (\<lambda>m. m\<lparr>om_Namespace := ns\<rparr>)
     (sample_object ''discovery.k8s.io/v1'' ''EndpointSlice'' (EndpointSliceB [\<lparr>ep_Addresses = [''10.0.0.1''],
       ep_TargetRef = Some \<lparr>obr_Kind = ''Pod'', obr_Namespace = ns, obr_Name = ''web'', obr_UID = [],
         obr_APIVersion = ''v1'', obr_ResourceVersion = [], obr_FieldPath = []\<rparr>, ep_Rest = []\<rparr>] []))"

definition pod_store :: ex_state where
  "pod_store = [(podGVR, ''t1-shop'', sample_object ''v1'' ''Pod'' (PodB sample_podspec
     \<lparr>pst_PodIPs = [''10.0.0.1''], pst_HostIP = [], pst_HostIPs = [], pst_NominatedNodeName = [], pst_Rest = []\<rparr>))]"

theorem update_looks_for_pods_in_the_tenants_namespace_witness:
  "refuseForgedEndpointAddress ex_env pod_store (sample_ctx ''update'') (own_slice ''t1-shop'') = Inr () \<and>
   (\<exists>e. updateGuards ex_env pod_store (sample_tp (NewDefaultConvertor example_contract) ''discovery.k8s.io'' ''EndpointSlice'' ''endpointslices'')
     (sample_ctx ''update'') (own_slice ''shop'') (own_slice ''shop'') = Inl e)"
proof
  show "refuseForgedEndpointAddress ex_env pod_store (sample_ctx ''update'') (own_slice ''t1-shop'') = Inr ()"
    by (simp add: refuseForgedEndpointAddress_def own_slice_def endpointAddresses_def addressBelongsToAPod_def ex_client_def
        pod_store_def ex_named_def ex_at_def podIPsOf_def firstError_Inr sample_meta_def)
  show "\<exists>e. updateGuards ex_env pod_store (sample_tp (NewDefaultConvertor example_contract) ''discovery.k8s.io'' ''EndpointSlice'' ''endpointslices'')
     (sample_ctx ''update'') (own_slice ''shop'') (own_slice ''shop'') = Inl e"
    by (rule update_looks_for_pods_in_the_tenants_namespace [of "''10.0.0.1''"])
      (auto simp: own_slice_def endpointAddresses_def ex_client_def pod_store_def ex_named_def ex_at_def)
qed

end
