(* ===== verification/Projection_Properties.thy ===== *)
theory Projection_Properties
  imports Crb_Projection Proxy_Properties
begin

text \<open>
  The properties of the projection of ClusterRoleBindings: what a tenant writes is what it reads,
  a binding holds in every namespace of the tenant or in none, and the records are out of the
  reach of the RoleBinding endpoints.
\<close>

subsection \<open>Samples\<close>

definition ex_granted :: "Context \<Rightarrow> ex_state granted" where
  "ex_granted ctx s = (\<lambda>(ns, n). map_option (\<lambda>entry. ro_Body (snd (snd entry))) (find (ex_named (bindingsIn ctx ns) n) s))"

lemma ex_named_binding:
  "ex_named (bindingsIn ctx ns) n (g, m, obj) \<longleftrightarrow> g = roleBindingGVR \<and> m = ns \<and> om_Name (ro_Meta obj) = n"
  by (auto simp: ex_named_def ex_at_def bindingsIn_def)

lemma find_append: "find P (xs @ ys) = (case find P xs of None \<Rightarrow> find P ys | Some x \<Rightarrow> Some x)"
  by (induction xs) auto

lemma find_filter_other: "(\<And>x. P x \<Longrightarrow> Q x) \<Longrightarrow> find P (filter Q xs) = find P xs"
  by (induction xs) auto

lemma find_filter_same: "find P (filter (\<lambda>x. \<not> P x) xs) = None"
  by (induction xs) auto

lemma ex_named_other:
  "(a, b) \<noteq> (ns, n) \<Longrightarrow> ex_named (bindingsIn ctx a) b entry \<Longrightarrow> \<not> ex_named (bindingsIn ctx ns) n entry"
  by (cases entry) (auto simp: ex_named_binding)

lemma ex_granted_removed:
  "ex_granted ctx (filter (\<lambda>entry. \<not> ex_named (bindingsIn ctx ns) n entry) s) = (ex_granted ctx s)((ns, n) := None)"
proof (rule ext)
  fix k :: "string \<times> string"
  obtain a b where k: "k = (a, b)" by (cases k)
  show "ex_granted ctx (filter (\<lambda>entry. \<not> ex_named (bindingsIn ctx ns) n entry) s) k = ((ex_granted ctx s)((ns, n) := None)) k"
  proof (cases "(a, b) = (ns, n)")
    case False
    have "find (ex_named (bindingsIn ctx a) b) (filter (\<lambda>entry. \<not> ex_named (bindingsIn ctx ns) n entry) s) =
        find (ex_named (bindingsIn ctx a) b) s"
      by (rule find_filter_other) (rule ex_named_other [OF False])
    with False show ?thesis by (auto simp: k ex_granted_def)
  qed (simp add: k ex_granted_def find_filter_same)
qed

lemma ex_granted_added:
  assumes "find (ex_named (bindingsIn ctx ns) (om_Name (ro_Meta obj))) s = None"
  shows "ex_granted ctx (s @ [(roleBindingGVR, ns, obj)]) = (ex_granted ctx s)((ns, om_Name (ro_Meta obj)) \<mapsto> ro_Body obj)"
  using assms by (auto simp: fun_eq_iff ex_granted_def find_append ex_named_binding split: option.split)

lemma ex_granted_put:
  "ex_granted ctx (ex_put (bindingsIn ctx ns) obj s) = (ex_granted ctx s)((ns, om_Name (ro_Meta obj)) \<mapsto> ro_Body obj)"
proof -
  let ?s = "filter (\<lambda>entry. \<not> ex_named (bindingsIn ctx ns) (om_Name (ro_Meta obj)) entry) s"
  have "ex_put (bindingsIn ctx ns) obj s = ?s @ [(roleBindingGVR, ns, obj)]" by (simp add: ex_put_def bindingsIn_def)
  then show ?thesis
    using ex_granted_added [of ctx ns obj ?s] ex_granted_removed [of ctx ns "om_Name (ro_Meta obj)" s]
    by (simp add: find_filter_same)
qed

lemma ex_Create: "up_Create ex_client s t obj o' = (if find (ex_named t (om_Name (ro_Meta obj))) s = None
    then (Inr obj, s @ [(tg_Resource t, tg_Namespace t, obj)]) else (Inl (AlreadyExists (om_Name (ro_Meta obj))), s))"
  by (simp add: ex_client_def)

lemma bindingsIn_simps: "tg_Resource (bindingsIn ctx ns) = roleBindingGVR" "tg_Namespace (bindingsIn ctx ns) = ns"
  by (simp_all add: bindingsIn_def)

lemma ex_grants_ok: "grants_ok ex_env ctx (ex_granted ctx)"
  unfolding grants_ok_def
proof (intro conjI allI impI)
  fix s ns n and obj :: robject
  assume "up_Get (ev_client ex_env) s (bindingsIn ctx ns) n [] [] = Inr obj"
  then obtain g m where f: "find (ex_named (bindingsIn ctx ns) n) s = Some (g, m, obj)"
    by (auto simp: ex_client_def split: option.splits)
  then have "ex_named (bindingsIn ctx ns) n (g, m, obj)" by (auto simp: find_Some_iff)
  with f show "ex_granted ctx s (ns, n) = Some (ro_Body obj)" "om_Name (ro_Meta obj) = n"
    by (simp_all add: ex_granted_def ex_named_binding)
next
  fix s ns obj x s'
  assume "up_Create (ev_client ex_env) s (bindingsIn ctx ns) obj plainWrite = (Inr x, s')"
  then have "find (ex_named (bindingsIn ctx ns) (om_Name (ro_Meta obj))) s = None \<and> s' = s @ [(roleBindingGVR, ns, obj)]"
    by (auto simp: ex_Create bindingsIn_simps split: if_splits)
  then show "ex_granted ctx s' = (ex_granted ctx s)((ns, om_Name (ro_Meta obj)) \<mapsto> ro_Body obj)"
    using ex_granted_added by simp
next
  fix s ns obj e s'
  assume c: "up_Create (ev_client ex_env) s (bindingsIn ctx ns) obj plainWrite = (Inl e, s')"
  then have f: "find (ex_named (bindingsIn ctx ns) (om_Name (ro_Meta obj))) s \<noteq> None" "s' = s"
    by (simp_all add: ex_Create split: if_splits)
  then show "ex_granted ctx s' = ex_granted ctx s" by simp
  show "\<exists>existing. up_Get (ev_client ex_env) s' (bindingsIn ctx ns) (om_Name (ro_Meta obj)) [] [] = Inr existing"
    using f by (auto simp: ex_client_def split: option.split)
next
  fix s ns obj existing
  show "ex_granted ctx (snd (up_Update (ev_client ex_env) s (bindingsIn ctx ns) obj plainWrite [])) =
      (ex_granted ctx s)((ns, om_Name (ro_Meta obj)) \<mapsto> ro_Body obj)"
    using ex_granted_put by (simp add: ex_client_def)
next
  fix s ns n
  show "ex_granted ctx (snd (up_Delete (ev_client ex_env) s (bindingsIn ctx ns) n [] [])) = (ex_granted ctx s)((ns, n) := None)"
  proof (cases "find (ex_named (bindingsIn ctx ns) n) s")
    case None
    then have "ex_granted ctx s (ns, n) = None" by (simp add: ex_granted_def)
    with None show ?thesis by (simp add: ex_client_def fun_upd_idem)
  next
    case (Some entry)
    then show ?thesis using ex_granted_removed by (cases entry) (simp add: ex_client_def)
  qed
qed

definition crb_config :: StorageConfig where
  "crb_config = \<lparr>cfg_Kind = \<lparr>gvk_Group = rbacGroup, gvk_Version = ''v1'', gvk_Kind = ''ClusterRoleBinding''\<rparr>,
     cfg_Resource = ''clusterrolebindings'', cfg_Subresource = [], cfg_ShortNames = [], cfg_NamespaceScoped = False,
     cfg_IsCustomResource = False, cfg_IsSharedGroup = None, cfg_IsConnecter = False, cfg_TypeConverter = None,
     cfg_NewFunc = Some fresh_status, cfg_NewListFunc = Some False, cfg_TenantDNS = None, cfg_HiddenMetadata = None,
     cfg_Convertor = NewNopeConvertor, cfg_PublishedClasses = None, cfg_PublishedStorageClasses = None,
     cfg_PublishedSnapshotClasses = None, cfg_PublishedVolumeAttributesClasses = None, cfg_PublishedDeviceClasses = None,
     cfg_Tenants = None, cfg_MaxNamespaces = 0, cfg_MaxCRDs = 0, cfg_MaxClusterRoleBindings = 0,
     cfg_GroupVersionKindFunc = None\<rparr>"

definition crb_projection :: clusterRoleBindingProjection where
  "crb_projection = \<lparr>cp_inner = (tenantProxyOf (innerConfig crb_config))\<lparr>tp_hideProjected := False,
       tp_injectedPaths := Some (projectionLabelPath example_contract)\<rparr>,
     cp_kind = cfg_Kind crb_config, cp_newFunc = cfg_NewFunc crb_config, cp_newListFunc = cfg_NewListFunc crb_config,
     cp_maxBindings = 0, cp_tenants = None\<rparr>"

lemma crb_storage: "NewTenantProxy example_contract crb_config = Inr (ClusterRoleBindingProjection crb_projection)"
  by (simp add: NewTenantProxy.simps projectsClusterRoleBindings_def crb_config_def innerConfig_def
      newClusterRoleBindingProjection_def crb_projection_def Let_def)

definition ops_binding :: robject where
  "ops_binding = \<lparr>ro_APIVersion = [], ro_Kind = [], ro_Meta = empty_meta\<lparr>om_Name := ''ops''\<rparr>,
     ro_Body = ClusterRoleBindingB [\<lparr>sub_Kind = ''User'', sub_Name = ''alice'', sub_Namespace = []\<rparr>]
       \<lparr>rr_APIGroup = rbacGroup, rr_Kind = ''ClusterRole'', rr_Name = ''view''\<rparr>\<rparr>"

definition ops_record :: robject where
  "ops_record = \<lparr>ro_APIVersion = [], ro_Kind = [],
     ro_Meta = empty_meta\<lparr>om_Name := ''kubezoo:crb:ops'', om_Namespace := ''kube-system'',
       om_Labels := [''kubezoo.io/projected-crb'' \<mapsto> ''true'']\<rparr>,
     ro_Body = RoleBindingB [\<lparr>sub_Kind = ''User'', sub_Name = ''alice'', sub_Namespace = []\<rparr>]
       \<lparr>rr_APIGroup = rbacGroup, rr_Kind = ''ClusterRole'', rr_Name = ''view''\<rparr>\<rparr>"

lemma ops_asRoleBinding: "asRoleBinding example_contract ops_binding = Inr ops_record"
  by (simp add: asRoleBinding_def ops_binding_def ops_record_def example_fields Let_def canonicalNamespace_def empty_meta_def)


definition ops_sent :: robject where
  "ops_sent = ops_record\<lparr>ro_APIVersion := ''rbac.authorization.k8s.io/v1'', ro_Kind := ''RoleBinding''\<rparr>"

definition two_of_t1 :: ex_state where
  "two_of_t1 = [(namespaceGVR, [], named [] ''t1-a''), (namespaceGVR, [], named [] ''t1-kube-system'')]"

definition crb_ctx :: "string \<Rightarrow> Context" where
  "crb_ctx verb = inNamespace (sample_ctx verb) canonicalNamespace"

lemma crb_ctx_simps [simp]:
  "cx_Tenant (crb_ctx v) = Some ''t1''" "cx_User (crb_ctx v) = None" "\<not> cx_IsApplyPatch (crb_ctx v)"
  "cx_RequestInfo (crb_ctx v) = Some \<lparr>ri_Verb = v, ri_Namespace = ''kube-system'', ri_Name = ''web''\<rparr>"
  by (simp_all add: crb_ctx_def inNamespace_def canonicalNamespace_def sample_ctx_def)

abbreviation crb_inner :: tenantProxy where
  "crb_inner \<equiv> cp_inner crb_projection"

lemma crb_inner_simps [simp]:
  "tp_kind crb_inner = \<lparr>gvk_Group = rbacGroup, gvk_Version = ''v1'', gvk_Kind = ''RoleBinding''\<rparr>"
  "tp_convertor crb_inner = NewNopeConvertor" "tp_namespaceScoped crb_inner" "tp_resource crb_inner = ''rolebindings''"
  "tp_subresource crb_inner = []" "\<not> tp_isCustomResource crb_inner" "\<not> tp_hideProjected crb_inner"
  "tp_newFunc crb_inner = Some newRoleBinding" "tp_newListFunc crb_inner = Some False" "tp_groupVersionKindFunc crb_inner = None"
  "tp_publishedStorageClasses crb_inner = None" "tp_publishedSnapshotClasses crb_inner = None"
  "tp_publishedVolumeAttributesClasses crb_inner = None" "tp_publishedDeviceClasses crb_inner = None"
  "tp_maxNamespaces crb_inner = 0" "tp_maxCRDs crb_inner = 0" "tp_tenants crb_inner = None" "\<not> tp_storageView crb_inner"
  "tp_hiddenMetadata crb_inner = None"
  by (simp_all add: crb_projection_def tenantProxyOf_def innerConfig_def crb_config_def)

lemma ops_sent_simps [simp]:
  "om_Name (ro_Meta ops_sent) = ''kubezoo:crb:ops''" "isUnstructured ops_sent = False" "isPod ops_sent = False" "podSpec_or_nil ops_sent = None"
  by (simp_all add: ops_sent_def ops_record_def isUnstructured_def isPod_def podSpec_or_nil_def PodSpecOf_def podSpecOf_def podTemplateOf_def)

lemma no_hidden: "restoreObject None obj old = obj"
  by (simp add: restoreObject_def single_def Restore_def forEachObject_def Let_def)

lemma ops_request: "createRequest ex_env s crb_inner (crb_ctx v) ops_record ''t1'' = Inr ops_sent"
proof -
  have f: "convertTenantObjectToUpstreamObject crb_inner ops_record ''t1'' = Inr ops_sent"
    by (simp add: convertTenantObjectToUpstreamObject_def NewNopeConvertor_def SetGroupVersionKind_def ops_sent_def rbacGroup_def)
      (simp add: ops_record_def isUnstructured_def)
  have b: "\<exists>subjects roleRef. ro_Body ops_sent = RoleBindingB subjects roleRef" by (simp add: ops_sent_def ops_record_def)
  then have g: "createGuardsBefore ex_env crb_inner ops_sent = Inr ()" "createGuardsAfter ex_env s crb_inner (crb_ctx v) ops_sent ''t1'' = Inr ()"
    by (auto simp: create_guards refuseInlineCSIVolume_def refuseUnpublishedSnapshotClass_def
        refusePreProvisionedSnapshot_def volumeSnapshotOf_def refuseUnpublishedStorageClass_def
        refuseUnpublishedVolumeAttributesClass_def refuseTenantChosenNode_def refuseTenantBinding_def
        refuseTooManyNamespaces_def refuseTooManyCRDs_def maxNamespacesFor_def maxCRDsFor_def
        capacityOf_def refuseExternalNameService_def refuseForgedEndpointAddress_def endpointAddresses_def
        refuseUnpublishedEphemeralClasses_def refuseProbeHost_def refuseNewExternalIPs_def
        refuseNodePorts_def refuseUnpublishedDeviceClass_def refuseForeignClusterIP_def
        refusePlatformQuotaWrite_def Let_def)
  show ?thesis
    unfolding createRequest_def f using g
    by (simp add: createPod_def convertInternalObjectToUnstructuredObject_def convertInternalObjectToVersionedObject_def
        ex_scheme_def refuseReservedName_def refuseProjectedName_def refuseProjectedLabel_def servesRoleBindings_def no_hidden)
qed

lemma ops_shown: "shown ex_env crb_inner (crb_ctx v) ''t1'' newRoleBinding ops_sent = Inr ops_sent"
proof -
  have "SetGroupVersionKind crb_inner ops_sent = ops_sent"
    by (simp add: SetGroupVersionKind_def rbacGroup_def) (simp add: ops_sent_def)
  moreover have "applyTenantViews ex_env crb_inner ops_sent = ops_sent"
    by (simp add: applyTenantViews_def showTenantClusterIP_def Strip_def single_def forEachObject_def Let_def)
      (simp add: ops_sent_def ops_record_def)
  moreover have "echoRequestNamespace example_contract ops_sent ''t1'' ''kube-system'' = ops_sent"
    by (simp add: echoRequestNamespace_def Accessor_def is_status_def Let_def ops_sent_def ops_record_def)
  ultimately show ?thesis
    by (simp add: shown_def convertUnstructuredToOutput_def isUnstructured_def newRoleBinding_def ex_scheme_def
        convertUpstreamObjectToTenantObject_def NewNopeConvertor_def requestNamespace_def)
qed

lemma crb_client: "getClient ex_env crb_inner (crb_ctx v) = Inr (bindingsIn (sample_ctx v) ''t1-kube-system'')"
  by (simp add: getClient_def bindingsIn_def upstreamResource_def upstreamGroupVersion_def roleBindingGVR_def rbacGroup_def
      example_fields HasPrefix_def)

lemma ops_created:
  "Create ex_env two_of_t1 crb_inner (crb_ctx v) ops_record (Some sample_options) =
     (Inr ops_sent, two_of_t1 @ [(roleBindingGVR, ''t1-kube-system'', ops_sent)])"
proof -
  have "up_Create ex_client two_of_t1 (bindingsIn (sample_ctx v) ''t1-kube-system'') ops_sent sample_options =
      (Inr ops_sent, two_of_t1 @ [(roleBindingGVR, ''t1-kube-system'', ops_sent)])"
    by (simp add: ex_Create bindingsIn_simps two_of_t1_def ex_named_binding)
  then show ?thesis
    using ops_shown crb_client by (simp add: Create_def tenantSnapshot_def ops_request createSend_def sample_options_def mapError_def)
qed

subsection \<open>The record and the object\<close>

text \<open>
  C35.  A ClusterRoleBinding survives its projection: the record it is stored as lives in the
  tenant's kube-system under a name or a name prefix kubezoo keeps for itself, carries the label of
  the projection, and reads back as the object with its subjects, its role and its metadata.
\<close>

theorem crb_roundtrip:
  assumes "projection_ok C" "TrimProjectedBindingName C [] = []" "asRoleBinding C obj = Inr record"
  shows "asClusterRoleBinding C record = Inr (projected_view C obj) \<and>
    om_Namespace (ro_Meta record) = canonicalNamespace \<and>
    om_Labels (ro_Meta record) (ProjectedClusterRoleBindingLabelKey C) = Some ''true'' \<and>
    IsManagedBindingName C (om_Name (ro_Meta record) @ om_GenerateName (ro_Meta record))"
  using asClusterRoleBinding_asRoleBinding [OF assms] assms(1) assms(3) [unfolded asRoleBinding_Inr]
  by (auto simp: projection_ok_def)

theorem crb_roundtrip_witness:
  "asClusterRoleBinding example_contract ops_record = Inr ops_binding"
proof -
  have "projection_ok example_contract" by (rule contract_okD(6) [OF example_contract_ok])
  moreover have "TrimProjectedBindingName example_contract [] = []" by (simp add: example_fields TrimPrefix_def)
  moreover have "projected_view example_contract ops_binding = ops_binding"
    by (rule projected_view_same) (simp_all add: ops_binding_def empty_meta_def)
  ultimately show ?thesis using crb_roundtrip [OF _ _ ops_asRoleBinding] by simp
qed

subsection \<open>Everywhere or nowhere\<close>

text \<open>A binding under a name in every namespace of a list, and what is granted otherwise.\<close>

definition everywhere :: "string list \<Rightarrow> string \<Rightarrow> body option \<Rightarrow> (string \<times> string \<Rightarrow> body option) \<Rightarrow> string \<times> string \<Rightarrow> body option" where
  "everywhere nss n b granted = (\<lambda>(ns, m). if m = n \<and> ns \<in> set nss then b else granted (ns, m))"

text \<open>
  C9.  Creating a ClusterRoleBinding grants it in every namespace of the tenant: beyond what the
  creation of the record does, the upstream cluster changes exactly by a copy of the stored record
  in each of them.
\<close>

theorem crb_create_grants_everywhere:
  assumes "grants_ok E ctx granted" "cx_Tenant ctx = Some tid"
    and "asRoleBinding (ev_contract E) obj = Inr record" "refuseTooManyBindings J S E s p ctx = Inr ()"
    and "Create E s (cp_inner p) (inNamespace ctx canonicalNamespace) record options = (Inr created, s1)"
    and "ro_Body created = RoleBindingB subjects roleRef"
    and "tenantNamespaces E s1 ctx tid [] = Inr (nss, rv)"
    and "up_Get (ev_client E) s1 (bindingsIn ctx (AddTenantIDPrefix (ev_contract E) tid canonicalNamespace))
      (om_Name (ro_Meta created)) [] [] = Inr stored"
  shows "granted (snd (clusterRoleBindingProjection_Create J S E s p ctx obj options)) =
    everywhere nss (om_Name (ro_Meta created)) (Some (ro_Body stored)) (granted s1)"
  using assms(3-6) project_granted [OF assms(1,2,7,8)]
  by (auto simp: clusterRoleBindingProjection_Create_def everywhere_def fun_eq_iff mapError_def)

lemma two_of_t1_namespaces:
  assumes "\<forall>entry \<in> set extra. fst entry = roleBindingGVR"
  shows "tenantNamespaces ex_env (two_of_t1 @ extra) (sample_ctx v) ''t1'' [] = Inr ([''t1-a'', ''t1-kube-system''], ''7'')"
proof -
  have "filter (ex_at \<lparr>tg_User = u, tg_Resource = namespaceGVR, tg_Namespace = []\<rparr>) extra = []" for u
    using assms by (auto simp: filter_empty_conv ex_at_def namespaceGVR_def roleBindingGVR_def)
  then show ?thesis
    by (simp add: tenantNamespaces_def ex_client_def ex_page_def ex_items_def ex_at_def two_of_t1_def empty_ListOptions_def
        Let_def maxFannedNamespaces_def sort_Strings_def named_def)
qed

definition ex_selectors :: selectors where
  "ex_selectors = \<lparr>sel_FromSet = (\<lambda>k v. k @ ''='' @ v), sel_Empty = (\<lambda>str. str = []), sel_Requirements = (\<lambda>str. Some [str]),
     sel_Add = (\<lambda>str reqs. foldl (\<lambda>acc r. acc @ '','' @ r) str reqs), sel_Transform = (\<lambda>str f. Inr str)\<rparr>"

theorem crb_create_grants_everywhere_witness:
  "ex_granted (sample_ctx ''create'') (snd (clusterRoleBindingProjection_Create ex_json ex_selectors ex_env two_of_t1 crb_projection
       (sample_ctx ''create'') ops_binding (Some sample_options))) (''t1-a'', ''kubezoo:crb:ops'') = Some (ro_Body ops_sent)"
proof -
  let ?ctx = "sample_ctx ''create''" and ?s1 = "two_of_t1 @ [(roleBindingGVR, ''t1-kube-system'', ops_sent)]"
  have a: "asRoleBinding (ev_contract ex_env) ops_binding = Inr ops_record" using ops_asRoleBinding by simp
  have r: "refuseTooManyBindings ex_json ex_selectors ex_env two_of_t1 crb_projection ?ctx = Inr ()"
    by (simp add: refuseTooManyBindings_def maxClusterRoleBindingsFor_def capacityOf_def crb_projection_def)
  have c: "Create ex_env two_of_t1 crb_inner (inNamespace ?ctx canonicalNamespace) ops_record (Some sample_options) = (Inr ops_sent, ?s1)"
    using ops_created by (simp add: crb_ctx_def)
  have b: "ro_Body ops_sent = RoleBindingB [\<lparr>sub_Kind = ''User'', sub_Name = ''alice'', sub_Namespace = []\<rparr>]
       \<lparr>rr_APIGroup = rbacGroup, rr_Kind = ''ClusterRole'', rr_Name = ''view''\<rparr>" by (simp add: ops_sent_def ops_record_def)
  have n: "tenantNamespaces ex_env ?s1 ?ctx ''t1'' [] = Inr ([''t1-a'', ''t1-kube-system''], ''7'')"
    by (rule two_of_t1_namespaces) simp
  have g: "up_Get (ev_client ex_env) ?s1 (bindingsIn ?ctx (AddTenantIDPrefix (ev_contract ex_env) ''t1'' canonicalNamespace))
      (om_Name (ro_Meta ops_sent)) [] [] = Inr ops_sent"
    by (simp add: ex_client_def two_of_t1_def ex_named_binding example_fields canonicalNamespace_def)
  from crb_create_grants_everywhere [OF ex_grants_ok _ a r c b n g] show ?thesis by (simp add: everywhere_def)
qed

text \<open>
  C14.  Deleting a ClusterRoleBinding withdraws it from every namespace of the tenant and touches
  no other binding.
\<close>

theorem crb_delete_withdraws_everywhere:
  assumes "grants_ok E ctx granted" "cx_Tenant ctx = Some tid"
    and "Delete E s (cp_inner p) (inNamespace ctx canonicalNamespace) (ProjectedBindingName (ev_contract E) name) options =
      (Inr (deleted, immediate), s1)"
    and "tenantNamespaces E s1 ctx tid [] = Inr (nss, rv)"
  shows "granted (snd (clusterRoleBindingProjection_Delete E s p ctx name options)) =
    everywhere nss (ProjectedBindingName (ev_contract E) name) None (granted s1)"
  using assms(3) unproject_granted [OF assms(1,2,4)]
  by (auto simp: clusterRoleBindingProjection_Delete_def everywhere_def fun_eq_iff mapError_def)

definition bound_store :: ex_state where
  "bound_store = two_of_t1 @ [(roleBindingGVR, ''t1-a'', ops_sent), (roleBindingGVR, ''t1-kube-system'', ops_sent)]"

lemma ops_deleted:
  "Delete ex_env bound_store crb_inner (inNamespace (sample_ctx v) canonicalNamespace)
     (ProjectedBindingName (ev_contract ex_env) ''ops'') o' =
   (Inr (ops_sent, True), if o' = ''dryRun'' then bound_store else two_of_t1 @ [(roleBindingGVR, ''t1-a'', ops_sent)])"
proof -
  have "ro_Kind ops_sent \<noteq> ''Status''" by (simp add: ops_sent_def)
  moreover have "up_Delete ex_client bound_store (bindingsIn (sample_ctx v) ''t1-kube-system'') ''kubezoo:crb:ops'' o' [] =
      (Inr (ops_sent, True), if o' = ''dryRun'' then bound_store else two_of_t1 @ [(roleBindingGVR, ''t1-a'', ops_sent)])"
    by (simp add: ex_client_def bound_store_def two_of_t1_def ex_named_binding)
  ultimately show ?thesis
    using ops_shown crb_client
    by (simp add: Delete_def upstreamName_def refuseProjectedName_def refuseReservedName_def servesRoleBindings_def Let_def mapError_def
        example_fields flip: crb_ctx_def)
qed

theorem crb_delete_withdraws_everywhere_witness:
  "ex_granted (sample_ctx ''delete'') bound_store (''t1-a'', ''kubezoo:crb:ops'') = Some (ro_Body ops_sent) \<and>
   ex_granted (sample_ctx ''delete'') (snd (clusterRoleBindingProjection_Delete ex_env bound_store crb_projection
     (sample_ctx ''delete'') ''ops'' [])) (''t1-a'', ''kubezoo:crb:ops'') = None"
proof -
  let ?ctx = "sample_ctx ''delete''"
  have d: "Delete ex_env bound_store crb_inner (inNamespace ?ctx canonicalNamespace) (ProjectedBindingName (ev_contract ex_env) ''ops'') [] =
      (Inr (ops_sent, True), two_of_t1 @ [(roleBindingGVR, ''t1-a'', ops_sent)])" using ops_deleted by simp
  have n: "tenantNamespaces ex_env (two_of_t1 @ [(roleBindingGVR, ''t1-a'', ops_sent)]) ?ctx ''t1'' [] =
      Inr ([''t1-a'', ''t1-kube-system''], ''7'')"
    by (rule two_of_t1_namespaces) simp
  have "ex_granted ?ctx bound_store (''t1-a'', ''kubezoo:crb:ops'') = Some (ro_Body ops_sent)"
    by (simp add: ex_granted_def bound_store_def two_of_t1_def ex_named_binding)
  with crb_delete_withdraws_everywhere [OF ex_grants_ok _ d n] show ?thesis by (simp add: everywhere_def example_fields)
qed

text \<open>
  C36.  A dry run of a delete deletes: when the delete of the record succeeds and leaves the
  upstream cluster as it was, the copies and the record itself are still withdrawn, because they
  are deleted without the options of the request.
\<close>

theorem crb_dry_run_deletes:
  assumes "grants_ok E ctx granted" "cx_Tenant ctx = Some tid"
    and "Delete E s (cp_inner p) (inNamespace ctx canonicalNamespace) (ProjectedBindingName (ev_contract E) name) options =
      (Inr (deleted, immediate), s)"
    and "tenantNamespaces E s ctx tid [] = Inr (nss, rv)" "ns \<in> set nss"
  shows "granted (snd (clusterRoleBindingProjection_Delete E s p ctx name options)) (ns, ProjectedBindingName (ev_contract E) name) = None"
  using assms(3,5) unproject_granted [OF assms(1,2,4)]
  by (auto simp: clusterRoleBindingProjection_Delete_def mapError_def)

theorem crb_dry_run_deletes_witness:
  "ex_granted (sample_ctx ''delete'') (snd (clusterRoleBindingProjection_Delete ex_env bound_store crb_projection
     (sample_ctx ''delete'') ''ops'' ''dryRun'')) (''t1-kube-system'', ''kubezoo:crb:ops'') = None"
proof -
  let ?ctx = "sample_ctx ''delete''"
  have d: "Delete ex_env bound_store crb_inner (inNamespace ?ctx canonicalNamespace) (ProjectedBindingName (ev_contract ex_env) ''ops'')
      ''dryRun'' = (Inr (ops_sent, True), bound_store)" using ops_deleted by simp
  have n: "tenantNamespaces ex_env bound_store ?ctx ''t1'' [] = Inr ([''t1-a'', ''t1-kube-system''], ''7'')"
    unfolding bound_store_def by (rule two_of_t1_namespaces) simp
  from crb_dry_run_deletes [OF ex_grants_ok _ d n, of "''t1-kube-system''"] show ?thesis by (simp add: example_fields)
qed




end
