(* ===== verification/Watch_Properties.thy ===== *)
theory Watch_Properties
  imports Watch_Mux Projection_Properties
begin

text \<open>
  The properties of watches: what a tenant sees on its stream, that a bookmark of the merged stream
  is a place to resume from, and that the merged stream never drops a namespace without saying so.
\<close>

subsection \<open>Opening the merged stream\<close>

lemma add_keeps:
  assumes "add W s ctx m ns rv = Inr m'" "\<forall>k. rev_of m k < 2 ^ 64"
  shows "(\<forall>k. rev_of m' k < 2 ^ 64) \<and> namespaces_of m' = insert ns (namespaces_of m)"
proof (cases "ns \<in> namespaces_of m")
  case True
  then have "m' = m" using assms(1) by (simp add: add_def namespaces_of_def)
  with True assms(2) show ?thesis by auto
next
  case False
  then show ?thesis using add_new [OF assms(1) False] assms(2) parseRevision_bound by simp
qed

lemma addAll_keeps:
  "addAll W s ctx m nss rv = Inr m' \<Longrightarrow> \<forall>k. rev_of m k < 2 ^ 64 \<Longrightarrow>
     (\<forall>k. rev_of m' k < 2 ^ 64) \<and> namespaces_of m' = set nss \<union> namespaces_of m"
proof (induction nss arbitrary: m)
  case (Cons ns nss)
  from Cons.prems(1) obtain m1 where "add W s ctx m ns rv = Inr m1" "addAll W s ctx m1 nss rv = Inr m'"
    by (auto simp: bindR_Inr_iff)
  with Cons.IH [of m1] add_keeps [of W s ctx m ns rv m1] Cons.prems(2) show ?case by auto
qed simp

lemma newWatchMux_state:
  assumes "newWatchMux E W s ctx tp tid options nss = Inr m"
  shows "\<forall>k. rev_of m k < 2 ^ 64" "namespaces_of m = set nss"
proof -
  let ?m0 = "\<lparr>mx_resource = upstreamResource (ev_contract E) tp tid, mx_options = options, mx_tenantID = tid,
         mx_bookmarks = lo_AllowWatchBookmarks options, mx_initialEvents = (lo_SendInitialEvents options = Some True),
         mx_streams = [], mx_emitted = 0, mx_replayed = False\<rparr>"
  have a: "addAll W s ctx ?m0 nss (lo_ResourceVersion options) = Inr m"
    using assms by (auto simp: newWatchMux_def bindR_Inr_iff)
  have z: "\<forall>k. rev_of ?m0 k < 2 ^ 64" "namespaces_of ?m0 = {}" by (simp_all add: rev_of_def namespaces_of_def)
  from addAll_keeps [OF a z(1)] z(2) show "\<forall>k. rev_of m k < 2 ^ 64" "namespaces_of m = set nss" by auto
qed


definition any_watch :: "ex_state watcher" where
  "any_watch s t options = Inr ()"

definition mux_options :: ListOptions where
  "mux_options = empty_ListOptions\<lparr>lo_ResourceVersion := ''5'', lo_AllowWatchBookmarks := True\<rparr>"

definition mux_a :: watchMux where
  "mux_a = \<lparr>mx_resource = \<lparr>gvr_Group = [], gvr_Version = ''v1'', gvr_Resource = ''services''\<rparr>, mx_options = mux_options,
     mx_tenantID = ''t1'', mx_bookmarks = True, mx_initialEvents = False,
     mx_streams = [(''t1-a'', \<lparr>sp_revision = 5, sp_endOfReplay = False\<rparr>)], mx_emitted = 0, mx_replayed = False\<rparr>"

definition event_at :: "EventType \<Rightarrow> string \<Rightarrow> Event" where
  "event_at t rv = \<lparr>we_Type = t, we_Object = upd_meta (\<lambda>m. m\<lparr>om_ResourceVersion := rv\<rparr>) new_service\<rparr>"

lemma revisions [simp]:
  "parseRevision ''5'' = 5" "parseRevision ''10'' = 10" "parseRevision ''15'' = 15" "parseRevision ''20'' = 20" "parseRevision ''25'' = 25"
  by (simp_all add: parseRevision_def ParseUint_def value_of_def is_digit_def)

lemma event_at_simps [simp]:
  "eventRevision (event_at t rv) = parseRevision rv" "we_Type (event_at t rv) = t" "hasInitialEventsEnd (event_at t rv) = False"
  by (simp_all add: event_at_def eventRevision_def hasInitialEventsEnd_def Accessor_alt)
    (simp_all add: new_service_def)

lemma mux_a_opened:
  "newWatchMux ex_env any_watch [] (sample_ctx ''watch'') (sample_tp NewNopeConvertor [] ''Service'' ''services'') ''t1''
     mux_options [''t1-a''] = Inr mux_a"
  by (simp add: newWatchMux_def add_def followNamespaces_def any_watch_def mux_a_def upstreamResource_def upstreamGroupVersion_def)
    (simp add: mux_options_def empty_ListOptions_def)

definition mux_a20 :: watchMux where
  "mux_a20 = mux_a\<lparr>mx_streams := [(''t1-a'', \<lparr>sp_revision = 20, sp_endOfReplay = False\<rparr>)], mx_emitted := 20\<rparr>"

definition bookmark20 :: Event where
  "bookmark20 = event_at Bookmark ''20''"

lemma mux_a_bookmark: "onBookmark mux_a ''t1-a'' bookmark20 = (mux_a20, Some bookmark20)"
proof -
  have "FormatUint 20 = ''20''" by code_simp
  then have "bookmarkAt bookmark20 20 False = Some bookmark20"
    by (simp add: bookmarkAt_def Accessor_alt bookmark20_def event_at_def) (simp add: new_service_def sample_object_def sample_meta_def empty_meta_def is_status_def)
  then show ?thesis
    by (simp add: onBookmark_def mux_a_def mux_a20_def noteBookmark_def Let_def bookmark20_def)
qed

text \<open>
  A run that both witnesses below start with: the follower reports a new namespace, whose join is
  still trying, and a bookmark of the first namespace is passed on.
\<close>

abbreviation run :: "muxState \<Rightarrow> bool" where
  "run \<equiv> mux_reach any_watch (sample_ctx ''watch'') mux_a"

lemma mux_a_marked:
  "\<exists>S. run S \<and> ms_result S = [Marked {''t1-a''} bookmark20] \<and> ms_mux S = mux_a20 \<and> ms_reading S \<and> \<not> ms_stopped S \<and>
     ms_pumps S (Stream ''t1-a'') = Some Waiting \<and> ms_last S ''t1-a'' = 20 \<and>
     ms_pumps S (Join ''t1-b'' ''10'') = Some (Trying joinAttempts) \<and> ''t1-b'' \<in> ms_owned S"
proof -
  define S0 where "S0 = muxStart mux_a"
  have k: "namespaces_of mux_a = {''t1-a''}" "namespaces_of mux_a20 = {''t1-a''}"
    by (simp_all add: namespaces_of_def mux_a_def mux_a20_def)
  have r: "rev_of mux_a ''t1-a'' = 5" by (simp add: rev_of_def mux_a_def)
  define S1 where "S1 = (moves S0 (Join ''t1-b'' ''10'') (Trying joinAttempts))\<lparr>ms_owned := insert ''t1-b'' (ms_owned S0)\<rparr>"
  define S2 where "S2 = (moves S1 (Stream ''t1-a'') (Announcing bookmark20 {''t1-a''}))
     \<lparr>ms_mux := mux_a20, ms_last := (ms_last S1)(''t1-a'' := eventRevision bookmark20)\<rparr>"
  define S3 where "S3 = (moves S2 (Stream ''t1-a'') Waiting)\<lparr>ms_result := ms_result S2 @ [Marked {''t1-a''} bookmark20]\<rparr>"
  have 0: "run S0" unfolding S0_def by (rule mux_reach.start)
  have 1: "run S1" unfolding S1_def
    by (rule mux_reach.step [OF 0], rule mux_step.appear) (simp_all add: S0_def muxStart_def)
  have 2: "run S2"
  proof (rule mux_reach.step [OF 1])
    have "mux_step any_watch (sample_ctx ''watch'') S1 ((moves S1 (Stream ''t1-a'')
        (case Some bookmark20 of None \<Rightarrow> Waiting | Some b \<Rightarrow> Announcing b (namespaces_of mux_a20)))
        \<lparr>ms_mux := mux_a20, ms_last := (ms_last S1)(''t1-a'' := eventRevision bookmark20)\<rparr>)"
      by (rule mux_step.bookmark) (simp_all add: S1_def S0_def muxStart_def moves_def k r mux_a_bookmark, simp_all add: bookmark20_def)
    then show "mux_step any_watch (sample_ctx ''watch'') S1 S2" by (simp add: S2_def k)
  qed
  have 3: "run S3" unfolding S3_def
    by (rule mux_reach.step [OF 2], rule mux_step.announce) (simp_all add: S2_def S1_def S0_def muxStart_def moves_def)
  show ?thesis
    by (rule exI [of _ S3], intro conjI, rule 3) (simp_all add: S3_def S2_def S1_def S0_def muxStart_def moves_def k, simp add: bookmark20_def)
qed


text \<open>
  C15.  No part of the tenant goes uncovered in silence: as long as the merged stream is open, every
  namespace the tenant is known to own has a stream or a join that is still trying, or the 410 that
  makes the client list again is about to be sent, and a client that reads gets it in one step.
  Nothing follows it.
\<close>

theorem mux_covers_or_expires:
  assumes "newWatchMux E W s ctx tp tid options nss = Inr m" "mux_reach W ctx m S"
  shows "(ms_stopped S \<or>
      ((\<forall>ns \<in> ms_owned S. covered S ns) \<and> ms_pumps S Follower = Some Waiting) \<or>
      (\<exists>g. ms_pumps S g = Some Expiring \<and>
         (ms_reading S \<longrightarrow> (\<exists>S'. mux_step W ctx S S' \<and> ms_result S' = ms_result S @ [Gone])))) \<and>
    (Gone \<in> set (ms_result S) \<longrightarrow> List.last (ms_result S) = Gone)"
proof -
  have "\<exists>S'. mux_step W ctx S S' \<and> ms_result S' = ms_result S @ [Gone]" if "ms_pumps S g = Some Expiring" "ms_reading S" for g
    using mux_step.gone [OF that, of W ctx] by (auto simp: ends_def)
  moreover have "mux_cover S" by (rule mux_cover_reach [OF assms(2) newWatchMux_state(1) [OF assms(1)]])
  ultimately show ?thesis using mux_gone_reach [OF assms(2)] unfolding mux_cover_def by blast
qed


theorem mux_covers_or_expires_witness:
  "\<exists>S. run S \<and> \<not> ms_stopped S \<and> (covered S ''t1-b'' \<or> (\<exists>g. ms_pumps S g = Some Expiring))"
proof -
  obtain S where S: "run S" "\<not> ms_stopped S" "''t1-b'' \<in> ms_owned S" using mux_a_marked by blast
  from mux_covers_or_expires [OF mux_a_opened S(1)] S show ?thesis by blast
qed

text \<open>
  C38.  A bookmark can pass events of a namespace that is still joining: the follower has reported
  the namespace, its join has not succeeded yet, and a bookmark computed over the other streams
  reaches the client before an older event of the new namespace does.  A client that resumes from
  the bookmark never gets that event.
\<close>

theorem mux_bookmark_passes_joining_namespace:
  "\<exists>S1 S b e. run S1 \<and> ''t1-b'' \<in> ms_owned S1 \<and> ms_result S1 = [b] \<and> b = Marked {''t1-a''} bookmark20 \<and>
     mux_reach any_watch (sample_ctx ''watch'') mux_a S \<and> ms_result S = [b, Passed ''t1-b'' e] \<and>
     eventRevision e < eventRevision bookmark20"
proof -
  let ?e = "event_at Added ''15''" and ?W = any_watch and ?ctx = "sample_ctx ''watch''"
  obtain S where S: "run S" "ms_result S = [Marked {''t1-a''} bookmark20]" "ms_mux S = mux_a20" "ms_reading S"
      "ms_pumps S (Join ''t1-b'' ''10'') = Some (Trying joinAttempts)" "''t1-b'' \<in> ms_owned S" using mux_a_marked by blast
  have k: "''t1-b'' \<notin> namespaces_of mux_a20" by (simp add: namespaces_of_def mux_a_def mux_a20_def)
  obtain m where m: "add ?W [] ?ctx (ms_mux S) ''t1-b'' ''10'' = Inr m"
    using k by (simp add: S add_def any_watch_def namespaces_of_def)
  define S1 where "S1 = (moves (ends S (Join ''t1-b'' ''10'')) (Stream ''t1-b'') Waiting)\<lparr>ms_mux := m, ms_last := (ms_last S)(''t1-b'' := parseRevision ''10'')\<rparr>"
  define S2 where "S2 = (moves S1 (Stream ''t1-b'') (Sending ?e))\<lparr>ms_last := (ms_last S1)(''t1-b'' := max (ms_last S1 ''t1-b'') (eventRevision ?e))\<rparr>"
  define S3 where "S3 = (moves S2 (Stream ''t1-b'') (Recording (eventRevision ?e)))
      \<lparr>ms_result := ms_result S2 @ [Passed ''t1-b'' ?e], ms_reading := (we_Type ?e \<noteq> ErrorType)\<rparr>"
  have "mux_step ?W ?ctx S (if ''t1-b'' \<in> namespaces_of (ms_mux S) then ends S (Join ''t1-b'' ''10'')
      else (moves (ends S (Join ''t1-b'' ''10'')) (Stream ''t1-b'') Waiting)\<lparr>ms_mux := m, ms_last := (ms_last S)(''t1-b'' := parseRevision ''10'')\<rparr>)"
    by (rule mux_step.joined [where n = 59, OF _ m]) (simp add: S joinAttempts_def)
  then have "mux_step ?W ?ctx S S1" using k by (simp add: S S1_def)
  then have 1: "run S1" by (rule mux_reach.step [OF S(1)])
  have 2: "run S2" unfolding S2_def by (rule mux_reach.step [OF 1], rule mux_step.receive) (simp_all add: S1_def moves_def)
  have 3: "run S3" unfolding S3_def
    by (rule mux_reach.step [OF 2], rule mux_step.send) (simp_all add: S2_def S1_def moves_def ends_def S)
  have "ms_result S3 = [Marked {''t1-a''} bookmark20, Passed ''t1-b'' ?e]" by (simp add: S3_def S2_def S1_def moves_def ends_def S)
  moreover have "eventRevision ?e < eventRevision bookmark20" by (simp add: bookmark20_def)
  ultimately show ?thesis using S 3 by blast
qed


subsection \<open>What a tenant sees\<close>

text \<open>The events about objects.\<close>

definition object_event :: "Event \<Rightarrow> bool" where
  "object_event e \<longleftrightarrow> we_Type e \<in> {Added, Modified, Deleted}"

lemma proxyEvent_object:
  assumes "proxyEvent B E tp tid reqNS e = Forwarded e'" "object_event e'"
  shows "object_event e \<and> we_Type e' = we_Type e \<and> B (we_Object e) tid (tp_namespaceScoped tp) \<and>
    \<not> (servesRoleBindings tp \<and> IsManagedBindingName (ev_contract E) (om_Name (ro_Meta (we_Object e)))) \<and>
    (\<exists>fresh out. tp_newFunc tp = Some fresh \<and> convertUnstructuredToOutput E tp (we_Object e) fresh = Inr out \<and>
       convertUpstreamObjectToTenantObject E tp out tid reqNS = Inr (we_Object e'))"
  using assms
  by (cases "we_Type e") (auto simp: proxyEvent_def proxyObject_def object_event_def Let_def split: if_splits option.splits sum.splits)

lemma proxyWatch_from:
  assumes "e' \<in> set (proxyWatch_proxy B E tp tid reqNS events)" "object_event e'"
  shows "\<exists>e \<in> set events. proxyEvent B E tp tid reqNS e = Forwarded e'"
  using assms(1)
proof (induction events)
  case (Cons e events)
  show ?case
  proof (cases "proxyEvent B E tp tid reqNS e")
    case (LastEvent x)
    then have "e' = x" using Cons.prems by simp
    moreover have "\<not> object_event x"
      using LastEvent by (cases "we_Type e")
        (auto simp: proxyEvent_def proxyObject_def object_event_def newInternalErrorEvent_def Let_def
          split: if_splits option.splits sum.splits)
    ultimately show ?thesis using assms(2) by simp
  qed (use Cons in auto)
qed simp

text \<open>
  C16.  A watch shows a tenant only its own objects, and nothing of the platform on them: every
  event about an object comes from an upstream event about an object of the tenant that is no
  record of a projection, converted like a read, and without a hidden key.
\<close>

theorem watch_shows_own_clean_objects:
  assumes "json_ok (ev_contract E)" "\<not> tp_storageView tp" "tp_hiddenMetadata tp = Some h"
    and "e' \<in> set (proxyWatch_proxy B E tp tid reqNS events)" "object_event e'" "\<not> is_status (we_Object e')"
  shows "object_clean (ev_contract E) (Some h) (we_Object e') \<and>
    (\<exists>e \<in> set events. we_Type e = we_Type e' \<and> B (we_Object e) tid (tp_namespaceScoped tp) \<and>
       \<not> (servesRoleBindings tp \<and> IsManagedBindingName (ev_contract E) (om_Name (ro_Meta (we_Object e)))))"
proof -
  obtain e where e: "e \<in> set events" "proxyEvent B E tp tid reqNS e = Forwarded e'" using proxyWatch_from [OF assms(4,5)] by blast
  from proxyEvent_object [OF e(2) assms(5)] obtain out where c: "we_Type e' = we_Type e" "B (we_Object e) tid (tp_namespaceScoped tp)"
      "\<not> (servesRoleBindings tp \<and> IsManagedBindingName (ev_contract E) (om_Name (ro_Meta (we_Object e))))"
      "convertUpstreamObjectToTenantObject E tp out tid reqNS = Inr (we_Object e')" by blast
  from converted_clean [OF c(4) assms(1,2,6)] assms(3) have "object_clean (ev_contract E) (Some h) (we_Object e')" by simp
  with e(1) c(1-3) show ?thesis by auto
qed


theorem watch_shows_own_clean_objects_witness:
  "\<exists>e'. proxyWatch_proxy (\<lambda>obj tid scoped. HasPrefix (om_Namespace (ro_Meta obj)) (tid @ ''-'')) ex_env
       (sample_tp NewNopeConvertor [] ''Service'' ''services'') ''t1'' []
       [\<lparr>we_Type = Added, we_Object = sample_service\<lparr>ro_Meta := sample_meta\<rparr>\<rparr>,
        \<lparr>we_Type = Added, we_Object = upd_meta (\<lambda>m. m\<lparr>om_Namespace := ''t1-shop''\<rparr>) sample_service\<rparr>] = [e'] \<and>
     object_clean example_contract (Some sample_h) (we_Object e')"
proof -
  let ?B = "\<lambda>obj tid scoped. HasPrefix (om_Namespace (ro_Meta obj)) (tid @ ''-'')"
  let ?tp = "sample_tp NewNopeConvertor [] ''Service'' ''services''"
  let ?obj = "upd_meta (\<lambda>m. m\<lparr>om_Namespace := ''t1-shop''\<rparr>) sample_service"
  let ?es = "[\<lparr>we_Type = Added, we_Object = sample_service\<lparr>ro_Meta := sample_meta\<rparr>\<rparr>, \<lparr>we_Type = Added, we_Object = ?obj\<rparr>]"
  let ?out = "echoRequestNamespace example_contract (applyTenantViews ex_env ?tp ?obj) ''t1'' []"
  have "SetGroupVersionKind ?tp ?obj = ?obj" by (simp add: SetGroupVersionKind_def) (simp add: sample_service_def)
  then have l: "proxyWatch_proxy ?B ex_env ?tp ''t1'' [] ?es = [\<lparr>we_Type = Added, we_Object = ?out\<rparr>]"
    by (simp add: proxyEvent_def proxyObject_def servesRoleBindings_def convertUnstructuredToOutput_def ex_scheme_def isUnstructured_def
        convertUpstreamObjectToTenantObject_def NewNopeConvertor_def HasPrefix_def sample_service_def Let_def)
  have "\<not> is_status sample_service" by (simp add: sample_service_def is_status_def)
  then have "\<not> is_status ?out" by simp
  with watch_shows_own_clean_objects [where E = ex_env and tp = ?tp and h = sample_h and B = ?B and tid = "''t1''" and reqNS = "[]" and events = ?es
      and e' = "\<lparr>we_Type = Added, we_Object = ?out\<rparr>"] l contract_okD(5) [OF example_contract_ok]
  have "object_clean example_contract (Some sample_h) ?out" by (simp add: object_event_def)
  with l show ?thesis by simp
qed

end
