(* ===== verification/Cluster_Quota.thy ===== *)
theory Cluster_Quota
  imports Tenant_Proxy
begin

text \<open>
  The quota over all namespaces of a tenant: the reconciler that keeps one ResourceQuota in every
  namespace of a ClusterResourceQuota and adds up their usage
  (pkg/clusterresourcequota/controllers/clusterresourcequota_controller.go), the retried update it
  writes with (util.go) and the admission webhook that reads what it wrote (webhook.go).
\<close>

section \<open>Definitions\<close>

subsection \<open>Objects\<close>

text \<open>A quantity is the number it stands for; nil and the empty list are told apart only where the code does.\<close>

type_synonym ResourceList = "string \<rightharpoonup> int"

record ResourceQuotaSpec =
  rqs_Hard :: ResourceList
  rqs_Rest :: opaque

record ResourceQuotaStatus =
  rqt_Hard :: "ResourceList option"
  rqt_Used :: "ResourceList option"

record ResourceQuota =
  rq_Meta :: ObjectMeta
  rq_Spec :: ResourceQuotaSpec
  rq_Status :: ResourceQuotaStatus

record ClusterResourceQuota =
  cq_Meta :: ObjectMeta
  cq_Spec :: ResourceQuotaSpec
  cq_NamespaceSelector :: "LabelSelector option"
  cq_Namespaces :: "string list"
  cq_Status :: ResourceQuotaStatus

abbreviation cq_Name :: "ClusterResourceQuota \<Rightarrow> string" where
  "cq_Name cq \<equiv> om_Name (cq_Meta cq)"

definition list_of :: "ResourceList option \<Rightarrow> ResourceList" where
  "list_of l = (case l of None \<Rightarrow> Map.empty | Some m \<Rightarrow> m)"

definition empty_status :: ResourceQuotaStatus where
  "empty_status = \<lparr>rqt_Hard = None, rqt_Used = None\<rparr>"

text \<open>Semantic.DeepEqual takes a nil map and an empty one for the same.\<close>

definition same_status :: "ResourceQuotaStatus \<Rightarrow> ResourceQuotaStatus \<Rightarrow> bool" where
  "same_status a b \<longleftrightarrow> list_of (rqt_Hard a) = list_of (rqt_Hard b) \<and> list_of (rqt_Used a) = list_of (rqt_Used b)"

definition same_quota :: "ResourceQuota \<Rightarrow> ResourceQuota \<Rightarrow> bool" where
  "same_quota a b \<longleftrightarrow> rq_Meta a = rq_Meta b \<and> rq_Spec a = rq_Spec b \<and> same_status (rq_Status a) (rq_Status b)"

definition same_cluster_quota :: "ClusterResourceQuota \<Rightarrow> ClusterResourceQuota \<Rightarrow> bool" where
  "same_cluster_quota a b \<longleftrightarrow> cq_Meta a = cq_Meta b \<and> cq_Spec a = cq_Spec b \<and> cq_NamespaceSelector a = cq_NamespaceSelector b \<and>
     cq_Namespaces a = cq_Namespaces b \<and> same_status (cq_Status a) (cq_Status b)"

subsection \<open>What the controller calls\<close>

text \<open>
  The client of controller-runtime on an API server whose state is of type 's.  A write returns the
  object as the server stored it.  Listing takes a namespace, empty for all of them, and the labels
  that are asked for.
\<close>

record 's quota_client =
  qc_GetClusterQuota :: "'s \<Rightarrow> string \<Rightarrow> ClusterResourceQuota result"
  qc_UpdateClusterStatus :: "'s \<Rightarrow> ClusterResourceQuota \<Rightarrow> ClusterResourceQuota result \<times> 's"
  qc_GetNamespace :: "'s \<Rightarrow> string \<Rightarrow> unit result"
  qc_ListNamespaces :: "'s \<Rightarrow> string \<Rightarrow> string list result"
  qc_GetQuota :: "'s \<Rightarrow> string \<Rightarrow> string \<Rightarrow> ResourceQuota result"
  qc_ListQuotas :: "'s \<Rightarrow> string \<Rightarrow> (string \<times> string) \<Rightarrow> ResourceQuota list result"
  qc_CreateQuota :: "'s \<Rightarrow> ResourceQuota \<Rightarrow> ResourceQuota result \<times> 's"
  qc_UpdateQuota :: "'s \<Rightarrow> ResourceQuota \<Rightarrow> ResourceQuota result \<times> 's"
  qc_DeleteQuota :: "'s \<Rightarrow> ResourceQuota \<Rightarrow> unit result \<times> 's"

text \<open>
  Functions of apimachinery, apiserver and client-go: label selectors, controller references, the
  arithmetic of resource lists, and the retry on conflict, which runs a step again while it ends in
  a conflict.
\<close>

type_synonym ('o, 's) attempt_state = "bool \<times> 'o \<times> bool \<times> 's"

type_synonym ('o, 's) retry =
  "nat \<Rightarrow> (('o, 's) attempt_state \<Rightarrow> unit result \<times> ('o, 's) attempt_state) \<Rightarrow> ('o, 's) attempt_state \<Rightarrow>
   unit result \<times> ('o, 's) attempt_state"

record 's quota_env =
  qe_client :: "'s quota_client"
  qe_Createdby :: string
  LabelSelectorAsSelector :: "LabelSelector option \<Rightarrow> string result"
  SelectorMatches :: "string \<Rightarrow> strmap \<Rightarrow> bool"
  GetControllerOf :: "ObjectMeta \<Rightarrow> OwnerReference option"
  NewControllerRef :: "ObjectMeta \<Rightarrow> string \<Rightarrow> OwnerReference"
  qu_Add :: "ResourceList \<Rightarrow> ResourceList \<Rightarrow> ResourceList"
  qu_Equals :: "ResourceList \<Rightarrow> ResourceList \<Rightarrow> bool"
  RetryQuota :: "(ResourceQuota, 's) retry"
  RetryCluster :: "(ClusterResourceQuota, 's) retry"

subsection \<open>The retried update (util.go)\<close>

definition DefaultRetry :: nat where
  "DefaultRetry = 5"

text \<open>
  One turn: the object is read again except the first time, changed, and written unless the change
  changed nothing.  The key of the object must not change.
\<close>

definition mutate :: "('o \<Rightarrow> 'o) \<Rightarrow> ('o \<Rightarrow> string \<times> string) \<Rightarrow> string \<times> string \<Rightarrow> 'o \<Rightarrow> 'o result" where
  "mutate f keyOf key obj =
     (let obj = f obj in if keyOf obj \<noteq> key then Inl (Plain ''mutateFn cannot mutate object name and/or object namespace'') else Inr obj)"

definition updateAttempt ::
  "('s \<Rightarrow> string \<times> string \<Rightarrow> 'o result) \<Rightarrow> ('s \<Rightarrow> 'o \<Rightarrow> 'o result \<times> 's) \<Rightarrow> ('o \<Rightarrow> 'o \<Rightarrow> bool) \<Rightarrow> ('o \<Rightarrow> string \<times> string) \<Rightarrow>
   ('o \<Rightarrow> 'o) \<Rightarrow> string \<times> string \<Rightarrow> ('o, 's) attempt_state \<Rightarrow> unit result \<times> ('o, 's) attempt_state" where
  "updateAttempt apiReader apiWriter same keyOf f key = (\<lambda>(firstTry, obj, updated, s).
     (case (if firstTry then Inr obj else apiReader s key) of
        Inl err \<Rightarrow> (Inl err, (False, obj, updated, s))
      | Inr existing \<Rightarrow>
        (case mutate f keyOf key existing of
           Inl err \<Rightarrow> (Inl err, (False, f existing, updated, s))
         | Inr obj \<Rightarrow>
           if same existing obj then (Inr (), (False, obj, updated, s))
           else (case apiWriter s obj of
               (Inl err, s) \<Rightarrow> (Inl err, (False, obj, updated, s))
             | (Inr obj, s) \<Rightarrow> (Inr (), (False, obj, True, s))))))"

text \<open>The result says whether the object was written; the object itself comes back changed.\<close>

definition UpdateOnConflict ::
  "('o, 's) retry \<Rightarrow> nat \<Rightarrow> ('s \<Rightarrow> string \<times> string \<Rightarrow> 'o result) \<Rightarrow> ('s \<Rightarrow> 'o \<Rightarrow> 'o result \<times> 's) \<Rightarrow> ('o \<Rightarrow> 'o \<Rightarrow> bool) \<Rightarrow>
   ('o \<Rightarrow> string \<times> string) \<Rightarrow> 'o \<Rightarrow> ('o \<Rightarrow> 'o) \<Rightarrow> 's \<Rightarrow> (bool \<times> 'o) result \<times> 's" where
  "UpdateOnConflict retry backoff apiReader apiWriter same keyOf obj f s =
     (case retry backoff (updateAttempt apiReader apiWriter same keyOf f (keyOf obj)) (True, obj, False, s) of
        (Inl err, (_, _, _, s)) \<Rightarrow> (Inl err, s)
      | (Inr _, (_, obj, updated, s)) \<Rightarrow> (Inr (updated, obj), s))"

subsection \<open>The reconciler\<close>

definition ClusterResourceQuotaKind :: string where
  "ClusterResourceQuotaKind = ''ClusterResourceQuota''"

definition LabelClusterResourceQuotaAutoUpdate :: string where
  "LabelClusterResourceQuotaAutoUpdate = ''clusterresourcequota.quota.kubezoo.io/autoupdate''"

definition quotaKey :: "ResourceQuota \<Rightarrow> string \<times> string" where
  "quotaKey q = (om_Namespace (rq_Meta q), om_Name (rq_Meta q))"

definition clusterKey :: "ClusterResourceQuota \<Rightarrow> string \<times> string" where
  "clusterKey cq = (om_Namespace (cq_Meta cq), om_Name (cq_Meta cq))"

definition upd_labels :: "(strmap \<Rightarrow> strmap) \<Rightarrow> ResourceQuota \<Rightarrow> ResourceQuota" where
  "upd_labels f q = q\<lparr>rq_Meta := (rq_Meta q)\<lparr>om_Labels := f (om_Labels (rq_Meta q))\<rparr>\<rparr>"

text \<open>sets.String keeps each name once, and List returns them in order.\<close>

definition insertName :: "string \<Rightarrow> string list \<Rightarrow> string list" where
  "insertName n ns = (if n \<in> set ns then ns else ns @ [n])"

fun namedNamespaces :: "'s quota_env \<Rightarrow> 's \<Rightarrow> string list \<Rightarrow> string list \<Rightarrow> string list result" where
  "namedNamespaces E s [] namespaces = Inr namespaces"
| "namedNamespaces E s (name # names) namespaces =
     (case qc_GetNamespace (qe_client E) s name of
        Inl err \<Rightarrow> if IsNotFound err then namedNamespaces E s names namespaces else Inl err
      | Inr _ \<Rightarrow> namedNamespaces E s names (insertName name namespaces))"

definition GetNamespacesForClusterQuota :: "'s quota_env \<Rightarrow> 's \<Rightarrow> ClusterResourceQuota \<Rightarrow> string list result" where
  "GetNamespacesForClusterQuota E s cq =
     bindR (case cq_NamespaceSelector cq of None \<Rightarrow> Inr []
       | Some _ \<Rightarrow>
         bindR (LabelSelectorAsSelector E (cq_NamespaceSelector cq)) (\<lambda>selector.
         bindR (qc_ListNamespaces (qe_client E) s selector) (\<lambda>items. Inr (fold insertName items [])))) (\<lambda>namespaces.
     namedNamespaces E s (cq_Namespaces cq) namespaces)"

text \<open>The quotas that carry the name of the cluster quota, and the namespaces they are in.\<close>

definition GetResourceQuotaForClusterQuota ::
  "'s quota_env \<Rightarrow> 's \<Rightarrow> ClusterResourceQuota \<Rightarrow> (string list \<times> (string \<Rightarrow> ResourceQuota list)) result" where
  "GetResourceQuotaForClusterQuota E s cq =
     bindR (qc_ListQuotas (qe_client E) s [] (qe_Createdby E, cq_Name cq)) (\<lambda>items.
       Inr (fold insertName (map (\<lambda>q. om_Namespace (rq_Meta q)) items) [],
            \<lambda>ns. filter (\<lambda>q. om_Namespace (rq_Meta q) = ns) items))"

text \<open>
  The loop over the quotas of a namespace: one that no ClusterResourceQuota controls loses the label,
  the first one that is controlled stays, the others are deleted.  Failing writes are not looked at.
\<close>

fun matchQuotas :: "'s quota_env \<Rightarrow> ResourceQuota list \<Rightarrow> ResourceQuota option \<Rightarrow> 's \<Rightarrow> ResourceQuota option \<times> 's" where
  "matchQuotas E [] matchedquota s = (matchedquota, s)"
| "matchQuotas E (quota # quotas) matchedquota s =
     (let unlabelled = snd (qc_UpdateQuota (qe_client E) s (upd_labels (\<lambda>m. m(qe_Createdby E := None)) quota)) in
      case GetControllerOf E (rq_Meta quota) of
        None \<Rightarrow> matchQuotas E quotas matchedquota unlabelled
      | Some owner \<Rightarrow>
        if owr_Kind owner \<noteq> ClusterResourceQuotaKind then matchQuotas E quotas matchedquota unlabelled
        else (case matchedquota of
            None \<Rightarrow> matchQuotas E quotas (Some quota) s
          | Some _ \<Rightarrow> matchQuotas E quotas matchedquota (snd (qc_DeleteQuota (qe_client E) s quota))))"

definition wantLabels :: "'s quota_env \<Rightarrow> ClusterResourceQuota \<Rightarrow> strmap" where
  "wantLabels E cq = [qe_Createdby E \<mapsto> cq_Name cq, LabelClusterResourceQuotaAutoUpdate \<mapsto> ''true'']"

definition newQuota :: "'s quota_env \<Rightarrow> ClusterResourceQuota \<Rightarrow> string \<Rightarrow> ResourceQuota" where
  "newQuota E cq namespace = \<lparr>
     rq_Meta = empty_meta\<lparr>om_Namespace := namespace, om_GenerateName := cq_Name cq @ ''-'', om_Labels := wantLabels E cq,
       om_OwnerReferences := [NewControllerRef E (cq_Meta cq) ClusterResourceQuotaKind]\<rparr>,
     rq_Spec = cq_Spec cq, rq_Status = empty_status\<rparr>"

text \<open>labelsDirty: a label that is missing or has another value.\<close>

definition labelsDirty :: "'s quota_env \<Rightarrow> ClusterResourceQuota \<Rightarrow> ResourceQuota \<Rightarrow> bool" where
  "labelsDirty E cq q \<longleftrightarrow> (\<exists>key \<in> {qe_Createdby E, LabelClusterResourceQuotaAutoUpdate}.
     (case om_Labels (rq_Meta q) key of None \<Rightarrow> [] | Some v \<Rightarrow> v) \<noteq> the (wantLabels E cq key))"

definition repaired :: "'s quota_env \<Rightarrow> ClusterResourceQuota \<Rightarrow> ResourceQuota \<Rightarrow> ResourceQuota" where
  "repaired E cq q = upd_labels (\<lambda>m. m ++ wantLabels E cq) (q\<lparr>rq_Spec := cq_Spec cq\<rparr>)"

definition readQuota :: "'s quota_env \<Rightarrow> 's \<Rightarrow> string \<times> string \<Rightarrow> ResourceQuota result" where
  "readQuota E s key = qc_GetQuota (qe_client E) s (fst key) (snd key)"

definition ensureResourceQuotaInNamespace ::
  "'s quota_env \<Rightarrow> 's \<Rightarrow> ClusterResourceQuota \<Rightarrow> string \<Rightarrow> ResourceQuota list \<Rightarrow> ResourceQuota result \<times> 's" where
  "ensureResourceQuotaInNamespace E s cq namespace quotas =
     (case matchQuotas E quotas None s of
        (None, s) \<Rightarrow> qc_CreateQuota (qe_client E) s (newQuota E cq namespace)
      | (Some matchedquota, s) \<Rightarrow>
        if cq_Spec cq \<noteq> rq_Spec matchedquota \<or> labelsDirty E cq matchedquota
        then bindS (UpdateOnConflict (RetryQuota E) DefaultRetry (readQuota E) (qc_UpdateQuota (qe_client E)) same_quota quotaKey
            matchedquota (repaired E cq) s) (\<lambda>(_, matchedquota) s. (Inr matchedquota, s))
        else (Inr matchedquota, s))"

fun ensureQuotas ::
  "'s quota_env \<Rightarrow> ClusterResourceQuota \<Rightarrow> (string \<Rightarrow> ResourceQuota list) \<Rightarrow> string list \<Rightarrow> 's \<Rightarrow> ResourceQuota list result \<times> 's" where
  "ensureQuotas E cq quotas [] s = (Inr [], s)"
| "ensureQuotas E cq quotas (ns # nss) s =
     bindS (ensureResourceQuotaInNamespace E s cq ns (quotas ns)) (\<lambda>quota s.
     bindS (ensureQuotas E cq quotas nss s) (\<lambda>expected s. (Inr (quota # expected), s)))"

definition deleteQuotas :: "'s quota_env \<Rightarrow> ResourceQuota list \<Rightarrow> 's \<Rightarrow> 's" where
  "deleteQuotas E quotas s = fold (\<lambda>quota s. snd (qc_DeleteQuota (qe_client E) s quota)) quotas s"

text \<open>The status: the limits as asked for, and the usage added up over the quotas.\<close>

definition usageOf :: "'s quota_env \<Rightarrow> ResourceQuota list \<Rightarrow> ResourceList" where
  "usageOf E quotas = fold (\<lambda>quota newUsage. qu_Add E newUsage (list_of (rqt_Used (rq_Status quota)))) quotas Map.empty"

definition readCluster :: "'s quota_env \<Rightarrow> 's \<Rightarrow> string \<times> string \<Rightarrow> ClusterResourceQuota result" where
  "readCluster E s key = qc_GetClusterQuota (qe_client E) s (snd key)"

definition syncStatus :: "'s quota_env \<Rightarrow> 's \<Rightarrow> ClusterResourceQuota \<Rightarrow> ResourceQuota list \<Rightarrow> unit result \<times> 's" where
  "syncStatus E s cq quotas =
     (let statusLimitsDirty = (rqs_Hard (cq_Spec cq) \<noteq> list_of (rqt_Hard (cq_Status cq)));
          hardLimits = qu_Add E Map.empty (rqs_Hard (cq_Spec cq));
          usage = \<lparr>rqt_Hard = Some hardLimits, rqt_Used = Some (usageOf E quotas)\<rparr>;
          dirty = (statusLimitsDirty \<or> rqt_Hard (cq_Status cq) = None \<or> rqt_Used (cq_Status cq) = None \<or>
            \<not> qu_Equals E (list_of (rqt_Used (cq_Status cq))) (usageOf E quotas))
      in if dirty
         then bindS (UpdateOnConflict (RetryCluster E) DefaultRetry (readCluster E) (qc_UpdateClusterStatus (qe_client E))
            same_cluster_quota clusterKey cq (\<lambda>cq. cq\<lparr>cq_Status := usage\<rparr>) s) (\<lambda>_ s. (Inr (), s))
         else (Inr (), s))"

definition Reconcile :: "'s quota_env \<Rightarrow> 's \<Rightarrow> string \<Rightarrow> unit result \<times> 's" where
  "Reconcile E s name =
     (case qc_GetClusterQuota (qe_client E) s name of
        Inl err \<Rightarrow> (if IsNotFound err then Inr () else Inl err, s)
      | Inr cq \<Rightarrow>
        bindS (GetNamespacesForClusterQuota E s cq, s) (\<lambda>namespaces s.
        bindS (GetResourceQuotaForClusterQuota E s cq, s) (\<lambda>(quotaNamespaces, quotas) s.
        bindS (ensureQuotas E cq quotas (sort_Strings namespaces) s) (\<lambda>expectedQuotas s.
        let unmatched = sort_Strings (filter (\<lambda>ns. ns \<notin> set namespaces) quotaNamespaces);
            s = fold (\<lambda>ns s. deleteQuotas E (quotas ns) s) unmatched s
        in syncStatus E s cq expectedQuotas))))"

text \<open>The event handler: a new namespace enqueues the cluster quotas it matches.\<close>

definition matches :: "'s quota_env \<Rightarrow> ClusterResourceQuota \<Rightarrow> string \<Rightarrow> strmap \<Rightarrow> bool" where
  "matches E quota name labels =
     (case LabelSelectorAsSelector E (cq_NamespaceSelector quota) of
        Inl _ \<Rightarrow> False
      | Inr selector \<Rightarrow> SelectorMatches E selector labels \<or> name \<in> set (cq_Namespaces quota))"

definition enqueued :: "'s quota_env \<Rightarrow> ClusterResourceQuota list \<Rightarrow> string \<Rightarrow> strmap \<Rightarrow> string list" where
  "enqueued E quotas name labels = map cq_Name (filter (\<lambda>quota. matches E quota name labels) quotas)"

subsection \<open>The webhook\<close>

fun quotasOf :: "'s quota_env \<Rightarrow> 's \<Rightarrow> ResourceQuota list \<Rightarrow> ResourceQuota list result" where
  "quotasOf E s [] = Inr []"
| "quotasOf E s (quota # quotas) =
     (case GetControllerOf E (rq_Meta quota) of
        None \<Rightarrow> quotasOf E s quotas
      | Some owner \<Rightarrow>
        if owr_Kind owner \<noteq> ClusterResourceQuotaKind then quotasOf E s quotas
        else (case qc_GetClusterQuota (qe_client E) s (owr_Name owner) of
            Inl err \<Rightarrow> if IsNotFound err then quotasOf E s quotas else Inl err
          | Inr clusterquota \<Rightarrow>
            bindR (quotasOf E s quotas) (\<lambda>rest.
              Inr (quota\<lparr>rq_Status := cq_Status clusterquota,
                rq_Meta := (rq_Meta quota)\<lparr>om_Name := ''clusterresourcequota/'' @ cq_Name clusterquota\<rparr>\<rparr> # rest))))"

definition GetQuotas :: "'s quota_env \<Rightarrow> 's \<Rightarrow> string \<Rightarrow> ResourceQuota list result" where
  "GetQuotas E s namespace =
     bindR (qc_ListQuotas (qe_client E) s namespace (LabelClusterResourceQuotaAutoUpdate, ''true'')) (quotasOf E s)"

text \<open>
  A create is evaluated against those quotas; other operations are let through.  The decoder and
  the evaluator belong to controller-runtime and the API server; the evaluator reads the quotas of
  a namespace through GetQuotas.  A request without the dry-run flag is dereferenced.
\<close>

record AdmissionUser =
  au_UID :: string
  au_Username :: string
  au_Groups :: "string list"
  au_Extra :: "string \<rightharpoonup> string list"

record AdmissionRequest =
  ar_Operation :: string
  ar_Object :: "robject option"
  ar_OldObject :: "robject option"
  ar_Kind :: GroupVersionKind
  ar_Namespace :: string
  ar_Name :: string
  ar_Resource :: GroupVersionResource
  ar_SubResource :: string
  ar_Options :: string
  ar_DryRun :: "bool option"
  ar_UserInfo :: AdmissionUser

record Attributes =
  at_Object :: "robject option"
  at_OldObject :: "robject option"
  at_Kind :: GroupVersionKind
  at_Namespace :: string
  at_Name :: string
  at_Resource :: GroupVersionResource
  at_Subresource :: string
  at_Operation :: string
  at_Options :: string
  at_DryRun :: bool
  at_User :: AdmissionUser

definition CreateAdmissionAttributes :: "AdmissionRequest \<Rightarrow> Attributes result" where
  "CreateAdmissionAttributes req =
     (case ar_DryRun req of None \<Rightarrow> Inl (Panic ''nil dereference'')
      | Some dryRun \<Rightarrow> Inr \<lparr>at_Object = ar_Object req, at_OldObject = ar_OldObject req, at_Kind = ar_Kind req,
          at_Namespace = ar_Namespace req, at_Name = ar_Name req, at_Resource = ar_Resource req, at_Subresource = ar_SubResource req,
          at_Operation = ar_Operation req, at_Options = ar_Options req, at_DryRun = dryRun, at_User = ar_UserInfo req\<rparr>)"

datatype admission_response = Allowed | Errored error | DeniedStatus error | Denied string

definition Handle ::
  "'s quota_env \<Rightarrow> (AdmissionRequest \<Rightarrow> robject result) \<Rightarrow> (Attributes \<Rightarrow> (string \<Rightarrow> ResourceQuota list result) \<Rightarrow> unit result) \<Rightarrow> 's \<Rightarrow>
   AdmissionRequest \<Rightarrow> admission_response result" where
  "Handle E decode evaluate s req =
     (if ar_Operation req = ''CREATE'' then
        (case decode req of Inl err \<Rightarrow> Inr (Errored err)
         | Inr obj \<Rightarrow>
           bindR (CreateAdmissionAttributes (req\<lparr>ar_Object := Some obj\<rparr>)) (\<lambda>attributes.
           (case evaluate attributes (GetQuotas E s) of
              Inl (Plain message) \<Rightarrow> Inr (Denied message)
            | Inl err \<Rightarrow> Inr (DeniedStatus err)
            | Inr _ \<Rightarrow> Inr Allowed)))
      else Inr Allowed)"

section \<open>The server and the library\<close>

text \<open>
  What the client is expected to do on a server that serves one writer at a time: reads show what is
  stored; a create picks a fresh name; an update of what was read last is stored under a new
  revision; a delete removes.
\<close>

definition at_revision :: "string \<Rightarrow> ResourceQuota \<Rightarrow> ResourceQuota" where
  "at_revision rv q = q\<lparr>rq_Meta := (rq_Meta q)\<lparr>om_ResourceVersion := rv\<rparr>\<rparr>"

definition reads_ok ::
  "'s quota_env \<Rightarrow> ('s \<Rightarrow> string \<times> string \<Rightarrow> ResourceQuota option) \<Rightarrow> ('s \<Rightarrow> string \<Rightarrow> ClusterResourceQuota option) \<Rightarrow>
   ('s \<Rightarrow> string \<Rightarrow> strmap option) \<Rightarrow> bool" where
  "reads_ok E Q K N \<longleftrightarrow>
     (\<forall>s key q. Q s key = Some q \<longrightarrow> quotaKey q = key) \<and>
     (\<forall>s name cq. K s name = Some cq \<longrightarrow> cq_Name cq = name) \<and>
     (\<forall>s name. qc_GetClusterQuota (qe_client E) s name = (case K s name of None \<Rightarrow> Inl (NotFound name) | Some cq \<Rightarrow> Inr cq)) \<and>
     (\<forall>s name. qc_GetNamespace (qe_client E) s name = (case N s name of None \<Rightarrow> Inl (NotFound name) | Some _ \<Rightarrow> Inr ())) \<and>
     (\<forall>s selector. \<exists>names. qc_ListNamespaces (qe_client E) s selector = Inr names \<and>
        set names = {n. \<exists>labels. N s n = Some labels \<and> SelectorMatches E selector labels}) \<and>
     (\<forall>s ns label. \<exists>items. qc_ListQuotas (qe_client E) s ns label = Inr items \<and> distinct (map quotaKey items) \<and>
        set items = {q. Q s (quotaKey q) = Some q \<and> (ns = [] \<or> om_Namespace (rq_Meta q) = ns) \<and>
          om_Labels (rq_Meta q) (fst label) = Some (snd label)})"

definition writes_ok ::
  "'s quota_env \<Rightarrow> ('s \<Rightarrow> string \<times> string \<Rightarrow> ResourceQuota option) \<Rightarrow> ('s \<Rightarrow> string \<Rightarrow> ClusterResourceQuota option) \<Rightarrow>
   ('s \<Rightarrow> string \<Rightarrow> strmap option) \<Rightarrow> bool" where
  "writes_ok E Q K N \<longleftrightarrow>
     (\<forall>s q. om_Name (rq_Meta q) = [] \<longrightarrow> (\<exists>q' s' name rv. qc_CreateQuota (qe_client E) s q = (Inr q', s') \<and>
        q' = at_revision rv (q\<lparr>rq_Meta := (rq_Meta q)\<lparr>om_Name := name\<rparr>\<rparr>) \<and> Q s (quotaKey q') = None \<and>
        Q s' = (Q s)(quotaKey q' \<mapsto> q') \<and> K s' = K s \<and> N s' = N s)) \<and>
     (\<forall>s q old. Q s (quotaKey q) = Some old \<and> om_ResourceVersion (rq_Meta q) = om_ResourceVersion (rq_Meta old) \<and>
        rq_Status q = rq_Status old \<longrightarrow> (\<exists>s' rv. qc_UpdateQuota (qe_client E) s q = (Inr (at_revision rv q), s') \<and>
        Q s' = (Q s)(quotaKey q \<mapsto> at_revision rv q) \<and> K s' = K s \<and> N s' = N s)) \<and>
     (\<forall>s q. Q s (quotaKey q) = Some q \<longrightarrow> (\<exists>s'. qc_DeleteQuota (qe_client E) s q = (Inr (), s') \<and>
        Q s' = (Q s)(quotaKey q := None) \<and> K s' = K s \<and> N s' = N s)) \<and>
     (\<forall>s cq status. K s (cq_Name cq) = Some cq \<longrightarrow> (\<exists>s' rv.
        let cq' = cq\<lparr>cq_Status := status, cq_Meta := (cq_Meta cq)\<lparr>om_ResourceVersion := rv\<rparr>\<rparr> in
        qc_UpdateClusterStatus (qe_client E) s (cq\<lparr>cq_Status := status\<rparr>) = (Inr cq', s') \<and>
        Q s' = Q s \<and> K s' = (K s)(cq_Name cq \<mapsto> cq') \<and> N s' = N s))"

text \<open>
  The library: the retry runs the step until it does not end in a conflict or the turns are used up,
  resource lists are added key by key, no selector selects nothing, and a controller reference is
  found again.
\<close>

definition retry_ok :: "('o, 's) retry \<Rightarrow> bool" where
  "retry_ok R \<longleftrightarrow> (\<forall>n f st. R (Suc n) f st = (case f st of
       (Inr u, st') \<Rightarrow> (Inr u, st')
     | (Inl (Conflict m), st') \<Rightarrow> if n = 0 then (Inl (Conflict m), st') else R n f st'
     | (Inl err, st') \<Rightarrow> (Inl err, st')))"

definition add_lists :: "ResourceList \<Rightarrow> ResourceList \<Rightarrow> ResourceList" where
  "add_lists a b = (\<lambda>k. case a k of None \<Rightarrow> b k | Some x \<Rightarrow> Some (x + (case b k of None \<Rightarrow> 0 | Some y \<Rightarrow> y)))"

definition quota_lib_ok :: "'s quota_env \<Rightarrow> bool" where
  "quota_lib_ok E \<longleftrightarrow> retry_ok (RetryQuota E) \<and> retry_ok (RetryCluster E) \<and>
     qu_Add E = add_lists \<and> qu_Equals E = (=) \<and>
     (\<exists>nothing. LabelSelectorAsSelector E None = Inr nothing \<and> (\<forall>labels. \<not> SelectorMatches E nothing labels)) \<and>
     (\<forall>m m'. om_OwnerReferences m = om_OwnerReferences m' \<longrightarrow> GetControllerOf E m = GetControllerOf E m') \<and>
     (\<forall>m owner kind. om_OwnerReferences m = [NewControllerRef E owner kind] \<longrightarrow>
        (\<exists>r. GetControllerOf E m = Some r \<and> owr_Kind r = kind \<and> owr_Name r = om_Name owner)) \<and>
     qe_Createdby E \<noteq> LabelClusterResourceQuotaAutoUpdate"


definition quota_server ::
  "'s quota_env \<Rightarrow> ('s \<Rightarrow> string \<times> string \<Rightarrow> ResourceQuota option) \<Rightarrow> ('s \<Rightarrow> string \<Rightarrow> ClusterResourceQuota option) \<Rightarrow>
   ('s \<Rightarrow> string \<Rightarrow> strmap option) \<Rightarrow> bool" where
  "quota_server E Q K N \<longleftrightarrow> reads_ok E Q K N \<and> writes_ok E Q K N \<and> quota_lib_ok E"

lemmas reads_okD = reads_ok_def [THEN iffD1, THEN conjunct1, rule_format]
  reads_ok_def [THEN iffD1, THEN conjunct2, THEN conjunct1, rule_format]
  reads_ok_def [THEN iffD1, THEN conjunct2, THEN conjunct2, THEN conjunct1, rule_format]
  reads_ok_def [THEN iffD1, THEN conjunct2, THEN conjunct2, THEN conjunct2, THEN conjunct1, rule_format]
  reads_ok_def [THEN iffD1, THEN conjunct2, THEN conjunct2, THEN conjunct2, THEN conjunct2, THEN conjunct1, rule_format]
  reads_ok_def [THEN iffD1, THEN conjunct2, THEN conjunct2, THEN conjunct2, THEN conjunct2, THEN conjunct2, rule_format]

lemmas writes_okD = writes_ok_def [THEN iffD1, THEN conjunct1, rule_format]
  writes_ok_def [THEN iffD1, THEN conjunct2, THEN conjunct1, rule_format]
  writes_ok_def [THEN iffD1, THEN conjunct2, THEN conjunct2, THEN conjunct1, rule_format]
  writes_ok_def [THEN iffD1, THEN conjunct2, THEN conjunct2, THEN conjunct2, rule_format]

lemma server_parts:
  assumes "quota_server E Q K N"
  shows "reads_ok E Q K N" "writes_ok E Q K N" "quota_lib_ok E"
  using assms by (simp_all add: quota_server_def)

lemma server_keys:
  assumes "quota_server E Q K N"
  shows "Q s key = Some q \<Longrightarrow> quotaKey q = key" "K s name = Some cq \<Longrightarrow> cq_Name cq = name"
  by (rule reads_okD(1,2) [OF server_parts(1) [OF assms]], assumption)+

lemma server_get:
  assumes "quota_server E Q K N"
  shows "qc_GetClusterQuota (qe_client E) s name = (case K s name of None \<Rightarrow> Inl (NotFound name) | Some cq \<Rightarrow> Inr cq)"
    "qc_GetNamespace (qe_client E) s name = (case N s name of None \<Rightarrow> Inl (NotFound name) | Some _ \<Rightarrow> Inr ())"
  by (rule reads_okD(3,4) [OF server_parts(1) [OF assms]])+

lemma server_namespaces:
  assumes "quota_server E Q K N"
  obtains names where "qc_ListNamespaces (qe_client E) s selector = Inr names"
    "set names = {n. \<exists>labels. N s n = Some labels \<and> SelectorMatches E selector labels}"
  using reads_okD(5) [OF server_parts(1) [OF assms], of s selector] by blast

lemma server_list:
  assumes "quota_server E Q K N"
  obtains items where "qc_ListQuotas (qe_client E) s ns (k, v) = Inr items" "distinct (map quotaKey items)"
    "set items = {q. Q s (quotaKey q) = Some q \<and> (ns = [] \<or> om_Namespace (rq_Meta q) = ns) \<and> om_Labels (rq_Meta q) k = Some v}"
  using reads_okD(6) [OF server_parts(1) [OF assms], of s ns "(k, v)"] unfolding fst_conv snd_conv by blast

lemma server_create:
  assumes "quota_server E Q K N" "om_Name (rq_Meta q) = []"
  obtains s' name rv where
    "qc_CreateQuota (qe_client E) s q = (Inr (at_revision rv (q\<lparr>rq_Meta := (rq_Meta q)\<lparr>om_Name := name\<rparr>\<rparr>)), s')"
    "Q s (om_Namespace (rq_Meta q), name) = None"
    "Q s' = (Q s)((om_Namespace (rq_Meta q), name) \<mapsto> at_revision rv (q\<lparr>rq_Meta := (rq_Meta q)\<lparr>om_Name := name\<rparr>\<rparr>))"
    "K s' = K s" "N s' = N s"
proof -
  from writes_okD(1) [OF server_parts(2) [OF assms(1)] assms(2), of s] obtain q' s' name rv where
      "qc_CreateQuota (qe_client E) s q = (Inr q', s')"
      "q' = at_revision rv (q\<lparr>rq_Meta := (rq_Meta q)\<lparr>om_Name := name\<rparr>\<rparr>)" "Q s (quotaKey q') = None"
      "Q s' = (Q s)(quotaKey q' \<mapsto> q')" "K s' = K s" "N s' = N s"
    by blast
  then show ?thesis using that [of rv name s'] by (simp add: quotaKey_def at_revision_def)
qed

lemma server_update:
  assumes "quota_server E Q K N" "Q s (quotaKey q) = Some old" "om_ResourceVersion (rq_Meta q) = om_ResourceVersion (rq_Meta old)"
    "rq_Status q = rq_Status old"
  obtains s' rv where "qc_UpdateQuota (qe_client E) s q = (Inr (at_revision rv q), s')"
    "Q s' = (Q s)(quotaKey q \<mapsto> at_revision rv q)" "K s' = K s" "N s' = N s"
  using writes_okD(2) [OF server_parts(2) [OF assms(1)], of s q old] assms(2-4) by blast

lemma server_delete:
  assumes "quota_server E Q K N" "Q s (quotaKey q) = Some q"
  obtains s' where "qc_DeleteQuota (qe_client E) s q = (Inr (), s')"
    "Q s' = (Q s)(quotaKey q := None)" "K s' = K s" "N s' = N s"
  using writes_okD(3) [OF server_parts(2) [OF assms(1)] assms(2)] by blast

lemma server_status:
  assumes "quota_server E Q K N" "K s (cq_Name cq) = Some cq"
  obtains s' rv where
    "qc_UpdateClusterStatus (qe_client E) s (cq\<lparr>cq_Status := status\<rparr>) =
       (Inr (cq\<lparr>cq_Status := status, cq_Meta := (cq_Meta cq)\<lparr>om_ResourceVersion := rv\<rparr>\<rparr>), s')"
    "Q s' = Q s" "K s' = (K s)(cq_Name cq \<mapsto> cq\<lparr>cq_Status := status, cq_Meta := (cq_Meta cq)\<lparr>om_ResourceVersion := rv\<rparr>\<rparr>)" "N s' = N s"
  using writes_okD(4) [OF server_parts(2) [OF assms(1)] assms(2), of status] unfolding Let_def by blast

lemma server_controller:
  assumes "quota_server E Q K N"
  shows "om_OwnerReferences m = om_OwnerReferences m' \<Longrightarrow> GetControllerOf E m = GetControllerOf E m'"
    "om_OwnerReferences m = [NewControllerRef E owner kind] \<Longrightarrow>
       \<exists>r. GetControllerOf E m = Some r \<and> owr_Kind r = kind \<and> owr_Name r = om_Name owner"
  using server_parts(3) [OF assms] unfolding quota_lib_ok_def by blast+

section \<open>One namespace\<close>

declare split_paired_All [simp del] split_paired_Ex [simp del]

definition controlled :: "'s quota_env \<Rightarrow> ResourceQuota \<Rightarrow> bool" where
  "controlled E q \<longleftrightarrow> (\<exists>r. GetControllerOf E (rq_Meta q) = Some r \<and> owr_Kind r = ClusterResourceQuotaKind)"

definition labelled :: "'s quota_env \<Rightarrow> ClusterResourceQuota \<Rightarrow> ResourceQuota \<Rightarrow> bool" where
  "labelled E cq q \<longleftrightarrow> om_Labels (rq_Meta q) (qe_Createdby E) = Some (cq_Name cq)"

lemma key_upd_labels [simp]: "quotaKey (upd_labels f q) = quotaKey q" "quotaKey (at_revision rv q) = quotaKey q"
  "quotaKey (q\<lparr>rq_Spec := x\<rparr>) = quotaKey q" "rq_Status (upd_labels f q) = rq_Status q" "rq_Spec (upd_labels f q) = rq_Spec q"
  "rq_Spec (at_revision rv q) = rq_Spec q" "rq_Status (at_revision rv q) = rq_Status q"
  "om_Labels (rq_Meta (at_revision rv q)) = om_Labels (rq_Meta q)"
  "om_Labels (rq_Meta (upd_labels f q)) = f (om_Labels (rq_Meta q))"
  "om_ResourceVersion (rq_Meta (upd_labels f q)) = om_ResourceVersion (rq_Meta q)"
  "om_OwnerReferences (rq_Meta (upd_labels f q)) = om_OwnerReferences (rq_Meta q)"
  "om_OwnerReferences (rq_Meta (at_revision rv q)) = om_OwnerReferences (rq_Meta q)"
  by (simp_all add: upd_labels_def at_revision_def quotaKey_def)

lemma fst_quotaKey [simp]: "fst (quotaKey q) = om_Namespace (rq_Meta q)"
  by (simp add: quotaKey_def)

abbreviation unlabel :: "'s quota_env \<Rightarrow> ResourceQuota \<Rightarrow> ResourceQuota" where
  "unlabel E q \<equiv> upd_labels (\<lambda>m. m(qe_Createdby E := None)) q"

lemma matchQuotas_Cons:
  "matchQuotas E (q # qs) m s =
     (if controlled E q then
        (case m of None \<Rightarrow> matchQuotas E qs (Some q) s | Some _ \<Rightarrow> matchQuotas E qs m (snd (qc_DeleteQuota (qe_client E) s q)))
      else matchQuotas E qs m (snd (qc_UpdateQuota (qe_client E) s (unlabel E q))))"
  by (auto simp: controlled_def Let_def split: option.split)

declare matchQuotas.simps(2) [simp del]

text \<open>
  What the loop leaves: the first controlled quota stays as it is, the other controlled ones are
  gone, the rest has lost the label, and nothing else has changed.
\<close>

definition matched_view ::
  "'s quota_env \<Rightarrow> ('s \<Rightarrow> string \<times> string \<Rightarrow> ResourceQuota option) \<Rightarrow> ResourceQuota list \<Rightarrow> ResourceQuota option \<Rightarrow> 's \<Rightarrow> 's \<Rightarrow> bool" where
  "matched_view E Q qs m s s' \<longleftrightarrow>
     (\<forall>k. k \<notin> quotaKey ` set qs \<longrightarrow> Q s' k = Q s k) \<and>
     (\<forall>q \<in> set qs. \<not> controlled E q \<longrightarrow> (\<exists>rv. Q s' (quotaKey q) = Some (at_revision rv (unlabel E q)))) \<and>
     (\<forall>q \<in> set qs. controlled E q \<longrightarrow> Q s' (quotaKey q) = (if m = Some q then Some q else None))"

lemma matched_view_frame: "matched_view E Q qs m s s' \<Longrightarrow> k \<notin> quotaKey ` set qs \<Longrightarrow> Q s' k = Q s k"
  unfolding matched_view_def by blast

lemma matched_view_Cons:
  assumes "matched_view E Q qs m s1 s'" "quotaKey q \<notin> quotaKey ` set qs" "\<And>k. k \<noteq> quotaKey q \<Longrightarrow> Q s1 k = Q s k"
    and "\<not> controlled E q \<Longrightarrow> \<exists>rv. Q s1 (quotaKey q) = Some (at_revision rv (unlabel E q))"
    and "controlled E q \<Longrightarrow> Q s1 (quotaKey q) = (if m = Some q then Some q else None)"
  shows "matched_view E Q (q # qs) m s s'"
proof -
  have q: "Q s' (quotaKey q) = Q s1 (quotaKey q)" by (rule matched_view_frame [OF assms(1,2)])
  have "Q s' k = Q s k" if "k \<notin> quotaKey ` set (q # qs)" for k
    using matched_view_frame [OF assms(1), of k] assms(3) that by simp
  with q assms(1,4,5) show ?thesis unfolding matched_view_def by simp
qed

lemma matchQuotas_ok:
  assumes "quota_server E Q K N" "distinct (map quotaKey qs)" "\<forall>q \<in> set qs. Q s (quotaKey q) = Some q"
    and "\<forall>q0. m = Some q0 \<longrightarrow> quotaKey q0 \<notin> quotaKey ` set qs" "matchQuotas E qs m s = (m', s')"
  shows "m' = (case m of None \<Rightarrow> find (controlled E) qs | Some _ \<Rightarrow> m) \<and> matched_view E Q qs m' s s' \<and> K s' = K s \<and> N s' = N s"
  using assms(2-5)
proof (induction qs arbitrary: m s)
  case Nil
  then show ?case by (auto simp: matched_view_def split: option.split)
next
  case (Cons q qs)
  note C = Cons.prems
  have ks: "quotaKey q \<notin> quotaKey ` set qs" "distinct (map quotaKey qs)" using C(1) by auto
  have qs: "Q s (quotaKey q) = Some q" "\<forall>p \<in> set qs. Q s (quotaKey p) = Some p" using C(2) by auto
  have m0: "\<forall>q0. m = Some q0 \<longrightarrow> quotaKey q0 \<notin> quotaKey ` set qs" "m \<noteq> Some q" using C(3) by auto
  show ?case
  proof (cases "controlled E q")
    case False
    have "Q s (quotaKey (unlabel E q)) = Some q" "om_ResourceVersion (rq_Meta (unlabel E q)) = om_ResourceVersion (rq_Meta q)"
        "rq_Status (unlabel E q) = rq_Status q"
      using qs(1) by simp_all
    from server_update [OF assms(1) this]
    obtain s1 rv where u: "qc_UpdateQuota (qe_client E) s (unlabel E q) = (Inr (at_revision rv (unlabel E q)), s1)"
        "Q s1 = (Q s)(quotaKey (unlabel E q) \<mapsto> at_revision rv (unlabel E q))" "K s1 = K s" "N s1 = N s"
      by blast
    have "\<forall>p \<in> set qs. Q s1 (quotaKey p) = Some p" using qs(2) ks u(2) by (auto simp: image_iff)
    moreover have "matchQuotas E qs m s1 = (m', s')" using C(4) False u(1) by (simp add: matchQuotas_Cons)
    ultimately have v: "m' = (case m of None \<Rightarrow> find (controlled E) qs | Some _ \<Rightarrow> m)" "matched_view E Q qs m' s1 s'"
        "K s' = K s1" "N s' = N s1"
      using Cons.IH ks(2) m0(1) by blast+
    have "matched_view E Q (q # qs) m' s s'"
      by (rule matched_view_Cons [OF v(2) ks(1)]) (use u(2) False in auto)
    then show ?thesis using u(3,4) v False by (simp split: option.split)
  next
    case True
    show ?thesis
    proof (cases m)
      case None
      with C(4) True have "matchQuotas E qs (Some q) s = (m', s')" by (simp add: matchQuotas_Cons)
      moreover have "\<forall>q0. Some q = Some q0 \<longrightarrow> quotaKey q0 \<notin> quotaKey ` set qs" using ks(1) by simp
      ultimately have "m' = (case Some q of None \<Rightarrow> find (controlled E) qs | Some _ \<Rightarrow> Some q)" "matched_view E Q qs m' s s'"
          "K s' = K s" "N s' = N s"
        using Cons.IH ks(2) qs(2) by blast+
      then have v: "m' = Some q" "matched_view E Q qs m' s s'" "K s' = K s" "N s' = N s" by simp_all
      have "matched_view E Q (q # qs) m' s s'"
        by (rule matched_view_Cons [OF v(2) ks(1)]) (use v(1) qs(1) True in auto)
      then show ?thesis using v None True by simp
    next
      case (Some q0)
      obtain s1 where d: "qc_DeleteQuota (qe_client E) s q = (Inr (), s1)" "Q s1 = (Q s)(quotaKey q := None)" "K s1 = K s" "N s1 = N s"
        using server_delete [OF assms(1) qs(1)] by blast
      have "\<forall>p \<in> set qs. Q s1 (quotaKey p) = Some p" using qs(2) ks d(2) by (auto simp: image_iff)
      moreover have "matchQuotas E qs m s1 = (m', s')" using C(4) True Some d(1) by (simp add: matchQuotas_Cons)
      ultimately have v: "m' = (case m of None \<Rightarrow> find (controlled E) qs | Some _ \<Rightarrow> m)" "matched_view E Q qs m' s1 s'"
          "K s' = K s1" "N s' = N s1"
        using Cons.IH ks(2) m0(1) by blast+
      have "matched_view E Q (q # qs) m' s s'"
        by (rule matched_view_Cons [OF v(2) ks(1)]) (use v(1) d(2) Some m0(2) True in auto)
      then show ?thesis using d(3,4) v Some by simp
    qed
  qed
qed


lemma matched_labelled:
  assumes "quota_server E Q K N" "matched_view E Q qs m s s'"
    and "set qs = {q. Q s (quotaKey q) = Some q \<and> om_Namespace (rq_Meta q) = ns \<and> labelled E cq q}"
    and "Q s' k = Some q" "fst k = ns" "labelled E cq q"
  shows "m = Some q \<and> q \<in> set qs"
proof (cases "k \<in> quotaKey ` set qs")
  case False
  have "Q s k = Some q" using matched_view_frame [OF assms(2) False] assms(4) by simp
  moreover have "quotaKey q = k" by (rule server_keys(1) [OF assms(1,4)])
  ultimately have "q \<in> set qs" using assms(3,5,6) fst_quotaKey [of q] by simp
  with False \<open>quotaKey q = k\<close> show ?thesis by blast
next
  case True
  then obtain p where p: "p \<in> set qs" "k = quotaKey p" by auto
  show ?thesis
  proof (cases "controlled E p")
    case True
    then show ?thesis using assms(2,4) p unfolding matched_view_def by (auto split: if_splits)
  next
    case False
    then obtain rv where "q = at_revision rv (unlabel E p)" using assms(2,4) p unfolding matched_view_def by fastforce
    then have "om_Labels (rq_Meta q) (qe_Createdby E) = None" by simp
    with assms(6) show ?thesis by (simp add: labelled_def)
  qed
qed

lemma retry_done:
  assumes "retry_ok R" "f st = (Inr u, st')"
  shows "R DefaultRetry f st = (Inr u, st')"
proof -
  have "R (Suc 4) f st = (case f st of (Inr u, st') \<Rightarrow> (Inr u, st')
      | (Inl (Conflict m), st') \<Rightarrow> if (4 :: nat) = 0 then (Inl (Conflict m), st') else R 4 f st' | (Inl err, st') \<Rightarrow> (Inl err, st'))"
    using assms(1) unfolding retry_ok_def by blast
  then show ?thesis using assms(2) by (simp add: DefaultRetry_def eval_nat_numeral)
qed

lemma server_retry: "quota_server E Q K N \<Longrightarrow> retry_ok (RetryQuota E) \<and> retry_ok (RetryCluster E)"
  by (simp add: quota_server_def quota_lib_ok_def)

text \<open>What a retried update stores when nothing else writes.\<close>

lemma update_repairs:
  assumes "quota_server E Q K N" "Q s (quotaKey q) = Some q"
  obtains b q' s' where
    "UpdateOnConflict (RetryQuota E) DefaultRetry (readQuota E) (qc_UpdateQuota (qe_client E)) same_quota quotaKey q (repaired E cq) s =
       (Inr (b, q'), s')"
    "Q s' = (Q s)(quotaKey q \<mapsto> q')" "K s' = K s" "N s' = N s" "\<exists>rv. q' = at_revision rv (repaired E cq q)"
proof -
  let ?r = "repaired E cq q"
  let ?f = "updateAttempt (readQuota E) (qc_UpdateQuota (qe_client E)) same_quota quotaKey (repaired E cq) (quotaKey q)"
  note retry = server_retry [OF assms(1), THEN conjunct1]
  have r: "quotaKey ?r = quotaKey q" "om_ResourceVersion (rq_Meta ?r) = om_ResourceVersion (rq_Meta q)" "rq_Status ?r = rq_Status q"
    by (simp_all add: repaired_def)
  show ?thesis
  proof (cases "same_quota q ?r")
    case True
    then have eq: "?r = q" using r(3) by (simp add: same_quota_def)
    have "?f (True, q, False, s) = (Inr (), (False, q, False, s))"
      using True by (simp add: updateAttempt_def mutate_def r(1) Let_def eq)
    from retry_done [OF retry, of ?f, OF this] have "UpdateOnConflict (RetryQuota E) DefaultRetry (readQuota E)
        (qc_UpdateQuota (qe_client E)) same_quota quotaKey q (repaired E cq) s = (Inr (False, q), s)"
      by (simp add: UpdateOnConflict_def)
    moreover have "Q s = (Q s)(quotaKey q \<mapsto> q)" using assms(2) by (simp add: fun_upd_idem)
    moreover have "\<exists>rv. q = at_revision rv ?r"
      by (rule exI [of _ "om_ResourceVersion (rq_Meta q)"]) (simp add: eq at_revision_def)
    ultimately show ?thesis using that by blast
  next
    case False
    from server_update [OF assms(1) _ r(2,3)] assms(2) r(1)
    obtain s' rv where u: "qc_UpdateQuota (qe_client E) s ?r = (Inr (at_revision rv ?r), s')"
        "Q s' = (Q s)(quotaKey ?r \<mapsto> at_revision rv ?r)" "K s' = K s" "N s' = N s"
      by metis
    have "?f (True, q, False, s) = (Inr (), (False, at_revision rv ?r, True, s'))"
      using False u(1) by (simp add: updateAttempt_def mutate_def r(1) Let_def)
    from retry_done [OF retry, of ?f, OF this] have "UpdateOnConflict (RetryQuota E) DefaultRetry (readQuota E)
        (qc_UpdateQuota (qe_client E)) same_quota quotaKey q (repaired E cq) s = (Inr (True, at_revision rv ?r), s')"
      by (simp add: UpdateOnConflict_def)
    with u r(1) that show ?thesis by metis
  qed
qed


text \<open>What one namespace looks like once its quota is in place.\<close>

definition ensured ::
  "'s quota_env \<Rightarrow> ('s \<Rightarrow> string \<times> string \<Rightarrow> ResourceQuota option) \<Rightarrow> ClusterResourceQuota \<Rightarrow> string \<Rightarrow> 's \<Rightarrow> ResourceQuota \<Rightarrow> bool" where
  "ensured E Q cq ns s q \<longleftrightarrow> Q s (quotaKey q) = Some q \<and> om_Namespace (rq_Meta q) = ns \<and> rq_Spec q = cq_Spec cq \<and> labelled E cq q \<and>
     om_Labels (rq_Meta q) LabelClusterResourceQuotaAutoUpdate = Some ''true'' \<and> controlled E q \<and>
     (\<forall>k p. Q s k = Some p \<and> fst k = ns \<and> labelled E cq p \<longrightarrow> k = quotaKey q)"

definition owned_by :: "'s quota_env \<Rightarrow> ClusterResourceQuota \<Rightarrow> ResourceQuota \<Rightarrow> bool" where
  "owned_by E cq q \<longleftrightarrow> (\<exists>r. GetControllerOf E (rq_Meta q) = Some r \<and> owr_Name r = cq_Name cq)"

text \<open>The quota that was found stays under its owner; one that is made belongs to the cluster quota.\<close>

definition owner_kept :: "'s quota_env \<Rightarrow> ClusterResourceQuota \<Rightarrow> ResourceQuota list \<Rightarrow> ResourceQuota \<Rightarrow> bool" where
  "owner_kept E cq qs q = (case find (controlled E) qs of None \<Rightarrow> owned_by E cq q
     | Some q0 \<Rightarrow> GetControllerOf E (rq_Meta q) = GetControllerOf E (rq_Meta q0))"

text \<open>Quotas that do not carry the label are left alone, and so are other namespaces.\<close>

definition kept ::
  "'s quota_env \<Rightarrow> ('s \<Rightarrow> string \<times> string \<Rightarrow> ResourceQuota option) \<Rightarrow> ClusterResourceQuota \<Rightarrow> string set \<Rightarrow> 's \<Rightarrow> 's \<Rightarrow> bool" where
  "kept E Q cq nss s s' \<longleftrightarrow> (\<forall>k. fst k \<notin> nss \<longrightarrow> Q s' k = Q s k) \<and>
     (\<forall>k q. Q s k = Some q \<and> \<not> labelled E cq q \<longrightarrow> Q s' k = Some q)"

lemma controlled_cong:
  assumes "quota_server E Q K N" "om_OwnerReferences (rq_Meta q) = om_OwnerReferences (rq_Meta p)"
  shows "controlled E q = controlled E p"
  using server_controller(1) [OF assms] by (simp add: controlled_def)

lemma repaired_fields [simp]:
  "om_OwnerReferences (rq_Meta (repaired E cq q)) = om_OwnerReferences (rq_Meta q)" "rq_Spec (repaired E cq q) = cq_Spec cq"
  "om_Labels (rq_Meta (repaired E cq q)) LabelClusterResourceQuotaAutoUpdate = Some ''true''"
  "quotaKey (repaired E cq q) = quotaKey q" "om_Namespace (rq_Meta (at_revision rv (repaired E cq q))) = om_Namespace (rq_Meta q)"
  by (simp_all add: repaired_def wantLabels_def upd_labels_def at_revision_def quotaKey_def)

lemma labelled_repaired:
  assumes "quota_server E Q K N"
  shows "labelled E cq (at_revision rv (repaired E cq q))"
  using server_parts(3) [OF assms] by (simp add: quota_lib_ok_def labelled_def repaired_def wantLabels_def)

lemma matched_kept:
  assumes "quota_server E Q K N" "matched_view E Q qs m s s1"
    and "set qs = {q. Q s (quotaKey q) = Some q \<and> om_Namespace (rq_Meta q) = ns \<and> labelled E cq q}"
  shows "kept E Q cq {ns} s s1"
proof -
  have mem: "fst k = ns \<and> (\<exists>q. Q s k = Some q \<and> labelled E cq q)" if k: "k \<in> quotaKey ` set qs" for k
  proof -
    from k obtain q where q: "q \<in> set qs" "k = quotaKey q" by blast
    then have "Q s (quotaKey q) = Some q \<and> om_Namespace (rq_Meta q) = ns \<and> labelled E cq q" unfolding assms(3) by simp
    with q(2) show ?thesis by (metis fst_quotaKey)
  qed
  have "Q s1 k = Q s k" if "fst k \<noteq> ns" for k
    using matched_view_frame [OF assms(2), of k] mem [of k] that by blast
  moreover have "Q s1 k = Some q" if "Q s k = Some q" "\<not> labelled E cq q" for k q
    using matched_view_frame [OF assms(2), of k] mem [of k] that by fastforce
  ultimately show ?thesis unfolding kept_def by simp
qed

lemma kept_put:
  assumes "kept E Q cq {ns} s s1" "Q s' = (Q s1)(k0 \<mapsto> q')" "fst k0 = ns"
    and "\<And>q. Q s1 k0 = Some q \<Longrightarrow> labelled E cq q"
  shows "kept E Q cq {ns} s s'"
proof -
  have "Q s' k = Some q" if "Q s k = Some q" "\<not> labelled E cq q" for k q
  proof -
    have "Q s1 k = Some q" using assms(1) that unfolding kept_def by blast
    moreover from this have "k \<noteq> k0" using assms(4) that(2) by auto
    ultimately show ?thesis using assms(2) by simp
  qed
  moreover have "Q s' k = Q s k" if "fst k \<noteq> ns" for k
    using assms(1-3) that unfolding kept_def by auto
  ultimately show ?thesis unfolding kept_def by blast
qed

lemma ensure_created:
  assumes "quota_server E Q K N" "matched_view E Q qs None s s1"
    and "set qs = {q. Q s (quotaKey q) = Some q \<and> om_Namespace (rq_Meta q) = ns \<and> labelled E cq q}"
  obtains q' s' where "qc_CreateQuota (qe_client E) s1 (newQuota E cq ns) = (Inr q', s')" "ensured E Q cq ns s' q'" "owned_by E cq q'"
    "kept E Q cq {ns} s s'" "K s' = K s1" "N s' = N s1"
proof -
  let ?n = "newQuota E cq ns"
  have nm: "om_Name (rq_Meta ?n) = []" "om_Namespace (rq_Meta ?n) = ns"
    by (simp_all add: newQuota_def empty_meta_def)
  obtain s' name rv where
      c: "qc_CreateQuota (qe_client E) s1 ?n = (Inr (at_revision rv (?n\<lparr>rq_Meta := (rq_Meta ?n)\<lparr>om_Name := name\<rparr>\<rparr>)), s')"
        "Q s1 (om_Namespace (rq_Meta ?n), name) = None"
        "Q s' = (Q s1)((om_Namespace (rq_Meta ?n), name) \<mapsto> at_revision rv (?n\<lparr>rq_Meta := (rq_Meta ?n)\<lparr>om_Name := name\<rparr>\<rparr>))"
        "K s' = K s1" "N s' = N s1"
    by (rule server_create [OF assms(1) nm(1)])
  define q' where "q' = at_revision rv (newQuota E cq ns\<lparr>rq_Meta := (rq_Meta (newQuota E cq ns))\<lparr>om_Name := name\<rparr>\<rparr>)"
  note c = c [unfolded nm(2), folded q'_def]
  have q': "quotaKey q' = (ns, name)" "om_Namespace (rq_Meta q') = ns" "rq_Spec q' = cq_Spec cq"
      "om_Labels (rq_Meta q') = wantLabels E cq"
      "om_OwnerReferences (rq_Meta q') = [NewControllerRef E (cq_Meta cq) ClusterResourceQuotaKind]"
    by (simp_all add: q'_def newQuota_def quotaKey_def at_revision_def)
  from server_controller(2) [OF assms(1) q'(5)] obtain r where
      "GetControllerOf E (rq_Meta q') = Some r" "owr_Kind r = ClusterResourceQuotaKind" "owr_Name r = cq_Name cq" by blast
  then have o: "controlled E q'" "owned_by E cq q'" by (simp_all add: controlled_def owned_by_def)
  have l: "labelled E cq q'" "om_Labels (rq_Meta q') LabelClusterResourceQuotaAutoUpdate = Some ''true''"
    using server_parts(3) [OF assms(1)] by (simp_all add: quota_lib_ok_def labelled_def q'(4) wantLabels_def)
  have "k = quotaKey q'" if k: "Q s' k = Some p" "fst k = ns" "labelled E cq p" for k p
  proof (rule ccontr)
    assume "k \<noteq> quotaKey q'"
    then have "Q s1 k = Some p" using k(1) by (simp add: c(3) q'(1))
    from matched_labelled [OF assms this k(2,3)] show False by simp
  qed
  then have "\<forall>k p. Q s' k = Some p \<and> fst k = ns \<and> labelled E cq p \<longrightarrow> k = quotaKey q'" by blast
  moreover have "Q s' (quotaKey q') = Some q'" by (simp add: c(3) q'(1))
  ultimately have "ensured E Q cq ns s' q'" unfolding ensured_def using q'(2,3) o(1) l by blast
  moreover have "kept E Q cq {ns} s s'"
    by (rule kept_put [OF matched_kept [OF assms] c(3)]) (simp_all add: c(2))
  ultimately show ?thesis by (rule that [OF c(1) _ o(2) _ c(4,5)])
qed


lemma ensure_matched:
  assumes "quota_server E Q K N" "matched_view E Q qs (Some q0) s s1" "q0 \<in> set qs" "controlled E q0"
    and "set qs = {q. Q s (quotaKey q) = Some q \<and> om_Namespace (rq_Meta q) = ns \<and> labelled E cq q}"
    and "Q s' = (Q s1)(quotaKey q0 \<mapsto> q')" "quotaKey q' = quotaKey q0" "om_OwnerReferences (rq_Meta q') = om_OwnerReferences (rq_Meta q0)"
    and "rq_Spec q' = cq_Spec cq" "labelled E cq q'" "om_Labels (rq_Meta q') LabelClusterResourceQuotaAutoUpdate = Some ''true''"
  shows "ensured E Q cq ns s' q' \<and> GetControllerOf E (rq_Meta q') = GetControllerOf E (rq_Meta q0) \<and> kept E Q cq {ns} s s'"
proof -
  have q0: "om_Namespace (rq_Meta q0) = ns" "labelled E cq q0" using assms(3,5) by simp_all
  have "Q s1 (quotaKey q0) = Some q0" using assms(2-4) unfolding matched_view_def by simp
  have "k = quotaKey q'" if k: "Q s' k = Some p" "fst k = ns" "labelled E cq p" for k p
  proof (rule ccontr)
    assume "k \<noteq> quotaKey q'"
    then have *: "Q s1 k = Some p" using k(1) by (simp add: assms(6,7))
    from matched_labelled [OF assms(1,2,5) * k(2,3)] have "p = q0" by simp
    with server_keys(1) [OF assms(1) *] \<open>k \<noteq> quotaKey q'\<close> assms(7) show False by simp
  qed
  then have "\<forall>k p. Q s' k = Some p \<and> fst k = ns \<and> labelled E cq p \<longrightarrow> k = quotaKey q'" by blast
  moreover have "Q s' (quotaKey q') = Some q'" by (simp add: assms(6,7))
  moreover have "om_Namespace (rq_Meta q') = ns" using q0(1) assms(7) by (metis fst_quotaKey)
  moreover have "controlled E q'" using controlled_cong [OF assms(1,8)] assms(4) by simp
  ultimately have "ensured E Q cq ns s' q'" unfolding ensured_def using assms(9-11) by blast
  moreover have "GetControllerOf E (rq_Meta q') = GetControllerOf E (rq_Meta q0)" by (rule server_controller(1) [OF assms(1,8)])
  moreover have "kept E Q cq {ns} s s'"
    by (rule kept_put [OF matched_kept [OF assms(1,2,5)] assms(6)])
      (use q0 \<open>Q s1 (quotaKey q0) = Some q0\<close> in simp_all)
  ultimately show ?thesis by blast
qed

text \<open>Putting the quota of one namespace in place.\<close>

lemma ensure_ok:
  assumes "quota_server E Q K N" "distinct (map quotaKey qs)"
    and "set qs = {q. Q s (quotaKey q) = Some q \<and> om_Namespace (rq_Meta q) = ns \<and> labelled E cq q}"
  obtains q' s' where "ensureResourceQuotaInNamespace E s cq ns qs = (Inr q', s')" "ensured E Q cq ns s' q'" "kept E Q cq {ns} s s'"
    "owner_kept E cq qs q'" "K s' = K s" "N s' = N s"
proof -
  obtain m s1 where m: "matchQuotas E qs None s = (m, s1)" by fastforce
  have "\<forall>q \<in> set qs. Q s (quotaKey q) = Some q" using assms(3) by simp
  from matchQuotas_ok [OF assms(1,2) this _ m]
  have v: "m = find (controlled E) qs" "matched_view E Q qs m s s1" "K s1 = K s" "N s1 = N s" by auto
  show ?thesis
  proof (cases m)
    case None
    obtain q' s' where c: "qc_CreateQuota (qe_client E) s1 (newQuota E cq ns) = (Inr q', s')" "ensured E Q cq ns s' q'" "owned_by E cq q'"
        "kept E Q cq {ns} s s'" "K s' = K s1" "N s' = N s1"
      by (rule ensure_created [OF assms(1) v(2) [unfolded None] assms(3)])
    show ?thesis
      by (rule that [of q' s']) (use c m None v in \<open>simp_all add: ensureResourceQuotaInNamespace_def owner_kept_def\<close>)
  next
    case (Some q0)
    have f: "find (controlled E) qs = Some q0" using v(1) Some by simp
    then have q0: "q0 \<in> set qs" "controlled E q0" by (auto simp: find_Some_iff)
    have l0: "labelled E cq q0" using q0(1) assms(3) by simp
    have s1: "Q s1 (quotaKey q0) = Some q0" using v(2) q0 Some unfolding matched_view_def by simp
    note matched = ensure_matched [OF assms(1) v(2) [unfolded Some] q0 assms(3)]
    show ?thesis
    proof (cases "cq_Spec cq \<noteq> rq_Spec q0 \<or> labelsDirty E cq q0")
      case True
      obtain b q' s' where u: "UpdateOnConflict (RetryQuota E) DefaultRetry (readQuota E) (qc_UpdateQuota (qe_client E)) same_quota quotaKey
            q0 (repaired E cq) s1 = (Inr (b, q'), s')"
          "Q s' = (Q s1)(quotaKey q0 \<mapsto> q')" "K s' = K s1" "N s' = N s1" "\<exists>rv. q' = at_revision rv (repaired E cq q0)"
        by (rule update_repairs [OF assms(1) s1])
      from u(5) obtain rv where q': "q' = at_revision rv (repaired E cq q0)" by blast
      have "ensured E Q cq ns s' q' \<and> GetControllerOf E (rq_Meta q') = GetControllerOf E (rq_Meta q0) \<and> kept E Q cq {ns} s s'"
        by (rule matched [OF u(2)]) (simp_all add: q' labelled_repaired [OF assms(1)])
      then show ?thesis
        by (intro that [of q' s']) (use u m Some v f True in \<open>simp_all add: ensureResourceQuotaInNamespace_def owner_kept_def\<close>)
    next
      case False
      have "om_Labels (rq_Meta q0) LabelClusterResourceQuotaAutoUpdate = Some ''true''"
        using False by (auto simp: labelsDirty_def wantLabels_def split: option.splits if_splits)
      moreover have "Q s1 = (Q s1)(quotaKey q0 \<mapsto> q0)" using s1 by (simp add: fun_upd_idem)
      ultimately have "ensured E Q cq ns s1 q0 \<and> GetControllerOf E (rq_Meta q0) = GetControllerOf E (rq_Meta q0) \<and> kept E Q cq {ns} s s1"
        by (intro matched) (use l0 False in simp_all)
      then show ?thesis
        by (intro that [of q0 s1]) (use m Some v f False in \<open>simp_all add: ensureResourceQuotaInNamespace_def owner_kept_def\<close>)
    qed
  qed
qed


section \<open>All namespaces\<close>

lemma ensured_frame:
  assumes "ensured E Q cq ns s q" "\<And>k. fst k = ns \<Longrightarrow> Q s' k = Q s k"
  shows "ensured E Q cq ns s' q"
proof -
  have "Q s' (quotaKey q) = Some q" using assms(2) [of "quotaKey q"] assms(1) by (simp add: ensured_def)
  moreover have "\<forall>k p. Q s' k = Some p \<and> fst k = ns \<and> labelled E cq p \<longrightarrow> k = quotaKey q"
    using assms unfolding ensured_def by metis
  ultimately show ?thesis using assms(1) unfolding ensured_def by blast
qed

lemma ensured_kept: "ensured E Q cq ns s q \<Longrightarrow> kept E Q cq A s s' \<Longrightarrow> ns \<notin> A \<Longrightarrow> ensured E Q cq ns s' q"
  by (rule ensured_frame) (auto simp: kept_def)

lemma kept_trans: "kept E Q cq A s s1 \<Longrightarrow> kept E Q cq B s1 s2 \<Longrightarrow> kept E Q cq (A \<union> B) s s2"
  unfolding kept_def by simp

definition labelledIn ::
  "'s quota_env \<Rightarrow> ('s \<Rightarrow> string \<times> string \<Rightarrow> ResourceQuota option) \<Rightarrow> ClusterResourceQuota \<Rightarrow> 's \<Rightarrow> string \<Rightarrow> ResourceQuota set" where
  "labelledIn E Q cq s ns = {q. Q s (quotaKey q) = Some q \<and> om_Namespace (rq_Meta q) = ns \<and> labelled E cq q}"

lemma labelledIn_kept:
  assumes "kept E Q cq A s s'" "ns \<notin> A"
  shows "labelledIn E Q cq s' ns = labelledIn E Q cq s ns"
proof -
  have "Q s' (quotaKey q) = Q s (quotaKey q)" if "om_Namespace (rq_Meta q) = ns" for q
    using assms that fst_quotaKey [of q] unfolding kept_def by metis
  then show ?thesis unfolding labelledIn_def by auto
qed

lemma ensureQuotas_ok:
  assumes "quota_server E Q K N" "distinct nss"
    and "\<forall>ns \<in> set nss. distinct (map quotaKey (quotas ns)) \<and> set (quotas ns) = labelledIn E Q cq s ns"
  shows "\<exists>qs s'. ensureQuotas E cq quotas nss s = (Inr qs, s') \<and> map (\<lambda>q. om_Namespace (rq_Meta q)) qs = nss \<and>
    (\<forall>q \<in> set qs. ensured E Q cq (om_Namespace (rq_Meta q)) s' q \<and> owner_kept E cq (quotas (om_Namespace (rq_Meta q))) q) \<and>
    kept E Q cq (set nss) s s' \<and> K s' = K s \<and> N s' = N s"
  using assms(2,3)
proof (induction nss arbitrary: s)
  case Nil
  then show ?case by (simp add: kept_def)
next
  case (Cons ns nss)
  have q: "distinct (map quotaKey (quotas ns))" "set (quotas ns) = labelledIn E Q cq s ns" using Cons.prems(2) by simp_all
  obtain q' s1 where e: "ensureResourceQuotaInNamespace E s cq ns (quotas ns) = (Inr q', s1)" "ensured E Q cq ns s1 q'"
      "kept E Q cq {ns} s s1" "owner_kept E cq (quotas ns) q'" "K s1 = K s" "N s1 = N s"
    by (rule ensure_ok [OF assms(1) q(1) q(2) [unfolded labelledIn_def]])
  have "\<forall>n \<in> set nss. distinct (map quotaKey (quotas n)) \<and> set (quotas n) = labelledIn E Q cq s1 n"
  proof
    fix n
    assume n: "n \<in> set nss"
    then have "labelledIn E Q cq s1 n = labelledIn E Q cq s n"
      by (intro labelledIn_kept [OF e(3)]) (use Cons.prems(1) in auto)
    then show "distinct (map quotaKey (quotas n)) \<and> set (quotas n) = labelledIn E Q cq s1 n" using Cons.prems(2) n by simp
  qed
  with Cons.IH [of s1] Cons.prems(1) obtain qs s' where r: "ensureQuotas E cq quotas nss s1 = (Inr qs, s')"
      "map (\<lambda>q. om_Namespace (rq_Meta q)) qs = nss"
      "\<forall>q \<in> set qs. ensured E Q cq (om_Namespace (rq_Meta q)) s' q \<and> owner_kept E cq (quotas (om_Namespace (rq_Meta q))) q"
      "kept E Q cq (set nss) s1 s'" "K s' = K s1" "N s' = N s1"
    by auto
  have ns: "om_Namespace (rq_Meta q') = ns" using e(2) by (simp add: ensured_def)
  have "ensured E Q cq ns s' q'" by (rule ensured_kept [OF e(2) r(4)]) (use Cons.prems(1) in simp)
  moreover have "kept E Q cq (set (ns # nss)) s s'" using kept_trans [OF e(3) r(4)] by simp
  ultimately show ?case using e r ns by (intro exI [of _ "q' # qs"] exI [of _ s']) auto
qed

lemma deleteQuotas_append: "deleteQuotas E (xs @ ys) s = deleteQuotas E ys (deleteQuotas E xs s)"
  by (simp add: deleteQuotas_def)

lemma deleteQuotas_concat: "fold (\<lambda>ns s. deleteQuotas E (quotas ns) s) nss s = deleteQuotas E (concat (map quotas nss)) s"
  by (induction nss arbitrary: s) (simp_all add: deleteQuotas_append, simp add: deleteQuotas_def)

lemma deleteQuotas_ok:
  assumes "quota_server E Q K N" "distinct (map quotaKey qs)" "\<forall>q \<in> set qs. Q s (quotaKey q) = Some q"
  shows "Q (deleteQuotas E qs s) = (\<lambda>k. if k \<in> quotaKey ` set qs then None else Q s k) \<and>
    K (deleteQuotas E qs s) = K s \<and> N (deleteQuotas E qs s) = N s"
  using assms(2,3)
proof (induction qs arbitrary: s)
  case Nil
  then show ?case by (simp add: deleteQuotas_def)
next
  case (Cons q qs)
  have q: "Q s (quotaKey q) = Some q" using Cons.prems(2) by simp
  obtain s1 where d: "qc_DeleteQuota (qe_client E) s q = (Inr (), s1)" "Q s1 = (Q s)(quotaKey q := None)" "K s1 = K s" "N s1 = N s"
    by (rule server_delete [OF assms(1) q])
  have "\<forall>p \<in> set qs. Q s1 (quotaKey p) = Some p"
    using Cons.prems d(2) by (auto simp: image_iff)
  with Cons.IH [of s1] Cons.prems(1)
  have "Q (deleteQuotas E qs s1) = (\<lambda>k. if k \<in> quotaKey ` set qs then None else Q s1 k) \<and>
      K (deleteQuotas E qs s1) = K s1 \<and> N (deleteQuotas E qs s1) = N s1" by simp
  moreover have "deleteQuotas E (q # qs) s = deleteQuotas E qs s1" by (simp add: deleteQuotas_def d(1))
  ultimately show ?case using d(2-4) by (auto simp: fun_eq_iff)
qed


section \<open>The reconciler\<close>

subsection \<open>Its namespaces\<close>

lemma insertName_set [simp]: "set (insertName n ns) = insert n (set ns)"
  by (auto simp: insertName_def)

lemma insertName_distinct [simp]: "distinct (insertName n ns) = distinct ns"
  by (simp add: insertName_def)

lemma fold_insertName: "set (fold insertName ns acc) = set ns \<union> set acc" "distinct (fold insertName ns acc) = distinct acc"
  by (induction ns arbitrary: acc) simp_all

lemma namedNamespaces_ok:
  assumes "quota_server E Q K N"
  shows "\<exists>nss. namedNamespaces E s names acc = Inr nss \<and> set nss = {n \<in> set names. N s n \<noteq> None} \<union> set acc \<and> distinct nss = distinct acc"
proof (induction names arbitrary: acc)
  case (Cons n names)
  show ?case
  proof (cases "N s n")
    case None
    then show ?thesis using Cons.IH [of acc] by (auto simp: server_get(2) [OF assms] IsNotFound_def)
  next
    case (Some l)
    then show ?thesis using Cons.IH [of "insertName n acc"] by (auto simp: server_get(2) [OF assms])
  qed
qed simp

text \<open>Which namespaces a cluster quota covers.\<close>

definition covers :: "'s quota_env \<Rightarrow> ClusterResourceQuota \<Rightarrow> string \<Rightarrow> strmap \<Rightarrow> bool" where
  "covers E cq n labels \<longleftrightarrow> n \<in> set (cq_Namespaces cq) \<or>
     (cq_NamespaceSelector cq \<noteq> None \<and>
      (\<exists>selector. LabelSelectorAsSelector E (cq_NamespaceSelector cq) = Inr selector \<and> SelectorMatches E selector labels))"

lemma namespaces_ok:
  assumes "quota_server E Q K N" "GetNamespacesForClusterQuota E s cq = Inr nss"
  shows "set nss = {n. \<exists>labels. N s n = Some labels \<and> covers E cq n labels}" "distinct nss"
proof -
  obtain acc where acc: "distinct acc" "namedNamespaces E s (cq_Namespaces cq) acc = Inr nss"
    "set acc = {n. \<exists>labels. N s n = Some labels \<and> cq_NamespaceSelector cq \<noteq> None \<and>
      (\<exists>selector. LabelSelectorAsSelector E (cq_NamespaceSelector cq) = Inr selector \<and> SelectorMatches E selector labels)}"
  proof (cases "cq_NamespaceSelector cq")
    case None
    then show ?thesis using that [of "[]"] assms(2) by (simp add: GetNamespacesForClusterQuota_def)
  next
    case (Some sel)
    then obtain selector items where l: "LabelSelectorAsSelector E (Some sel) = Inr selector"
        "qc_ListNamespaces (qe_client E) s selector = Inr items" "namedNamespaces E s (cq_Namespaces cq) (fold insertName items []) = Inr nss"
      using assms(2) by (auto simp: GetNamespacesForClusterQuota_def bindR_Inr_iff)
    have "set items = {n. \<exists>labels. N s n = Some labels \<and> SelectorMatches E selector labels}"
      by (rule server_namespaces [OF assms(1), of s selector]) (simp add: l(2))
    with l Some show ?thesis using that [of "fold insertName items []"] by (simp add: fold_insertName)
  qed
  from namedNamespaces_ok [OF assms(1), of s "cq_Namespaces cq" acc] acc
  show "set nss = {n. \<exists>labels. N s n = Some labels \<and> covers E cq n labels}" "distinct nss"
    by (auto simp: covers_def)
qed

lemma quotas_ok:
  assumes "quota_server E Q K N"
  obtains items where "qc_ListQuotas (qe_client E) s [] (qe_Createdby E, cq_Name cq) = Inr items"
    "GetResourceQuotaForClusterQuota E s cq = Inr (fold insertName (map (\<lambda>q. om_Namespace (rq_Meta q)) items) [],
       \<lambda>ns. filter (\<lambda>q. om_Namespace (rq_Meta q) = ns) items)"
    "distinct (map quotaKey items)" "\<And>q. q \<in> set items \<longleftrightarrow> Q s (quotaKey q) = Some q \<and> labelled E cq q"
proof -
  show ?thesis
  proof (rule server_list [OF assms, of s "[]" "qe_Createdby E" "cq_Name cq"])
    fix items
    assume i: "qc_ListQuotas (qe_client E) s [] (qe_Createdby E, cq_Name cq) = Inr items" "distinct (map quotaKey items)"
      "set items = {q. Q s (quotaKey q) = Some q \<and> ([] = ([] :: string) \<or> om_Namespace (rq_Meta q) = []) \<and>
        om_Labels (rq_Meta q) (qe_Createdby E) = Some (cq_Name cq)}"
    show ?thesis by (rule that [OF i(1) _ i(2)]) (simp_all add: GetResourceQuotaForClusterQuota_def i(1,3) labelled_def)
  qed
qed

subsection \<open>Its status\<close>

definition amount :: "ResourceList \<Rightarrow> string \<Rightarrow> int" where
  "amount l r = (case l r of None \<Rightarrow> 0 | Some x \<Rightarrow> x)"

lemma amount_add [simp]: "amount (add_lists a b) r = amount a r + amount b r"
  by (simp add: amount_def add_lists_def split: option.split)

lemma amount_empty [simp]: "amount Map.empty r = 0"
  by (simp add: amount_def)

lemma add_lists_empty [simp]: "add_lists Map.empty l = l"
  by (simp add: add_lists_def)

definition used :: "ResourceQuota \<Rightarrow> string \<Rightarrow> int" where
  "used q = amount (list_of (rqt_Used (rq_Status q)))"

lemma usage_sum:
  assumes "quota_server E Q K N"
  shows "amount (usageOf E qs) r = (\<Sum>q\<leftarrow>qs. used q r)"
proof -
  have "qu_Add E = add_lists" using server_parts(3) [OF assms] by (simp add: quota_lib_ok_def)
  then have "amount (fold (\<lambda>quota u. qu_Add E u (list_of (rqt_Used (rq_Status quota)))) qs acc) r = amount acc r + (\<Sum>q\<leftarrow>qs. used q r)" for acc
    by (induction qs arbitrary: acc) (simp_all add: used_def)
  from this [of Map.empty] show ?thesis by (simp add: usageOf_def)
qed

lemma sync_ok:
  assumes "quota_server E Q K N" "K s (cq_Name cq) = Some cq"
  obtains s' cq' where "syncStatus E s cq qs = (Inr (), s')" "Q s' = Q s" "N s' = N s" "K s' (cq_Name cq) = Some cq'"
    "cq_Spec cq' = cq_Spec cq" "list_of (rqt_Hard (cq_Status cq')) = rqs_Hard (cq_Spec cq)" "list_of (rqt_Used (cq_Status cq')) = usageOf E qs"
proof -
  have lib: "qu_Add E = add_lists" "qu_Equals E = (=)" using server_parts(3) [OF assms(1)] by (simp_all add: quota_lib_ok_def)
  define usage where "usage = \<lparr>rqt_Hard = Some (rqs_Hard (cq_Spec cq)), rqt_Used = Some (usageOf E qs)\<rparr>"
  have us: "list_of (rqt_Hard usage) = rqs_Hard (cq_Spec cq)" "list_of (rqt_Used usage) = usageOf E qs" by (simp_all add: usage_def list_of_def)
  let ?f = "updateAttempt (readCluster E) (qc_UpdateClusterStatus (qe_client E)) same_cluster_quota clusterKey (\<lambda>cq. cq\<lparr>cq_Status := usage\<rparr>) (clusterKey cq)"
  let ?dirty = "rqs_Hard (cq_Spec cq) \<noteq> list_of (rqt_Hard (cq_Status cq)) \<or> rqt_Hard (cq_Status cq) = None \<or> rqt_Used (cq_Status cq) = None \<or>
    list_of (rqt_Used (cq_Status cq)) \<noteq> usageOf E qs"
  note retry = server_retry [OF assms(1), THEN conjunct2]
  have sync: "syncStatus E s cq qs = (if ?dirty then bindS (UpdateOnConflict (RetryCluster E) DefaultRetry (readCluster E)
      (qc_UpdateClusterStatus (qe_client E)) same_cluster_quota clusterKey cq (\<lambda>cq. cq\<lparr>cq_Status := usage\<rparr>) s) (\<lambda>_ s. (Inr (), s))
      else (Inr (), s))"
    by (simp add: syncStatus_def lib usage_def Let_def)
  have key: "clusterKey (cq\<lparr>cq_Status := usage\<rparr>) = clusterKey cq" by (simp add: clusterKey_def)
  consider "\<not> ?dirty" | "?dirty" "same_cluster_quota cq (cq\<lparr>cq_Status := usage\<rparr>)" | "?dirty" "\<not> same_cluster_quota cq (cq\<lparr>cq_Status := usage\<rparr>)" by blast
  then show ?thesis
  proof cases
    case 1
    have "syncStatus E s cq qs = (Inr (), s)" unfolding sync if_not_P [OF 1] ..
    then show ?thesis by (rule that) (use 1 assms(2) in auto)
  next
    case 2
    then have "?f (True, cq, False, s) = (Inr (), (False, cq\<lparr>cq_Status := usage\<rparr>, False, s))"
      by (simp add: updateAttempt_def mutate_def Let_def key)
    from retry_done [OF retry, of ?f, OF this] 2(1) sync have "syncStatus E s cq qs = (Inr (), s)" by (simp add: UpdateOnConflict_def)
    moreover have "list_of (rqt_Hard (cq_Status cq)) = rqs_Hard (cq_Spec cq)" "list_of (rqt_Used (cq_Status cq)) = usageOf E qs"
      using 2(2) us by (simp_all add: same_cluster_quota_def same_status_def)
    ultimately show ?thesis by (intro that [of s cq]) (use assms(2) in simp_all)
  next
    case 3
    obtain s' rv where w: "qc_UpdateClusterStatus (qe_client E) s (cq\<lparr>cq_Status := usage\<rparr>) =
          (Inr (cq\<lparr>cq_Status := usage, cq_Meta := (cq_Meta cq)\<lparr>om_ResourceVersion := rv\<rparr>\<rparr>), s')" "Q s' = Q s"
        "K s' = (K s)(cq_Name cq \<mapsto> cq\<lparr>cq_Status := usage, cq_Meta := (cq_Meta cq)\<lparr>om_ResourceVersion := rv\<rparr>\<rparr>)" "N s' = N s"
      by (rule server_status [OF assms])
    have "?f (True, cq, False, s) = (Inr (), (False, cq\<lparr>cq_Status := usage, cq_Meta := (cq_Meta cq)\<lparr>om_ResourceVersion := rv\<rparr>\<rparr>, True, s'))"
      using 3(2) by (simp add: updateAttempt_def mutate_def Let_def key w(1))
    from retry_done [OF retry, of ?f, OF this] 3(1) sync have "syncStatus E s cq qs = (Inr (), s')" by (simp add: UpdateOnConflict_def)
    then show ?thesis
      by (rule that [OF _ w(2,4), of "cq\<lparr>cq_Status := usage, cq_Meta := (cq_Meta cq)\<lparr>om_ResourceVersion := rv\<rparr>\<rparr>"]) (simp_all add: w(3) us)
  qed
qed


subsection \<open>The whole\<close>

text \<open>
  What a run leaves: one quota in every covered namespace, none of this name elsewhere, every other
  quota as it was, and the status with the limits and the sum of the usage.
\<close>

definition reconciled ::
  "'s quota_env \<Rightarrow> ('s \<Rightarrow> string \<times> string \<Rightarrow> ResourceQuota option) \<Rightarrow> ('s \<Rightarrow> string \<Rightarrow> ClusterResourceQuota option) \<Rightarrow> ClusterResourceQuota \<Rightarrow>
   string list \<Rightarrow> 's \<Rightarrow> 's \<Rightarrow> ResourceQuota list \<Rightarrow> bool" where
  "reconciled E Q K cq nss s s' qs \<longleftrightarrow>
     map (\<lambda>q. om_Namespace (rq_Meta q)) qs = sort_Strings nss \<and>
     (\<forall>q \<in> set qs. ensured E Q cq (om_Namespace (rq_Meta q)) s' q) \<and>
     (\<forall>k q. Q s' k = Some q \<and> labelled E cq q \<longrightarrow> fst k \<in> set nss) \<and>
     (\<forall>k q. Q s k = Some q \<and> \<not> labelled E cq q \<longrightarrow> Q s' k = Some q) \<and>
     (\<exists>cq'. K s' (cq_Name cq) = Some cq' \<and> cq_Spec cq' = cq_Spec cq \<and> list_of (rqt_Hard (cq_Status cq')) = rqs_Hard (cq_Spec cq) \<and>
        (\<forall>r. amount (list_of (rqt_Used (cq_Status cq'))) r = (\<Sum>q\<leftarrow>qs. used q r)))"

lemma distinct_groups:
  assumes "distinct (map f items)" "distinct xs"
  shows "distinct (map f (concat (map (\<lambda>n. filter (\<lambda>q. g q = n) items) xs)))"
  using assms(2)
proof (induction xs)
  case (Cons x xs)
  have "f q \<noteq> f p" if "q \<in> set items" "g q = x" "p \<in> set items" "g p \<in> set xs" for q p
    using that assms(1) Cons.prems by (metis distinct.simps(2) distinct_map inj_on_def)
  then show ?case using Cons assms(1) by (auto simp: distinct_map_filter)
qed simp

lemma unmatched_deleted:
  assumes "quota_server E Q K N" "distinct (map quotaKey items)"
    and "\<And>q. q \<in> set items \<longleftrightarrow> Q s0 (quotaKey q) = Some q \<and> labelled E cq q" "kept E Q cq (set nss) s0 s"
    and "set unmatched = {ns \<in> (\<lambda>q. om_Namespace (rq_Meta q)) ` set items. ns \<notin> set nss}" "distinct unmatched"
  defines "s' \<equiv> deleteQuotas E (concat (map (\<lambda>ns. filter (\<lambda>q. om_Namespace (rq_Meta q) = ns) items) unmatched)) s"
  shows "\<forall>k. fst k \<in> set nss \<longrightarrow> Q s' k = Q s k" "\<forall>k q. Q s' k = Some q \<and> labelled E cq q \<longrightarrow> fst k \<in> set nss"
    "\<forall>k q. Q s0 k = Some q \<and> \<not> labelled E cq q \<longrightarrow> Q s' k = Some q" "K s' = K s" "N s' = N s"
proof -
  let ?gone = "concat (map (\<lambda>ns. filter (\<lambda>q. om_Namespace (rq_Meta q) = ns) items) unmatched)"
  have gone: "q \<in> set ?gone \<longleftrightarrow> q \<in> set items \<and> om_Namespace (rq_Meta q) \<notin> set nss" for q
    using assms(5) by auto
  have "Q s (quotaKey q) = Some q" if "q \<in> set ?gone" for q
  proof -
    from that gone have "q \<in> set items" "fst (quotaKey q) \<notin> set nss" by simp_all
    then show ?thesis using assms(3,4) unfolding kept_def by metis
  qed
  moreover have "distinct (map quotaKey ?gone)"
    by (rule distinct_groups [OF assms(2,6)])
  ultimately have d: "Q s' = (\<lambda>k. if k \<in> quotaKey ` set ?gone then None else Q s k)" "K s' = K s" "N s' = N s"
    using deleteQuotas_ok [OF assms(1), of ?gone s] unfolding s'_def by simp_all
  show "K s' = K s" "N s' = N s" by (rule d)+
  have g: "fst k \<notin> set nss \<and> (\<exists>q. Q s0 k = Some q \<and> labelled E cq q)" if k: "k \<in> quotaKey ` set ?gone" for k
  proof -
    from k obtain q where q: "k = quotaKey q" "q \<in> set ?gone" by blast
    from iffD1 [OF gone q(2)] iffD1 [OF assms(3) [of q]] show ?thesis by (auto simp: q(1))
  qed
  show "\<forall>k. fst k \<in> set nss \<longrightarrow> Q s' k = Q s k" using g unfolding d(1) by (metis (mono_tags))
  show "\<forall>k q. Q s0 k = Some q \<and> \<not> labelled E cq q \<longrightarrow> Q s' k = Some q"
  proof (intro allI impI, elim conjE)
    fix k q
    assume k: "Q s0 k = Some q" "\<not> labelled E cq q"
    then have "k \<notin> quotaKey ` set ?gone" using g [of k] by auto
    moreover have "Q s k = Some q" using k assms(4) unfolding kept_def by blast
    ultimately show "Q s' k = Some q" by (simp add: d(1))
  qed
  show "\<forall>k q. Q s' k = Some q \<and> labelled E cq q \<longrightarrow> fst k \<in> set nss"
  proof (intro allI impI, rule ccontr, elim conjE)
    fix k q
    assume k: "Q s' k = Some q" "labelled E cq q" "fst k \<notin> set nss"
    then have "k \<notin> quotaKey ` set ?gone" "Q s k = Some q" by (auto simp: d(1) split: if_splits)
    moreover from this k(3) assms(4) have "Q s0 k = Some q" unfolding kept_def by metis
    moreover have "quotaKey q = k" by (rule server_keys(1) [OF assms(1) \<open>Q s0 k = Some q\<close>])
    ultimately show False using gone [of q] assms(3) [of q] k by (auto simp: image_iff)
  qed
qed


lemma Reconcile_ok:
  assumes "quota_server E Q K N" "K s name = Some cq" "GetNamespacesForClusterQuota E s cq = Inr nss"
    and "qc_ListQuotas (qe_client E) s [] (qe_Createdby E, name) = Inr items"
  obtains s' qs where "Reconcile E s name = (Inr (), s')" "reconciled E Q K cq nss s s' qs" "N s' = N s"
    "\<forall>q \<in> set qs. owner_kept E cq (filter (\<lambda>p. om_Namespace (rq_Meta p) = om_Namespace (rq_Meta q)) items) q"
proof -
  have name: "cq_Name cq = name" by (rule server_keys(2) [OF assms(1,2)])
  let ?quotas = "\<lambda>ns. filter (\<lambda>q. om_Namespace (rq_Meta q) = ns) items"
  let ?nss = "sort_Strings nss"
  let ?in = "fold insertName (map (\<lambda>q. om_Namespace (rq_Meta q)) items) []"
  obtain items' where l: "qc_ListQuotas (qe_client E) s [] (qe_Createdby E, cq_Name cq) = Inr items'"
      "GetResourceQuotaForClusterQuota E s cq = Inr (fold insertName (map (\<lambda>q. om_Namespace (rq_Meta q)) items') [],
         \<lambda>ns. filter (\<lambda>q. om_Namespace (rq_Meta q) = ns) items')"
      "distinct (map quotaKey items')" "\<And>q. q \<in> set items' \<longleftrightarrow> Q s (quotaKey q) = Some q \<and> labelled E cq q"
    by (rule quotas_ok [OF assms(1), of s cq]) blast
  have "items' = items" using l(1) assms(4) name by simp
  note l = l(2-4) [unfolded this]
  have dn: "distinct ?nss" using namespaces_ok(2) [OF assms(1,3)] mset_sort_Strings [of nss] by (metis mset_eq_imp_distinct_iff)
  have "\<forall>ns \<in> set ?nss. distinct (map quotaKey (?quotas ns)) \<and> set (?quotas ns) = labelledIn E Q cq s ns"
    using l(2,3) by (auto simp: labelledIn_def distinct_map_filter)
  from ensureQuotas_ok [OF assms(1) dn this] obtain qs s1 where
      e: "ensureQuotas E cq ?quotas ?nss s = (Inr qs, s1)" "map (\<lambda>q. om_Namespace (rq_Meta q)) qs = ?nss"
        "\<forall>q \<in> set qs. ensured E Q cq (om_Namespace (rq_Meta q)) s1 q \<and> owner_kept E cq (?quotas (om_Namespace (rq_Meta q))) q"
        "kept E Q cq (set nss) s s1" "K s1 = K s" "N s1 = N s"
    by auto
  let ?unmatched = "sort_Strings (filter (\<lambda>ns. ns \<notin> set nss) ?in)"
  have du: "set ?unmatched = {ns \<in> (\<lambda>q. om_Namespace (rq_Meta q)) ` set items. ns \<notin> set nss}" "distinct ?unmatched"
    using mset_eq_imp_distinct_iff [OF mset_sort_Strings [of "filter (\<lambda>ns. ns \<notin> set nss) ?in"]] by (auto simp: fold_insertName)
  define s2 where "s2 = deleteQuotas E (concat (map ?quotas ?unmatched)) s1"
  note d = unmatched_deleted [OF assms(1) l(2,3) e(4) du, folded s2_def]
  have "K s2 (cq_Name cq) = Some cq" using d(4) e(5) assms(2) name by simp
  obtain s' cq' where y: "syncStatus E s2 cq qs = (Inr (), s')" "Q s' = Q s2" "N s' = N s2" "K s' (cq_Name cq) = Some cq'"
      "cq_Spec cq' = cq_Spec cq" "list_of (rqt_Hard (cq_Status cq')) = rqs_Hard (cq_Spec cq)" "list_of (rqt_Used (cq_Status cq')) = usageOf E qs"
    by (rule sync_ok [OF assms(1) \<open>K s2 (cq_Name cq) = Some cq\<close>])
  have run: "Reconcile E s name = (Inr (), s')"
    using y(1) by (simp add: Reconcile_def server_get(1) [OF assms(1)] assms(2,3) l(1) e(1) deleteQuotas_concat s2_def Let_def)
  have "ensured E Q cq (om_Namespace (rq_Meta q)) s' q" if q: "q \<in> set qs" for q
  proof (rule ensured_frame)
    show "ensured E Q cq (om_Namespace (rq_Meta q)) s1 q" using e(3) q by blast
    have "om_Namespace (rq_Meta q) \<in> set ?nss" using q unfolding e(2) [symmetric] by simp
    then show "Q s' k = Q s1 k" if "fst k = om_Namespace (rq_Meta q)" for k
      using d(1) y(2) that by simp
  qed
  then have "reconciled E Q K cq nss s s' qs"
    unfolding reconciled_def using e(2) d(2,3) y(2,4-7) usage_sum [OF assms(1), of qs] by auto
  moreover have "N s' = N s" using d(5) y(3) e(6) by simp
  moreover have "\<forall>q \<in> set qs. owner_kept E cq (?quotas (om_Namespace (rq_Meta q))) q" using e(3) by blast
  ultimately show ?thesis by (rule that [OF run])
qed

section \<open>The webhook\<close>

text \<open>What the webhook makes of a quota: the status of the cluster quota its controller names.\<close>

definition resolved :: "'s quota_env \<Rightarrow> ('s \<Rightarrow> string \<Rightarrow> ClusterResourceQuota option) \<Rightarrow> 's \<Rightarrow> ResourceQuota \<Rightarrow> ResourceQuota option" where
  "resolved E K s q =
     (case GetControllerOf E (rq_Meta q) of None \<Rightarrow> None
      | Some r \<Rightarrow> if owr_Kind r \<noteq> ClusterResourceQuotaKind then None
          else map_option (\<lambda>cq. q\<lparr>rq_Status := cq_Status cq,
            rq_Meta := (rq_Meta q)\<lparr>om_Name := ''clusterresourcequota/'' @ cq_Name cq\<rparr>\<rparr>) (K s (owr_Name r)))"

lemma quotasOf_ok:
  assumes "quota_server E Q K N"
  shows "quotasOf E s qs = Inr (List.map_filter (resolved E K s) qs)"
  by (induction qs) (auto simp: List.map_filter_simps resolved_def server_get(1) [OF assms] IsNotFound_def split: option.split)

lemma in_map_filter: "y \<in> set (List.map_filter f xs) \<longleftrightarrow> (\<exists>x \<in> set xs. f x = Some y)"
  by (force simp: List.map_filter_def)

lemma GetQuotas_ok:
  assumes "quota_server E Q K N"
  obtains l where "GetQuotas E s ns = Inr l"
    "set l = {q'. \<exists>q. Q s (quotaKey q) = Some q \<and> (ns = [] \<or> om_Namespace (rq_Meta q) = ns) \<and>
       om_Labels (rq_Meta q) LabelClusterResourceQuotaAutoUpdate = Some ''true'' \<and> resolved E K s q = Some q'}"
proof (rule server_list [OF assms, of s ns LabelClusterResourceQuotaAutoUpdate "''true''"])
  fix items
  assume i: "qc_ListQuotas (qe_client E) s ns (LabelClusterResourceQuotaAutoUpdate, ''true'') = Inr items" "distinct (map quotaKey items)"
    "set items = {q. Q s (quotaKey q) = Some q \<and> (ns = [] \<or> om_Namespace (rq_Meta q) = ns) \<and>
       om_Labels (rq_Meta q) LabelClusterResourceQuotaAutoUpdate = Some ''true''}"
  have "GetQuotas E s ns = Inr (List.map_filter (resolved E K s) items)"
    by (simp add: GetQuotas_def i(1) quotasOf_ok [OF assms])
  then show thesis by (rule that) (auto simp: in_map_filter i(3))
qed

end
