(* ===== verification/Quota_Properties.thy ===== *)
theory Quota_Properties
  imports Cluster_Quota
begin

text \<open>
  The properties of the quota over all namespaces of a tenant, with an API server that satisfies
  what they ask of one.
\<close>

section \<open>A server\<close>

record quota_store =
  qs_quotas :: "ResourceQuota list"
  qs_clusters :: "ClusterResourceQuota list"
  qs_namespaces :: "(string \<times> strmap) list"

definition ex_Q :: "quota_store \<Rightarrow> string \<times> string \<Rightarrow> ResourceQuota option" where
  "ex_Q s key = find (\<lambda>q. quotaKey q = key) (qs_quotas s)"

definition ex_K :: "quota_store \<Rightarrow> string \<Rightarrow> ClusterResourceQuota option" where
  "ex_K s name = find (\<lambda>cq. cq_Name cq = name) (qs_clusters s)"

definition ex_N :: "quota_store \<Rightarrow> string \<Rightarrow> strmap option" where
  "ex_N s name = map_of (qs_namespaces s) name"

definition fresh_name :: "quota_store \<Rightarrow> string" where
  "fresh_name s = replicate (Suc (sum_list (map (\<lambda>q. length (om_Name (rq_Meta q))) (qs_quotas s)))) CHR ''q''"

definition ex_matches :: "string \<Rightarrow> strmap \<Rightarrow> bool" where
  "ex_matches selector labels \<longleftrightarrow> selector = ''tenant=t1'' \<and> labels ''tenant'' = Some ''t1''"

definition ex_quota_client :: "quota_store quota_client" where
  "ex_quota_client = \<lparr>
     qc_GetClusterQuota = (\<lambda>s name. case ex_K s name of None \<Rightarrow> Inl (NotFound name) | Some cq \<Rightarrow> Inr cq),
     qc_UpdateClusterStatus = (\<lambda>s cq. case ex_K s (cq_Name cq) of
         None \<Rightarrow> (Inl (NotFound (cq_Name cq)), s)
       | Some old \<Rightarrow>
         if om_ResourceVersion (cq_Meta cq) \<noteq> om_ResourceVersion (cq_Meta old) then (Inl (Conflict (cq_Name cq)), s)
         else let cq' = old\<lparr>cq_Status := cq_Status cq, cq_Meta := (cq_Meta old)\<lparr>om_ResourceVersion := ''2''\<rparr>\<rparr>
           in (Inr cq', s\<lparr>qs_clusters := map (\<lambda>c. if cq_Name c = cq_Name cq then cq' else c) (qs_clusters s)\<rparr>)),
     qc_GetNamespace = (\<lambda>s name. case ex_N s name of None \<Rightarrow> Inl (NotFound name) | Some _ \<Rightarrow> Inr ()),
     qc_ListNamespaces = (\<lambda>s selector. Inr (filter (\<lambda>n. case ex_N s n of None \<Rightarrow> False | Some labels \<Rightarrow> ex_matches selector labels)
       (map fst (qs_namespaces s)))),
     qc_GetQuota = (\<lambda>s ns name. case ex_Q s (ns, name) of None \<Rightarrow> Inl (NotFound name) | Some q \<Rightarrow> Inr q),
     qc_ListQuotas = (\<lambda>s ns label. Inr (filter (\<lambda>q. ex_Q s (quotaKey q) = Some q \<and> (ns = [] \<or> om_Namespace (rq_Meta q) = ns) \<and>
       om_Labels (rq_Meta q) (fst label) = Some (snd label)) (remdups (qs_quotas s)))),
     qc_CreateQuota = (\<lambda>s q. let q' = at_revision ''1'' (q\<lparr>rq_Meta := (rq_Meta q)\<lparr>om_Name := fresh_name s\<rparr>\<rparr>)
       in (Inr q', s\<lparr>qs_quotas := q' # qs_quotas s\<rparr>)),
     qc_UpdateQuota = (\<lambda>s q. case ex_Q s (quotaKey q) of
         None \<Rightarrow> (Inl (NotFound (om_Name (rq_Meta q))), s)
       | Some old \<Rightarrow>
         if om_ResourceVersion (rq_Meta q) \<noteq> om_ResourceVersion (rq_Meta old) then (Inl (Conflict (om_Name (rq_Meta q))), s)
         else let q' = (at_revision ''2'' q)\<lparr>rq_Status := rq_Status old\<rparr>
           in (Inr q', s\<lparr>qs_quotas := map (\<lambda>p. if quotaKey p = quotaKey q then q' else p) (qs_quotas s)\<rparr>)),
     qc_DeleteQuota = (\<lambda>s q. (Inr (), s\<lparr>qs_quotas := filter (\<lambda>p. quotaKey p \<noteq> quotaKey q) (qs_quotas s)\<rparr>))\<rparr>"

fun ex_retry :: "('o, 's) retry" where
  "ex_retry 0 f st = (Inl (Plain ''timed out''), st)"
| "ex_retry (Suc n) f st = (case f st of
       (Inr u, st') \<Rightarrow> (Inr u, st')
     | (Inl (Conflict m), st') \<Rightarrow> if n = 0 then (Inl (Conflict m), st') else ex_retry n f st'
     | (Inl err, st') \<Rightarrow> (Inl err, st'))"

definition ex_quota_env :: "quota_store quota_env" where
  "ex_quota_env = \<lparr>qe_client = ex_quota_client, qe_Createdby = ''quota.kubezoo.io/createdby'',
     LabelSelectorAsSelector = (\<lambda>sel. case sel of None \<Rightarrow> Inr ''nothing''
       | Some ls \<Rightarrow> if ls_MatchLabels ls ''tenant'' = Some ''t1'' then Inr ''tenant=t1'' else Inl (Plain ''selector'')),
     SelectorMatches = ex_matches,
     GetControllerOf = (\<lambda>m. find (\<lambda>r. owr_Rest r = ''controller'') (om_OwnerReferences m)),
     NewControllerRef = (\<lambda>owner kind. \<lparr>owr_APIVersion = ''quota.kubezoo.io/v1alpha1'', owr_Kind = kind, owr_Name = om_Name owner,
       owr_Rest = ''controller''\<rparr>),
     qu_Add = add_lists, qu_Equals = (=), RetryQuota = ex_retry, RetryCluster = ex_retry\<rparr>"

lemma ex_env_fields [simp]:
  "qe_client ex_quota_env = ex_quota_client" "SelectorMatches ex_quota_env = ex_matches"
  "qe_Createdby ex_quota_env = ''quota.kubezoo.io/createdby''"
  by (simp_all add: ex_quota_env_def)

lemma ex_client_fields:
  "qc_GetClusterQuota ex_quota_client s name = (case ex_K s name of None \<Rightarrow> Inl (NotFound name) | Some cq \<Rightarrow> Inr cq)"
  "qc_GetNamespace ex_quota_client s name = (case ex_N s name of None \<Rightarrow> Inl (NotFound name) | Some _ \<Rightarrow> Inr ())"
  "qc_ListNamespaces ex_quota_client s selector = Inr (filter (\<lambda>n. case ex_N s n of None \<Rightarrow> False | Some labels \<Rightarrow> ex_matches selector labels)
       (map fst (qs_namespaces s)))"
  "qc_ListQuotas ex_quota_client s ns label = Inr (filter (\<lambda>q. ex_Q s (quotaKey q) = Some q \<and> (ns = [] \<or> om_Namespace (rq_Meta q) = ns) \<and>
       om_Labels (rq_Meta q) (fst label) = Some (snd label)) (remdups (qs_quotas s)))"
  by (simp_all add: ex_quota_client_def)

lemma ex_Q_key: "ex_Q s key = Some q \<Longrightarrow> quotaKey q = key \<and> q \<in> set (qs_quotas s)"
  by (auto simp: ex_Q_def find_Some_iff)

lemma ex_retry_ok: "retry_ok ex_retry"
  unfolding retry_ok_def by (intro allI) (rule ex_retry.simps(2))

lemma ex_lib_ok: "quota_lib_ok ex_quota_env"
  unfolding quota_lib_ok_def
proof (intro conjI allI impI)
  show "retry_ok (RetryQuota ex_quota_env)" "retry_ok (RetryCluster ex_quota_env)"
    by (simp_all add: ex_quota_env_def ex_retry_ok)
  show "\<exists>nothing. LabelSelectorAsSelector ex_quota_env None = Inr nothing \<and> (\<forall>labels. \<not> SelectorMatches ex_quota_env nothing labels)"
    by (simp add: ex_quota_env_def ex_matches_def)
qed (simp_all add: ex_quota_env_def LabelClusterResourceQuotaAutoUpdate_def)

lemma ex_list_distinct:
  "distinct (map quotaKey (filter (\<lambda>q. ex_Q s (quotaKey q) = Some q \<and> P q) (remdups qs)))"
  unfolding distinct_map
proof
  show "inj_on quotaKey (set (filter (\<lambda>q. ex_Q s (quotaKey q) = Some q \<and> P q) (remdups qs)))"
    by (rule inj_on_inverseI [where g = "\<lambda>k. the (ex_Q s k)"]) simp
qed simp

lemma ex_Q_mem: "ex_Q s (quotaKey q) = Some q \<Longrightarrow> q \<in> set (qs_quotas s)"
  using ex_Q_key by blast

lemma ex_N_dom: "ex_N s n = Some labels \<Longrightarrow> n \<in> fst ` set (qs_namespaces s)"
  by (force simp: ex_N_def dest: map_of_SomeD)

lemma ex_reads_ok: "reads_ok ex_quota_env ex_Q ex_K ex_N"
  unfolding reads_ok_def ex_env_fields ex_client_fields
proof (intro conjI allI impI)
  show "quotaKey q = key" if "ex_Q s key = Some q" for s key q using ex_Q_key [OF that] by simp
  show "cq_Name cq = name" if "ex_K s name = Some cq" for s name cq
    using that by (auto simp: ex_K_def find_Some_iff)
next
  fix s selector
  show "\<exists>names. Inr (filter (\<lambda>n. case ex_N s n of None \<Rightarrow> False | Some labels \<Rightarrow> ex_matches selector labels) (map fst (qs_namespaces s))) =
      Inr names \<and> set names = {n. \<exists>labels. ex_N s n = Some labels \<and> ex_matches selector labels}"
    by (intro exI conjI, rule refl) (auto simp del: map_map split: option.splits dest: ex_N_dom)
next
  fix s ns and label :: "string \<times> string"
  show "\<exists>items. Inr (filter (\<lambda>q. ex_Q s (quotaKey q) = Some q \<and> (ns = [] \<or> om_Namespace (rq_Meta q) = ns) \<and>
        om_Labels (rq_Meta q) (fst label) = Some (snd label)) (remdups (qs_quotas s))) = Inr items \<and>
      distinct (map quotaKey items) \<and> set items = {q. ex_Q s (quotaKey q) = Some q \<and> (ns = [] \<or> om_Namespace (rq_Meta q) = ns) \<and>
        om_Labels (rq_Meta q) (fst label) = Some (snd label)}"
    by (intro exI conjI, rule refl, rule ex_list_distinct)
      (simp only: set_filter set_remdups, rule Collect_cong, blast dest: ex_Q_mem)
qed simp_all

lemma find_map_at:
  "key q' = k \<Longrightarrow> find (\<lambda>p. key p = k') (map (\<lambda>p. if key p = k then q' else p) xs) =
     (if k' = k then map_option (\<lambda>_. q') (find (\<lambda>p. key p = k) xs) else find (\<lambda>p. key p = k') xs)"
  by (induction xs) auto

lemma find_filter_at:
  "find (\<lambda>p. key p = k') (filter (\<lambda>p. key p \<noteq> k) xs) = (if k' = k then None else find (\<lambda>p. key p = k') xs)"
  by (induction xs) auto

lemma fresh_name_new: "ex_Q s (ns, fresh_name s) = None"
proof -
  have bound: "length (om_Name (rq_Meta q)) \<le> sum_list (map (\<lambda>q. length (om_Name (rq_Meta q))) qs)" if "q \<in> set qs" for q qs
    using that by (induction qs) auto
  have "om_Name (rq_Meta q) \<noteq> fresh_name s" if "q \<in> set (qs_quotas s)" for q
  proof
    assume "om_Name (rq_Meta q) = fresh_name s"
    then have "length (om_Name (rq_Meta q)) = Suc (sum_list (map (\<lambda>q. length (om_Name (rq_Meta q))) (qs_quotas s)))"
      by (simp only: fresh_name_def length_replicate)
    with bound [OF that] show False by simp
  qed
  then show ?thesis by (auto simp: ex_Q_def find_None_iff quotaKey_def)
qed

lemma ex_create:
  "\<exists>q' s' name rv. qc_CreateQuota ex_quota_client s q = (Inr q', s') \<and>
     q' = at_revision rv (q\<lparr>rq_Meta := (rq_Meta q)\<lparr>om_Name := name\<rparr>\<rparr>) \<and> ex_Q s (quotaKey q') = None \<and>
     ex_Q s' = (ex_Q s)(quotaKey q' \<mapsto> q') \<and> ex_K s' = ex_K s \<and> ex_N s' = ex_N s"
proof (intro exI conjI)
  let ?q = "at_revision ''1'' (q\<lparr>rq_Meta := (rq_Meta q)\<lparr>om_Name := fresh_name s\<rparr>\<rparr>)"
  let ?s = "s\<lparr>qs_quotas := ?q # qs_quotas s\<rparr>"
  show "qc_CreateQuota ex_quota_client s q = (Inr ?q, ?s)" by (simp add: ex_quota_client_def Let_def)
  have "quotaKey ?q = (om_Namespace (rq_Meta q), fresh_name s)" by (simp add: quotaKey_def at_revision_def)
  then show "ex_Q s (quotaKey ?q) = None" by (simp only: fresh_name_new)
  show "ex_Q ?s = (ex_Q s)(quotaKey ?q \<mapsto> ?q)" by (rule ext) (simp add: ex_Q_def)
  show "ex_K ?s = ex_K s" "ex_N ?s = ex_N s" by (rule ext, simp add: ex_K_def ex_N_def)+
qed (rule refl)

lemma ex_update:
  assumes "ex_Q s (quotaKey q) = Some old" "om_ResourceVersion (rq_Meta q) = om_ResourceVersion (rq_Meta old)" "rq_Status q = rq_Status old"
  shows "\<exists>s' rv. qc_UpdateQuota ex_quota_client s q = (Inr (at_revision rv q), s') \<and>
     ex_Q s' = (ex_Q s)(quotaKey q \<mapsto> at_revision rv q) \<and> ex_K s' = ex_K s \<and> ex_N s' = ex_N s"
proof (intro exI conjI)
  let ?q = "at_revision ''2'' q"
  let ?s = "s\<lparr>qs_quotas := map (\<lambda>p. if quotaKey p = quotaKey q then ?q else p) (qs_quotas s)\<rparr>"
  have "?q\<lparr>rq_Status := rq_Status old\<rparr> = ?q" unfolding assms(3) [symmetric] at_revision_def by simp
  then show "qc_UpdateQuota ex_quota_client s q = (Inr ?q, ?s)" by (simp add: ex_quota_client_def assms(1,2) Let_def)
  show "ex_Q ?s = (ex_Q s)(quotaKey q \<mapsto> ?q)"
    by (rule ext) (use assms(1) in \<open>simp add: ex_Q_def find_map_at\<close>)
  show "ex_K ?s = ex_K s" "ex_N ?s = ex_N s" by (rule ext, simp add: ex_K_def ex_N_def)+
qed

lemma ex_delete:
  "\<exists>s'. qc_DeleteQuota ex_quota_client s q = (Inr (), s') \<and> ex_Q s' = (ex_Q s)(quotaKey q := None) \<and> ex_K s' = ex_K s \<and> ex_N s' = ex_N s"
proof (intro exI conjI)
  let ?s = "s\<lparr>qs_quotas := filter (\<lambda>p. quotaKey p \<noteq> quotaKey q) (qs_quotas s)\<rparr>"
  show "qc_DeleteQuota ex_quota_client s q = (Inr (), ?s)" by (simp add: ex_quota_client_def)
  show "ex_Q ?s = (ex_Q s)(quotaKey q := None)" by (rule ext) (simp add: ex_Q_def find_filter_at)
  show "ex_K ?s = ex_K s" "ex_N ?s = ex_N s" by (rule ext, simp add: ex_K_def ex_N_def)+
qed

lemma ex_status:
  assumes "ex_K s (cq_Name cq) = Some cq"
  shows "\<exists>s' rv. let cq' = cq\<lparr>cq_Status := status, cq_Meta := (cq_Meta cq)\<lparr>om_ResourceVersion := rv\<rparr>\<rparr> in
     qc_UpdateClusterStatus ex_quota_client s (cq\<lparr>cq_Status := status\<rparr>) = (Inr cq', s') \<and>
     ex_Q s' = ex_Q s \<and> ex_K s' = (ex_K s)(cq_Name cq \<mapsto> cq') \<and> ex_N s' = ex_N s"
  unfolding Let_def
proof (intro exI conjI)
  let ?cq = "cq\<lparr>cq_Status := status, cq_Meta := (cq_Meta cq)\<lparr>om_ResourceVersion := ''2''\<rparr>\<rparr>"
  let ?s = "s\<lparr>qs_clusters := map (\<lambda>c. if cq_Name c = cq_Name cq then ?cq else c) (qs_clusters s)\<rparr>"
  show "qc_UpdateClusterStatus ex_quota_client s (cq\<lparr>cq_Status := status\<rparr>) = (Inr ?cq, ?s)"
    by (simp add: ex_quota_client_def assms Let_def)
  show "ex_K ?s = (ex_K s)(cq_Name cq \<mapsto> ?cq)"
    by (rule ext) (use assms in \<open>simp add: ex_K_def find_map_at [where key = cq_Name]\<close>)
  show "ex_Q ?s = ex_Q s" "ex_N ?s = ex_N s" by (rule ext, simp add: ex_Q_def ex_N_def)+
qed

lemma ex_writes_ok: "writes_ok ex_quota_env ex_Q ex_K ex_N"
  unfolding writes_ok_def ex_env_fields
  by (intro conjI allI impI; (elim conjE)?) (rule ex_create ex_update ex_delete ex_status; assumption)+

lemma ex_server_ok: "quota_server ex_quota_env ex_Q ex_K ex_N"
  by (simp only: quota_server_def ex_reads_ok ex_writes_ok ex_lib_ok simp_thms)

text \<open>Two namespaces of a tenant, one of which has a quota already, and one of another tenant.\<close>

definition ex_cluster :: ClusterResourceQuota where
  "ex_cluster = \<lparr>cq_Meta = empty_meta\<lparr>om_Name := ''t1''\<rparr>, cq_Spec = \<lparr>rqs_Hard = [''pods'' \<mapsto> 5], rqs_Rest = []\<rparr>,
     cq_NamespaceSelector = Some \<lparr>ls_MatchLabels = [''tenant'' \<mapsto> ''t1''], ls_MatchExpressions = []\<rparr>, cq_Namespaces = [],
     cq_Status = empty_status\<rparr>"

definition ex_member :: "string \<Rightarrow> ResourceQuota" where
  "ex_member owner = \<lparr>rq_Meta = empty_meta\<lparr>om_Name := ''t1-x'', om_Namespace := ''t1-a'', om_ResourceVersion := ''1'',
       om_Labels := [''quota.kubezoo.io/createdby'' \<mapsto> ''t1''],
       om_OwnerReferences := [\<lparr>owr_APIVersion = ''quota.kubezoo.io/v1alpha1'', owr_Kind = ''ClusterResourceQuota'', owr_Name = owner,
         owr_Rest = ''controller''\<rparr>]\<rparr>,
     rq_Spec = \<lparr>rqs_Hard = [''pods'' \<mapsto> 3], rqs_Rest = []\<rparr>, rq_Status = \<lparr>rqt_Hard = None, rqt_Used = Some [''pods'' \<mapsto> 2]\<rparr>\<rparr>"

definition ex_store :: "string \<Rightarrow> quota_store" where
  "ex_store owner = \<lparr>qs_quotas = [ex_member owner], qs_clusters = [ex_cluster],
     qs_namespaces = [(''t1-b'', [''tenant'' \<mapsto> ''t1'']), (''t1-a'', [''tenant'' \<mapsto> ''t1'']), (''t2-a'', [''tenant'' \<mapsto> ''t2''])]\<rparr>"

lemma ex_store_K: "ex_K (ex_store owner) ''t1'' = Some ex_cluster"
  by (simp add: ex_K_def ex_store_def ex_cluster_def)

lemma ex_store_N: "ex_N (ex_store owner) ''t1-a'' = Some [''tenant'' \<mapsto> ''t1'']"
  by (simp add: ex_N_def ex_store_def)

lemma ex_store_namespaces: "GetNamespacesForClusterQuota ex_quota_env (ex_store owner) ex_cluster = Inr [''t1-b'', ''t1-a'']"
proof -
  have "LabelSelectorAsSelector ex_quota_env (cq_NamespaceSelector ex_cluster) = Inr ''tenant=t1''"
    by (simp add: ex_quota_env_def ex_cluster_def)
  moreover have "qc_ListNamespaces (qe_client ex_quota_env) (ex_store owner) ''tenant=t1'' = Inr [''t1-b'', ''t1-a'']"
    by (simp add: ex_client_fields ex_N_def ex_store_def ex_matches_def)
  ultimately show ?thesis
    by (simp add: GetNamespacesForClusterQuota_def) (simp add: ex_cluster_def insertName_def)
qed

lemma ex_store_Q: "ex_Q (ex_store owner) k = Some q \<Longrightarrow> q = ex_member owner"
  by (drule ex_Q_key) (simp add: ex_store_def)

lemma ex_member_facts:
  "controlled ex_quota_env (ex_member owner)" "owned_by ex_quota_env ex_cluster (ex_member owner) \<longleftrightarrow> owner = ''t1''"
  "labelled ex_quota_env ex_cluster (ex_member owner)" "ex_Q (ex_store owner) (quotaKey (ex_member owner)) = Some (ex_member owner)"
  "om_Namespace (rq_Meta (ex_member owner)) = ''t1-a''"
  by (simp_all add: controlled_def owned_by_def labelled_def ex_Q_def ex_store_def ex_quota_env_def ex_member_def ex_cluster_def ClusterResourceQuotaKind_def)

section \<open>Properties\<close>

lemma Reconcile_runs:
  assumes "quota_server E Q K N" "K s name = Some cq" "GetNamespacesForClusterQuota E s cq = Inr nss"
  obtains s' qs items where "Reconcile E s name = (Inr (), s')" "reconciled E Q K cq nss s s' qs" "N s' = N s"
    "\<forall>q \<in> set qs. owner_kept E cq (filter (\<lambda>p. om_Namespace (rq_Meta p) = om_Namespace (rq_Meta q)) items) q"
    "\<forall>q. q \<in> set items \<longleftrightarrow> Q s (quotaKey q) = Some q \<and> labelled E cq q"
proof -
  have name: "cq_Name cq = name" by (rule server_keys(2) [OF assms(1,2)])
  obtain items where l: "qc_ListQuotas (qe_client E) s [] (qe_Createdby E, cq_Name cq) = Inr items"
      "\<forall>q. q \<in> set items \<longleftrightarrow> Q s (quotaKey q) = Some q \<and> labelled E cq q"
    by (rule quotas_ok [OF assms(1), of s cq]) blast
  obtain s' qs where r: "Reconcile E s name = (Inr (), s')" "reconciled E Q K cq nss s s' qs" "N s' = N s"
      "\<forall>q \<in> set qs. owner_kept E cq (filter (\<lambda>p. om_Namespace (rq_Meta p) = om_Namespace (rq_Meta q)) items) q"
    by (rule Reconcile_ok [OF assms l(1) [unfolded name]])
  show ?thesis by (rule that [OF r l(2)])
qed

text \<open>The quota that stands in a namespace after a run.\<close>

lemma reconciled_in:
  assumes "reconciled E Q K cq nss s s' qs" "n \<in> set nss"
  obtains q where "q \<in> set qs" "om_Namespace (rq_Meta q) = n" "ensured E Q cq n s' q"
proof -
  have "n \<in> set (map (\<lambda>q. om_Namespace (rq_Meta q)) qs)"
    using assms unfolding reconciled_def by simp
  then obtain q where q: "q \<in> set qs" "om_Namespace (rq_Meta q) = n" by auto
  moreover have "ensured E Q cq n s' q" using assms(1) q unfolding reconciled_def by blast
  ultimately show ?thesis by (rule that)
qed

lemma owner_kept_owned:
  assumes "owner_kept E cq qs q" "\<forall>p \<in> set qs. controlled E p \<longrightarrow> owned_by E cq p"
  shows "owned_by E cq q"
proof (cases "find (controlled E) qs")
  case None
  then show ?thesis using assms(1) by (simp add: owner_kept_def)
next
  case (Some q0)
  then have "q0 \<in> set qs \<and> controlled E q0" by (auto simp: find_Some_iff)
  then show ?thesis using assms Some by (simp add: owner_kept_def owned_by_def)
qed

lemma owner_kept_foreign:
  assumes "owner_kept E cq qs q" "\<forall>p \<in> set qs. controlled E p \<longrightarrow> \<not> owned_by E cq p" "f \<in> set qs" "controlled E f"
  shows "\<not> owned_by E cq q"
proof (cases "find (controlled E) qs")
  case None
  then show ?thesis using assms(3,4) by (auto simp: find_None_iff)
next
  case (Some q0)
  then have "q0 \<in> set qs \<and> controlled E q0" by (auto simp: find_Some_iff)
  then have "\<not> owned_by E cq q0" using assms(2) by blast
  then show ?thesis using assms(1) Some by (simp add: owner_kept_def owned_by_def)
qed

lemma resolved_owned:
  assumes "controlled E q" "owned_by E cq q" "K s (cq_Name cq) = Some cq'"
  shows "resolved E K s q = Some (q\<lparr>rq_Status := cq_Status cq', rq_Meta := (rq_Meta q)\<lparr>om_Name := ''clusterresourcequota/'' @ cq_Name cq'\<rparr>\<rparr>)"
  using assms by (auto simp: resolved_def controlled_def owned_by_def)

lemma resolved_name:
  assumes "quota_server E Q K N" "resolved E K s q = Some q'"
  shows "\<exists>r. GetControllerOf E (rq_Meta q) = Some r \<and> om_Name (rq_Meta q') = ''clusterresourcequota/'' @ owr_Name r"
proof -
  from assms(2) obtain r cq where r: "GetControllerOf E (rq_Meta q) = Some r" "K s (owr_Name r) = Some cq"
      "om_Name (rq_Meta q') = ''clusterresourcequota/'' @ cq_Name cq"
    by (auto simp: resolved_def split: option.splits if_splits)
  with server_keys(2) [OF assms(1) r(2)] show ?thesis by simp
qed

text \<open>
  C17.  One run of the reconciler over a cluster quota succeeds and leaves exactly one quota labelled
  for it in each namespace it covers, with its specification and under a controller of its kind, and
  none in other namespaces; quotas of anyone else are untouched; the status carries the limits and,
  for every resource, the sum of the usage over the namespaces.
\<close>

theorem quota_reconciled:
  assumes "quota_server E Q K N" "K s name = Some cq" "GetNamespacesForClusterQuota E s cq = Inr nss"
  shows "set nss = {n. \<exists>labels. N s n = Some labels \<and> covers E cq n labels} \<and>
    (\<exists>s' qs. Reconcile E s name = (Inr (), s') \<and> reconciled E Q K cq nss s s' qs \<and> N s' = N s)"
proof (rule conjI [OF namespaces_ok(1) [OF assms(1,3)]], rule Reconcile_runs [OF assms])
  fix s' qs
  assume "Reconcile E s name = (Inr (), s')" "reconciled E Q K cq nss s s' qs" "N s' = N s"
  then show "\<exists>s' qs. Reconcile E s name = (Inr (), s') \<and> reconciled E Q K cq nss s s' qs \<and> N s' = N s"
    by (intro exI conjI)
qed

theorem quota_reconciled_witness:
  "GetNamespacesForClusterQuota ex_quota_env (ex_store ''t1'') ex_cluster = Inr [''t1-b'', ''t1-a''] \<and>
   (\<exists>s' qs. Reconcile ex_quota_env (ex_store ''t1'') ''t1'' = (Inr (), s') \<and>
     reconciled ex_quota_env ex_Q ex_K ex_cluster [''t1-b'', ''t1-a''] (ex_store ''t1'') s' qs \<and> ex_N s' = ex_N (ex_store ''t1''))"
  using quota_reconciled [OF ex_server_ok ex_store_K ex_store_namespaces, of "''t1''"] ex_store_namespaces [of "''t1''"] by (elim conjE) (rule conjI)


text \<open>
  C11.  What the reconciler writes is what the webhook enforces: if the quotas labelled for a cluster
  quota that have a controller of its kind have itself for controller, then after a run the webhook
  evaluates a create in any covered namespace against the limits of the cluster quota and the usage
  summed over all its namespaces.
\<close>

theorem quota_enforced_everywhere:
  assumes "quota_server E Q K N" "K s name = Some cq" "GetNamespacesForClusterQuota E s cq = Inr nss"
    and "\<forall>k q. Q s k = Some q \<and> labelled E cq q \<and> controlled E q \<longrightarrow> owned_by E cq q"
    and "n \<in> set nss"
  shows "\<exists>s' qs l q'. Reconcile E s name = (Inr (), s') \<and> GetQuotas E s' n = Inr l \<and> q' \<in> set l \<and>
    map (\<lambda>q. om_Namespace (rq_Meta q)) qs = sort_Strings nss \<and> (\<forall>q \<in> set qs. Q s' (quotaKey q) = Some q) \<and>
    om_Name (rq_Meta q') = ''clusterresourcequota/'' @ name \<and> rq_Spec q' = cq_Spec cq \<and>
    list_of (rqt_Hard (rq_Status q')) = rqs_Hard (cq_Spec cq) \<and>
    (\<forall>r. amount (list_of (rqt_Used (rq_Status q'))) r = (\<Sum>q\<leftarrow>qs. used q r))"
proof -
  have name: "cq_Name cq = name" by (rule server_keys(2) [OF assms(1,2)])
  obtain s' qs items where r: "Reconcile E s name = (Inr (), s')" "reconciled E Q K cq nss s s' qs" "N s' = N s"
      "\<forall>q \<in> set qs. owner_kept E cq (filter (\<lambda>p. om_Namespace (rq_Meta p) = om_Namespace (rq_Meta q)) items) q"
      "\<forall>q. q \<in> set items \<longleftrightarrow> Q s (quotaKey q) = Some q \<and> labelled E cq q"
    by (rule Reconcile_runs [OF assms(1-3)])
  obtain q where q: "q \<in> set qs" "om_Namespace (rq_Meta q) = n" "ensured E Q cq n s' q"
    by (rule reconciled_in [OF r(2) assms(5)])
  have own: "owned_by E cq q"
    by (rule owner_kept_owned [OF bspec [OF r(4) q(1)]]) (use r(5) assms(4) in auto)
  obtain cq' where c: "K s' (cq_Name cq) = Some cq'" "list_of (rqt_Hard (cq_Status cq')) = rqs_Hard (cq_Spec cq)"
      "\<forall>r. amount (list_of (rqt_Used (cq_Status cq'))) r = (\<Sum>q\<leftarrow>qs. used q r)"
    using r(2) unfolding reconciled_def by blast
  have name': "cq_Name cq' = name" using server_keys(2) [OF assms(1) c(1)] name by simp
  let ?q = "q\<lparr>rq_Status := cq_Status cq', rq_Meta := (rq_Meta q)\<lparr>om_Name := ''clusterresourcequota/'' @ cq_Name cq'\<rparr>\<rparr>"
  have e: "Q s' (quotaKey q) = Some q" "rq_Spec q = cq_Spec cq" "om_Labels (rq_Meta q) LabelClusterResourceQuotaAutoUpdate = Some ''true''"
      "controlled E q"
    using q(3) unfolding ensured_def by blast+
  obtain l where l: "GetQuotas E s' n = Inr l"
      "set l = {q'. \<exists>q. Q s' (quotaKey q) = Some q \<and> (n = [] \<or> om_Namespace (rq_Meta q) = n) \<and>
         om_Labels (rq_Meta q) LabelClusterResourceQuotaAutoUpdate = Some ''true'' \<and> resolved E K s' q = Some q'}"
    by (rule GetQuotas_ok [OF assms(1), of s' n])
  have "?q \<in> set l" unfolding l(2) using e q(2) resolved_owned [of E q cq K s' cq', OF e(4) own c(1)] by blast
  moreover have "\<forall>q \<in> set qs. Q s' (quotaKey q) = Some q" "map (\<lambda>q. om_Namespace (rq_Meta q)) qs = sort_Strings nss"
    using r(2) unfolding reconciled_def ensured_def by blast+
  ultimately show ?thesis using r(1) l(1) c(2,3) e(2) name'
    by (intro exI [of _ s'] exI [of _ qs] exI [of _ l] exI [of _ ?q]) simp
qed

theorem quota_enforced_everywhere_witness:
  "\<exists>s' qs l q'. Reconcile ex_quota_env (ex_store ''t1'') ''t1'' = (Inr (), s') \<and> GetQuotas ex_quota_env s' ''t1-b'' = Inr l \<and> q' \<in> set l \<and>
    map (\<lambda>q. om_Namespace (rq_Meta q)) qs = sort_Strings [''t1-b'', ''t1-a''] \<and> (\<forall>q \<in> set qs. ex_Q s' (quotaKey q) = Some q) \<and>
    om_Name (rq_Meta q') = ''clusterresourcequota/'' @ ''t1'' \<and> rq_Spec q' = cq_Spec ex_cluster \<and>
    list_of (rqt_Hard (rq_Status q')) = rqs_Hard (cq_Spec ex_cluster) \<and>
    (\<forall>r. amount (list_of (rqt_Used (rq_Status q'))) r = (\<Sum>q\<leftarrow>qs. used q r))"
proof (rule quota_enforced_everywhere [OF ex_server_ok ex_store_K ex_store_namespaces])
  show "\<forall>k q. ex_Q (ex_store ''t1'') k = Some q \<and> labelled ex_quota_env ex_cluster q \<and> controlled ex_quota_env q \<longrightarrow> owned_by ex_quota_env ex_cluster q"
    by (intro allI impI) (metis ex_store_Q ex_member_facts(2))
qed simp


text \<open>
  C40.  The controller reference is compared by kind only.  If the quotas of a covered namespace that
  carry the label of a cluster quota are controlled by some other object of its kind, the run still
  succeeds and the one quota it leaves there with that label is not one the webhook counts against
  this cluster quota.
\<close>

theorem quota_forged_owner:
  assumes "quota_server E Q K N" "K s name = Some cq" "GetNamespacesForClusterQuota E s cq = Inr nss" "n \<in> set nss"
    and "Q s (quotaKey f) = Some f" "om_Namespace (rq_Meta f) = n" "labelled E cq f" "controlled E f"
    and "\<forall>k q. Q s k = Some q \<and> fst k = n \<and> labelled E cq q \<and> controlled E q \<longrightarrow> \<not> owned_by E cq q"
  shows "\<exists>s' q l. Reconcile E s name = (Inr (), s') \<and> ensured E Q cq n s' q \<and> quotasOf E s' [q] = Inr l \<and>
    (\<forall>q' \<in> set l. om_Name (rq_Meta q') \<noteq> ''clusterresourcequota/'' @ name)"
proof -
  have name: "cq_Name cq = name" by (rule server_keys(2) [OF assms(1,2)])
  obtain s' qs items where r: "Reconcile E s name = (Inr (), s')" "reconciled E Q K cq nss s s' qs" "N s' = N s"
      "\<forall>q \<in> set qs. owner_kept E cq (filter (\<lambda>p. om_Namespace (rq_Meta p) = om_Namespace (rq_Meta q)) items) q"
      "\<forall>q. q \<in> set items \<longleftrightarrow> Q s (quotaKey q) = Some q \<and> labelled E cq q"
    by (rule Reconcile_runs [OF assms(1-3)])
  obtain q where q: "q \<in> set qs" "om_Namespace (rq_Meta q) = n" "ensured E Q cq n s' q"
    by (rule reconciled_in [OF r(2) assms(4)])
  have "\<forall>p \<in> set (filter (\<lambda>p. om_Namespace (rq_Meta p) = om_Namespace (rq_Meta q)) items). controlled E p \<longrightarrow> \<not> owned_by E cq p"
  proof (intro ballI impI)
    fix p
    assume "p \<in> set (filter (\<lambda>p. om_Namespace (rq_Meta p) = om_Namespace (rq_Meta q)) items)" and c: "controlled E p"
    then have "Q s (quotaKey p) = Some p" "labelled E cq p" "fst (quotaKey p) = n" using r(5) q(2) by auto
    then show "\<not> owned_by E cq p" using assms(9) c by blast
  qed
  then have own: "\<not> owned_by E cq q"
    by (rule owner_kept_foreign [OF bspec [OF r(4) q(1)], of f]) (use r(5) assms(5-8) q(2) in auto)
  have "om_Name (rq_Meta q') \<noteq> ''clusterresourcequota/'' @ name" if "resolved E K s' q = Some q'" for q'
    using resolved_name [OF assms(1) that] own name by (auto simp: owned_by_def)
  then have "\<forall>q' \<in> set (List.map_filter (resolved E K s') [q]). om_Name (rq_Meta q') \<noteq> ''clusterresourcequota/'' @ name"
    by (auto simp: List.map_filter_simps split: option.splits)
  with r(1) q(3) quotasOf_ok [OF assms(1)] show ?thesis by (intro exI conjI)
qed

theorem quota_forged_owner_witness:
  "\<exists>s' q l. Reconcile ex_quota_env (ex_store ''nobody'') ''t1'' = (Inr (), s') \<and> ensured ex_quota_env ex_Q ex_cluster ''t1-a'' s' q \<and>
    quotasOf ex_quota_env s' [q] = Inr l \<and> (\<forall>q' \<in> set l. om_Name (rq_Meta q') \<noteq> ''clusterresourcequota/'' @ ''t1'')"
proof (rule quota_forged_owner [OF ex_server_ok ex_store_K ex_store_namespaces _ ex_member_facts(4,5,3,1)])
  have "\<not> owned_by ex_quota_env ex_cluster (ex_member ''nobody'')" by (simp add: ex_member_facts(2))
  then show "\<forall>k q. ex_Q (ex_store ''nobody'') k = Some q \<and> fst k = ''t1-a'' \<and> labelled ex_quota_env ex_cluster q \<and> controlled ex_quota_env q
      \<longrightarrow> \<not> owned_by ex_quota_env ex_cluster q"
    using ex_store_Q by blast
qed simp


text \<open>
  C39.  A new namespace enqueues a cluster quota exactly when the reconciler, run for that quota, puts
  a quota into the namespace: the test on the event and the listing agree, with and without a
  selector.
\<close>

theorem quota_event_agrees:
  assumes "quota_server E Q K N" "GetNamespacesForClusterQuota E s cq = Inr nss" "N s n = Some labels"
    and "cq \<in> set quotas" "distinct (map cq_Name quotas)"
  shows "cq_Name cq \<in> set (enqueued E quotas n labels) \<longleftrightarrow> n \<in> set nss"
proof -
  have "covers E cq n labels \<longleftrightarrow> matches E cq n labels"
  proof (cases "cq_NamespaceSelector cq")
    case None
    obtain nothing where "LabelSelectorAsSelector E None = Inr nothing" "\<forall>labels. \<not> SelectorMatches E nothing labels"
      using server_parts(3) [OF assms(1)] unfolding quota_lib_ok_def by blast
    then show ?thesis using None by (simp add: covers_def matches_def)
  next
    case (Some sel)
    then obtain selector where "LabelSelectorAsSelector E (Some sel) = Inr selector"
      using assms(2) by (auto simp: GetNamespacesForClusterQuota_def bindR_Inr_iff)
    then show ?thesis unfolding covers_def matches_def Some by (simp add: disj_commute)
  qed
  moreover have "n \<in> set nss \<longleftrightarrow> covers E cq n labels" using namespaces_ok(1) [OF assms(1,2)] assms(3) by simp
  moreover have "cq_Name cq \<in> set (enqueued E quotas n labels) \<longleftrightarrow> matches E cq n labels"
  proof -
    have "inj_on cq_Name (set quotas)" using assms(5) by (simp add: distinct_map)
    then have "cq_Name cq \<in> cq_Name ` {q \<in> set quotas. matches E q n labels} \<longleftrightarrow> cq \<in> {q \<in> set quotas. matches E q n labels}"
      by (rule inj_on_image_mem_iff) (use assms(4) in auto)
    then show ?thesis using assms(4) by (simp add: enqueued_def)
  qed
  ultimately show ?thesis by simp
qed

theorem quota_event_agrees_witness:
  "cq_Name ex_cluster \<in> set (enqueued ex_quota_env [ex_cluster] ''t1-a'' [''tenant'' \<mapsto> ''t1'']) \<and> ''t1-a'' \<in> set [''t1-b'', ''t1-a'']"
proof
  show "''t1-a'' \<in> set [''t1-b'', ''t1-a'']" by simp
  then show "cq_Name ex_cluster \<in> set (enqueued ex_quota_env [ex_cluster] ''t1-a'' [''tenant'' \<mapsto> ''t1''])"
    by (subst quota_event_agrees [where s = "ex_store ''t1''", OF ex_server_ok ex_store_namespaces ex_store_N]) simp_all
qed

end
