(* ===== verification/Spec2Isabelle.thy ===== *)
theory Spec2Isabelle
  imports Watch_Properties Quota_Properties
begin

text \<open>
  A verification development of kubezoo-gateway, the gateway that gives each tenant of a shared
  Kubernetes cluster an API server of its own.

  The program.  A request of a tenant reaches a storage per resource, the tenant proxy
  (src/pkg/proxy/proxy.go).  The proxy checks a write with its guards, converts the object to its
  upstream form with the convertor of its kind (src/pkg/convert), sends it to the upstream cluster,
  and converts what comes out, with the metadata of the platform removed.  A list or a watch without
  a namespace covers the namespaces of the tenant one by one (fanout.go, watchmux.go).
  ClusterRoleBindings are kept as RoleBindings in every namespace of the tenant (crbprojection.go).
  Beside the gateway runs the controller of cluster resource quotas
  (src/pkg/clusterresourcequota/controllers), which keeps a quota in each namespace of a tenant and an
  admission webhook that enforces their sum.

  The model.  A Go struct is a record whose fields carry the Go names with a prefix for the type, a
  tagged union a datatype, a pointer an option, a string a list of characters.  A Go error is a
  constructor of the datatype error of Prelude; a fallible function returns a result, and a function
  that acts on the upstream cluster takes and returns its state.  A nil dereference or a panic of the
  source is the error Panic, a failed type assertion the error TypeAssertion.  Code that is not in the
  repository is a field of a record of parameters: the naming functions of kubezoo-contract and the
  library helpers (record contract of Contract), the upstream API server, the scheme and the lister of
  tenants (Upstream), the regexp compiler (Hidden_Metadata), the client and the retry of the quota
  controller (quota_env of Cluster_Quota).  What the code relies on is a named predicate on these
  records, and Example_Contract, Example_Upstream and Quota_Properties build instances for which the
  predicates are proved; the closed instances of the properties are evaluated on them.

  The theories.
  \<^item> Prelude: errors and results, loops over slices, the functions of package strings, label maps.
  \<^item> Contract, Example_Contract: the third-party functions with their laws, and an instance.
  \<^item> Objects: the API types.
  \<^item> References: attribution.go, ownerreference.go, objectreference.go; the locale reversible states
    that the two translations of a reference undo each other, and is interpreted on both references.
  \<^item> Default_Convertor: default.go, cross-object.go, nativeresource.go, nope.go, lastapplied.go; the
    locales object_transformer, native_transformer and body_transformer are the contract between the
    convertors and the transformer of a kind.
  \<^item> Core_Transformers, Rbac_Transformers, Pod_Transformers, Extension_Transformers: the transformers
    of the kinds (namespace.go to networkpolicy.go; role.go to accessreview.go; placement.go,
    saprojection.go, dnsconfig.go; webhookconfiguration.go, customresourcedefinition.go,
    customresource.go).  The reversible ones interpret the locales above.
  \<^item> Convertor_Registry: init.go, the table of kinds and InitConvertors.
  \<^item> Published_Class: publishedclass.go; the interface Set is the locale published_set, interpreted on
    the labelled set.
  \<^item> Hidden_Metadata: hiddenmeta.go.  Service_Rules, Go_Net: service.go and net.ParseIP.
  \<^item> Upstream: the context of a request and the API server.  Proxy_Guards: the refuse functions of
    proxy.go and of the files beside it.
  \<^item> Fanout: fanout.go and clusterscopedcursor.go.
  \<^item> Tenant_Proxy, Tenant_Writes: the operations of proxy.go and apply.go.
  \<^item> Crb_Projection: crbprojection.go.
  \<^item> Watch, Watch_Mux: watch.go and watchmux.go, the goroutines as the step relation mux_step.
  \<^item> Cluster_Quota: the reconciler, the retried update and the webhook of the quota controller.
  \<^item> Proxy_Invariants: facts on the operations of the proxy that its properties share.
  \<^item> Conversion_Properties, Proxy_Properties, Projection_Properties, Watch_Properties and
    Quota_Properties hold the properties.

  What is shown.
  \<^item> Conversion: what a tenant writes reads back as written; objects of two tenants never meet
    upstream; names, subjects, webhooks, selectors, volumes, reviews and pods are confined to the
    tenant; Strip leaves no hidden key, and Restore puts back what it took.
  \<^item> Proxy: what a create sends has passed every guard; an update widens nothing that is restricted;
    no write leaves the namespace of the request; a read shows nothing hidden; following the continue
    tokens of a list across namespaces ends and yields every object once; the retry loop returns
    exactly when some turn is not a retry.
  \<^item> Projection: a ClusterRoleBinding is granted in all namespaces of the tenant and withdrawn from all
    of them, refining a cluster-wide grant; its records are out of reach.
  \<^item> Watch: in every interleaving a bookmark of the merged stream is passed by no later event of the
    streams that were open, and no namespace is dropped without the client being told to list again.
  \<^item> Quota: one run of the reconciler leaves exactly one quota in each covered namespace and sums up
    their usage, and the webhook evaluates against that sum in every one of them; the test on new
    namespaces agrees with the reconciler.
  \<^item> Some theorems state where the code does not do what its comments say: hidden keys of a pod
    template are lost on a write, hidden keys planted in a native object are sent, a short page with a
    continue token ends its namespace, a dry run deletes the copies of a binding, a bookmark can pass a
    namespace that is still being joined, the controller of a quota is compared by kind only.

  Bounds.  All functions are total, with two exceptions.  The retry loop guaranteedUpdate may run for
  ever against other writers; it is a partial function into option, so that not returning is None.
  The merged stream never ends by itself; it is the relation mux_step with reachability mux_reach.
  The retried update of the quota controller tries five times, as DefaultRetry says, and a join of a
  namespace sixty times.  Revisions and quantities are unbounded numbers: the code compares and adds
  them with the library's own arithmetic.  The properties of the quota controller are about runs in
  which no one else writes between its calls.

  What is not modelled: HTTP filters, discovery and OpenAPI documents, streaming connections, the
  resolver, table output, the assembly of the server and its command line.  They are transport,
  configuration or third-party code; what the modelled parts need of them is a parameter.
\<close>

end
